(* ===== verification/Prelude.thy ===== *)
theory Prelude
  imports Main "HOL-Library.AList" "HOL-Library.Char_ord" "HOL-Library.List_Lexorder"
    "HOL-Library.Product_Lexorder" "HOL-Library.Multiset"
begin

text \<open>
  What the components share: the rule collections of the development, insertion-ordered
  dictionaries (Python's \<^verbatim>\<open>dict\<close>) with the interface their clients rely on, dates with their
  order, and generic lemmas on lists. Strings are in theory \<open>PyStr\<close>, digests in \<open>Sha256\<close>.
\<close>

named_theorems op_defs \<open>definitions of operations, unfolded to follow one call\<close>
named_theorems eval_simps \<open>facts that evaluate a concrete scenario\<close>

subsection \<open>Exceptions\<close>

text \<open>
  A raised exception: the class and the text of the exception, and for a failed subprocess what
  it wrote to its standard error. A call that may raise returns a sum.
\<close>

datatype py_error =
    PyError (error_type: string) (error_text: string)
  | ProcessError (error_type: string) (error_text: string) (error_stderr: string)

type_synonym 'a result = "py_error + 'a"

abbreviation raise_error :: "string \<Rightarrow> string \<Rightarrow> 'a result" where
  "raise_error c t \<equiv> Inl (PyError c t)"

fun bind_result :: "'a result \<Rightarrow> ('a \<Rightarrow> 'b result) \<Rightarrow> 'b result" where
  "bind_result (Inl e) f = Inl e"
| "bind_result (Inr x) f = f x"

text \<open>\<^verbatim>\<open>[f(x) for x in xs]\<close> where \<^verbatim>\<open>f\<close> may raise: the first exception ends the loop.\<close>

fun map_result :: "('a \<Rightarrow> 'b result) \<Rightarrow> 'a list \<Rightarrow> 'b list result" where
  "map_result f [] = Inr []"
| "map_result f (x # xs) = bind_result (f x) (\<lambda>y. bind_result (map_result f xs) (\<lambda>ys. Inr (y # ys)))"

lemma bind_result_Inr_iff: "bind_result r f = Inr y \<longleftrightarrow> (\<exists>x. r = Inr x \<and> f x = Inr y)"
  by (cases r) auto

lemma map_result_Inr_iff: "map_result f xs = Inr ys \<longleftrightarrow> list_all2 (\<lambda>x y. f x = Inr y) xs ys"
  by (induction xs arbitrary: ys) (auto simp: bind_result_Inr_iff list_all2_Cons1)

subsection \<open>Lists\<close>

lemma take_eq_prefix: "take (length ys) (ys @ zs) = ys"
  by simp

lemma filter_id_iff: "filter P xs = xs \<longleftrightarrow> (\<forall>x \<in> set xs. P x)"
  by (simp add: filter_id_conv)

lemma distinct_map_fst_unique:
  "distinct (map fst d) \<Longrightarrow> (k, v) \<in> set d \<Longrightarrow> (k, w) \<in> set d \<Longrightarrow> v = w"
  by (metis Some_eq_map_of_iff option.inject)

lemma sort_key_perm_eq:
  assumes "inj_on f (set xs)" and "distinct xs" and "distinct ys" and "set xs = set ys"
  shows "sort_key f xs = sort_key f ys"
proof -
  have "mset (sort_key f ys) = mset xs"
    using assms by (simp add: set_eq_iff_mset_eq_distinct)
  moreover have "\<And>k. k \<in> set (sort_key f ys) \<Longrightarrow>
      filter (\<lambda>x. f k = f x) (sort_key f ys) = filter (\<lambda>x. f k = f x) xs"
  proof -
    fix k
    assume "k \<in> set (sort_key f ys)"
    then have k: "k \<in> set xs" "k \<in> set ys" using assms(4) by auto
    have one: "filter (\<lambda>x. f k = f x) zs = [k]" if "distinct zs" "set zs = set xs" for zs
    proof -
      have "set (filter (\<lambda>x. f k = f x) zs) = {k}"
        using that k assms(1) by (auto dest: inj_onD)
      moreover have "distinct (filter (\<lambda>x. f k = f x) zs)" using that by simp
      ultimately show ?thesis
        by (metis distinct_card card.empty card_insert_disjoint empty_iff finite.emptyI
            length_0_conv length_Suc_conv list.set_intros(1) singletonD)
    qed
    show "filter (\<lambda>x. f k = f x) (sort_key f ys) = filter (\<lambda>x. f k = f x) xs"
      using one[of "sort_key f ys"] one[of xs] assms by simp
  qed
  ultimately show ?thesis by (intro properties_for_sort_key) auto
qed

lemma distinct_map_sort_key [simp]: "distinct (map f (sort_key k xs)) = distinct (map f xs)"
  by (rule mset_eq_imp_distinct_iff) simp

text \<open>\<^verbatim>\<open>dict.fromkeys\<close>: the first occurrence of every element, in order.\<close>

fun first_occurrences :: "'a list \<Rightarrow> 'a list" where
  "first_occurrences [] = []"
| "first_occurrences (x # xs) = x # first_occurrences (filter (\<lambda>y. y \<noteq> x) xs)"

lemma set_first_occurrences [simp]: "set (first_occurrences xs) = set xs"
  by (induction xs rule: first_occurrences.induct) auto

lemma distinct_first_occurrences [simp]: "distinct (first_occurrences xs)"
  by (induction xs rule: first_occurrences.induct) auto

subsection \<open>Dictionaries\<close>

text \<open>
  A \<^verbatim>\<open>dict\<close> is an association list in insertion order with distinct keys. \<^verbatim>\<open>d[k] = v\<close> replaces
  the value in place or appends the new key (\<open>AList.update\<close>), \<^verbatim>\<open>d.get(k)\<close> is \<open>map_of\<close>,
  \<^verbatim>\<open>del d[k]\<close> and \<^verbatim>\<open>d.pop(k, None)\<close> drop the key.
\<close>

type_synonym ('k, 'v) pydict = "('k \<times> 'v) list"

abbreviation dict_set :: "'k \<Rightarrow> 'v \<Rightarrow> ('k, 'v) pydict \<Rightarrow> ('k, 'v) pydict" where
  "dict_set k v d \<equiv> AList.update k v d"

abbreviation dict_get :: "('k, 'v) pydict \<Rightarrow> 'k \<Rightarrow> 'v option" where
  "dict_get d k \<equiv> map_of d k"

definition dict_del :: "'k \<Rightarrow> ('k, 'v) pydict \<Rightarrow> ('k, 'v) pydict" where
  "dict_del k d = filter (\<lambda>p. fst p \<noteq> k) d"

definition dict_keys :: "('k, 'v) pydict \<Rightarrow> 'k list" where
  "dict_keys d = map fst d"

definition dict_values :: "('k, 'v) pydict \<Rightarrow> 'v list" where
  "dict_values d = map snd d"

definition dict_ok :: "('k, 'v) pydict \<Rightarrow> bool" where
  "dict_ok d \<longleftrightarrow> distinct (map fst d)"

text \<open>The dictionary comprehension \<^verbatim>\<open>{key(x): val(x) for x in xs}\<close>: later keys win.\<close>

fun dict_of :: "('k \<times> 'v) list \<Rightarrow> ('k, 'v) pydict \<Rightarrow> ('k, 'v) pydict" where
  "dict_of [] d = d"
| "dict_of ((k, v) # xs) d = dict_of xs (dict_set k v d)"

lemma dict_get_set [simp]: "dict_get (dict_set k v d) = (dict_get d)(k \<mapsto> v)"
  by (rule update_conv')

lemma dict_get_del [simp]: "dict_get (dict_del k d) k' = (if k' = k then None else dict_get d k')"
  by (induction d) (auto simp: dict_del_def)

lemma dict_ok_Nil [simp]: "dict_ok []"
  by (simp add: dict_ok_def)

lemma dict_ok_set [simp]: "dict_ok d \<Longrightarrow> dict_ok (dict_set k v d)"
  by (simp add: dict_ok_def distinct_update)

lemma dict_ok_del [simp]: "dict_ok d \<Longrightarrow> dict_ok (dict_del k d)"
  unfolding dict_ok_def dict_del_def by (induction d) auto

lemma keys_set [simp]: "fst ` set (dict_set k v d) = insert k (fst ` set d)"
  using dom_update[of k v d] by auto

lemma dict_ok_of [simp]: "dict_ok d \<Longrightarrow> dict_ok (dict_of xs d)"
  by (induction xs d rule: dict_of.induct) auto

lemma keys_dict_of: "fst ` set (dict_of xs d) = fst ` set xs \<union> fst ` set d"
  by (induction xs d rule: dict_of.induct) auto

lemma dict_get_of: "dict_get (dict_of xs d) = dict_get d ++ dict_get (rev xs)"
  by (induction xs d rule: dict_of.induct) (auto simp: map_add_def fun_eq_iff split: option.splits)

lemma in_dict_iff: "dict_ok d \<Longrightarrow> (k, v) \<in> set d \<longleftrightarrow> dict_get d k = Some v"
  by (simp add: dict_ok_def)

lemma dict_get_map_values:
  "dict_get (map (\<lambda>(k, v). (k, f k v)) d) k = map_option (f k) (dict_get d k)"
  by (induction d) auto

lemma dict_ok_map_values [simp]: "dict_ok (map (\<lambda>(k, v). (k, f k v)) d) = dict_ok d"
  by (simp add: dict_ok_def case_prod_beta comp_def)

text \<open>
  The interface of a dictionary, as its clients use it: what a lookup returns after each
  update, and that every update keeps the keys distinct. The client lemmas are about a whole
  sequence of updates.
\<close>

locale dictionary =
  fixes empty :: 'd
    and put :: "'k \<Rightarrow> 'v \<Rightarrow> 'd \<Rightarrow> 'd"
    and remove :: "'k \<Rightarrow> 'd \<Rightarrow> 'd"
    and get :: "'d \<Rightarrow> 'k \<Rightarrow> 'v option"
    and ok :: "'d \<Rightarrow> bool"
  assumes get_empty: "get empty k = None"
    and get_put: "get (put k v d) k' = (if k' = k then Some v else get d k')"
    and get_remove: "get (remove k d) k' = (if k' = k then None else get d k')"
    and ok_empty: "ok empty"
    and ok_put: "ok d \<Longrightarrow> ok (put k v d)"
    and ok_remove: "ok d \<Longrightarrow> ok (remove k d)"
begin

lemma put_all_ok: "ok d \<Longrightarrow> ok (foldl (\<lambda>e p. put (fst p) (snd p) e) d ps)"
  by (induction ps arbitrary: d) (auto intro: ok_put)

lemma put_all_frame:
  "k \<notin> fst ` set ps \<Longrightarrow> get (foldl (\<lambda>e p. put (fst p) (snd p) e) d ps) k = get d k"
  by (induction ps arbitrary: d) (auto simp: get_put)

lemma put_put: "get (put k v (put k w d)) = get (put k v d)"
  by (auto simp: get_put fun_eq_iff)

lemma put_remove: "get (remove k (put k v d)) = get (remove k d)"
  by (auto simp: get_put get_remove fun_eq_iff)

end

interpretation pd: dictionary "[]" dict_set dict_del dict_get dict_ok
  by unfold_locales auto

subsection \<open>Dates\<close>

text \<open>\<^verbatim>\<open>datetime.date\<close>: the code only builds and compares them.\<close>

datatype date = Date (year: int) (month: int) (day: int)

instantiation date :: linorder
begin

definition less_eq_date :: "date \<Rightarrow> date \<Rightarrow> bool" where
  "less_eq_date d e \<longleftrightarrow> (year d, month d, day d) \<le> (year e, month e, day e)"

definition less_date :: "date \<Rightarrow> date \<Rightarrow> bool" where
  "less_date d e \<longleftrightarrow> (year d, month d, day d) < (year e, month e, day e)"

instance
  by standard (auto simp: less_eq_date_def less_date_def date.expand)

end

lemma date_less_eq_code [simp, eval_simps]:
  "Date y m d \<le> Date y' m' d' \<longleftrightarrow> y < y' \<or> y = y' \<and> (m < m' \<or> m = m' \<and> d \<le> d')"
  by (auto simp: less_eq_date_def)

lemma date_less_code [simp, eval_simps]:
  "Date y m d < Date y' m' d' \<longleftrightarrow> y < y' \<or> y = y' \<and> (m < m' \<or> m = m' \<and> d < d')"
  by (auto simp: less_date_def)

text \<open>\<^verbatim>\<open>date.max\<close>.\<close>

definition date_max :: date where
  "date_max = Date 9999 12 31"

end
