(* ===== verification/PyStr.thy ===== *)
theory PyStr
  imports Prelude
begin

text \<open>
  Python strings. A \<^verbatim>\<open>str\<close> is represented by its UTF-8 encoding, a list of bytes, so that a
  literal reads as in the source and \<^verbatim>\<open>s.encode("utf-8")\<close> is the identity. A character is a
  leading byte with the continuation bytes after it; \<^verbatim>\<open>len\<close>, slices and \<^verbatim>\<open>strip\<close> count characters.
  The order of the encodings is the order of the code points. Lone surrogates, which
  \<^verbatim>\<open>encode\<close> refuses, have no representation.
\<close>

subsection \<open>Characters of a string\<close>

definition is_cont :: "char \<Rightarrow> bool" where
  "is_cont c \<longleftrightarrow> digit7 c \<and> \<not> digit6 c"

lemma is_cont_Char [simp, code]: "is_cont (Char b0 b1 b2 b3 b4 b5 b6 b7) = (b7 \<and> \<not> b6)"
  by (simp add: is_cont_def)

text \<open>\<^verbatim>\<open>len(s)\<close>\<close>

definition py_len :: "string \<Rightarrow> nat" where
  "py_len s = length (filter (\<lambda>c. \<not> is_cont c) s)"

text \<open>the characters of \<^verbatim>\<open>s\<close>, each as its encoding\<close>

function chunks :: "string \<Rightarrow> string list" where
  "chunks [] = []"
| "chunks (c # cs) = (c # takeWhile is_cont cs) # chunks (dropWhile is_cont cs)"
  by pat_completeness auto
termination
  by (relation "measure length") (auto simp: le_imp_less_Suc length_dropWhile_le)

lemma concat_chunks [simp]: "concat (chunks s) = s"
  by (induction s rule: chunks.induct) auto

lemma filter_dropWhile_cont: "filter (\<lambda>c. \<not> is_cont c) (dropWhile is_cont cs) = filter (\<lambda>c. \<not> is_cont c) cs"
  by (induction cs) auto

lemma length_chunks:
  "s = [] \<or> \<not> is_cont (hd s) \<Longrightarrow> length (chunks s) = py_len s"
proof (induction s rule: chunks.induct)
  case (2 c cs)
  have "dropWhile is_cont cs = [] \<or> \<not> is_cont (hd (dropWhile is_cont cs))"
    using hd_dropWhile by blast
  with 2 show ?case by (simp add: py_len_def filter_dropWhile_cont)
qed (simp add: py_len_def)

lemma py_len_append [simp]: "py_len (s @ t) = py_len s + py_len t"
  by (simp add: py_len_def)

lemma py_len_Nil [simp]: "py_len [] = 0"
  by (simp add: py_len_def)

lemma py_len_le: "py_len s \<le> length s"
  by (simp add: py_len_def)

text \<open>\<^verbatim>\<open>s[:n]\<close> and \<^verbatim>\<open>s[:-1]\<close>\<close>

definition py_take :: "nat \<Rightarrow> string \<Rightarrow> string" where
  "py_take n s = concat (take n (chunks s))"

definition py_init :: "string \<Rightarrow> string" where
  "py_init s = concat (butlast (chunks s))"

lemma py_take_prefix: "\<exists>t. s = py_take n s @ t"
proof
  have "concat (take n (chunks s)) @ concat (drop n (chunks s)) = s"
    by (simp only: concat_append[symmetric] append_take_drop_id concat_chunks)
  then show "s = py_take n s @ concat (drop n (chunks s))"
    by (simp only: py_take_def)
qed

lemma chunk_nonempty: "ch \<in> set (chunks s) \<Longrightarrow> ch \<noteq> []"
  by (induction s rule: chunks.induct) auto

lemma chunk_len1: "ch \<in> set (chunks s) \<Longrightarrow> py_len ch \<le> 1"
proof (induction s rule: chunks.induct)
  case (2 c cs)
  have "filter (\<lambda>c. \<not> is_cont c) (takeWhile is_cont cs) = []"
    by (auto simp: filter_empty_conv dest: set_takeWhileD)
  with 2 show ?case by (auto simp: py_len_def)
qed simp

lemma py_len_take: "py_len (py_take n s) \<le> n"
proof -
  have "py_len (concat cs) \<le> length cs" if "\<forall>c \<in> set cs. py_len c \<le> 1" for cs
    using that by (induction cs) auto
  from this[of "take n (chunks s)"] have "py_len (py_take n s) \<le> length (take n (chunks s))"
    unfolding py_take_def using chunk_len1 in_set_takeD by metis
  then show ?thesis by simp
qed

text \<open>a string that starts with a whole character, as every encoded string does\<close>

definition starts_clean :: "string \<Rightarrow> bool" where
  "starts_clean s \<longleftrightarrow> s = [] \<or> \<not> is_cont (hd s)"

lemma takeWhile_append_clean:
  "starts_clean b \<Longrightarrow> takeWhile is_cont (a @ b) = takeWhile is_cont a"
  "starts_clean b \<Longrightarrow> dropWhile is_cont (a @ b) = dropWhile is_cont a @ b"
  by (induction a; cases b; simp add: starts_clean_def)+

lemma chunks_append:
  assumes "starts_clean b"
  shows "chunks (a @ b) = chunks a @ chunks b"
  using assms by (induction a rule: chunks.induct) (simp_all add: takeWhile_append_clean)

definition is_ascii :: "string \<Rightarrow> bool" where
  "is_ascii s \<longleftrightarrow> (\<forall>c \<in> set s. \<not> digit7 c)"

lemma chunks_ascii: "is_ascii s \<Longrightarrow> chunks s = map (\<lambda>c. [c]) s"
proof (induction s rule: chunks.induct)
  case (2 c cs)
  from "2.prems" have nc: "\<forall>x \<in> set cs. \<not> is_cont x"
    by (auto simp: is_ascii_def is_cont_def)
  have "takeWhile is_cont cs = []" using nc by (cases cs) auto
  moreover have "dropWhile is_cont cs = cs" using nc by (cases cs) auto
  ultimately show ?case using 2 by (simp add: is_ascii_def)
qed simp

lemma py_take_ascii: "is_ascii s \<Longrightarrow> py_take n s = take n s"
  by (simp add: py_take_def chunks_ascii take_map concat_map_singleton)

lemma py_init_ascii: "is_ascii s \<Longrightarrow> py_init s = butlast s"
  by (simp add: py_init_def chunks_ascii concat_map_singleton flip: map_butlast)

lemma py_len_ascii: "is_ascii s \<Longrightarrow> py_len s = length s"
  by (auto simp: py_len_def is_ascii_def is_cont_def filter_id_conv)

subsection \<open>Case folding and tokens\<close>

text \<open>
  \<^verbatim>\<open>str.lower\<close>, as far as the ASCII tokens of the result depend on it: the ASCII letters, and
  the two other characters whose lower case contains an ASCII character, \<^verbatim>\<open>U+0130\<close> (lowered to
  \<^verbatim>\<open>i\<close> and a combining dot) and \<^verbatim>\<open>U+212A\<close> (the Kelvin sign, lowered to \<^verbatim>\<open>k\<close>). Every other
  character lowers to characters outside ASCII and stands for itself here: the one use of the
  result, the token pattern, matches ASCII only.
\<close>

definition lower_char :: "char \<Rightarrow> char" where
  "lower_char c = (if CHR ''A'' \<le> c \<and> c \<le> CHR ''Z'' then char_of (of_char c + 32 :: nat) else c)"

definition lower_chunk :: "string \<Rightarrow> string" where
  "lower_chunk ch =
     (if ch = [CHR 0xC4, CHR 0xB0] then [CHR ''i'', CHR 0xCC, CHR 0x87]
      else if ch = [CHR 0xE2, CHR 0x84, CHR 0xAA] then ''k''
      else map lower_char ch)"

definition py_lower :: "string \<Rightarrow> string" where
  "py_lower s = concat (map lower_chunk (chunks s))"

definition is_token_char :: "char \<Rightarrow> bool" where
  "is_token_char c \<longleftrightarrow> CHR ''a'' \<le> c \<and> c \<le> CHR ''z'' \<or> CHR ''0'' \<le> c \<and> c \<le> CHR ''9''"

text \<open>\<^verbatim>\<open>re.compile(r"[a-z0-9]+").findall(s)\<close>: the maximal runs, left to right.\<close>

function find_tokens :: "string \<Rightarrow> string list" where
  "find_tokens [] = []"
| "find_tokens (c # cs) =
     (if is_token_char c
      then (c # takeWhile is_token_char cs) # find_tokens (dropWhile is_token_char cs)
      else find_tokens cs)"
  by pat_completeness auto
termination
  by (relation "measure length") (auto simp: le_imp_less_Suc length_dropWhile_le)

lemma find_tokens_sound:
  "w \<in> set (find_tokens s) \<Longrightarrow> w \<noteq> [] \<and> (\<forall>c \<in> set w. is_token_char c)"
proof (induction s rule: find_tokens.induct)
  case (2 c cs)
  then show ?case
    by (cases "is_token_char c") (fastforce dest: set_takeWhileD)+
qed simp

lemma find_tokens_covers:
  "concat (find_tokens s) = filter is_token_char s"
proof (induction s rule: find_tokens.induct)
  case (2 c cs)
  show ?case
  proof (cases "is_token_char c")
    case True
    have "filter is_token_char cs = takeWhile is_token_char cs @ filter is_token_char (dropWhile is_token_char cs)"
      by (induction cs) auto
    with True 2 show ?thesis by simp
  qed (use 2 in simp)
qed simp

lemma find_tokens_append_sep:
  "\<not> is_token_char x \<Longrightarrow> find_tokens (s @ x # t) = find_tokens s @ find_tokens t"
proof (induction s rule: find_tokens.induct)
  case (2 c cs)
  show ?case
  proof (cases "is_token_char c")
    case True
    show ?thesis
    proof (cases "\<forall>y \<in> set cs. is_token_char y")
      case all: True
      with True "2.prems" show ?thesis by (simp add: takeWhile_append2 dropWhile_append2 takeWhile_eq_all_conv[THEN iffD2]
          dropWhile_eq_Nil_conv[THEN iffD2])
    next
      case False
      then obtain y where "y \<in> set cs" "\<not> is_token_char y" by blast
      with True 2 show ?thesis by (auto simp: takeWhile_append1 dropWhile_append1)
    qed
  qed (use 2 in simp)
qed simp

subsection \<open>Whitespace\<close>

text \<open>The characters of \<^verbatim>\<open>str.isspace\<close>, which \<^verbatim>\<open>strip\<close> removes.\<close>

definition space_chunks :: "string list" where
  "space_chunks = map (\<lambda>n. [char_of (n::nat)]) [9, 10, 11, 12, 13, 28, 29, 30, 31, 32]
     @ [[CHR 0xC2, CHR 0x85], [CHR 0xC2, CHR 0xA0], [CHR 0xE1, CHR 0x9A, CHR 0x80]]
     @ map (\<lambda>n. [CHR 0xE2, CHR 0x80, char_of (n::nat)]) ([128..<139] @ [168, 169, 175])
     @ [[CHR 0xE2, CHR 0x81, CHR 0x9F], [CHR 0xE3, CHR 0x80, CHR 0x80]]"

definition is_space :: "string \<Rightarrow> bool" where
  "is_space ch \<longleftrightarrow> ch \<in> set space_chunks"

definition py_lstrip :: "string \<Rightarrow> string" where
  "py_lstrip s = concat (dropWhile is_space (chunks s))"

definition py_strip :: "string \<Rightarrow> string" where
  "py_strip s = concat (rev (dropWhile is_space (rev (dropWhile is_space (chunks s)))))"

subsection \<open>Numbers and \<^verbatim>\<open>repr\<close>\<close>

fun nat_str :: "nat \<Rightarrow> string" where
  "nat_str n = (if n < 10 then [char_of (48 + n)] else nat_str (n div 10) @ [char_of (48 + n mod 10)])"

declare nat_str.simps [simp del]

definition int_str :: "int \<Rightarrow> string" where
  "int_str i = (if i < 0 then ''-'' @ nat_str (nat (- i)) else nat_str (nat i))"

text \<open>\<^verbatim>\<open>f"{n:04d}"\<close>\<close>

definition pad4 :: "nat \<Rightarrow> string" where
  "pad4 n = (let s = nat_str n in replicate (4 - length s) CHR ''0'' @ s)"

text \<open>
  \<^verbatim>\<open>repr\<close> of a string: single quotes unless the text holds a single quote and no double
  one; the quote, the backslash and the control characters escaped. Characters outside
  ASCII are printed as they are, which is what \<^verbatim>\<open>repr\<close> does for the printable ones.
\<close>

definition hex_lower :: "nat \<Rightarrow> char" where
  "hex_lower n = (if n < 10 then char_of (48 + n) else char_of (87 + n))"

definition repr_char :: "char \<Rightarrow> char \<Rightarrow> string" where
  "repr_char q c =
     (if c = q \<or> c = CHR 0x5C then [CHR 0x5C, c]
      else if c = CHR 0x0A then [CHR 0x5C, CHR ''n'']
      else if c = CHR 0x0D then [CHR 0x5C, CHR ''r'']
      else if c = CHR 0x09 then [CHR 0x5C, CHR ''t'']
      else if c < CHR 0x20 \<or> c = CHR 0x7F
        then [CHR 0x5C, CHR ''x'', hex_lower (of_char c div 16), hex_lower (of_char c mod 16)]
      else [c])"

definition repr_str :: "string \<Rightarrow> string" where
  "repr_str s =
     (let q = (if CHR 0x27 \<in> set s \<and> CHR 0x22 \<notin> set s then CHR 0x22 else CHR 0x27)
      in [q] @ concat (map (repr_char q) s) @ [q])"

fun join :: "string \<Rightarrow> string list \<Rightarrow> string" where
  "join sep [] = []"
| "join sep [x] = x"
| "join sep (x # y # xs) = x @ sep @ join sep (y # xs)"

definition repr_pair :: "nat \<times> string \<Rightarrow> string" where
  "repr_pair p = ''('' @ nat_str (fst p) @ '', '' @ repr_str (snd p) @ '')''"

definition repr_pairs :: "(nat \<times> string) list \<Rightarrow> string" where
  "repr_pairs ps = ''['' @ join '', '' (map repr_pair ps) @ '']''"

end
