(* ===== verification/Json.thy ===== *)
theory Json
  imports Complex_Main PyStr
begin

text \<open>
  JSON as the program uses it: the values of \<^verbatim>\<open>json.loads\<close> (also the dictionaries the program
  builds for a report or a request), the text of \<^verbatim>\<open>json.dumps\<close> with ASCII output and the default
  separators, and a parser with the grammar of the standard library's scanner. A floating-point
  number is a rational number, without rounding; its decimal text, its reading and the text of a decoding
  error are functions of the record \<open>py_prims\<close>, a parameter of whatever prints them.
\<close>

subsection \<open>Values\<close>

datatype json =
    JNull
  | JBool bool
  | JInt int
  | JFloat rat
  | JSpecial string
  | JStr string
  | JList "json list"
  | JObj "(string \<times> json) list"

text \<open>a float: a rational number, or one of \<^verbatim>\<open>NaN\<close>, \<^verbatim>\<open>Infinity\<close> and \<^verbatim>\<open>-Infinity\<close>\<close>

datatype py_float = Finite rat | Special string

fun json_float :: "py_float \<Rightarrow> json" where
  "json_float (Finite r) = JFloat r"
| "json_float (Special s) = JSpecial s"

record py_prims =
  float_repr :: "rat \<Rightarrow> string"
  float_parse :: "string \<Rightarrow> py_float result"
  json_error_text :: "string \<Rightarrow> string"

abbreviation JStrs :: "string list \<Rightarrow> json" where
  "JStrs xs \<equiv> JList (map JStr xs)"

text \<open>truth of a value, as \<^verbatim>\<open>bool(x)\<close> has it\<close>

fun truthy :: "json \<Rightarrow> bool" where
  "truthy JNull = False"
| "truthy (JBool b) = b"
| "truthy (JInt i) = (i \<noteq> 0)"
| "truthy (JFloat r) = (r \<noteq> 0)"
| "truthy (JSpecial s) = True"
| "truthy (JStr s) = (s \<noteq> [])"
| "truthy (JList xs) = (xs \<noteq> [])"
| "truthy (JObj d) = (d \<noteq> [])"

definition bool_str :: "bool \<Rightarrow> string" where
  "bool_str b = (if b then ''True'' else ''False'')"

definition special_repr :: "string \<Rightarrow> string" where
  "special_repr s = (if s = ''NaN'' then ''nan'' else if s = ''Infinity'' then ''inf'' else ''-inf'')"

text \<open>\<^verbatim>\<open>repr(x)\<close> and \<^verbatim>\<open>str(x)\<close>\<close>

fun json_repr :: "py_prims \<Rightarrow> json \<Rightarrow> string" where
  "json_repr p JNull = ''None''"
| "json_repr p (JBool b) = bool_str b"
| "json_repr p (JInt i) = int_str i"
| "json_repr p (JFloat r) = float_repr p r"
| "json_repr p (JSpecial s) = special_repr s"
| "json_repr p (JStr s) = repr_str s"
| "json_repr p (JList xs) = ''['' @ join '', '' (map (json_repr p) xs) @ '']''"
| "json_repr p (JObj d) = ''{'' @ join '', '' (map (\<lambda>(k, v). repr_str k @ '': '' @ json_repr p v) d) @ ''}''"

definition json_str :: "py_prims \<Rightarrow> json \<Rightarrow> string" where
  "json_str p v = (case v of JStr s \<Rightarrow> s | _ \<Rightarrow> json_repr p v)"

lemma json_str_JStr [simp]: "json_str p (JStr s) = s"
  by (simp add: json_str_def)

text \<open>the class name an error message of Python gives a value\<close>

fun type_name :: "json \<Rightarrow> string" where
  "type_name JNull = ''NoneType''"
| "type_name (JBool b) = ''bool''"
| "type_name (JInt i) = ''int''"
| "type_name (JFloat r) = ''float''"
| "type_name (JSpecial s) = ''float''"
| "type_name (JStr s) = ''str''"
| "type_name (JList xs) = ''list''"
| "type_name (JObj d) = ''dict''"

text \<open>\<^verbatim>\<open>x.get(key)\<close> and \<^verbatim>\<open>x[key]\<close> on a value that should be a dictionary\<close>

definition json_get :: "json \<Rightarrow> string \<Rightarrow> json option result" where
  "json_get v k = (case v of JObj d \<Rightarrow> Inr (dict_get d k)
     | _ \<Rightarrow> raise_error ''AttributeError'' (repr_str (type_name v) @ '' object has no attribute '' @ repr_str ''get''))"

definition json_item :: "json \<Rightarrow> string \<Rightarrow> json result" where
  "json_item v k = (case v of
       JObj d \<Rightarrow> (case dict_get d k of None \<Rightarrow> raise_error ''KeyError'' (repr_str k) | Some x \<Rightarrow> Inr x)
     | JList xs \<Rightarrow> raise_error ''TypeError'' ''list indices must be integers or slices, not str''
     | JStr s \<Rightarrow> raise_error ''TypeError'' (''string indices must be integers, not '' @ repr_str ''str'')
     | _ \<Rightarrow> raise_error ''TypeError'' (repr_str (type_name v) @ '' object is not subscriptable''))"

text \<open>iteration over a value: the items of a list, the keys of a dictionary, the characters of a text\<close>

definition json_iter :: "json \<Rightarrow> json list result" where
  "json_iter v = (case v of JList xs \<Rightarrow> Inr xs
     | JObj d \<Rightarrow> Inr (map JStr (dict_keys d))
     | JStr s \<Rightarrow> Inr (map JStr (chunks s))
     | _ \<Rightarrow> raise_error ''TypeError'' (repr_str (type_name v) @ '' object is not iterable''))"

text \<open>\<^verbatim>\<open>float(x)\<close>; the least integer that overflows is \<open>2 ^ 1024 - 2 ^ 970\<close>\<close>

definition json_to_float :: "py_prims \<Rightarrow> json \<Rightarrow> py_float result" where
  "json_to_float p v = (case v of
       JFloat r \<Rightarrow> Inr (Finite r)
     | JSpecial s \<Rightarrow> Inr (Special s)
     | JInt i \<Rightarrow> if \<bar>i\<bar> \<ge> 2 ^ 1024 - 2 ^ 970
         then raise_error ''OverflowError'' ''int too large to convert to float'' else Inr (Finite (of_int i))
     | JBool b \<Rightarrow> Inr (Finite (if b then 1 else 0))
     | JStr s \<Rightarrow> float_parse p s
     | _ \<Rightarrow> raise_error ''TypeError''
         (''float() argument must be a string or a real number, not '' @ repr_str (type_name v)))"

subsection \<open>Text of a value\<close>

fun hex4 :: "nat \<Rightarrow> string" where
  "hex4 n = map hex_lower [n div 4096 mod 16, n div 256 mod 16, n div 16 mod 16, n mod 16]"

text \<open>the code point of the encoding of a character\<close>

fun code_point :: "string \<Rightarrow> nat" where
  "code_point [a] = of_char a"
| "code_point [a, b] = (of_char a - 192) * 64 + (of_char b - 128)"
| "code_point [a, b, c] = (of_char a - 224) * 4096 + (of_char b - 128) * 64 + (of_char c - 128)"
| "code_point [a, b, c, d] = (of_char a - 240) * 262144 + (of_char b - 128) * 4096
     + (of_char c - 128) * 64 + (of_char d - 128)"
| "code_point _ = 0"

definition escape_chunk :: "string \<Rightarrow> string" where
  "escape_chunk ch =
     (let n = code_point ch
      in if n = 34 then [CHR 0x5C, CHR 0x22]
         else if n = 92 then [CHR 0x5C, CHR 0x5C]
         else if n = 10 then [CHR 0x5C, CHR ''n'']
         else if n = 13 then [CHR 0x5C, CHR ''r'']
         else if n = 9 then [CHR 0x5C, CHR ''t'']
         else if n = 12 then [CHR 0x5C, CHR ''f'']
         else if n = 8 then [CHR 0x5C, CHR ''b'']
         else if 32 \<le> n \<and> n \<le> 126 then ch
         else if n < 65536 then [CHR 0x5C, CHR ''u''] @ hex4 n
         else [CHR 0x5C, CHR ''u''] @ hex4 (55296 + (n - 65536) div 1024)
            @ [CHR 0x5C, CHR ''u''] @ hex4 (56320 + (n - 65536) mod 1024))"

definition json_quote :: "string \<Rightarrow> string" where
  "json_quote s = CHR 0x22 # concat (map escape_chunk (chunks s)) @ [CHR 0x22]"

text \<open>\<^verbatim>\<open>json.dumps(v, sort_keys=...)\<close>\<close>

fun json_dumps :: "py_prims \<Rightarrow> bool \<Rightarrow> json \<Rightarrow> string" where
  "json_dumps p so JNull = ''null''"
| "json_dumps p so (JBool b) = (if b then ''true'' else ''false'')"
| "json_dumps p so (JInt i) = int_str i"
| "json_dumps p so (JFloat r) = float_repr p r"
| "json_dumps p so (JSpecial s) = s"
| "json_dumps p so (JStr s) = json_quote s"
| "json_dumps p so (JList xs) = ''['' @ join '', '' (map (json_dumps p so) xs) @ '']''"
| "json_dumps p so (JObj d) =
     (let items = map (\<lambda>(k, v). (k, json_dumps p so v)) d
      in ''{'' @ join '', '' (map (\<lambda>(k, t). json_quote k @ '': '' @ t)
            (if so then sort_key fst items else items)) @ ''}'')"

subsection \<open>Parsing\<close>

datatype json_fault = Malformed | TooManyDigits nat

definition MAX_INT_DIGITS :: nat where "MAX_INT_DIGITS = 4300"

definition json_space :: "char \<Rightarrow> bool" where
  "json_space c \<longleftrightarrow> c = CHR '' '' \<or> c = CHR 0x09 \<or> c = CHR 0x0A \<or> c = CHR 0x0D"

definition skip_space :: "string \<Rightarrow> string" where
  "skip_space s = dropWhile json_space s"

definition is_digit :: "char \<Rightarrow> bool" where
  "is_digit c \<longleftrightarrow> CHR ''0'' \<le> c \<and> c \<le> CHR ''9''"

definition digit_val :: "char \<Rightarrow> nat" where
  "digit_val c = of_char c - 48"

definition digits_val :: "string \<Rightarrow> nat" where
  "digits_val s = foldl (\<lambda>n c. 10 * n + digit_val c) 0 s"

lemma digits_val_snoc: "digits_val (s @ [c]) = 10 * digits_val s + digit_val c"
  by (simp add: digits_val_def)

definition hex_val :: "char \<Rightarrow> nat option" where
  "hex_val c =
     (if is_digit c then Some (digit_val c)
      else if CHR ''a'' \<le> c \<and> c \<le> CHR ''f'' then Some (of_char c - 87)
      else if CHR ''A'' \<le> c \<and> c \<le> CHR ''F'' then Some (of_char c - 55)
      else None)"

fun take_hex4 :: "string \<Rightarrow> (nat \<times> string) option" where
  "take_hex4 (a # b # c # d # s) =
     (case (hex_val a, hex_val b, hex_val c, hex_val d) of
        (Some w, Some x, Some y, Some z) \<Rightarrow> Some (4096 * w + 256 * x + 16 * y + z, s)
      | _ \<Rightarrow> None)"
| "take_hex4 _ = None"

text \<open>the encoding of a code point; a lone surrogate keeps its three-byte form\<close>

definition utf8 :: "nat \<Rightarrow> string" where
  "utf8 n = map char_of
     (if n < 128 then [n]
      else if n < 2048 then [192 + n div 64, 128 + n mod 64]
      else if n < 65536 then [224 + n div 4096, 128 + n div 64 mod 64, 128 + n mod 64]
      else [240 + n div 262144, 128 + n div 4096 mod 64, 128 + n div 64 mod 64, 128 + n mod 64])"

text \<open>the escape after a backslash: the character and the rest\<close>

definition take_escape :: "string \<Rightarrow> (string \<times> string) option" where
  "take_escape s =
     (case s of [] \<Rightarrow> None
      | c # r \<Rightarrow>
          if c = CHR 0x22 \<or> c = CHR 0x5C \<or> c = CHR ''/'' then Some ([c], r)
          else if c = CHR ''b'' then Some ([CHR 0x08], r)
          else if c = CHR ''f'' then Some ([CHR 0x0C], r)
          else if c = CHR ''n'' then Some ([CHR 0x0A], r)
          else if c = CHR ''r'' then Some ([CHR 0x0D], r)
          else if c = CHR ''t'' then Some ([CHR 0x09], r)
          else if c = CHR ''u'' then
            (case take_hex4 r of None \<Rightarrow> None
             | Some (n, r1) \<Rightarrow>
                 if 55296 \<le> n \<and> n < 56320 \<and> take 2 r1 = [CHR 0x5C, CHR ''u''] then
                   (case take_hex4 (drop 2 r1) of
                      Some (m, r2) \<Rightarrow>
                        if 56320 \<le> m \<and> m < 57344
                        then Some (utf8 (65536 + (n - 55296) * 1024 + (m - 56320)), r2)
                        else Some (utf8 n, r1)
                    | None \<Rightarrow> Some (utf8 n, r1))
                 else Some (utf8 n, r1))
          else None)"

text \<open>the characters of a string literal after its opening quote\<close>

fun take_chars :: "nat \<Rightarrow> string \<Rightarrow> (string \<times> string) option" where
  "take_chars 0 s = None"
| "take_chars (Suc n) s =
     (case s of [] \<Rightarrow> None
      | c # r \<Rightarrow>
          if c = CHR 0x22 then Some ([], r)
          else if c = CHR 0x5C then
            (case take_escape r of None \<Rightarrow> None
             | Some (x, r1) \<Rightarrow> map_option (\<lambda>(y, r2). (x @ y, r2)) (take_chars n r1))
          else if c < CHR '' '' then None
          else map_option (\<lambda>(y, r2). (c # y, r2)) (take_chars n r))"

text \<open>a number: its sign, integer digits, fraction and exponent\<close>

definition take_fraction :: "string \<Rightarrow> string \<times> string" where
  "take_fraction s =
     (case s of c # d # r \<Rightarrow>
        if c = CHR ''.'' \<and> is_digit d then (takeWhile is_digit (d # r), dropWhile is_digit (d # r)) else ([], s)
      | _ \<Rightarrow> ([], s))"

definition take_exponent :: "string \<Rightarrow> int option \<times> string" where
  "take_exponent s =
     (case s of
        c # r \<Rightarrow>
          if c = CHR ''e'' \<or> c = CHR ''E'' then
            (let sign = (if take 1 r = ''-'' then -1 else 1);
                 r1 = (case r of x # t \<Rightarrow> if x = CHR ''-'' \<or> x = CHR ''+'' then t else r | [] \<Rightarrow> []);
                 ds = takeWhile is_digit r1
             in if ds = [] then (None, s) else (Some (sign * int (digits_val ds)), dropWhile is_digit r1))
          else (None, s)
      | [] \<Rightarrow> (None, s))"

definition ten_power :: "int \<Rightarrow> rat" where
  "ten_power e = (if e < 0 then 1 / 10 ^ nat (- e) else 10 ^ nat e)"

definition take_integer :: "string \<Rightarrow> bool \<times> string \<times> string" where
  "take_integer s =
     (let neg = (take 1 s = ''-''); r = (if neg then tl s else s);
          ds = (if take 1 r = ''0'' then ''0'' else takeWhile is_digit r)
      in (neg, ds, drop (length ds) r))"

definition take_number :: "string \<Rightarrow> json_fault + json \<times> string" where
  "take_number s =
     (case take_integer s of (neg, ds, r1) \<Rightarrow>
      if ds = [] then Inl Malformed
      else case take_fraction r1 of (fs, r2) \<Rightarrow>
           case take_exponent r2 of (ex, r3) \<Rightarrow>
             if fs = [] \<and> ex = None then
               (if length ds > MAX_INT_DIGITS then Inl (TooManyDigits (length ds))
                else Inr (JInt ((if neg then -1 else 1) * int (digits_val ds)), r3))
             else
               Inr (JFloat ((if neg then -1 else 1)
                  * (of_nat (digits_val (ds @ fs)) / 10 ^ length fs)
                  * ten_power (case ex of None \<Rightarrow> 0 | Some e \<Rightarrow> e)), r3))"

text \<open>the constants of the scanner, \<^verbatim>\<open>NaN\<close> and the infinities included\<close>

definition json_constants :: "(string \<times> json) list" where
  "json_constants = [(''null'', JNull), (''true'', JBool True), (''false'', JBool False),
     (''NaN'', JSpecial ''NaN''), (''Infinity'', JSpecial ''Infinity''), (''-Infinity'', JSpecial ''-Infinity'')]"

definition take_constant :: "string \<Rightarrow> (json \<times> string) option" where
  "take_constant s =
     (case filter (\<lambda>(w, v). take (length w) s = w) json_constants of
        [] \<Rightarrow> None
      | (w, v) # _ \<Rightarrow> Some (v, drop (length w) s))"

text \<open>
  The recursive descent. The fuel bounds the depth of the recursion; a call with two units more than
  twice the length of the text never runs out of it, since two nested calls consume a character.
\<close>

fun take_value :: "nat \<Rightarrow> string \<Rightarrow> json_fault + json \<times> string"
  and take_items :: "nat \<Rightarrow> string \<Rightarrow> json_fault + json list \<times> string"
  and take_members :: "nat \<Rightarrow> string \<Rightarrow> json_fault + (string \<times> json) list \<times> string" where
  "take_value 0 s = Inl Malformed"
| "take_value (Suc n) s =
     (case s of [] \<Rightarrow> Inl Malformed
      | c # r \<Rightarrow>
          if c = CHR 0x22 then
            (case take_chars (Suc (length r)) r of None \<Rightarrow> Inl Malformed | Some (x, t) \<Rightarrow> Inr (JStr x, t))
          else if c = CHR ''['' then
            (if take 1 (skip_space r) = '']'' then Inr (JList [], drop 1 (skip_space r))
             else map_sum id (\<lambda>(xs, t). (JList xs, t)) (take_items n (skip_space r)))
          else if c = CHR ''{'' then
            (if take 1 (skip_space r) = ''}'' then Inr (JObj [], drop 1 (skip_space r))
             else map_sum id (\<lambda>(ms, t). (JObj (dict_of ms []), t)) (take_members n (skip_space r)))
          else case take_constant s of
            Some (v, t) \<Rightarrow> Inr (v, t)
          | None \<Rightarrow> take_number s)"
| "take_items 0 s = Inl Malformed"
| "take_items (Suc n) s =
     (case take_value n s of
        Inl e \<Rightarrow> Inl e
      | Inr (v, t) \<Rightarrow>
         (case skip_space t of
            c # r \<Rightarrow>
              if c = CHR '']'' then Inr ([v], r)
              else if c = CHR '','' then
                (case take_items n (skip_space r) of Inl e \<Rightarrow> Inl e | Inr (vs, u) \<Rightarrow> Inr (v # vs, u))
              else Inl Malformed
          | [] \<Rightarrow> Inl Malformed))"
| "take_members 0 s = Inl Malformed"
| "take_members (Suc n) s =
     (case s of
        q # s1 \<Rightarrow>
          if q \<noteq> CHR 0x22 then Inl Malformed
          else (case take_chars (Suc (length s1)) s1 of
             None \<Rightarrow> Inl Malformed
           | Some (k, t0) \<Rightarrow>
              (case skip_space t0 of
                 d # t1 \<Rightarrow>
                  if d \<noteq> CHR '':'' then Inl Malformed
                  else (case take_value n (skip_space t1) of
                     Inl e \<Rightarrow> Inl e
                   | Inr (v, t) \<Rightarrow>
                      (case skip_space t of
                         c # r \<Rightarrow>
                           if c = CHR ''}'' then Inr ([(k, v)], r)
                           else if c = CHR '','' then
                             (case take_members n (skip_space r) of
                                Inl e \<Rightarrow> Inl e | Inr (ms, u) \<Rightarrow> Inr ((k, v) # ms, u))
                           else Inl Malformed
                       | [] \<Rightarrow> Inl Malformed))
               | [] \<Rightarrow> Inl Malformed))
      | [] \<Rightarrow> Inl Malformed)"

definition json_parse :: "string \<Rightarrow> json_fault + json" where
  "json_parse s =
     (case take_value (2 * length s + 2) (skip_space s) of
        Inl e \<Rightarrow> Inl e
      | Inr (v, t) \<Rightarrow> if skip_space t = [] then Inr v else Inl Malformed)"

text \<open>\<^verbatim>\<open>json.loads(s)\<close>: a \<^verbatim>\<open>JSONDecodeError\<close> for a malformed document, and the plain \<^verbatim>\<open>ValueError\<close>
  of \<^verbatim>\<open>int\<close> for a number with more digits than its conversion limit.\<close>

definition json_loads :: "py_prims \<Rightarrow> string \<Rightarrow> json result" where
  "json_loads p s =
     (case json_parse s of
        Inr v \<Rightarrow> Inr v
      | Inl Malformed \<Rightarrow> raise_error ''JSONDecodeError'' (json_error_text p s)
      | Inl (TooManyDigits n) \<Rightarrow> raise_error ''ValueError''
          (''Exceeds the limit (4300 digits) for integer string conversion: value has '' @ nat_str n
            @ '' digits; use sys.set_int_max_str_digits() to increase the limit''))"

subsection \<open>The fuel is enough\<close>

lemma length_skip_space: "length (skip_space s) \<le> length s"
  by (simp add: skip_space_def length_dropWhile_le)

lemma take_hex4_length: "take_hex4 s = Some (n, t) \<Longrightarrow> length t < length s"
  by (induction s rule: take_hex4.induct) (auto split: option.splits)

lemma take_escape_length: "take_escape s = Some (x, t) \<Longrightarrow> length t < length s"
  by (auto simp: take_escape_def split: list.splits if_splits option.splits dest!: take_hex4_length)

lemma take_chars_length: "take_chars n s = Some (x, t) \<Longrightarrow> length t < length s"
proof (induction n arbitrary: s x t)
  case (Suc n)
  then show ?case
    by (fastforce split: list.splits if_splits option.splits dest!: take_escape_length)
qed simp

lemma take_constant_length: "take_constant s = Some (v, t) \<Longrightarrow> length t < length s"
proof -
  assume "take_constant s = Some (v, t)"
  then obtain w ws where ws: "filter (\<lambda>(w, v). take (length w) s = w) json_constants = (w, v) # ws"
    and t: "t = drop (length w) s"
    by (auto simp: take_constant_def split: list.splits)
  then have "(w, v) \<in> set (filter (\<lambda>(w, v). take (length w) s = w) json_constants)" by simp
  with t have w: "(w, v) \<in> set json_constants" "take (length w) s = w" "t = drop (length w) s"
    by auto
  then have "w \<noteq> []" by (auto simp: json_constants_def)
  with w(2) have "s \<noteq> []" by auto
  with w(3) \<open>w \<noteq> []\<close> show ?thesis by simp
qed

lemma take_fraction_length: "take_fraction s = (f, t) \<Longrightarrow> length t \<le> length s"
  using length_dropWhile_le[of is_digit]
  by (auto simp: take_fraction_def le_SucI split: list.splits if_splits)

lemma take_exponent_length: "take_exponent s = (f, t) \<Longrightarrow> length t \<le> length s"
  using length_dropWhile_le[of is_digit]
  by (auto simp: take_exponent_def Let_def le_SucI split: list.splits if_splits)

lemma take_integer_length: "take_integer s = (neg, ds, t) \<Longrightarrow> ds \<noteq> [] \<Longrightarrow> length t < length s"
  by (cases s) (auto simp: take_integer_def Let_def split: if_splits)

lemma take_number_length: "take_number s = Inr (v, t) \<Longrightarrow> length t < length s"
  by (fastforce simp: take_number_def split: prod.splits if_splits
      dest: take_integer_length take_fraction_length take_exponent_length)

lemma take_value_cases:
  assumes "take_value (Suc n) s = Inr (v, t)"
  obtains (lit) c r x where "s = c # r" "take_chars (Suc (length r)) r = Some (x, t)"
    | (empty) c r where "s = c # r" "t = drop 1 (skip_space r)"
    | (seq) c r xs where "s = c # r" "take_items n (skip_space r) = Inr (xs, t)"
    | (mems) c r ms where "s = c # r" "take_members n (skip_space r) = Inr (ms, t)"
    | (con) "take_constant s = Some (v, t)"
    | (num) "take_number s = Inr (v, t)"
proof (cases s)
  case Nil
  then show thesis using assms by simp
next
  case (Cons c r)
  note eq = assms[unfolded Cons take_value.simps list.case]
  show thesis
  proof (cases "c = CHR 0x22")
    case True
    then obtain x where "take_chars (Suc (length r)) r = Some (x, t)"
      using eq by (cases "take_chars (Suc (length r)) r") (auto simp del: take_chars.simps)
    then show thesis using Cons lit by blast
  next
    case q: False
    show thesis
    proof (cases "c = CHR ''[''")
      case True
      show thesis
      proof (cases "take 1 (skip_space r) = '']''")
        case True
        then have "t = drop 1 (skip_space r)" using eq \<open>c = CHR ''[''\<close> by (simp del: take_items.simps)
        then show thesis using Cons empty by blast
      next
        case False
        with eq \<open>c = CHR ''[''\<close> have "map_sum id (\<lambda>(xs, t). (JList xs, t)) (take_items n (skip_space r)) = Inr (v, t)"
          by (simp del: take_items.simps)
        then obtain xs where "take_items n (skip_space r) = Inr (xs, t)"
          by (cases "take_items n (skip_space r)") auto
        then show thesis using Cons seq by blast
      qed
    next
      case b: False
      show thesis
      proof (cases "c = CHR ''{''")
        case True
        show thesis
        proof (cases "take 1 (skip_space r) = ''}''")
          case True
          then have "t = drop 1 (skip_space r)" using eq \<open>c = CHR ''{''\<close> by (simp del: take_members.simps)
          then show thesis using Cons empty by blast
        next
          case False
          with eq \<open>c = CHR ''{''\<close> have "map_sum id (\<lambda>(ms, t). (JObj (dict_of ms []), t)) (take_members n (skip_space r)) = Inr (v, t)"
            by (simp del: take_members.simps)
          then obtain ms where "take_members n (skip_space r) = Inr (ms, t)"
            by (cases "take_members n (skip_space r)") auto
          then show thesis using Cons mems by blast
        qed
      next
        case False
        with eq q b have "(case take_constant (c # r) of None \<Rightarrow> take_number (c # r) | Some (v, t) \<Rightarrow> Inr (v, t)) = Inr (v, t)"
          by simp
        then show thesis using Cons con num by (cases "take_constant (c # r)") auto
      qed
    qed
  qed
qed

lemma take_items_cases:
  assumes "take_items (Suc n) s = Inr (vs, t)"
  obtains v t1 c r where "take_value n s = Inr (v, t1)" "skip_space t1 = c # r" "c = CHR '']''" "t = r"
    | v t1 c r ws where "take_value n s = Inr (v, t1)" "skip_space t1 = c # r"
        "take_items n (skip_space r) = Inr (ws, t)"
proof -
  obtain v t1 where v: "take_value n s = Inr (v, t1)" using assms by (auto split: sum.splits)
  then obtain c r where c: "skip_space t1 = c # r" using assms by (auto split: list.splits)
  consider "c = CHR '']''" "t = r" | ws where "take_items n (skip_space r) = Inr (ws, t)"
    using assms v c by (auto split: if_splits sum.splits)
  then show thesis using that v c by metis
qed

lemma take_members_cases:
  assumes "take_members (Suc n) s = Inr (ms, t)"
  obtains q s1 k t0 d t1 v t2 c r where "s = q # s1" "take_chars (Suc (length s1)) s1 = Some (k, t0)"
      "skip_space t0 = d # t1" "take_value n (skip_space t1) = Inr (v, t2)" "skip_space t2 = c # r"
      "t = r \<or> (\<exists>ws. take_members n (skip_space r) = Inr (ws, t))"
proof -
  obtain q s1 k t0 where k: "s = q # s1" "q = CHR 0x22" "take_chars (Suc (length s1)) s1 = Some (k, t0)"
    using assms by (auto split: list.splits if_splits option.splits simp del: take_chars.simps)
  then obtain d t1 where d: "skip_space t0 = d # t1" "d = CHR '':''"
    using assms by (auto split: list.splits if_splits simp del: take_chars.simps)
  then obtain v t2 where v: "take_value n (skip_space t1) = Inr (v, t2)"
    using assms k by (auto split: sum.splits simp del: take_chars.simps)
  then obtain c r where c: "skip_space t2 = c # r"
    using assms k d by (auto split: list.splits simp del: take_chars.simps)
  have "t = r \<or> (\<exists>ws. take_members n (skip_space r) = Inr (ws, t))"
    using assms k d v c by (auto split: if_splits sum.splits simp del: take_chars.simps)
  then show thesis using that k d v c by blast
qed

lemma take_length:
  "take_value n s = Inr (v, t) \<Longrightarrow> length t < length s"
  "take_items n s = Inr (vs, t) \<Longrightarrow> length t < length s"
  "take_members n s = Inr (ms, t) \<Longrightarrow> length t < length s"
proof (induction n arbitrary: s v t vs ms)
  case (Suc n)
  have sk: "length (skip_space r) \<le> length r" for r by (rule length_skip_space)
  {
    case 1
    then show ?case
    proof (cases rule: take_value_cases)
      case (empty c r)
      then show ?thesis using sk[of r] by simp
    next
      case (seq c r xs)
      then show ?thesis using Suc.IH(2)[OF seq(2)] sk[of r] by simp
    next
      case (mems c r ms)
      then show ?thesis using Suc.IH(3)[OF mems(2)] sk[of r] by simp
    qed (auto dest: take_chars_length take_constant_length take_number_length simp del: take_chars.simps)
  next
    case 2
    then show ?case
    proof (cases rule: take_items_cases)
      case (1 v t1 c r)
      then show ?thesis using Suc.IH(1)[OF 1(1)] sk[of t1] by simp
    next
      case (2 v t1 c r ws)
      then show ?thesis using Suc.IH(1)[OF 2(1)] sk[of t1] Suc.IH(2)[OF 2(3)] sk[of r] by simp
    qed
  next
    case 3
    then show ?case
    proof (cases rule: take_members_cases)
      case (1 q s1 k t0 d t1 v t2 c r)
      have "length r < length s"
        using 1(1) take_chars_length[OF 1(2)] 1(3) sk[of t0] sk[of t1] Suc.IH(1)[OF 1(4)] sk[of t2] 1(5) by simp
      then show ?thesis using 1(6) Suc.IH(3)[of "skip_space r"] sk[of r] by fastforce
    qed
  }
qed simp_all

lemma fuel_step:
  "2 * length s < n \<Longrightarrow> take_value n s = take_value (Suc n) s"
  "2 * length s + 1 < n \<Longrightarrow> take_items n s = take_items (Suc n) s"
  "2 * length s + 1 < n \<Longrightarrow> take_members n s = take_members (Suc n) s"
proof (induction n arbitrary: s)
  case (Suc n)
  have sk: "length (skip_space r) \<le> length r" for r by (rule length_skip_space)
  {
    case 1
    show ?case
    proof (cases s)
      case Nil
      then show ?thesis by simp
    next
      case (Cons c r)
      have "2 * length (skip_space r) + 1 < n" using 1 Cons sk[of r] by simp
      from Suc.IH(2,3)[OF this] show ?thesis
        unfolding Cons take_value.simps list.case by simp
    qed
  next
    case 2
    then have v: "take_value n s = take_value (Suc n) s" by (intro Suc.IH(1)) simp
    have "take_items n (skip_space r) = take_items (Suc n) (skip_space r)"
      if "take_value n s = Inr (x, t)" "skip_space t = c # r" for x t c r
    proof (rule Suc.IH(2))
      show "2 * length (skip_space r) + 1 < n"
        using take_length(1)[OF that(1)] that(2) sk[of t] sk[of r] 2 by simp
    qed
    then show ?case
      unfolding take_items.simps v[symmetric]
      by (auto split: sum.splits list.splits)
  next
    case 3
    show ?case
    proof (cases s)
      case Nil
      then show ?thesis by simp
    next
      case (Cons q s1)
      have t0: "length t0 < length s1" if "take_chars (Suc (length s1)) s1 = Some (k, t0)" for k t0
        using that by (rule take_chars_length)
      have v: "take_value n (skip_space t1) = take_value (Suc n) (skip_space t1)"
        if "take_chars (Suc (length s1)) s1 = Some (k, t0)" "skip_space t0 = d # t1" for k t0 d t1
        by (rule Suc.IH(1)) (use t0[OF that(1)] that(2) sk[of t0] sk[of t1] 3 Cons in simp)
      have m: "take_members n (skip_space r) = take_members (Suc n) (skip_space r)"
        if "take_chars (Suc (length s1)) s1 = Some (k, t0)" "skip_space t0 = d # t1"
          "take_value n (skip_space t1) = Inr (x, t2)" "skip_space t2 = c # r" for k t0 d t1 x t2 c r
        by (rule Suc.IH(3))
          (use t0[OF that(1)] that(2,4) take_length(1)[OF that(3)] sk[of t0] sk[of t1] sk[of t2] sk[of r] 3 Cons in simp)
      note unf = Cons take_members.simps(2)[of n "q # s1"] take_members.simps(2)[of "Suc n" "q # s1"] list.case
      show ?thesis
      proof (cases "take_chars (Suc (length s1)) s1")
        case None
        then show ?thesis unfolding unf by (simp del: take_chars.simps take_members.simps)
      next
        case (Some p)
        then obtain k t0 where k: "take_chars (Suc (length s1)) s1 = Some (k, t0)" by (cases p) auto
        show ?thesis
        proof (cases "skip_space t0")
          case Nil
          then show ?thesis unfolding unf k by simp
        next
          case d: (Cons d t1)
          show ?thesis
          proof (cases "take_value n (skip_space t1)")
            case (Inl e)
            then show ?thesis unfolding unf k using d v[OF k d] by simp
          next
            case (Inr p2)
            then obtain x t2 where x: "take_value n (skip_space t1) = Inr (x, t2)" by (cases p2) auto
            then show ?thesis
              unfolding unf k using d v[OF k d] m[OF k d x]
              by (cases "skip_space t2") (simp_all del: take_value.simps take_members.simps)
          qed
        qed
      qed
    qed
  }
qed simp_all

text \<open>Any two fuels above the bound give the same result, so running out of fuel is never the
  reason a document is refused.\<close>

lemma take_value_fuel:
  assumes "2 * length s < n" and "n \<le> m"
  shows "take_value n s = take_value m s"
  using assms(2,1) by (induction m rule: dec_induct) (simp_all add: fuel_step(1))

end
