(* ===== verification/Effects.thy ===== *)
theory Effects
  imports Json
begin

text \<open>
  Calls with a state and an exception: a call takes the state and gives its result, or the
  exception it raised, together with the state it leaves behind. An exception does not undo what
  the call had changed. The invariant rules are shared by the drivers.
\<close>

type_synonym ('s, 'a) act = "'s \<Rightarrow> 'a result \<times> 's"

definition ret :: "'a \<Rightarrow> ('s, 'a) act" where
  "ret x s = (Inr x, s)"

definition throw :: "py_error \<Rightarrow> ('s, 'a) act" where
  "throw e s = (Inl e, s)"

definition lift_result :: "'a result \<Rightarrow> ('s, 'a) act" where
  "lift_result r s = (r, s)"

definition and_then :: "('s, 'a) act \<Rightarrow> ('a \<Rightarrow> ('s, 'b) act) \<Rightarrow> ('s, 'b) act" where
  "and_then m k s = (case m s of (Inl e, t) \<Rightarrow> (Inl e, t) | (Inr x, t) \<Rightarrow> k x t)"

text \<open>\<^verbatim>\<open>try: ... except Exception as error: ...\<close>\<close>

definition catch :: "('s, 'a) act \<Rightarrow> (py_error \<Rightarrow> ('s, 'a) act) \<Rightarrow> ('s, 'a) act" where
  "catch m h s = (case m s of (Inl e, t) \<Rightarrow> h e t | (Inr x, t) \<Rightarrow> (Inr x, t))"

fun map_act :: "('x \<Rightarrow> ('s, 'a) act) \<Rightarrow> 'x list \<Rightarrow> ('s, 'a list) act" where
  "map_act f [] = ret []"
| "map_act f (x # xs) = and_then (f x) (\<lambda>y. and_then (map_act f xs) (\<lambda>ys. ret (y # ys)))"

text \<open>a call on one component of the state\<close>

definition on_part :: "('s \<Rightarrow> 'p) \<Rightarrow> ('p \<Rightarrow> 's \<Rightarrow> 's) \<Rightarrow> ('p, 'a) act \<Rightarrow> ('s, 'a) act" where
  "on_part get put m s = (case m (get s) of (r, p) \<Rightarrow> (r, put p s))"

subsection \<open>Evaluation\<close>

lemma and_then_simps [simp]:
  "m s = (Inr x, t) \<Longrightarrow> and_then m k s = k x t"
  "m s = (Inl e, t) \<Longrightarrow> and_then m k s = (Inl e, t)"
  by (simp_all add: and_then_def)

lemma ret_simp [simp]: "ret x s = (Inr x, s)"
  by (simp add: ret_def)

lemma throw_simp [simp]: "throw e s = (Inl e, s)"
  by (simp add: throw_def)

lemma lift_result_simp [simp]: "lift_result r s = (r, s)"
  by (simp add: lift_result_def)

lemma and_then_ret [simp]: "and_then (ret x) k = k x"
  by (rule ext) simp

lemma and_then_throw [simp]: "and_then (throw e) k = throw e"
  by (rule ext) simp

lemma and_then_cases:
  assumes "and_then m k s = (r, u)"
  obtains (error) e where "m s = (Inl e, u)" "r = Inl e"
    | (ok) x t where "m s = (Inr x, t)" "k x t = (r, u)"
  using assms by (cases "m s"; cases "fst (m s)") (auto simp: and_then_def)

subsection \<open>Invariants\<close>

text \<open>A call keeps a property of the state, whatever its result.\<close>

definition keeps :: "('s \<Rightarrow> bool) \<Rightarrow> ('s, 'a) act \<Rightarrow> bool" where
  "keeps I m \<longleftrightarrow> (\<forall>s. I s \<longrightarrow> I (snd (m s)))"

lemma keepsI: "(\<And>s. I s \<Longrightarrow> I (snd (m s))) \<Longrightarrow> keeps I m"
  by (simp add: keeps_def)

lemma keepsD: "keeps I m \<Longrightarrow> I s \<Longrightarrow> m s = (r, t) \<Longrightarrow> I t"
  unfolding keeps_def by (metis snd_conv)

lemma keeps_snd: "keeps I m \<Longrightarrow> I s \<Longrightarrow> I (snd (m s))"
  by (simp add: keeps_def)

lemma keeps_ret [simp, intro]: "keeps I (ret x)"
  by (simp add: keeps_def)

lemma keeps_throw [simp, intro]: "keeps I (throw e)"
  by (simp add: keeps_def)

lemma keeps_lift [simp, intro]: "keeps I (lift_result r)"
  by (simp add: keeps_def)

lemma keeps_and_then [intro]:
  assumes "keeps I m" "\<And>x. keeps I (k x)"
  shows "keeps I (and_then m k)"
proof (rule keepsI)
  fix s
  assume "I s"
  then have "I (snd (m s))" using assms(1) by (simp add: keeps_def)
  then show "I (snd (and_then m k s))"
    using assms(2) by (cases "m s"; cases "fst (m s)") (auto simp: and_then_def keeps_def)
qed

lemma keeps_catch [intro]:
  assumes "keeps I m" "\<And>e. keeps I (h e)"
  shows "keeps I (catch m h)"
proof (rule keepsI)
  fix s
  assume "I s"
  then have "I (snd (m s))" using assms(1) by (simp add: keeps_def)
  then show "I (snd (catch m h s))"
    using assms(2) by (cases "m s"; cases "fst (m s)") (auto simp: catch_def keeps_def)
qed

lemma keeps_map_act [intro]: "(\<And>x. x \<in> set xs \<Longrightarrow> keeps I (f x)) \<Longrightarrow> keeps I (map_act f xs)"
  by (induction xs) auto

lemma keeps_on_part:
  assumes "keeps J m" "\<And>s p. I s \<Longrightarrow> J (get s)" "\<And>s p. I s \<Longrightarrow> J p \<Longrightarrow> I (put p s)"
  shows "keeps I (on_part get put m)"
proof (rule keepsI)
  fix s
  assume "I s"
  then have "J (snd (m (get s)))" using assms(1,2) by (simp add: keeps_def)
  with \<open>I s\<close> show "I (snd (on_part get put m s))"
    using assms(3) by (auto simp: on_part_def split: prod.splits)
qed

lemma keeps_if [intro]: "(b \<Longrightarrow> keeps I m) \<Longrightarrow> (\<not> b \<Longrightarrow> keeps I k) \<Longrightarrow> keeps I (if b then m else k)"
  by simp

lemma map_act_length:
  "map_act f xs s = (Inr ys, t) \<Longrightarrow> length ys = length xs"
  by (induction xs arbitrary: ys s t) (auto elim!: and_then_cases)

subsection \<open>Indistinguishable states\<close>

text \<open>A call cannot tell two related states apart: it gives the same result on both and leaves
  related states behind.\<close>

definition blind :: "('s \<Rightarrow> 's \<Rightarrow> bool) \<Rightarrow> ('s, 'a) act \<Rightarrow> bool" where
  "blind R m \<longleftrightarrow> (\<forall>s s'. R s s' \<longrightarrow> fst (m s) = fst (m s') \<and> R (snd (m s)) (snd (m s')))"

lemma blindI:
  "(\<And>s s'. R s s' \<Longrightarrow> fst (m s) = fst (m s') \<and> R (snd (m s)) (snd (m s'))) \<Longrightarrow> blind R m"
  by (simp add: blind_def)

lemma blindD: "blind R m \<Longrightarrow> R s s' \<Longrightarrow> fst (m s) = fst (m s') \<and> R (snd (m s)) (snd (m s'))"
  by (simp add: blind_def)

lemma blind_ret [simp, intro]: "blind R (ret x)"
  by (simp add: blind_def)

lemma blind_throw [simp, intro]: "blind R (throw e)"
  by (simp add: blind_def)

lemma blind_lift [simp, intro]: "blind R (lift_result r)"
  by (simp add: blind_def)

lemma blind_and_then [intro]:
  assumes "blind R m" "\<And>x. blind R (k x)"
  shows "blind R (and_then m k)"
proof (rule blindI)
  fix s s'
  assume "R s s'"
  then have m: "fst (m s) = fst (m s')" "R (snd (m s)) (snd (m s'))"
    using assms(1) by (simp_all add: blind_def)
  show "fst (and_then m k s) = fst (and_then m k s') \<and> R (snd (and_then m k s)) (snd (and_then m k s'))"
  proof (cases "fst (m s)")
    case (Inl e)
    with m show ?thesis by (cases "m s"; cases "m s'") (simp add: and_then_def)
  next
    case (Inr x)
    with m show ?thesis
      using blindD[OF assms(2) m(2), of x] by (cases "m s"; cases "m s'") (simp add: and_then_def)
  qed
qed

lemma blind_catch [intro]:
  assumes "blind R m" "\<And>e. blind R (h e)"
  shows "blind R (catch m h)"
proof (rule blindI)
  fix s s'
  assume "R s s'"
  then have m: "fst (m s) = fst (m s')" "R (snd (m s)) (snd (m s'))"
    using assms(1) by (simp_all add: blind_def)
  show "fst (catch m h s) = fst (catch m h s') \<and> R (snd (catch m h s)) (snd (catch m h s'))"
  proof (cases "fst (m s)")
    case (Inr x)
    with m show ?thesis by (cases "m s"; cases "m s'") (simp add: catch_def)
  next
    case (Inl e)
    with m show ?thesis
      using blindD[OF assms(2) m(2), of e] by (cases "m s"; cases "m s'") (simp add: catch_def)
  qed
qed

lemma blind_if [intro]: "(b \<Longrightarrow> blind R m) \<Longrightarrow> (\<not> b \<Longrightarrow> blind R k) \<Longrightarrow> blind R (if b then m else k)"
  by simp

lemma blind_map_act [intro]: "(\<And>x. x \<in> set xs \<Longrightarrow> blind R (f x)) \<Longrightarrow> blind R (map_act f xs)"
  by (induction xs) auto

end
