(* ===== verification/Tools.thy ===== *)
theory Tools
  imports Effects
begin

text \<open>
  \<^verbatim>\<open>agent_harness/tools.py\<close>: the memory tool contract. A backend is a record of its operations on a
  state of its own; a session is what \<^verbatim>\<open>open_session\<close> returned, or \<^verbatim>\<open>None\<close>. \<open>dispatch_tool\<close> is the only
  way a model's tool call reaches a backend.
\<close>

definition TOOL_CONTRACT_VERSION :: string where
  "TOOL_CONTRACT_VERSION = ''marciana-agent-tools-v1''"

record credential_pair =
  cred_name :: string
  cred_secret :: string

record tool_result =
  tr_ok :: bool
  tr_results :: "(string, json) pydict list"
  tr_ids :: "string list"
  tr_error :: string

definition tool_failure :: "string \<Rightarrow> tool_result" where
  "tool_failure e = \<lparr>tr_ok = False, tr_results = [], tr_ids = [], tr_error = e\<rparr>"

definition as_payload :: "tool_result \<Rightarrow> json" where
  "as_payload r = JObj
     ([(''ok'', JBool (tr_ok r))]
      @ (if tr_results r \<noteq> [] then [(''results'', JList (map JObj (tr_results r)))] else [])
      @ (if tr_ids r \<noteq> [] then [(''ids'', JStrs (tr_ids r))] else [])
      @ (if tr_error r \<noteq> [] then [(''error'', JStr (tr_error r))] else []))"

text \<open>
  The operations of a backend. \<^verbatim>\<open>write\<close> takes the optional arguments in the order of the class:
  validity from and until, private, derived from.
\<close>

record ('s, 'h) agent_backend =
  ab_name :: string
  ab_version :: string
  ab_capabilities :: "string set"
  ab_mechanism :: "string option"
  ab_reset :: "('s, unit) act"
  ab_restart :: "('s, unit) act"
  ab_provision :: "('s, (string, string) pydict) act"
  ab_open_session :: "credential_pair \<Rightarrow> ('s, 'h option) act"
  ab_write :: "'h option \<Rightarrow> string \<Rightarrow> string \<Rightarrow> string option \<Rightarrow> string option \<Rightarrow> bool \<Rightarrow> string list
    \<Rightarrow> ('s, tool_result) act"
  ab_read :: "'h option \<Rightarrow> string \<Rightarrow> string option \<Rightarrow> ('s, tool_result) act"
  ab_delete :: "'h option \<Rightarrow> string \<Rightarrow> ('s, tool_result) act"
  ab_list_ids :: "'h option \<Rightarrow> ('s, tool_result) act"

definition tool_schema :: "string \<Rightarrow> string \<Rightarrow> (string, json) pydict \<Rightarrow> json" where
  "tool_schema n d params = JObj [(''type'', JStr ''function''),
     (''function'', JObj [(''name'', JStr n), (''description'', JStr d), (''parameters'', JObj params)])]"

definition text_property :: "string \<Rightarrow> json" where
  "text_property d = JObj [(''type'', JStr ''string''), (''description'', JStr d)]"

definition TOOL_SCHEMAS :: "json list" where
  "TOOL_SCHEMAS = [
     tool_schema ''memory_write'' ''Store a memory under an id.''
       [(''type'', JStr ''object''), (''required'', JStrs [''id'', ''text'']),
        (''properties'', JObj [(''id'', text_property ''Memory id.''), (''text'', text_property ''Memory text.'')])],
     tool_schema ''memory_read'' ''Search memories. Returns matching ids and texts.''
       [(''type'', JStr ''object''), (''required'', JStrs [''query'']),
        (''properties'', JObj [(''query'', text_property ''Search query.''),
          (''as_of'', text_property ''Optional ISO date; only memories valid on this date.'')])],
     tool_schema ''memory_delete'' ''Delete the memory with this id, and anything derived from it.''
       [(''type'', JStr ''object''), (''required'', JStrs [''id'']),
        (''properties'', JObj [(''id'', text_property ''Memory id to delete.'')])],
     tool_schema ''memory_list'' ''List the ids of memories visible to you.''
       [(''type'', JStr ''object''), (''properties'', JObj [])]]"

text \<open>\<^verbatim>\<open>str(arguments.get(key, ""))\<close>\<close>

definition text_argument :: "py_prims \<Rightarrow> json \<Rightarrow> string \<Rightarrow> string result" where
  "text_argument p arguments k = bind_result (json_get arguments k) (\<lambda>v.
     Inr (case v of None \<Rightarrow> [] | Some x \<Rightarrow> json_str p x))"

definition unknown_tool :: "string \<Rightarrow> tool_result" where
  "unknown_tool name = tool_failure (''unknown tool: '' @ py_take 64 name)"

definition dispatch_tool :: "py_prims \<Rightarrow> ('s, 'h) agent_backend \<Rightarrow> 'h option \<Rightarrow> string \<Rightarrow> json
    \<Rightarrow> ('s, tool_result) act" where
  "dispatch_tool p backend session name arguments =
     catch
       (if name = ''memory_write'' then
          and_then (lift_result (text_argument p arguments ''id'')) (\<lambda>i.
          and_then (lift_result (text_argument p arguments ''text'')) (\<lambda>t.
            ab_write backend session i t None None False []))
        else if name = ''memory_read'' then
          and_then (lift_result (json_get arguments ''as_of'')) (\<lambda>as_of_arg.
          and_then (lift_result (text_argument p arguments ''query'')) (\<lambda>q.
            ab_read backend session q (case as_of_arg of None \<Rightarrow> None
              | Some v \<Rightarrow> if truthy v then Some (json_str p v) else None)))
        else if name = ''memory_delete'' then
          and_then (lift_result (text_argument p arguments ''id'')) (\<lambda>i. ab_delete backend session i)
        else if name = ''memory_list'' then ab_list_ids backend session
        else ret (unknown_tool name))
       (\<lambda>e. ret (tool_failure (py_take 256 (error_text e))))"

lemma dispatch_never_raises: "\<exists>r t. dispatch_tool p b h n a s = (Inr r, t)"
  by (cases "dispatch_tool p b h n a s") (auto simp: dispatch_tool_def catch_def split: prod.splits sum.splits)

text \<open>What a session can do to the state of a backend, whatever a model calls.\<close>

definition session_keeps :: "('s \<Rightarrow> bool) \<Rightarrow> ('s, 'h) agent_backend \<Rightarrow> 'h option \<Rightarrow> bool" where
  "session_keeps I b h \<longleftrightarrow>
     (\<forall>i t. keeps I (ab_write b h i t None None False []))
     \<and> (\<forall>q d. keeps I (ab_read b h q d)) \<and> (\<forall>i. keeps I (ab_delete b h i)) \<and> keeps I (ab_list_ids b h)"

lemma dispatch_keeps: "session_keeps I b h \<Longrightarrow> keeps I (dispatch_tool p b h n a)"
  unfolding dispatch_tool_def session_keeps_def by (intro keeps_catch keeps_if keeps_and_then) auto

text \<open>
  The interface of an isolated session: none of the four tools can tell two states apart that are
  equal as far as the session may see. Whatever a model calls under such a session then gives the
  same answers on both, so nothing outside the session's authority reaches the model.
\<close>

locale isolated_session =
  fixes backend :: "('s, 'h) agent_backend"
    and session :: "'h option"
    and same :: "'s \<Rightarrow> 's \<Rightarrow> bool"
  assumes write_blind: "blind same (ab_write backend session i t None None False [])"
    and read_blind: "blind same (ab_read backend session q d)"
    and delete_blind: "blind same (ab_delete backend session i)"
    and list_blind: "blind same (ab_list_ids backend session)"
begin

lemma dispatch_blind: "blind same (dispatch_tool p backend session name arguments)"
  unfolding dispatch_tool_def
  by (intro blind_catch blind_if blind_and_then blind_lift blind_ret write_blind read_blind delete_blind list_blind)

end

end
