(* ===== verification/Sha256.thy ===== *)
theory Sha256
  imports Main "HOL-Library.Word" "HOL-Library.Char_ord"
begin

text \<open>
  The digests of the program. Every receipt, source digest and credential of the code is
  \<^verbatim>\<open>hashlib.sha256(...).hexdigest()\<close> or \<^verbatim>\<open>hmac.new(key, msg, sha256).hexdigest()\<close>; this theory
  defines both functions of the standard library (FIPS 180-4 and RFC 2104), executable, on
  strings of bytes. A 32-bit register is a natural number below \<open>2 ^ 32\<close>, with the wrap-around
  of the addition written out in \<open>add32\<close>. The lemmas give what the components rely on: the
  shape of a hex digest (64 characters of \<open>0-9a-f\<close>).
\<close>

unbundle bit_operations_syntax

subsection \<open>Operations on 32-bit registers\<close>

definition add32 :: "nat \<Rightarrow> nat \<Rightarrow> nat" where
  "add32 x y = (x + y) mod 4294967296"

definition rotr32 :: "nat \<Rightarrow> nat \<Rightarrow> nat" where
  "rotr32 n x = drop_bit n x OR push_bit (32 - n) (take_bit n x)"

definition choose32 :: "nat \<Rightarrow> nat \<Rightarrow> nat \<Rightarrow> nat" where
  "choose32 x y z = (x AND y) XOR ((4294967295 XOR x) AND z)"

definition majority32 :: "nat \<Rightarrow> nat \<Rightarrow> nat \<Rightarrow> nat" where
  "majority32 x y z = (x AND y) XOR ((x AND z) XOR (y AND z))"

definition big_sigma0 :: "nat \<Rightarrow> nat" where
  "big_sigma0 x = rotr32 2 x XOR (rotr32 13 x XOR rotr32 22 x)"

definition big_sigma1 :: "nat \<Rightarrow> nat" where
  "big_sigma1 x = rotr32 6 x XOR (rotr32 11 x XOR rotr32 25 x)"

definition small_sigma0 :: "nat \<Rightarrow> nat" where
  "small_sigma0 x = rotr32 7 x XOR (rotr32 18 x XOR drop_bit 3 x)"

definition small_sigma1 :: "nat \<Rightarrow> nat" where
  "small_sigma1 x = rotr32 17 x XOR (rotr32 19 x XOR drop_bit 10 x)"

subsection \<open>Compression\<close>

definition round_keys :: "nat list" where
  "round_keys = [
   1116352408, 1899447441, 3049323471, 3921009573, 961987163, 1508970993,
   2453635748, 2870763221, 3624381080, 310598401, 607225278, 1426881987,
   1925078388, 2162078206, 2614888103, 3248222580, 3835390401, 4022224774,
   264347078, 604807628, 770255983, 1249150122, 1555081692, 1996064986,
   2554220882, 2821834349, 2952996808, 3210313671, 3336571891, 3584528711,
   113926993, 338241895, 666307205, 773529912, 1294757372, 1396182291,
   1695183700, 1986661051, 2177026350, 2456956037, 2730485921, 2820302411,
   3259730800, 3345764771, 3516065817, 3600352804, 4094571909, 275423344,
   430227734, 506948616, 659060556, 883997877, 958139571, 1322822218,
   1537002063, 1747873779, 1955562222, 2024104815, 2227730452, 2361852424,
   2428436474, 2756734187, 3204031479, 3329325298]"

type_synonym sha_state = "nat list"

definition sha_initial :: sha_state where
  "sha_initial = [1779033703, 3144134277, 1013904242, 2773480762,
     1359893119, 2600822924, 528734635, 1541459225]"

text \<open>One round, from the two temporaries; a state always has eight registers.\<close>

fun sha_step :: "nat \<Rightarrow> nat \<Rightarrow> sha_state \<Rightarrow> sha_state" where
  "sha_step t1 t2 [a, b, c, d, e, f, g, h] = [add32 t1 t2, a, b, c, add32 d t1, e, f, g]"
| "sha_step t1 t2 s = s"

fun sha_round :: "nat \<Rightarrow> sha_state \<Rightarrow> sha_state" where
  "sha_round kw [a, b, c, d, e, f, g, h] =
     sha_step (add32 (add32 h (big_sigma1 e)) (add32 (choose32 e f g) kw))
       (add32 (big_sigma0 a) (majority32 a b c)) [a, b, c, d, e, f, g, h]"
| "sha_round kw s = s"

fun sha_rounds :: "nat list \<Rightarrow> nat list \<Rightarrow> sha_state \<Rightarrow> sha_state" where
  "sha_rounds (k # ks) (w # ws) s = sha_rounds ks ws (sha_round (add32 k w) s)"
| "sha_rounds ks ws s = s"

text \<open>The message schedule: the sixteen words of a block extended to sixty-four, on a window
  of the last sixteen.\<close>

definition next_word :: "nat list \<Rightarrow> nat" where
  "next_word win = add32 (add32 (small_sigma1 (win ! 14)) (win ! 9))
     (add32 (small_sigma0 (win ! 1)) (win ! 0))"

fun extend_words :: "nat \<Rightarrow> nat list \<Rightarrow> nat list" where
  "extend_words 0 win = win"
| "extend_words (Suc n) win = hd win # extend_words n (tl win @ [next_word win])"

definition compress :: "sha_state \<Rightarrow> nat list \<Rightarrow> sha_state" where
  "compress s block = map2 add32 s (sha_rounds round_keys (extend_words 48 block) s)"

subsection \<open>Bytes, padding and hex digits\<close>

definition byte_of :: "char \<Rightarrow> nat" where
  "byte_of c = of_char c"

fun be_words :: "nat list \<Rightarrow> nat list" where
  "be_words (a # b # c # d # bs) =
     (a * 16777216 + b * 65536 + c * 256 + d) # be_words bs"
| "be_words bs = []"

definition be_bytes :: "nat \<Rightarrow> nat \<Rightarrow> nat list" where
  "be_bytes n x = map (\<lambda>i. (x div 256 ^ i) mod 256) (rev [0..<n])"

definition pad_zeros :: "nat \<Rightarrow> nat" where
  "pad_zeros len = (119 - len mod 64) mod 64"

definition sha_pad :: "nat list \<Rightarrow> nat list" where
  "sha_pad bs = bs @ [128] @ replicate (pad_zeros (length bs)) 0 @ be_bytes 8 (8 * length bs)"

text \<open>The blocks of sixteen words: the fuel is the number of words, which is more than the
  number of blocks.\<close>

fun sha_blocks :: "nat \<Rightarrow> nat list \<Rightarrow> sha_state \<Rightarrow> sha_state" where
  "sha_blocks 0 ws s = s"
| "sha_blocks (Suc n) ws s =
     (if ws = [] then s else sha_blocks n (drop 16 ws) (compress s (take 16 ws)))"

definition sha256_words :: "nat list \<Rightarrow> sha_state" where
  "sha256_words bs =
     (let ws = be_words (sha_pad bs) in sha_blocks (length ws) ws sha_initial)"

definition sha256_bytes :: "nat list \<Rightarrow> nat list" where
  "sha256_bytes bs = concat (map (be_bytes 4) (sha256_words bs))"

definition hex_digit :: "nat \<Rightarrow> char" where
  "hex_digit n = (if n < 10 then char_of (48 + n) else char_of (87 + n))"

definition hex_of_bytes :: "nat list \<Rightarrow> string" where
  "hex_of_bytes bs = concat (map (\<lambda>b. [hex_digit (b div 16 mod 16), hex_digit (b mod 16)]) bs)"

text \<open>\<^verbatim>\<open>hashlib.sha256(data).hexdigest()\<close>.\<close>

definition sha256_hex :: "string \<Rightarrow> string" where
  "sha256_hex s = hex_of_bytes (sha256_bytes (map byte_of s))"

text \<open>\<^verbatim>\<open>hmac.new(key, msg, sha256).hexdigest()\<close>.\<close>

definition hmac_key :: "nat list \<Rightarrow> nat list" where
  "hmac_key k = (let k' = (if length k > 64 then sha256_bytes k else k)
                 in k' @ replicate (64 - length k') 0)"

definition hmac_sha256_hex :: "string \<Rightarrow> string \<Rightarrow> string" where
  "hmac_sha256_hex key msg =
     (let k = hmac_key (map byte_of key);
          inner = sha256_bytes (map (\<lambda>b. b XOR 54) k @ map byte_of msg)
      in hex_of_bytes (sha256_bytes (map (\<lambda>b. b XOR 92) k @ inner)))"

subsection \<open>The shape of a hex digest\<close>

lemma length_compress [simp]: "length s = 8 \<Longrightarrow> length (sha_rounds ks ws s) = 8"
proof (induction ks ws s rule: sha_rounds.induct)
  case (1 k ks w ws s)
  have "length (sha_round (add32 k w) s) = 8"
  proof -
    from "1.prems" obtain a b c d e f g h where "s = [a, b, c, d, e, f, g, h]"
      by (auto simp: numeral_eq_Suc length_Suc_conv)
    then show ?thesis by simp
  qed
  then show ?case using "1.IH" by simp
qed auto

lemma length_sha_blocks: "length s = 8 \<Longrightarrow> length (sha_blocks n ws s) = 8"
  by (induction n ws s rule: sha_blocks.induct) (auto simp: compress_def)

lemma length_sha256_words [simp]: "length (sha256_words bs) = 8"
  by (simp add: sha256_words_def Let_def length_sha_blocks sha_initial_def)

lemma length_be_bytes [simp]: "length (be_bytes n x) = n"
  by (simp add: be_bytes_def)

lemma length_sha256_bytes [simp]: "length (sha256_bytes bs) = 32"
  by (simp add: sha256_bytes_def length_concat comp_def sum_list_triv)

lemma length_hex_of_bytes [simp]: "length (hex_of_bytes bs) = 2 * length bs"
  by (induction bs) (auto simp: hex_of_bytes_def)

lemma length_sha256_hex [simp]: "length (sha256_hex s) = 64"
  by (simp add: sha256_hex_def)

lemma length_hmac_sha256_hex [simp]: "length (hmac_sha256_hex k m) = 64"
  by (simp add: hmac_sha256_hex_def Let_def)

definition hex_chars :: "char list" where
  "hex_chars = ''0123456789abcdef''"

lemma hex_digit_in: "n < 16 \<Longrightarrow> hex_digit n \<in> set hex_chars"
proof -
  assume "n < 16"
  then have "n \<in> set [0..<16]" by simp
  moreover have "\<forall>k \<in> set [0..<16]. hex_digit k \<in> set hex_chars"
    by code_simp
  ultimately show ?thesis by blast
qed

lemma hex_of_bytes_chars: "set (hex_of_bytes bs) \<subseteq> set hex_chars"
  by (auto simp: hex_of_bytes_def intro: hex_digit_in)

lemma sha256_hex_chars: "set (sha256_hex s) \<subseteq> set hex_chars"
  by (simp add: sha256_hex_def hex_of_bytes_chars)

lemma hmac_sha256_hex_chars: "set (hmac_sha256_hex k m) \<subseteq> set hex_chars"
  by (simp add: hmac_sha256_hex_def Let_def hex_of_bytes_chars)

end
