(* ===== verification/Backend.thy ===== *)
theory Backend
  imports PyStr Sha256
begin

text \<open>
  \<^verbatim>\<open>adversarial_cognition/backend.py\<close>: the deterministic, policy-aware reference backend. The
  object's three attributes are the record \<open>backend\<close>; every method takes the backend and returns
  the decision with the backend after the call. Dictionaries keep their insertion order, as the
  loop of \<open>recall\<close> sees it.
\<close>

subsection \<open>Data\<close>

definition MAX_QUERY_CHARS :: nat where "MAX_QUERY_CHARS = 4096"

definition MAX_TEXT_CHARS :: nat where "MAX_TEXT_CHARS = 4096"

record actor =
  act_did :: string
  act_tenant :: string
  act_space :: string
  act_purpose :: string
  act_clearance :: int
  act_can_mutate :: bool

text \<open>\<^verbatim>\<open>Actor(did)\<close>, the other fields at their defaults.\<close>

definition new_actor :: "string \<Rightarrow> actor" where
  "new_actor d = \<lparr>act_did = d, act_tenant = ''agstack'', act_space = ''coffee'',
     act_purpose = ''market-research'', act_clearance = 1, act_can_mutate = True\<rparr>"

record memory =
  memory_id :: string
  mem_text :: string
  mem_source :: string
  source_digest :: string
  mem_tenant :: string
  mem_space :: string
  sensitivity :: int
  valid_from :: date
  valid_until :: "date option"
  mem_state :: string
  derived_from :: "string list"
  mem_purpose :: string

text \<open>\<^verbatim>\<open>Memory(memory_id, text, source, source_digest)\<close>, the other fields at their defaults.\<close>

definition new_memory :: "string \<Rightarrow> string \<Rightarrow> string \<Rightarrow> string \<Rightarrow> memory" where
  "new_memory i t s d = \<lparr>memory_id = i, mem_text = t, mem_source = s, source_digest = d,
     mem_tenant = ''agstack'', mem_space = ''coffee'', sensitivity = 1,
     valid_from = Date 2026 1 1, valid_until = None, mem_state = ''current'',
     derived_from = [], mem_purpose = ''market-research''\<rparr>"

record decision =
  allowed :: bool
  ids :: "string list"
  err :: string
  receipt :: string

text \<open>\<^verbatim>\<open>Decision(False, error=e)\<close>\<close>

definition refused :: "string \<Rightarrow> decision" where
  "refused e = \<lparr>allowed = False, ids = [], err = e, receipt = []\<rparr>"

definition digest :: "string \<Rightarrow> string" where
  "digest v = ''sha256:'' @ sha256_hex v"

definition words :: "string \<Rightarrow> string set" where
  "words v = set (find_tokens (py_lower v))"

record backend =
  memories :: "(string, memory) pydict"
  nonces :: "(string \<times> string) set"
  idempotency :: "(string, decision) pydict"

definition new_backend :: backend where
  "new_backend = \<lparr>memories = [], nonces = {}, idempotency = []\<rparr>"

subsection \<open>Operations\<close>

definition claim :: "actor \<Rightarrow> string \<Rightarrow> backend \<Rightarrow> bool \<times> backend" where
  "claim a n s =
     (let key = (act_did a, n)
      in if key \<in> nonces s then (False, s) else (True, s\<lparr>nonces := insert key (nonces s)\<rparr>))"

definition authorized :: "memory \<Rightarrow> actor \<Rightarrow> bool" where
  "authorized m a \<longleftrightarrow> mem_tenant m = act_tenant a \<and> mem_space m = act_space a
     \<and> sensitivity m \<le> act_clearance a \<and> mem_purpose m = act_purpose a"

definition remember :: "memory \<Rightarrow> actor \<Rightarrow> string \<Rightarrow> backend \<Rightarrow> decision \<times> backend" where
  "remember m a n s0 =
     (case claim a n s0 of (ok, s) \<Rightarrow>
      if \<not> ok \<or> \<not> act_can_mutate a then (refused ''replay-or-mutation-denied'', s)
      else if py_len (mem_text m) > MAX_TEXT_CHARS then (refused ''oversized-memory'', s)
      else if mem_tenant m \<noteq> act_tenant a \<or> mem_space m \<noteq> act_space a then (refused ''scope-denied'', s)
      else if sensitivity m > act_clearance a then (refused ''clearance-denied'', s)
      else
        let s' = s\<lparr>memories := dict_set (memory_id m) m (memories s)\<rparr>;
            r = digest (''remember:'' @ memory_id m @ '':'' @ source_digest m)
        in (\<lparr>allowed = True, ids = [memory_id m], err = [], receipt = r\<rparr>, s'))"

text \<open>The loop of \<open>recall\<close>, with its two \<^verbatim>\<open>continue\<close>s, and the final sort.\<close>

fun rank_loop :: "string set \<Rightarrow> actor \<Rightarrow> date \<Rightarrow> memory list \<Rightarrow> (nat \<times> string) list" where
  "rank_loop q a d [] = []"
| "rank_loop q a d (m # ms) =
     (if mem_state m \<noteq> ''current'' \<or> \<not> authorized m a then rank_loop q a d ms
      else if valid_from m > d \<or> (case valid_until m of None \<Rightarrow> False | Some u \<Rightarrow> d \<ge> u)
        then rank_loop q a d ms
      else let score = card (q \<inter> words (mem_text m))
        in if score \<noteq> 0 then (score, memory_id m) # rank_loop q a d ms
           else rank_loop q a d ms)"

definition rank_key :: "nat \<times> string \<Rightarrow> int \<times> string" where
  "rank_key item = (- int (fst item), snd item)"

definition recall :: "string \<Rightarrow> actor \<Rightarrow> date \<Rightarrow> string \<Rightarrow> backend \<Rightarrow> decision \<times> backend" where
  "recall q a as_of n s0 =
     (case claim a n s0 of (ok, s) \<Rightarrow>
      if \<not> ok then (refused ''replay'', s)
      else if py_len q > MAX_QUERY_CHARS then (refused ''oversized-query'', s)
      else
        let ranked = sort_key rank_key (rank_loop (words q) a as_of (dict_values (memories s)))
        in (\<lparr>allowed = True, ids = map snd ranked, err = [],
             receipt = digest (''recall:'' @ repr_pairs ranked)\<rparr>, s))"

definition improve :: "string \<Rightarrow> memory \<Rightarrow> actor \<Rightarrow> string \<Rightarrow> string \<Rightarrow> string \<Rightarrow> backend
    \<Rightarrow> decision \<times> backend" where
  "improve i rep a n expected key s0 =
     (case claim a n s0 of (ok, s) \<Rightarrow>
      if \<not> ok \<or> \<not> act_can_mutate a then (refused ''replay-or-mutation-denied'', s)
      else case dict_get (idempotency s) key of
        Some dec \<Rightarrow> (dec, s)
      | None \<Rightarrow>
         (case dict_get (memories s) i of
            None \<Rightarrow> (refused ''stale-source'', s)
          | Some current \<Rightarrow>
              if source_digest current \<noteq> expected then (refused ''stale-source'', s)
              else if \<not> authorized current a \<or> sensitivity rep > act_clearance a
                then (refused ''authorization-denied'', s)
              else
                let ms = dict_set i (current\<lparr>mem_state := ''superseded''\<rparr>) (memories s);
                    ms' = dict_set (memory_id rep) rep ms;
                    r = digest (''improve:'' @ i @ '':'' @ memory_id rep);
                    dec = \<lparr>allowed = True, ids = [i, memory_id rep], err = [], receipt = r\<rparr>
                in (dec, s\<lparr>memories := ms', idempotency := dict_set key dec (idempotency s)\<rparr>)))"

text \<open>The loop over the snapshot of the items that forgets the derived memories.\<close>

fun forget_derived :: "string \<Rightarrow> (string \<times> memory) list \<Rightarrow> (string, memory) pydict
    \<Rightarrow> (string, memory) pydict" where
  "forget_derived i [] d = d"
| "forget_derived i ((k, v) # items) d =
     forget_derived i items
       (if i \<in> set (derived_from v) then dict_set k (v\<lparr>mem_state := ''forgotten''\<rparr>) d else d)"

definition forget :: "string \<Rightarrow> actor \<Rightarrow> string \<Rightarrow> backend \<Rightarrow> decision \<times> backend" where
  "forget i a n s0 =
     (case claim a n s0 of (ok, s) \<Rightarrow>
      if \<not> ok \<or> \<not> act_can_mutate a then (refused ''replay-or-mutation-denied'', s)
      else case dict_get (memories s) i of
        None \<Rightarrow> (refused ''authorization-denied'', s)
      | Some m \<Rightarrow>
          if \<not> authorized m a then (refused ''authorization-denied'', s)
          else
            let ms = dict_set i (m\<lparr>mem_state := ''forgotten''\<rparr>) (memories s)
            in (\<lparr>allowed = True, ids = [i], err = [], receipt = digest (''forget:'' @ i)\<rparr>,
                s\<lparr>memories := forget_derived i ms ms\<rparr>))"

text \<open>A fresh backend that receives copies of the durable attributes.\<close>

definition restart :: "backend \<Rightarrow> backend" where
  "restart s = new_backend\<lparr>memories := memories s, nonces := nonces s, idempotency := idempotency s\<rparr>"

definition seed :: "backend \<Rightarrow> backend" where
  "seed s0 =
     (let operator = new_actor ''did:key:operator'';
          s1 = snd (remember
            ((new_memory ''price-old'' ''Honduras coffee price was 3.80 USD per kg at San Pedro Sula''
               ''dataverse:coffee:2025-12'' (digest ''price-old''))
               \<lparr>valid_from := Date 2025 1 1, valid_until := Some (Date 2026 1 1)\<rparr>)
            operator ''seed-old'' s0);
          s2 = snd (remember
            (new_memory ''price-current'' ''Honduras coffee price is 4.20 USD per kg at San Pedro Sula''
               ''dataverse:coffee:2026-01'' (digest ''price-current''))
            operator ''seed-current'' s1);
          s3 = snd (remember
            ((new_memory ''private-farm'' ''Private farm price is 9.00 USD per kg''
               ''private:farm-7'' (digest ''private-farm''))\<lparr>sensitivity := 3\<rparr>)
            (operator\<lparr>act_clearance := 3\<rparr>) ''seed-private'' s2)
      in snd (remember
            (new_memory ''soil'' ''Honduras coffee farms use volcanic soil at high altitude''
               ''agstack:soil'' (digest ''soil''))
            operator ''seed-soil'' s3))"

lemmas backend_ops [op_defs] =
  claim_def remember_def recall_def improve_def forget_def restart_def

subsection \<open>Claims of nonces\<close>

lemma claim_cases:
  obtains (replayed) "(act_did a, n) \<in> nonces s" "claim a n s = (False, s)"
    | (fresh) "(act_did a, n) \<notin> nonces s"
        "claim a n s = (True, s\<lparr>nonces := insert (act_did a, n) (nonces s)\<rparr>)"
  by (cases "(act_did a, n) \<in> nonces s") (auto simp: claim_def Let_def)

text \<open>
  Replay protection as an interface: an operation that claims a key once. Any store whose
  operations only ever add keys, and which refuses a key it holds, keeps each key from being
  accepted twice.
\<close>

locale nonce_store =
  fixes seen :: "'s \<Rightarrow> 'k set"
    and run_op :: "'op \<Rightarrow> 's \<Rightarrow> 'r \<times> 's"
    and key_of :: "'op \<Rightarrow> 'k option"
    and refusal :: "'op \<Rightarrow> 'r \<Rightarrow> bool"
  assumes seen_grows: "seen s \<subseteq> seen (snd (run_op x s))"
    and key_is_seen: "key_of x = Some k \<Longrightarrow> k \<in> seen (snd (run_op x s))"
    and seen_is_refused: "key_of x = Some k \<Longrightarrow> k \<in> seen s \<Longrightarrow>
        refusal x (fst (run_op x s)) \<and> snd (run_op x s) = s"
begin

definition run_all :: "'op list \<Rightarrow> 's \<Rightarrow> 's" where
  "run_all xs s = foldl (\<lambda>t x. snd (run_op x t)) s xs"

lemma run_all_simps [simp]:
  "run_all [] s = s" "run_all (x # xs) s = run_all xs (snd (run_op x s))"
  by (simp_all add: run_all_def)

lemma run_all_grows: "seen s \<subseteq> seen (run_all xs s)"
  by (induction xs arbitrary: s) (use seen_grows in force)+

lemma replay_refused:
  assumes "key_of x = Some k" and "key_of y = Some k"
  shows "refusal y (fst (run_op y (run_all xs (snd (run_op x s)))))
    \<and> snd (run_op y (run_all xs (snd (run_op x s)))) = run_all xs (snd (run_op x s))"
  using seen_is_refused[OF assms(2)] key_is_seen[OF assms(1)] run_all_grows by blast

end

subsection \<open>Sequences of calls\<close>

datatype op =
    Remember memory actor string
  | Recall string actor date string
  | Improve string memory actor string string string
  | Forget string actor string
  | Restart

fun run_op :: "op \<Rightarrow> backend \<Rightarrow> decision option \<times> backend" where
  "run_op (Remember m a n) s = map_prod Some id (remember m a n s)"
| "run_op (Recall q a d n) s = map_prod Some id (recall q a d n s)"
| "run_op (Improve i rep a n e k) s = map_prod Some id (improve i rep a n e k s)"
| "run_op (Forget i a n) s = map_prod Some id (forget i a n s)"
| "run_op Restart s = (None, restart s)"

fun op_nonce :: "op \<Rightarrow> (string \<times> string) option" where
  "op_nonce (Remember m a n) = Some (act_did a, n)"
| "op_nonce (Recall q a d n) = Some (act_did a, n)"
| "op_nonce (Improve i rep a n e k) = Some (act_did a, n)"
| "op_nonce (Forget i a n) = Some (act_did a, n)"
| "op_nonce Restart = None"

fun run_ops :: "op list \<Rightarrow> backend \<Rightarrow> backend" where
  "run_ops [] s = s"
| "run_ops (x # xs) s = run_ops xs (snd (run_op x s))"

lemma restart_id [simp]: "restart s = s"
  by (simp add: restart_def new_backend_def)

text \<open>What each call may do to the state, whatever its outcome.\<close>

lemma remember_cases:
  obtains (refusal) e s' where "remember m a n s = (refused e, s')" "memories s' = memories s"
      "idempotency s' = idempotency s" "nonces s' = insert (act_did a, n) (nonces s)"
    | (applied) "(act_did a, n) \<notin> nonces s" "act_can_mutate a"
      "py_len (mem_text m) \<le> MAX_TEXT_CHARS"
      "mem_tenant m = act_tenant a" "mem_space m = act_space a" "sensitivity m \<le> act_clearance a"
      "remember m a n s =
        (\<lparr>allowed = True, ids = [memory_id m], err = [],
          receipt = digest (''remember:'' @ memory_id m @ '':'' @ source_digest m)\<rparr>,
         s\<lparr>memories := dict_set (memory_id m) m (memories s),
           nonces := insert (act_did a, n) (nonces s)\<rparr>)"
proof (cases rule: claim_cases[of a n s])
  case replayed
  then show thesis by (intro refusal[of "''replay-or-mutation-denied''" s]) (auto simp: remember_def)
next
  case fresh
  let ?s = "s\<lparr>nonces := insert (act_did a, n) (nonces s)\<rparr>"
  show thesis
  proof (cases "act_can_mutate a \<and> py_len (mem_text m) \<le> MAX_TEXT_CHARS \<and> mem_tenant m = act_tenant a
      \<and> mem_space m = act_space a \<and> sensitivity m \<le> act_clearance a")
    case True
    with fresh show thesis by (intro applied) (auto simp: remember_def Let_def)
  next
    case False
    then have "\<exists>e. remember m a n s = (refused e, ?s)"
      using fresh by (auto simp: remember_def Let_def not_le not_less)
    then obtain e where "remember m a n s = (refused e, ?s)" by blast
    then show thesis by (rule refusal) auto
  qed
qed

lemma recall_state: "snd (recall q a d n s) = s\<lparr>nonces := insert (act_did a, n) (nonces s)\<rparr>"
  by (cases rule: claim_cases[of a n s]) (auto simp: recall_def Let_def insert_absorb)

lemma improve_cases:
  obtains (refusal) e s' where "improve i rep a n x k s = (refused e, s')" "memories s' = memories s"
      "idempotency s' = idempotency s" "nonces s' = insert (act_did a, n) (nonces s)"
    | (retried) dec where "dict_get (idempotency s) k = Some dec" "act_can_mutate a"
      "(act_did a, n) \<notin> nonces s"
      "improve i rep a n x k s = (dec, s\<lparr>nonces := insert (act_did a, n) (nonces s)\<rparr>)"
    | (applied) m dec where "dict_get (idempotency s) k = None" "act_can_mutate a"
      "(act_did a, n) \<notin> nonces s" "dict_get (memories s) i = Some m" "source_digest m = x"
      "authorized m a" "sensitivity rep \<le> act_clearance a"
      "dec = \<lparr>allowed = True, ids = [i, memory_id rep], err = [],
              receipt = digest (''improve:'' @ i @ '':'' @ memory_id rep)\<rparr>"
      "improve i rep a n x k s = (dec,
         s\<lparr>memories := dict_set (memory_id rep) rep
             (dict_set i (m\<lparr>mem_state := ''superseded''\<rparr>) (memories s)),
           nonces := insert (act_did a, n) (nonces s),
           idempotency := dict_set k dec (idempotency s)\<rparr>)"
proof (cases rule: claim_cases[of a n s])
  case replayed
  then show thesis by (intro refusal[of "''replay-or-mutation-denied''" s]) (auto simp: improve_def)
next
  case fresh
  let ?s = "s\<lparr>nonces := insert (act_did a, n) (nonces s)\<rparr>"
  show thesis
  proof (cases "act_can_mutate a")
    case False
    with fresh show thesis
      by (intro refusal[of "''replay-or-mutation-denied''" ?s]) (auto simp: improve_def)
  next
    case mut: True
    show thesis
    proof (cases "dict_get (idempotency s) k")
      case (Some dec)
      with fresh mut show thesis by (intro retried[of dec]) (auto simp: improve_def)
    next
      case None
      show thesis
      proof (cases "\<exists>m. dict_get (memories s) i = Some m \<and> source_digest m = x \<and> authorized m a
          \<and> sensitivity rep \<le> act_clearance a")
        case True
        then obtain m where "dict_get (memories s) i = Some m" "source_digest m = x" "authorized m a"
          "sensitivity rep \<le> act_clearance a" by blast
        with fresh mut None show thesis
          by (intro applied[of m]) (auto simp: improve_def Let_def)
      next
        case False
        then have "\<exists>e. improve i rep a n x k s = (refused e, ?s)"
          using fresh mut None by (auto simp: improve_def Let_def split: option.splits)
        then obtain e where "improve i rep a n x k s = (refused e, ?s)" by blast
        then show thesis by (rule refusal) auto
      qed
    qed
  qed
qed

lemma forget_cases:
  obtains (refusal) e s' where "forget i a n s = (refused e, s')" "memories s' = memories s"
      "idempotency s' = idempotency s" "nonces s' = insert (act_did a, n) (nonces s)"
    | (applied) m ms where "act_can_mutate a" "(act_did a, n) \<notin> nonces s"
      "dict_get (memories s) i = Some m" "authorized m a"
      "ms = dict_set i (m\<lparr>mem_state := ''forgotten''\<rparr>) (memories s)"
      "forget i a n s =
        (\<lparr>allowed = True, ids = [i], err = [], receipt = digest (''forget:'' @ i)\<rparr>,
         s\<lparr>memories := forget_derived i ms ms, nonces := insert (act_did a, n) (nonces s)\<rparr>)"
proof (cases rule: claim_cases[of a n s])
  case replayed
  then show thesis by (intro refusal[of "''replay-or-mutation-denied''" s]) (auto simp: forget_def)
next
  case fresh
  let ?s = "s\<lparr>nonces := insert (act_did a, n) (nonces s)\<rparr>"
  show thesis
  proof (cases "act_can_mutate a \<and> (\<exists>m. dict_get (memories s) i = Some m \<and> authorized m a)")
    case True
    then obtain m where "dict_get (memories s) i = Some m" "authorized m a" "act_can_mutate a"
      by blast
    with fresh show thesis by (intro applied[of m]) (auto simp: forget_def Let_def)
  next
    case False
    then have "\<exists>e. forget i a n s = (refused e, ?s)"
      using fresh by (auto simp: forget_def Let_def split: option.splits)
    then obtain e where "forget i a n s = (refused e, ?s)" by blast
    then show thesis by (rule refusal) auto
  qed
qed

end
