(* ===== verification/AgentLoop.thy ===== *)
theory AgentLoop
  imports Tools Prompts "HOL-Library.Sublist"
begin

text \<open>
  \<^verbatim>\<open>agent_harness/loop.py\<close>: the one shared agent loop. The transport is injected there and a parameter
  here: a call on a state of its own, given the messages, the tool schemas and the options. The
  state of a loop is the backend's and the transport's.
\<close>

subsection \<open>Bounds and the final answer\<close>

definition MAX_TURNS :: nat where "MAX_TURNS = 6"
definition MAX_IDS :: nat where "MAX_IDS = 8"
definition MAX_ID_CHARS :: nat where "MAX_ID_CHARS = 64"
definition MAX_TOOL_RESULT_CHARS :: nat where "MAX_TOOL_RESULT_CHARS = 2000"
definition MAX_TRANSCRIPT_CHARS :: nat where "MAX_TRANSCRIPT_CHARS = 24000"
definition HARNESS_SEED :: int where "HARNESS_SEED = 7"
definition TEMPERATURE :: int where "TEMPERATURE = 0"
definition NUM_CTX :: int where "NUM_CTX = 8192"

definition OPTIONS :: json where
  "OPTIONS = JObj [(''temperature'', JInt TEMPERATURE), (''seed'', JInt HARNESS_SEED), (''num_ctx'', JInt NUM_CTX)]"

record loop_result =
  lr_ids :: "string list"
  lr_turns :: nat
  lr_budget_exceeded :: bool
  lr_error :: string

definition loop_ids :: "string list \<Rightarrow> nat \<Rightarrow> loop_result" where
  "loop_ids xs n = \<lparr>lr_ids = xs, lr_turns = n, lr_budget_exceeded = False, lr_error = []\<rparr>"

definition loop_budget :: "nat \<Rightarrow> loop_result" where
  "loop_budget n = \<lparr>lr_ids = [], lr_turns = n, lr_budget_exceeded = True, lr_error = []\<rparr>"

definition loop_error :: "nat \<Rightarrow> string \<Rightarrow> loop_result" where
  "loop_error n e = \<lparr>lr_ids = [], lr_turns = n, lr_budget_exceeded = False, lr_error = e\<rparr>"

text \<open>\<^verbatim>\<open>text[text.find("[") : text.rfind("]") + 1]\<close>, if both are found in this order\<close>

definition bracketed :: "string \<Rightarrow> string option" where
  "bracketed t =
     (let from = dropWhile (\<lambda>c. c \<noteq> CHR ''['') t;
          part = rev (dropWhile (\<lambda>c. c \<noteq> CHR '']'') (rev from))
      in if from = [] \<or> part = [] then None else Some part)"

definition id_text :: "py_prims \<Rightarrow> json \<Rightarrow> string list" where
  "id_text p v = (case v of
       JStr s \<Rightarrow> [py_take MAX_ID_CHARS s]
     | JInt i \<Rightarrow> [py_take MAX_ID_CHARS (json_str p v)]
     | JBool b \<Rightarrow> [py_take MAX_ID_CHARS (json_str p v)]
     | _ \<Rightarrow> [])"

definition id_texts :: "py_prims \<Rightarrow> json list \<Rightarrow> string list" where
  "id_texts p items = concat (map (id_text p) (take MAX_IDS items))"

definition is_decode_error :: "py_error \<Rightarrow> bool" where
  "is_decode_error e \<longleftrightarrow> error_type e = ''JSONDecodeError''"

definition parse_final :: "py_prims \<Rightarrow> string \<Rightarrow> string list result" where
  "parse_final p content =
     (let t = py_strip content
      in case json_loads p t of
           Inr (JList items) \<Rightarrow> Inr (id_texts p items)
         | Inr _ \<Rightarrow> Inr []
         | Inl e \<Rightarrow>
             if \<not> is_decode_error e then Inl e
             else case bracketed t of
               None \<Rightarrow> Inr []
             | Some part \<Rightarrow>
                (case json_loads p part of
                   Inr (JList items) \<Rightarrow> Inr (id_texts p items)
                 | Inr _ \<Rightarrow> Inr []
                 | Inl e' \<Rightarrow> if is_decode_error e' then Inr [] else Inl e'))"

subsection \<open>The loop\<close>

text \<open>\<^verbatim>\<open>len(str(message.get("content", "")))\<close>; the messages of the loop are dictionaries\<close>

definition message_chars :: "py_prims \<Rightarrow> json \<Rightarrow> nat" where
  "message_chars p m = (case m of JObj d \<Rightarrow>
       (case dict_get d ''content'' of None \<Rightarrow> 0 | Some v \<Rightarrow> py_len (json_str p v)) | _ \<Rightarrow> 0)"

definition transcript_chars :: "py_prims \<Rightarrow> json list \<Rightarrow> nat" where
  "transcript_chars p ms = sum_list (map (message_chars p) ms)"

definition role_message :: "string \<Rightarrow> string \<Rightarrow> json" where
  "role_message r c = JObj [(''role'', JStr r), (''content'', JStr c)]"

text \<open>\<^verbatim>\<open>x or default\<close>\<close>

definition or_default :: "json option \<Rightarrow> json \<Rightarrow> json" where
  "or_default x d = (case x of None \<Rightarrow> d | Some v \<Rightarrow> if truthy v then v else d)"

definition get_or :: "json \<Rightarrow> string \<Rightarrow> json \<Rightarrow> json result" where
  "get_or v k d = bind_result (json_get v k) (\<lambda>x. Inr (case x of None \<Rightarrow> d | Some y \<Rightarrow> y))"

text \<open>the name and the arguments of a tool call; arguments in a text are parsed, and dropped when
  they are no JSON document\<close>

definition call_arguments :: "py_prims \<Rightarrow> json \<Rightarrow> json result" where
  "call_arguments p function =
     bind_result (json_get function ''arguments'') (\<lambda>a.
       case or_default a (JObj []) of
         JStr s \<Rightarrow> (case json_loads p s of
             Inr v \<Rightarrow> Inr v
           | Inl e \<Rightarrow> if is_decode_error e then Inr (JObj []) else Inl e)
       | v \<Rightarrow> Inr v)"

definition tool_message :: "py_prims \<Rightarrow> tool_result \<Rightarrow> json" where
  "tool_message p r =
     role_message ''tool'' (py_take MAX_TOOL_RESULT_CHARS (json_dumps p False (as_payload r)))"

text \<open>one tool call of the model, and the message it appends\<close>

definition tool_call :: "py_prims \<Rightarrow> ('s, 'h) agent_backend \<Rightarrow> 'h option \<Rightarrow> json \<Rightarrow> ('s, json) act" where
  "tool_call p backend session call =
     and_then (lift_result (get_or call ''function'' (JObj []))) (\<lambda>function.
     and_then (lift_result (text_argument p function ''name'')) (\<lambda>name.
     and_then (lift_result (call_arguments p function)) (\<lambda>arguments.
     and_then (dispatch_tool p backend session name arguments) (\<lambda>r.
       ret (tool_message p r)))))"

definition on_backend :: "('s, 'a) act \<Rightarrow> ('s \<times> 't, 'a) act" where
  "on_backend = on_part fst (\<lambda>s x. (s, snd x))"

definition on_transport :: "('t, 'a) act \<Rightarrow> ('s \<times> 't, 'a) act" where
  "on_transport = on_part snd (\<lambda>t x. (fst x, t))"

type_synonym 't transport = "json list \<Rightarrow> json list \<Rightarrow> json \<Rightarrow> ('t, json) act"

text \<open>what a turn ends in: a result, or the messages of the next turn\<close>

datatype turn_end = Done loop_result | Continue "json list"

definition turn :: "py_prims \<Rightarrow> 't transport \<Rightarrow> ('s, 'h) agent_backend \<Rightarrow> 'h option \<Rightarrow> nat \<Rightarrow> json list
    \<Rightarrow> ('s \<times> 't, turn_end) act" where
  "turn p transport backend session n messages =
     (if transcript_chars p messages > MAX_TRANSCRIPT_CHARS then ret (Done (loop_budget n))
      else and_then
        (catch
          (and_then (on_transport (transport messages TOOL_SCHEMAS OPTIONS)) (\<lambda>r. ret (Inr r)))
          (\<lambda>e. ret (Inl (py_take 256 (error_text e)))))
        (\<lambda>reply. case reply of
           Inl e \<Rightarrow> ret (Done (loop_error n e))
         | Inr response \<Rightarrow>
             and_then (lift_result (get_or response ''message'' (JObj []))) (\<lambda>message.
             and_then (lift_result (json_get message ''tool_calls'')) (\<lambda>tc.
             and_then (lift_result (text_argument p message ''content'')) (\<lambda>content.
               let tool_calls = or_default tc (JList [])
               in if \<not> truthy tool_calls then
                    and_then (lift_result (parse_final p content)) (\<lambda>xs. ret (Done (loop_ids xs n)))
                  else
                    and_then (lift_result (json_iter tool_calls)) (\<lambda>calls.
                    and_then (on_backend (map_act (tool_call p backend session) calls)) (\<lambda>results.
                      ret (Continue (messages
                        @ [JObj [(''role'', JStr ''assistant''), (''content'', JStr content),
                                 (''tool_calls'', JList calls)]]
                        @ results)))))))))"

text \<open>the turns left, from turn \<open>n\<close> on\<close>

fun turns :: "nat \<Rightarrow> nat \<Rightarrow> py_prims \<Rightarrow> 't transport \<Rightarrow> ('s, 'h) agent_backend \<Rightarrow> 'h option \<Rightarrow> json list
    \<Rightarrow> ('s \<times> 't, loop_result) act" where
  "turns 0 n p transport backend session messages = ret (loop_budget MAX_TURNS)"
| "turns (Suc left) n p transport backend session messages =
     and_then (turn p transport backend session n messages) (\<lambda>e. case e of
       Done r \<Rightarrow> ret r
     | Continue messages' \<Rightarrow> turns left (Suc n) p transport backend session messages')"

definition initial_messages :: "string \<Rightarrow> json list" where
  "initial_messages prompt = [role_message ''system'' SYSTEM_PROMPT, role_message ''user'' prompt]"

definition run_operation :: "py_prims \<Rightarrow> 't transport \<Rightarrow> ('s, 'h) agent_backend \<Rightarrow> 'h option \<Rightarrow> string
    \<Rightarrow> ('s \<times> 't, loop_result) act" where
  "run_operation p transport backend session prompt =
     turns MAX_TURNS 1 p transport backend session (initial_messages prompt)"

subsection \<open>Isolation of a whole operation\<close>

definition pair_rel :: "('s \<Rightarrow> 's \<Rightarrow> bool) \<Rightarrow> 's \<times> 't \<Rightarrow> 's \<times> 't \<Rightarrow> bool" where
  "pair_rel R x y \<longleftrightarrow> R (fst x) (fst y) \<and> snd x = snd y"

lemma blind_on_backend: "blind R m \<Longrightarrow> blind (pair_rel R) (on_backend m)"
  by (rule blindI) (auto simp: on_backend_def on_part_def pair_rel_def split: prod.splits dest: blindD)

lemma blind_on_transport: "blind (pair_rel R) (on_transport m)"
  by (rule blindI) (auto simp: on_transport_def on_part_def pair_rel_def split: prod.splits)

context isolated_session
begin

lemma tool_call_blind: "blind same (tool_call p backend session call)"
  unfolding tool_call_def by (intro blind_and_then blind_lift blind_ret dispatch_blind)

lemma turn_blind: "blind (pair_rel same) (turn p transport backend session n messages)"
  unfolding turn_def Let_def
  by (intro blind_if blind_ret blind_and_then blind_catch blind_on_transport)
    (auto split: sum.splits intro!: blind_if blind_ret blind_and_then blind_lift blind_on_backend
      blind_map_act tool_call_blind)

lemma turns_blind: "blind (pair_rel same) (turns left n p transport backend session messages)"
proof (induction left arbitrary: n messages)
  case (Suc left)
  have "blind (pair_rel same) (case e of Done r \<Rightarrow> ret r
      | Continue ms \<Rightarrow> turns left (Suc n) p transport backend session ms)" for e
    using Suc by (cases e) auto
  then show ?case by (simp add: blind_and_then turn_blind)
qed simp

lemma run_operation_blind: "blind (pair_rel same) (run_operation p transport backend session prompt)"
  unfolding run_operation_def by (rule turns_blind)

end

subsection \<open>Bounds\<close>

lemma id_text_small: "length (id_text p v) \<le> 1" "x \<in> set (id_text p v) \<Longrightarrow> py_len x \<le> MAX_ID_CHARS"
  by (cases v; simp add: id_text_def py_len_take)+

lemma length_id_texts: "length (id_texts p items) \<le> MAX_IDS"
proof -
  have "length (concat (map (id_text p) xs)) \<le> length xs" for xs
  proof (induction xs)
    case (Cons v xs)
    then show ?case using id_text_small(1)[of p v] by simp
  qed simp
  from this[of "take MAX_IDS items"] show ?thesis by (simp add: id_texts_def)
qed

lemma id_texts_chars: "x \<in> set (id_texts p items) \<Longrightarrow> py_len x \<le> MAX_ID_CHARS"
  using id_text_small(2) by (auto simp: id_texts_def)

definition ids_bounded :: "string list \<Rightarrow> bool" where
  "ids_bounded xs \<longleftrightarrow> length xs \<le> MAX_IDS \<and> (\<forall>x \<in> set xs. py_len x \<le> MAX_ID_CHARS)"

lemma ids_bounded_Nil [simp]: "ids_bounded []"
  by (simp add: ids_bounded_def)

lemma ids_bounded_texts [simp]: "ids_bounded (id_texts p items)"
  by (simp add: ids_bounded_def length_id_texts id_texts_chars)

lemma parse_final_bounded: "parse_final p c = Inr xs \<Longrightarrow> ids_bounded xs"
  by (auto simp: parse_final_def Let_def split: sum.splits json.splits if_splits option.splits)

text \<open>a transport that also records the messages of every call\<close>

definition recording :: "'t transport \<Rightarrow> ('t \<times> json list list) transport" where
  "recording tr ms tools opts x =
     (case tr ms tools opts (fst x) of (r, t) \<Rightarrow> (r, (t, snd x @ [ms])))"

lemma on_backend_eq: "on_backend m x = (fst (m (fst x)), (snd (m (fst x)), snd x))"
  by (simp add: on_backend_def on_part_def split: prod.splits)

lemma on_recording_eq:
  "on_transport (recording tr ms tools opts) x =
     (fst (tr ms tools opts (fst (snd x))), (fst x, (snd (tr ms tools opts (fst (snd x))), snd (snd x) @ [ms])))"
  by (simp add: on_transport_def on_part_def recording_def split: prod.splits)

definition turn_log_ok :: "py_prims \<Rightarrow> nat \<Rightarrow> json list \<Rightarrow> json list list \<Rightarrow> turn_end result \<Rightarrow> json list list \<Rightarrow> bool" where
  "turn_log_ok p n ms lg r lg1 \<longleftrightarrow>
     (lg1 = lg \<or> lg1 = lg @ [ms] \<and> transcript_chars p ms \<le> MAX_TRANSCRIPT_CHARS)
     \<and> (\<forall>e. r = Inr (Done e) \<longrightarrow> ids_bounded (lr_ids e) \<and> lr_turns e = n)
     \<and> (\<forall>ms'. r = Inr (Continue ms') \<longrightarrow> prefix ms ms')"

lemma turn_recorded:
  fixes x :: "'s \<times> 't \<times> json list list" and b :: "('s, 'h) agent_backend"
  assumes "turn p (recording tr) b h n ms x = (r, y)"
  shows "turn_log_ok p n ms (snd (snd x)) r (snd (snd y))"
proof (cases "transcript_chars p ms > MAX_TRANSCRIPT_CHARS")
  case True
  then show ?thesis using assms by (auto simp: turn_def turn_log_ok_def loop_budget_def)
next
  case False
  define call :: "('s \<times> 't \<times> json list list, string + json) act" where "call = catch
    (and_then (on_transport (recording tr ms TOOL_SCHEMAS OPTIONS)) (\<lambda>r. ret (Inr r)))
    (\<lambda>e. ret (Inl (py_take 256 (error_text e))))"
  obtain reply z where z: "call x = (Inr reply, z)" and lg: "snd (snd z) = snd (snd x) @ [ms]"
    by (cases "fst (tr ms TOOL_SCHEMAS OPTIONS (fst (snd x)))")
      (auto simp: call_def catch_def and_then_def on_recording_eq)
  have t: "turn p (recording tr) b h n ms x = (case reply of
           Inl e \<Rightarrow> ret (Done (loop_error n e))
         | Inr response \<Rightarrow>
             and_then (lift_result (get_or response ''message'' (JObj []))) (\<lambda>message.
             and_then (lift_result (json_get message ''tool_calls'')) (\<lambda>tc.
             and_then (lift_result (text_argument p message ''content'')) (\<lambda>content.
               let tool_calls = or_default tc (JList [])
               in if \<not> truthy tool_calls then
                    and_then (lift_result (parse_final p content)) (\<lambda>xs. ret (Done (loop_ids xs n)))
                  else
                    and_then (lift_result (json_iter tool_calls)) (\<lambda>calls.
                    and_then (on_backend (map_act (tool_call p b h) calls)) (\<lambda>results.
                      ret (Continue (ms
                        @ [JObj [(''role'', JStr ''assistant''), (''content'', JStr content),
                                 (''tool_calls'', JList calls)]]
                        @ results)))))))) z"
    using False z by (simp add: turn_def flip: call_def)
  show ?thesis
    using assms False lg unfolding t
    apply (cases reply)
     apply (auto simp: turn_log_ok_def loop_error_def loop_ids_def Let_def on_backend_eq
        elim!: and_then_cases split: if_splits)
    apply (erule parse_final_bounded)
    done
qed

lemma turns_recorded:
  assumes "turns left n p (recording tr) b h ms x = (r, y)"
  shows "\<exists>new. snd (snd y) = snd (snd x) @ new \<and> length new \<le> left
    \<and> (\<forall>m \<in> set new. transcript_chars p m \<le> MAX_TRANSCRIPT_CHARS \<and> prefix ms m)
    \<and> (\<forall>e. r = Inr e \<longrightarrow> ids_bounded (lr_ids e) \<and> (n \<le> lr_turns e \<and> lr_turns e < n + left \<or> lr_turns e = MAX_TURNS))"
  using assms
proof (induction left arbitrary: n ms x r y)
  case 0
  then show ?case by (auto simp: loop_budget_def)
next
  case (Suc left)
  from Suc.prems[unfolded turns.simps] show ?case
  proof (cases rule: and_then_cases)
    case (error e)
    from turn_recorded[OF error(1)] error(2) show ?thesis by (auto simp: turn_log_ok_def)
  next
    case (ok e z)
    note l = turn_recorded[OF ok(1)]
    show ?thesis
    proof (cases e)
      case (Done lr)
      then show ?thesis using ok(2) l by (auto simp: turn_log_ok_def)
    next
      case (Continue ms')
      then obtain new where new: "snd (snd y) = snd (snd z) @ new" "length new \<le> left"
        "\<forall>m \<in> set new. transcript_chars p m \<le> MAX_TRANSCRIPT_CHARS \<and> prefix ms' m"
        "\<forall>e. r = Inr e \<longrightarrow> ids_bounded (lr_ids e) \<and> (Suc n \<le> lr_turns e \<and> lr_turns e < Suc n + left \<or> lr_turns e = MAX_TURNS)"
        using Suc.IH[of "Suc n" ms' z r y] ok(2) by auto
      have pre: "prefix ms ms'" using l Continue by (auto simp: turn_log_ok_def)
      have "snd (snd z) = snd (snd x) \<or> snd (snd z) = snd (snd x) @ [ms] \<and> transcript_chars p ms \<le> MAX_TRANSCRIPT_CHARS"
        using l by (auto simp: turn_log_ok_def)
      then show ?thesis
      proof
        assume "snd (snd z) = snd (snd x)"
        with new pre show ?thesis by (intro exI[of _ new]) (auto dest: prefix_order.trans)
      next
        assume "snd (snd z) = snd (snd x) @ [ms] \<and> transcript_chars p ms \<le> MAX_TRANSCRIPT_CHARS"
        with new pre show ?thesis by (intro exI[of _ "ms # new"]) (auto dest: prefix_order.trans)
      qed
    qed
  qed
qed

subsection \<open>Properties\<close>

text \<open>C13: The harness bounds hold whatever the model and the backend do: in one operation the
  transport is called at most six times, each time with the frozen system prompt and the operation's
  prompt first and with a transcript of at most 24,000 characters, and a result has at most eight
  ids of at most 64 characters, after between one and six turns.\<close>

theorem operation_bounded:
  assumes "run_operation p (recording tr) b h prompt (s, (t, [])) = (r, (s', (t', lg)))"
  shows "length lg \<le> 6
    \<and> (\<forall>m \<in> set lg. transcript_chars p m \<le> 24000
         \<and> take 2 m = [role_message ''system'' SYSTEM_PROMPT, role_message ''user'' prompt])
    \<and> (\<forall>e. r = Inr e \<longrightarrow> length (lr_ids e) \<le> 8 \<and> (\<forall>i \<in> set (lr_ids e). py_len i \<le> 64)
         \<and> 1 \<le> lr_turns e \<and> lr_turns e \<le> 6)"
proof -
  have t2: "take 2 m = initial_messages prompt" if "prefix (initial_messages prompt) m" for m
    using that by (auto simp: prefix_def initial_messages_def)
  obtain new where "lg = new" "length new \<le> MAX_TURNS"
    "\<forall>m \<in> set new. transcript_chars p m \<le> MAX_TRANSCRIPT_CHARS \<and> prefix (initial_messages prompt) m"
    "\<forall>e. r = Inr e \<longrightarrow> ids_bounded (lr_ids e) \<and> (1 \<le> lr_turns e \<and> lr_turns e < 1 + MAX_TURNS \<or> lr_turns e = MAX_TURNS)"
    using turns_recorded[OF assms[unfolded run_operation_def]] by auto
  with t2 show ?thesis
    by (auto simp: MAX_TURNS_def MAX_TRANSCRIPT_CHARS_def ids_bounded_def MAX_IDS_def MAX_ID_CHARS_def
        initial_messages_def)
qed

subsection \<open>A number too long to be an abstention\<close>

lemma digit_not_special:
  assumes "is_digit c"
  shows "c \<noteq> CHR 0x22" "c \<noteq> CHR ''[''" "c \<noteq> CHR ''{''" "c \<noteq> CHR ''-''" "\<not> json_space c" "\<not> digit7 c"
  using assms by (auto simp: is_digit_def json_space_def) (cases c; simp split: if_splits)

lemma digits_strip:
  assumes "\<forall>c \<in> set ds. is_digit c"
  shows "py_strip ds = ds"
proof -
  have asc: "is_ascii ds" using assms digit_not_special(6) by (auto simp: is_ascii_def)
  have ns: "\<not> is_space [c]" if "is_digit c" for c
  proof
    assume "is_space [c]"
    then have "(of_char c :: nat) \<in> {9, 10, 11, 12, 13, 28, 29, 30, 31, 32}"
      by (auto simp: is_space_def space_chunks_def)
    moreover have "48 \<le> (of_char c :: nat)" using that by (simp add: is_digit_def less_eq_char_def)
    ultimately show False by auto
  qed
  have id: "dropWhile is_space (map (\<lambda>c. [c]) xs) = map (\<lambda>c. [c]) xs" if "\<forall>c \<in> set xs. is_digit c" for xs
    using that ns by (cases xs) auto
  show ?thesis
    using assms id[of ds] id[of "rev ds"]
    by (simp add: py_strip_def chunks_ascii[OF asc] rev_map concat_map_singleton flip: rev_map)
qed

lemma digits_constant: "is_digit c \<Longrightarrow> take_constant (c # s) = None"
  using digit_not_special by (auto simp: take_constant_def json_constants_def is_digit_def split: list.splits)

text \<open>A final answer that is one number of more than 4,300 digits is no abstention: the conversion
  limit of Python raises a plain \<^verbatim>\<open>ValueError\<close>, which \<^verbatim>\<open>parse_final\<close> does not catch, so the whole
  operation ends in an exception.\<close>

theorem long_number_escapes_abstention:
  assumes "\<forall>c \<in> set ds. is_digit c" and "hd ds \<noteq> CHR ''0''" and "length ds > 4300"
  shows "\<exists>t. parse_final p ds = raise_error ''ValueError'' t"
proof -
  obtain c s where ds: "ds = c # s" using assms(3) by (cases ds) auto
  then have c: "is_digit c" "c \<noteq> CHR ''0''" using assms(1,2) by auto
  have sk: "skip_space ds = ds" using ds digit_not_special(5)[OF c(1)] by (simp add: skip_space_def)
  have tw: "takeWhile is_digit s = s" using assms(1) ds by (simp add: takeWhile_eq_all_conv)
  have "take_integer ds = (False, ds, [])"
    using ds c digit_not_special(4)[OF c(1)] by (simp add: take_integer_def Let_def tw)
  then have n: "take_number ds = Inl (TooManyDigits (length ds))"
    using assms(3) ds by (simp add: take_number_def take_fraction_def take_exponent_def MAX_INT_DIGITS_def)
  have "take_value (Suc m) ds = Inl (TooManyDigits (length ds))" for m
    using n digit_not_special[OF c(1)] digits_constant[OF c(1)] unfolding ds by simp
  then have "json_parse ds = Inl (TooManyDigits (length ds))"
    by (simp add: json_parse_def sk)
  then have "\<exists>t. json_loads p ds = raise_error ''ValueError'' t" by (simp add: json_loads_def)
  then show ?thesis
    using digits_strip[OF assms(1)] by (auto simp: parse_final_def is_decode_error_def)
qed

lemma long_number_escapes_abstention_witness:
  "\<exists>t. parse_final \<lparr>float_repr = (\<lambda>r. []), float_parse = (\<lambda>s. raise_error ''ValueError'' s), json_error_text = id\<rparr>
     (replicate 4301 (CHR ''7'')) = raise_error ''ValueError'' t"
proof (rule long_number_escapes_abstention)
  have "hd (replicate (Suc n) x) = x" for n and x :: char by simp
  from this[of 4300] show "hd (replicate 4301 (CHR ''7'')) \<noteq> CHR ''0''" by simp
qed (simp_all only: length_replicate set_replicate_conv_if, simp_all add: is_digit_def)

end
