(* ===== verification/Metrics.thy ===== *)
theory Metrics
  imports Json "HOL-Library.List_Lexorder"
begin

text \<open>
  \<^verbatim>\<open>adversarial_cognition/metrics.py\<close>: the metrics of a run. Floats are rational numbers;
  \<^verbatim>\<open>round\<close> rounds half to even.
\<close>

subsection \<open>Rounding and indexing\<close>

definition round_half_even :: "rat \<Rightarrow> int" where
  "round_half_even r =
     (let f = \<lfloor>r\<rfloor>; d = r - of_int f
      in if d < 1 / 2 then f else if d > 1 / 2 then f + 1 else if even f then f else f + 1)"

text \<open>\<^verbatim>\<open>round(r, 3)\<close>\<close>

definition round3 :: "rat \<Rightarrow> rat" where
  "round3 r = of_int (round_half_even (r * 1000)) / 1000"

text \<open>\<^verbatim>\<open>xs[i]\<close>, with Python's negative indices\<close>

definition py_index :: "'a list \<Rightarrow> int \<Rightarrow> 'a result" where
  "py_index xs i =
     (let j = (if i < 0 then i + int (length xs) else i)
      in if 0 \<le> j \<and> j < int (length xs) then Inr (xs ! nat j)
         else raise_error ''IndexError'' ''list index out of range'')"

lemma round_half_even_bounds: "\<lfloor>r\<rfloor> \<le> round_half_even r" "round_half_even r \<le> \<lfloor>r\<rfloor> + 1"
  by (auto simp: round_half_even_def Let_def)

lemma round_half_even_int [simp]: "round_half_even (of_int i) = i"
  by (simp add: round_half_even_def)

lemma round_half_even_mono: "r \<le> s \<Longrightarrow> round_half_even r \<le> round_half_even s"
proof -
  assume le: "r \<le> s"
  then have f: "\<lfloor>r\<rfloor> \<le> \<lfloor>s\<rfloor>" by (rule floor_mono)
  show ?thesis
  proof (cases "\<lfloor>r\<rfloor> = \<lfloor>s\<rfloor>")
    case True
    with le show ?thesis by (auto simp: round_half_even_def Let_def)
  next
    case False
    with f have "\<lfloor>r\<rfloor> + 1 \<le> \<lfloor>s\<rfloor>" by simp
    then show ?thesis using round_half_even_bounds[of r] round_half_even_bounds[of s] by linarith
  qed
qed

lemma round_half_even_near: "\<bar>of_int (round_half_even r) - r\<bar> \<le> 1 / 2"
proof -
  have "of_int \<lfloor>r\<rfloor> \<le> r" "r < of_int \<lfloor>r\<rfloor> + 1" by linarith+
  then show ?thesis by (auto simp: round_half_even_def Let_def)
qed

subsection \<open>Case results and their summary\<close>

record case_result =
  cr_case_id :: string
  cr_expected_ids :: "string list"
  cr_returned_ids :: "string list"
  cr_redacted_ids :: "string list"
  cr_latency_us :: rat
  cr_context_tokens :: int

definition cr_correct :: "case_result \<Rightarrow> bool" where
  "cr_correct r \<longleftrightarrow> cr_expected_ids r = cr_returned_ids r"

definition percentile :: "rat list \<Rightarrow> rat \<Rightarrow> rat result" where
  "percentile values pct =
     (if values = [] then Inr 0
      else let ordered = sort values;
               index = min (int (length ordered) - 1)
                 (round_half_even (pct / 100 * of_nat (length ordered - 1)))
           in py_index ordered index)"

text \<open>\<^verbatim>\<open>statistics.median\<close> of a list that is not empty\<close>

definition median :: "rat list \<Rightarrow> rat" where
  "median values =
     (let ordered = sort values; n = length ordered
      in if odd n then ordered ! (n div 2) else (ordered ! (n div 2 - 1) + ordered ! (n div 2)) / 2)"

definition count_if :: "('a \<Rightarrow> bool) \<Rightarrow> 'a list \<Rightarrow> nat" where
  "count_if P xs = length (filter P xs)"

definition summarize :: "case_result list \<Rightarrow> (string \<times> json) list result" where
  "summarize rows =
     (let latencies = map cr_latency_us rows; n = length rows
      in bind_result (percentile latencies 95) (\<lambda>p95.
         bind_result (percentile latencies 99) (\<lambda>p99.
         Inr [(''cases'', JInt (int n)),
           (''accuracy'', JFloat (if rows \<noteq> [] then of_nat (count_if cr_correct rows) / of_nat n else 0)),
           (''redaction_leaks'', JInt (int (count_if
               (\<lambda>r. set (cr_redacted_ids r) \<inter> set (cr_returned_ids r) \<noteq> {}) rows))),
           (''mean_context_tokens'', JFloat (if rows \<noteq> []
               then of_int (sum_list (map cr_context_tokens rows)) / of_nat n else 0)),
           (''p50_latency_us'', JFloat (if latencies \<noteq> [] then median latencies else 0)),
           (''p95_latency_us'', JFloat p95),
           (''p99_latency_us'', JFloat p99)])))"

subsection \<open>Percentiles\<close>

definition pct_index :: "nat \<Rightarrow> rat \<Rightarrow> nat" where
  "pct_index n pct = nat (round_half_even (pct / 100 * of_nat (n - 1)))"

lemma pct_index_bounds:
  assumes "0 \<le> pct" "pct \<le> 100"
  shows "0 \<le> round_half_even (pct / 100 * of_nat m)" "round_half_even (pct / 100 * of_nat m) \<le> int m"
proof -
  have "0 \<le> pct / 100 * of_nat m" using assms by simp
  then show "0 \<le> round_half_even (pct / 100 * of_nat m)"
    using round_half_even_mono[of 0 "pct / 100 * of_nat m"] round_half_even_int[of 0] by simp
  have "pct / 100 * of_nat m \<le> of_int (int m)"
    using mult_right_mono[of "pct / 100" 1 "of_nat m :: rat"] assms by simp
  then show "round_half_even (pct / 100 * of_nat m) \<le> int m"
    using round_half_even_mono round_half_even_int[of "int m"] by metis
qed

lemma percentile_eq:
  assumes "values \<noteq> []" "0 \<le> pct" "pct \<le> 100"
  shows "percentile values pct = Inr (sort values ! pct_index (length values) pct)"
    "pct_index (length values) pct < length values"
proof -
  let ?m = "length values - 1"
  have l: "length values = Suc ?m" using assms(1) by (cases "values") auto
  note b = pct_index_bounds[OF assms(2,3), of ?m]
  then show i: "pct_index (length values) pct < length values"
    using l by (simp add: pct_index_def)
  have "min (int (length values) - 1) (round_half_even (pct / 100 * of_nat ?m)) = round_half_even (pct / 100 * of_nat ?m)"
    using b l by simp
  then show "percentile values pct = Inr (sort values ! pct_index (length values) pct)"
    using assms(1) b l by (simp add: percentile_def Let_def py_index_def pct_index_def)
qed

lemma pct_index_mono: "p \<le> q \<Longrightarrow> pct_index n p \<le> pct_index n q"
  unfolding pct_index_def
  by (intro nat_mono round_half_even_mono mult_right_mono divide_right_mono) auto

subsection \<open>Properties\<close>

text \<open>A percentile between 0 and 100 of some latencies never raises: it is one of them, does not
  decrease with the percentage, lies between the least (percentile 0) and the greatest (percentile
  100), and does not depend on the order of the latencies.\<close>

theorem percentile_correct:
  assumes "values \<noteq> []" and "0 \<le> p" "p \<le> q" "q \<le> 100" and "mset values = mset values'"
  shows "\<exists>v w. percentile values p = Inr v \<and> percentile values q = Inr w
    \<and> v \<in> set values \<and> Min (set values) \<le> v \<and> v \<le> w \<and> w \<le> Max (set values)
    \<and> percentile values 0 = Inr (Min (set values)) \<and> percentile values 100 = Inr (Max (set values))
    \<and> percentile values' p = percentile values p"
proof -
  let ?s = "sort values" and ?i = "pct_index (length values)"
  have i: "?i p < length values" "?i q < length values"
    using percentile_eq(2)[OF assms(1)] assms by auto
  have p: "percentile values p = Inr (?s ! ?i p)" "percentile values q = Inr (?s ! ?i q)"
    using percentile_eq(1)[OF assms(1)] assms by auto
  have mem: "?s ! j \<in> set values" if "j < length values" for j
    using that nth_mem[of j ?s] by simp
  have le: "?s ! ?i p \<le> ?s ! ?i q"
    using i pct_index_mono[OF assms(3)] by (intro sorted_nth_mono) auto
  have "?i 0 = 0" by (simp add: pct_index_def round_half_even_def)
  moreover have "Min (set values) = ?s ! 0"
  proof (intro Min_eqI)
    fix y
    assume "y \<in> set values"
    then obtain j where "j < length ?s" "y = ?s ! j" by (metis in_set_conv_nth set_sort)
    then show "?s ! 0 \<le> y" by (auto intro!: sorted_nth_mono)
  qed (use assms(1) mem in auto)
  ultimately have z: "percentile values 0 = Inr (Min (set values))"
    using percentile_eq(1)[OF assms(1), of 0] by simp
  have "?i 100 = length values - 1"
    using round_half_even_int[of "int (length values - 1)"] by (simp add: pct_index_def)
  moreover have "Max (set values) = ?s ! (length values - 1)"
  proof (intro Max_eqI)
    fix y
    assume "y \<in> set values"
    then obtain j where "j < length ?s" "y = ?s ! j" by (metis in_set_conv_nth set_sort)
    then show "y \<le> ?s ! (length values - 1)" by (auto intro!: sorted_nth_mono)
  qed (use assms(1) mem in auto)
  ultimately have h: "percentile values 100 = Inr (Max (set values))"
    using percentile_eq(1)[OF assms(1), of 100] by simp
  have "sort values' = ?s" using assms(5) by (metis properties_for_sort sorted_sort mset_sort)
  moreover have "values' \<noteq> []" "length values' = length values"
    using assms(1) assms(5)[symmetric] by (auto dest: mset_eq_length)
  ultimately have "percentile values' p = percentile values p"
    by (simp add: percentile_def assms(1))
  then show ?thesis using p le z h mem i assms(1) by auto
qed

lemma percentile_correct_witness:
  "percentile [3, 1, 2] 100 = Inr (Max {3, 1, 2})"
  using percentile_correct[of "[3, 1, 2]" 50 95 "[1, 2, 3]"] by auto

end
