(* ===== verification/ProtocolV2.thy ===== *)
theory ProtocolV2
  imports Protocol
begin

text \<open>
  \<^verbatim>\<open>adapters/protocol_v2.py\<close>: the memory-store driver with principals authenticated by the system
  itself. A system may have an authentication surface; without one, or with one that accepts a
  corrupted credential, its authorization claims are stripped before the replay.
\<close>

definition STRIPPED_CAPABILITIES :: "string set" where
  "STRIPPED_CAPABILITIES = {''isolation'', ''clearance'', ''purpose''}"

definition PROTOCOL_PRINCIPALS :: "string list" where
  "PROTOCOL_PRINCIPALS = [''operator'', ''analyst'', ''outsider'', ''advertiser'']"

record 's auth_surface =
  as_issued :: "('s, (string, string) pydict) act"
  as_authenticate :: "string \<Rightarrow> string \<Rightarrow> ('s, string option) act"

record 's v2_system =
  vs_memory :: "'s memory_system"
  vs_surface :: "'s auth_surface option"
  vs_mechanism :: "string option"

definition token_of :: "(string, string) pydict \<Rightarrow> string \<Rightarrow> string" where
  "token_of tokens who = (case dict_get tokens who of None \<Rightarrow> ''unauthenticated:'' @ who | Some t \<Rightarrow> t)"

definition token_view :: "'s memory_system \<Rightarrow> (string, string) pydict \<Rightarrow> 's memory_system" where
  "token_view sys tokens = sys\<lparr>
     ms_remember := (\<lambda>i t who. ms_remember sys i t (token_of tokens who)),
     ms_recall := (\<lambda>q who. ms_recall sys q (token_of tokens who)),
     ms_forget := (\<lambda>i who. ms_forget sys i (token_of tokens who)),
     ms_improve := (\<lambda>i i' t who. ms_improve sys i i' t (token_of tokens who))\<rparr>"

text \<open>the view, its capabilities, the mechanism and the verdict of the probe\<close>

record 's posture =
  po_view :: "'s memory_system"
  po_capabilities :: "string set"
  po_mechanism :: string
  po_check :: string

definition new_posture :: "'s memory_system \<Rightarrow> string set \<Rightarrow> string \<Rightarrow> string \<Rightarrow> 's posture" where
  "new_posture v cs m k = \<lparr>po_view = v, po_capabilities = cs, po_mechanism = m, po_check = k\<rparr>"

text \<open>the tokens of the principals, in order; a principal without one is left out\<close>

fun collect_tokens :: "'s auth_surface \<Rightarrow> (string, string) pydict \<Rightarrow> string list \<Rightarrow> (string, string) pydict
    \<Rightarrow> ('s, (string, string) pydict) act" where
  "collect_tokens a secrets [] tokens = ret tokens"
| "collect_tokens a secrets (who # ps) tokens =
     and_then (as_authenticate a who (secret_of secrets who)) (\<lambda>t.
       collect_tokens a secrets ps (case t of None \<Rightarrow> tokens | Some x \<Rightarrow> dict_set who x tokens))"

definition prepare :: "'s v2_system \<Rightarrow> ('s, 's posture) act" where
  "prepare v =
     (let sys = vs_memory v;
          mechanism = (case vs_mechanism v of None \<Rightarrow> ''none'' | Some m \<Rightarrow> m)
      in case vs_surface v of
           None \<Rightarrow> ret (new_posture sys (ms_capabilities sys - STRIPPED_CAPABILITIES) ''none''
             (if ms_capabilities sys \<inter> STRIPPED_CAPABILITIES = {} then ''not-applicable''
              else ''stripped-unauthenticated''))
         | Some a \<Rightarrow>
           and_then (as_issued a) (\<lambda>secrets.
           and_then (as_authenticate a ''operator'' (forged_secret (secret_of secrets ''operator''))) (\<lambda>forged.
             if forged \<noteq> None then
               ret (new_posture sys (ms_capabilities sys - STRIPPED_CAPABILITIES) mechanism ''failed-negative-probe'')
             else and_then (collect_tokens a secrets PROTOCOL_PRINCIPALS []) (\<lambda>tokens.
               ret (new_posture (token_view sys tokens) (ms_capabilities sys) mechanism ''passed'')))))"

definition scoped :: "'s posture \<Rightarrow> 's memory_system" where
  "scoped po = (po_view po)\<lparr>ms_capabilities := po_capabilities po\<rparr>"

definition run_v2 :: "py_prims \<Rightarrow> (json \<Rightarrow> rat) \<Rightarrow> 's v2_system \<Rightarrow> string \<Rightarrow> ('s, string) act" where
  "run_v2 p elapsed v stdin =
     and_then (lift_result (json_loads p stdin)) (\<lambda>request.
     and_then (prepare v) (\<lambda>po.
     and_then (lift_result (request_cases request)) (\<lambda>cases.
     and_then (map_act (protocol_run_case elapsed (scoped po) (''temporal'' \<in> po_capabilities po)) cases) (\<lambda>rows.
       ret (json_dumps p False (JObj [
         (''adapter_version'', JStr (ms_name (vs_memory v) @ ''-'' @ ms_version (vs_memory v))),
         (''interface'', JStr ''direct-api''),
         (''authorization_mechanism'', JStr (py_take 128 (po_mechanism po))),
         (''authorization_check'', JStr (po_check po)),
         (''cases'', JList (map JObj rows))]) @ [CHR 0x0A])))))"

text \<open>\<^verbatim>\<open>protocol.run\<close>: the version is chosen by the environment\<close>

definition protocol_run :: "py_prims \<Rightarrow> (json \<Rightarrow> rat) \<Rightarrow> (string, string) pydict \<Rightarrow> 's v2_system \<Rightarrow> string
    \<Rightarrow> ('s, string) act" where
  "protocol_run p elapsed environ v stdin =
     (if dict_get environ ''MARCIANA_PROTOCOL_V2'' = Some ''1'' then run_v2 p elapsed v stdin
      else protocol_run_v1 p elapsed (vs_memory v) stdin)"

end
