(* ===== verification/Identity.thy ===== *)
theory Identity
  imports Backend
begin

text \<open>
  \<^verbatim>\<open>adversarial_cognition/identity.py\<close>: the server-side registry of identities. A credential is
  the HMAC-SHA-256 of the DID under the registry's key; \<open>authenticate\<close> compares it with
  \<^verbatim>\<open>hmac.compare_digest\<close>, which raises \<^verbatim>\<open>TypeError\<close> for a text outside ASCII.
\<close>

subsection \<open>Data and operations\<close>

definition BENCHMARK_IDENTITY_KEY :: string where
  "BENCHMARK_IDENTITY_KEY = ''marciana-adversarial-v2-identity''"

record identity_record =
  idr_did :: string
  idr_tenant :: string
  idr_space :: string
  idr_purpose :: string
  idr_clearance :: int
  idr_can_mutate :: bool

text \<open>\<^verbatim>\<open>IdentityRecord(did)\<close>, the other fields at their defaults.\<close>

definition new_identity :: "string \<Rightarrow> identity_record" where
  "new_identity d = \<lparr>idr_did = d, idr_tenant = ''agstack'', idr_space = ''coffee'',
     idr_purpose = ''market-research'', idr_clearance = 1, idr_can_mutate = True\<rparr>"

datatype session = Session (session_record: identity_record)

record identity_registry =
  reg_key :: string
  reg_records :: "(string, identity_record) pydict"

definition new_registry :: "string \<Rightarrow> identity_registry" where
  "new_registry k = \<lparr>reg_key = k, reg_records = []\<rparr>"

definition credential :: "string \<Rightarrow> identity_registry \<Rightarrow> string" where
  "credential d r = hmac_sha256_hex (reg_key r) d"

definition register :: "identity_record \<Rightarrow> identity_registry \<Rightarrow> string \<times> identity_registry" where
  "register x r =
     (let r' = r\<lparr>reg_records := dict_set (idr_did x) x (reg_records r)\<rparr>
      in (credential (idr_did x) r', r'))"

text \<open>\<^verbatim>\<open>hmac.compare_digest\<close> on two strings\<close>

definition compare_digest :: "string \<Rightarrow> string \<Rightarrow> bool result" where
  "compare_digest a b =
     (if is_ascii a \<and> is_ascii b then Inr (a = b)
      else raise_error ''TypeError'' ''comparing strings with non-ASCII characters is not supported'')"

definition authenticate :: "string \<Rightarrow> string \<Rightarrow> identity_registry \<Rightarrow> session option result" where
  "authenticate d c r =
     (case dict_get (reg_records r) d of
        None \<Rightarrow> Inr None
      | Some x \<Rightarrow> bind_result (compare_digest (credential d r) c)
          (\<lambda>same. if \<not> same then Inr None else Inr (Some (Session x))))"

definition registry_records :: "identity_registry \<Rightarrow> identity_record list" where
  "registry_records r = dict_values (reg_records r)"

lemmas identity_ops [op_defs] = register_def compare_digest_def authenticate_def

subsection \<open>Credentials\<close>

lemma hex_chars_ascii: "set s \<subseteq> set hex_chars \<Longrightarrow> is_ascii s"
  by (auto simp: is_ascii_def hex_chars_def subset_iff)

lemma credential_ascii [simp]: "is_ascii (credential d r)"
  using hmac_sha256_hex_chars by (auto simp: credential_def intro: hex_chars_ascii)

lemma length_credential [simp]: "length (credential d r) = 64"
  by (simp add: credential_def)

lemma credential_chars: "c \<in> set (credential d r) \<Longrightarrow> c \<in> set hex_chars"
  using hmac_sha256_hex_chars[of "reg_key r" d] by (auto simp: credential_def)

lemma credential_nonempty [simp]: "credential d r \<noteq> []"
  by (metis length_credential list.size(3) zero_neq_numeral)

lemma credential_frame [simp]: "credential d (r\<lparr>reg_records := R\<rparr>) = credential d r"
  by (simp add: credential_def)

lemma authenticate_cases:
  obtains (unknown) "dict_get (reg_records r) d = None" "authenticate d c r = Inr None"
    | (type_error) x where "dict_get (reg_records r) d = Some x" "\<not> is_ascii c"
        "authenticate d c r = raise_error ''TypeError'' ''comparing strings with non-ASCII characters is not supported''"
    | (wrong) x where "dict_get (reg_records r) d = Some x" "is_ascii c" "c \<noteq> credential d r"
        "authenticate d c r = Inr None"
    | (accepted) x where "dict_get (reg_records r) d = Some x" "c = credential d r"
        "authenticate d c r = Inr (Some (Session x))"
proof (cases "dict_get (reg_records r) d")
  case None
  then show thesis by (intro unknown) (simp_all add: authenticate_def)
next
  case (Some x)
  consider "\<not> is_ascii c" | "is_ascii c" "c \<noteq> credential d r" | "c = credential d r" by blast
  then show thesis
    by cases (auto intro: type_error[OF Some] wrong[OF Some] accepted[OF Some]
        simp: authenticate_def compare_digest_def Some)
qed

lemma authenticate_Some_iff:
  "authenticate d c r = Inr (Some s) \<longleftrightarrow>
     (\<exists>x. dict_get (reg_records r) d = Some x \<and> c = credential d r \<and> s = Session x)"
  by (cases rule: authenticate_cases[of r d c]) auto

text \<open>
  The interface of a credential authority: it issues secrets and accepts a secret for a name
  exactly when it is the one it issued. No secret it issues ends with the character the
  negative probe puts in place of the last one, so the probe is always rejected.
\<close>

locale credential_authority =
  fixes issued :: "'r \<Rightarrow> string \<Rightarrow> string option"
    and accepts :: "'r \<Rightarrow> string \<Rightarrow> string \<Rightarrow> bool"
  assumes accepts_issued: "accepts r d c \<longleftrightarrow> issued r d = Some c"
    and issued_ascii: "issued r d = Some c \<Longrightarrow> is_ascii c"
    and issued_nonempty: "issued r d = Some c \<Longrightarrow> c \<noteq> []"
    and issued_last: "issued r d = Some c \<Longrightarrow> last c \<noteq> CHR ''x''"
begin

lemma corrupted_rejected:
  assumes "issued r d = Some c"
  shows "\<not> accepts r d (py_init c @ ''x'')"
proof -
  have "c \<noteq> py_init c @ ''x''" using issued_last[OF assms] by (metis last_snoc)
  then show ?thesis using assms by (simp add: accepts_issued)
qed

lemma probe_rejected:
  "\<not> accepts r d (case issued r d of None \<Rightarrow> ''forged'' | Some c \<Rightarrow> py_init c @ ''x'')"
  using corrupted_rejected by (cases "issued r d") (simp_all add: accepts_issued)

lemma one_secret: "accepts r d c \<Longrightarrow> accepts r d c' \<Longrightarrow> c = c'"
  by (simp add: accepts_issued)

end

definition issued_credential :: "identity_registry \<Rightarrow> string \<Rightarrow> string option" where
  "issued_credential r d = map_option (\<lambda>_. credential d r) (dict_get (reg_records r) d)"

definition accepts_credential :: "identity_registry \<Rightarrow> string \<Rightarrow> string \<Rightarrow> bool" where
  "accepts_credential r d c \<longleftrightarrow> (\<exists>s. authenticate d c r = Inr (Some s))"

interpretation registry: credential_authority issued_credential accepts_credential
proof unfold_locales
  fix r d c
  show "accepts_credential r d c = (issued_credential r d = Some c)"
    by (auto simp: accepts_credential_def issued_credential_def authenticate_Some_iff)
  assume i: "issued_credential r d = Some c"
  then show "is_ascii c" "c \<noteq> []" by (auto simp: issued_credential_def)
  show "last c \<noteq> CHR ''x''"
  proof
    assume "last c = CHR ''x''"
    then have "CHR ''x'' \<in> set hex_chars"
      using i credential_chars[of "CHR ''x''" d r] last_in_set[of c] by (auto simp: issued_credential_def)
    then show False by (simp add: hex_chars_def)
  qed
qed

subsection \<open>Properties\<close>

text \<open>Authentication is exact: a session is returned for an identity and a credential if and
  only if the identity is registered and the credential is the one the registry issues for it; the
  session then carries the registered record, and the one other way to answer than a refusal is
  the \<^verbatim>\<open>TypeError\<close> of a credential outside ASCII presented for a registered identity.\<close>

theorem authenticate_exact:
  "(authenticate d c r = Inr (Some s) \<longleftrightarrow>
      (\<exists>x. dict_get (reg_records r) d = Some x \<and> c = credential d r \<and> s = Session x))
   \<and> ((\<exists>e. authenticate d c r = Inl e) \<longleftrightarrow> dict_get (reg_records r) d \<noteq> None \<and> \<not> is_ascii c)"
  by (cases rule: authenticate_cases[of r d c]) auto

text \<open>A registered identity authenticates with the credential its registration returned, also
  after any number of further registrations, and the session carries the last record registered
  under its DID.\<close>

theorem register_authenticate:
  "authenticate (idr_did x) (fst (register x r))
     (foldl (\<lambda>t y. snd (register y t)) (snd (register x r)) ys)
   = Inr (Some (Session (last (x # filter (\<lambda>y. idr_did y = idr_did x) ys))))"
proof -
  have g: "dict_get (reg_records (foldl (\<lambda>t y. snd (register y t)) t ys)) (idr_did x)
      = Some (last (z # filter (\<lambda>y. idr_did y = idr_did x) ys))"
    if "dict_get (reg_records t) (idr_did x) = Some z" for t z
    using that
  proof (induction ys arbitrary: t z)
    case (Cons y ys)
    show ?case
      using Cons.IH[of "snd (register y t)" "if idr_did y = idr_did x then y else z"] Cons.prems
      by (auto simp: register_def Let_def)
  qed simp
  have k: "credential d (foldl (\<lambda>t y. snd (register y t)) t ys) = credential d t" for d t
    by (induction ys arbitrary: t) (simp_all add: register_def Let_def)
  have "dict_get (reg_records (snd (register x r))) (idr_did x) = Some x"
    by (simp add: register_def Let_def)
  from g[OF this] show ?thesis
    by (simp add: authenticate_Some_iff k) (simp add: register_def Let_def)
qed

text \<open>The negative probe: a credential with its last character replaced by \<^verbatim>\<open>x\<close> is rejected
  for every registry and every identity, registered or not.\<close>

theorem corrupted_credential_rejected:
  "\<not> (\<exists>s. authenticate d (py_init (credential d r) @ ''x'') r = Inr (Some s))"
proof (cases "issued_credential r d")
  case None
  then have "dict_get (reg_records r) d = None" by (simp add: issued_credential_def)
  then show ?thesis by (simp add: authenticate_def)
next
  case (Some c)
  then have "c = credential d r" by (auto simp: issued_credential_def)
  with registry.corrupted_rejected[OF Some] show ?thesis by (simp add: accepts_credential_def)
qed

end
