(* ===== verification/Backend_Inv.thy ===== *)
theory Backend_Inv
  imports Backend
begin

text \<open>
  The invariant of the reference backend and the lemmas its properties share: what a recall
  ranks, what a forget marks, which parts of the state a call leaves alone.
\<close>

subsection \<open>The invariant\<close>

definition backend_ok :: "backend \<Rightarrow> bool" where
  "backend_ok s \<longleftrightarrow> dict_ok (memories s) \<and> dict_ok (idempotency s)
     \<and> (\<forall>k m. dict_get (memories s) k = Some m \<longrightarrow> memory_id m = k)"

lemma backend_okD:
  assumes "backend_ok s"
  shows "dict_ok (memories s)" "dict_ok (idempotency s)"
    "dict_get (memories s) k = Some m \<Longrightarrow> memory_id m = k"
  using assms by (auto simp: backend_ok_def)

lemma backend_ok_new [simp]: "backend_ok new_backend"
  by (simp add: backend_ok_def new_backend_def)

lemma backend_ok_frame:
  "backend_ok s \<Longrightarrow> memories t = memories s \<Longrightarrow> idempotency t = idempotency s \<Longrightarrow> backend_ok t"
  by (simp add: backend_ok_def)

lemma backend_ok_nonces [simp]: "backend_ok (s\<lparr>nonces := N\<rparr>) = backend_ok s"
  by (simp add: backend_ok_def)

lemma forget_derived_ok [simp]: "dict_ok d \<Longrightarrow> dict_ok (forget_derived i items d)"
  by (induction i items d rule: forget_derived.induct) auto

lemma get_forget_derived:
  "distinct (map fst items) \<Longrightarrow>
   dict_get (forget_derived i items d) k =
     (case map_of items k of
        None \<Rightarrow> dict_get d k
      | Some v \<Rightarrow> if i \<in> set (derived_from v) then Some (v\<lparr>mem_state := ''forgotten''\<rparr>)
                  else dict_get d k)"
proof (induction i items d rule: forget_derived.induct)
  case (2 i k' v items d)
  then have "map_of items k' = None" by (simp add: map_of_eq_None_iff)
  with 2 show ?case by (auto split: option.splits)
qed simp

lemma get_forgotten:
  assumes "dict_ok ms"
  shows "dict_get (forget_derived i ms ms) k =
    map_option (\<lambda>v. if i \<in> set (derived_from v) then v\<lparr>mem_state := ''forgotten''\<rparr> else v)
      (dict_get ms k)"
  using assms by (auto simp: get_forget_derived dict_ok_def split: option.splits)

lemma remember_ok: "backend_ok s \<Longrightarrow> backend_ok (snd (remember m a n s))"
  by (cases rule: remember_cases[of m a n s])
    (auto simp: backend_ok_def)

lemma recall_ok: "backend_ok s \<Longrightarrow> backend_ok (snd (recall q a d n s))"
  by (simp add: recall_state)

lemma improve_ok: "backend_ok s \<Longrightarrow> backend_ok (snd (improve i rep a n x k s))"
  by (cases rule: improve_cases[of i rep a n x k s])
    (auto simp: backend_ok_def)

lemma forget_ok: "backend_ok s \<Longrightarrow> backend_ok (snd (forget i a n s))"
proof (cases rule: forget_cases[of i a n s])
  case (applied m ms)
  assume ok: "backend_ok s"
  then have "dict_ok ms" using applied(5) by (simp add: backend_ok_def)
  moreover have "\<forall>k v. dict_get ms k = Some v \<longrightarrow> memory_id v = k"
    using ok applied(3,5) by (auto simp: backend_ok_def)
  ultimately show "backend_ok (snd (forget i a n s))"
    using ok applied(6) by (auto simp: backend_ok_def get_forgotten split: if_splits)
qed (auto intro: backend_ok_frame)

lemma run_op_ok: "backend_ok s \<Longrightarrow> backend_ok (snd (run_op x s))"
  by (cases x) (simp_all add: remember_ok recall_ok improve_ok forget_ok)

lemma run_ops_ok: "backend_ok s \<Longrightarrow> backend_ok (run_ops xs s)"
  by (induction xs arbitrary: s) (auto simp: run_op_ok)

lemma seed_ok: "backend_ok s \<Longrightarrow> backend_ok (seed s)"
  by (simp add: seed_def Let_def remember_ok)

subsection \<open>What a recall ranks\<close>

definition relevant :: "string set \<Rightarrow> actor \<Rightarrow> date \<Rightarrow> memory \<Rightarrow> bool" where
  "relevant q a d m \<longleftrightarrow> mem_state m = ''current'' \<and> authorized m a \<and> valid_from m \<le> d
     \<and> (case valid_until m of None \<Rightarrow> True | Some u \<Rightarrow> d < u) \<and> q \<inter> words (mem_text m) \<noteq> {}"

lemma finite_words [simp]: "finite (words v)"
  by (simp add: words_def)

lemma rank_loop_eq:
  "rank_loop q a d ms =
     map (\<lambda>m. (card (q \<inter> words (mem_text m)), memory_id m)) (filter (relevant q a d) ms)"
proof (induction ms)
  case (Cons m ms)
  have "card (q \<inter> words (mem_text m)) \<noteq> 0 \<longleftrightarrow> q \<inter> words (mem_text m) \<noteq> {}"
    by (simp add: card_eq_0_iff)
  with Cons show ?case
    by (auto simp: relevant_def Let_def not_le not_less split: option.splits)
qed simp

lemma inj_rank_key: "inj rank_key"
  by (auto simp: inj_def rank_key_def prod_eq_iff)

lemma values_distinct_ids:
  assumes "backend_ok s"
  shows "map memory_id (dict_values (memories s)) = map fst (memories s)"
proof -
  have "memory_id (snd p) = fst p" if "p \<in> set (memories s)" for p
  proof -
    have "dict_get (memories s) (fst p) = Some (snd p)"
      using that backend_okD(1)[OF assms] by (simp add: in_dict_iff[symmetric])
    then show ?thesis by (rule backend_okD(3)[OF assms])
  qed
  then show ?thesis by (simp add: dict_values_def)
qed

lemma in_values_iff:
  assumes "backend_ok s"
  shows "m \<in> set (dict_values (memories s)) \<longleftrightarrow> dict_get (memories s) (memory_id m) = Some m"
proof
  assume "m \<in> set (dict_values (memories s))"
  then obtain k where "(k, m) \<in> set (memories s)" by (auto simp: dict_values_def)
  then have "dict_get (memories s) k = Some m"
    using backend_okD(1)[OF assms] by (simp add: in_dict_iff)
  then show "dict_get (memories s) (memory_id m) = Some m"
    using backend_okD(3)[OF assms] by auto
next
  assume "dict_get (memories s) (memory_id m) = Some m"
  then have "(memory_id m, m) \<in> set (memories s)" by (rule map_of_SomeD)
  then show "m \<in> set (dict_values (memories s))" by (force simp: dict_values_def)
qed

text \<open>the ranked list of a recall: the relevant memories with their scores\<close>

definition ranking :: "string \<Rightarrow> actor \<Rightarrow> date \<Rightarrow> backend \<Rightarrow> (nat \<times> string) list" where
  "ranking q a d s = sort_key rank_key (rank_loop (words q) a d (dict_values (memories s)))"

lemma recall_eq:
  "recall q a d n s =
     (if (act_did a, n) \<in> nonces s then (refused ''replay'', s)
      else if py_len q > MAX_QUERY_CHARS
        then (refused ''oversized-query'', s\<lparr>nonces := insert (act_did a, n) (nonces s)\<rparr>)
      else (\<lparr>allowed = True, ids = map snd (ranking q a d s), err = [],
              receipt = digest (''recall:'' @ repr_pairs (ranking q a d s))\<rparr>,
            s\<lparr>nonces := insert (act_did a, n) (nonces s)\<rparr>))"
  by (simp add: recall_def claim_def Let_def ranking_def)

lemma set_ranking:
  assumes "backend_ok s"
  shows "set (ranking q a d s) =
    {(card (words q \<inter> words (mem_text m)), i) | i m.
       dict_get (memories s) i = Some m \<and> relevant (words q) a d m}"
proof -
  have "set (ranking q a d s) = (\<lambda>m. (card (words q \<inter> words (mem_text m)), memory_id m)) `
      {m. dict_get (memories s) (memory_id m) = Some m \<and> relevant (words q) a d m}"
    using in_values_iff[OF assms] by (auto simp: ranking_def rank_loop_eq)
  also have "\<dots> = {(card (words q \<inter> words (mem_text m)), i) | i m.
       dict_get (memories s) i = Some m \<and> relevant (words q) a d m}"
    using backend_okD(3)[OF assms] by (auto simp: image_iff)
  finally show ?thesis .
qed

lemma distinct_ranking_ids:
  assumes "backend_ok s"
  shows "distinct (map snd (ranking q a d s))"
proof -
  have "distinct (map memory_id (dict_values (memories s)))"
    using assms values_distinct_ids[OF assms] by (simp add: backend_ok_def dict_ok_def)
  then have "distinct (map snd (rank_loop (words q) a d (dict_values (memories s))))"
    by (simp add: rank_loop_eq comp_def distinct_map_filter)
  then show ?thesis
    unfolding ranking_def by (metis mset_eq_imp_distinct_iff mset_map mset_sort)
qed

lemma sorted_ranking: "sorted_wrt (\<lambda>x y. rank_key x \<le> rank_key y) (ranking q a d s)"
  using sorted_sort_key[of rank_key] by (simp add: ranking_def sorted_map)

lemma ranking_cong:
  assumes "backend_ok s" "backend_ok t"
    and "set (filter (relevant (words q) a d) (dict_values (memories s)))
       = set (filter (relevant (words q') a d) (dict_values (memories t)))"
    and "words q = words q'"
  shows "ranking q a d s = ranking q' a d t"
  unfolding ranking_def
proof (rule sort_key_perm_eq)
  let ?L = "\<lambda>q s. rank_loop (words q) a d (dict_values (memories s))"
  show "inj_on rank_key (set (?L q s))" using inj_rank_key by (rule inj_on_subset) simp
  have d: "distinct (?L q s)" if "backend_ok s" for q s
  proof -
    have "distinct (map snd (ranking q a d s))" using that by (rule distinct_ranking_ids)
    then have "distinct (ranking q a d s)" by (simp add: distinct_map)
    then show ?thesis by (simp add: ranking_def)
  qed
  show "distinct (?L q s)" "distinct (?L q' t)" using d assms by auto
  show "set (?L q s) = set (?L q' t)"
    using assms(3,4) by (simp add: rank_loop_eq)
qed

subsection \<open>Queries with the same words\<close>

lemma words_append_space:
  assumes "starts_clean t"
  shows "words (s @ CHR '' '' # t) = words s \<union> words t"
proof -
  have "chunks (s @ CHR '' '' # t) = chunks s @ [CHR '' ''] # chunks t"
  proof -
    have "takeWhile is_cont t = [] \<and> dropWhile is_cont t = t"
      using assms by (cases t) (auto simp: starts_clean_def)
    then show ?thesis using chunks_append[of "CHR '' '' # t" s] by (simp add: starts_clean_def)
  qed
  moreover have "lower_chunk [CHR '' ''] = [CHR '' '']"
    by (simp add: lower_chunk_def lower_char_def)
  ultimately have "py_lower (s @ CHR '' '' # t) = py_lower s @ CHR '' '' # py_lower t"
    by (simp add: py_lower_def)
  moreover have "\<not> is_token_char (CHR '' '')" by (simp add: is_token_char_def)
  ultimately show ?thesis by (auto simp: words_def find_tokens_append_sep)
qed

lemma words_Nil [simp]: "words [] = {}"
  by (simp add: words_def py_lower_def)

lemma starts_clean_join:
  "\<forall>w \<in> set ws. starts_clean w \<Longrightarrow> starts_clean (join '' '' ws)"
  by (induction "'' ''" ws rule: join.induct) (auto simp: starts_clean_def hd_append)

lemma words_join:
  "\<forall>w \<in> set ws. starts_clean w \<Longrightarrow> words (join '' '' ws) = (\<Union>w \<in> set ws. words w)"
proof (induction "'' ''" ws rule: join.induct)
  case (3 x y xs)
  then have "starts_clean (join '' '' (y # xs))" by (intro starts_clean_join) auto
  with 3 show ?case by (simp add: words_append_space)
qed auto

lemma py_len_join: "py_len (join sep ws) = sum_list (map py_len ws) + (length ws - 1) * py_len sep"
  by (induction sep ws rule: join.induct) auto

lemma py_len_join_mset:
  assumes "mset ws = mset ws'"
  shows "py_len (join sep ws) = py_len (join sep ws')"
proof -
  have "length ws = length ws'" using assms by (rule mset_eq_length)
  moreover have "sum_list (map py_len ws) = sum_list (map py_len ws')"
    using assms by (metis mset_map sum_mset_sum_list)
  ultimately show ?thesis by (simp add: py_len_join)
qed

subsection \<open>Frames\<close>

text \<open>The memories a call can write.\<close>

fun writes :: "op \<Rightarrow> backend \<Rightarrow> string set" where
  "writes (Remember m a n) s = {memory_id m}"
| "writes (Recall q a d n) s = {}"
| "writes (Improve i rep a n x k) s = {i, memory_id rep}"
| "writes (Forget i a n) s =
     insert i {k. \<exists>m. dict_get (memories s) k = Some m \<and> i \<in> set (derived_from m)}"
| "writes Restart s = {}"

lemma run_op_frame:
  assumes "backend_ok s" and "k \<notin> writes x s"
  shows "dict_get (memories (snd (run_op x s))) k = dict_get (memories s) k"
proof (cases x)
  case (Remember m a n)
  then show ?thesis using assms by (cases rule: remember_cases[of m a n s]) auto
next
  case (Recall q a d n)
  then show ?thesis by (simp add: recall_state)
next
  case (Improve i rep a n e key)
  then show ?thesis using assms by (cases rule: improve_cases[of i rep a n e key s]) auto
next
  case (Forget i a n)
  show ?thesis
  proof (cases rule: forget_cases[of i a n s])
    case (applied m ms)
    have "dict_ok ms" using assms(1) applied(5) by (simp add: backend_ok_def)
    moreover have "k \<noteq> i" "\<And>v. dict_get (memories s) k = Some v \<Longrightarrow> i \<notin> set (derived_from v)"
      using assms(2) Forget by auto
    ultimately show ?thesis
      using applied(5,6) Forget by (cases "dict_get (memories s) k") (auto simp: get_forgotten)
  qed (use Forget in auto)
qed simp

lemma run_op_nonces: "nonces s \<subseteq> nonces (snd (run_op x s))"
proof (cases x)
  case (Remember m a n)
  then show ?thesis by (cases rule: remember_cases[of m a n s]) auto
next
  case (Recall q a d n)
  then show ?thesis by (auto simp: recall_state)
next
  case (Improve i rep a n e k)
  then show ?thesis by (cases rule: improve_cases[of i rep a n e k s]) auto
next
  case (Forget i a n)
  then show ?thesis by (cases rule: forget_cases[of i a n s]) auto
qed simp

lemma run_op_claims: "op_nonce x = Some key \<Longrightarrow> key \<in> nonces (snd (run_op x s))"
proof (cases x)
  case (Remember m a n)
  then show "op_nonce x = Some key \<Longrightarrow> ?thesis" by (cases rule: remember_cases[of m a n s]) auto
next
  case (Recall q a d n)
  then show "op_nonce x = Some key \<Longrightarrow> ?thesis" by (auto simp: recall_state)
next
  case (Improve i rep a n e k)
  then show "op_nonce x = Some key \<Longrightarrow> ?thesis" by (cases rule: improve_cases[of i rep a n e k s]) auto
next
  case (Forget i a n)
  then show "op_nonce x = Some key \<Longrightarrow> ?thesis" by (cases rule: forget_cases[of i a n s]) auto
qed simp

definition op_refused :: "op \<Rightarrow> decision option \<Rightarrow> bool" where
  "op_refused x r \<longleftrightarrow> (\<exists>dec. r = Some dec \<and> \<not> allowed dec \<and> ids dec = [] \<and> receipt dec = [])"

lemma run_op_replayed:
  assumes "op_nonce x = Some key" and "key \<in> nonces s"
  shows "op_refused x (fst (run_op x s)) \<and> snd (run_op x s) = s"
  using assms
  by (cases x) (auto simp: op_refused_def refused_def remember_def recall_def improve_def forget_def claim_def)

interpretation backend_nonces: nonce_store nonces run_op op_nonce op_refused
  using run_op_nonces run_op_claims run_op_replayed by unfold_locales blast+

lemma run_all_run_ops: "backend_nonces.run_all xs s = run_ops xs s"
  by (induction xs arbitrary: s) auto

text \<open>Idempotency records are never replaced.\<close>

lemma run_op_idempotency:
  "dict_get (idempotency s) k = Some dec \<Longrightarrow> dict_get (idempotency (snd (run_op x s))) k = Some dec"
proof (cases x)
  case (Remember m a n)
  then show "dict_get (idempotency s) k = Some dec \<Longrightarrow> ?thesis"
    by (cases rule: remember_cases[of m a n s]) auto
next
  case (Recall q a d n)
  then show "dict_get (idempotency s) k = Some dec \<Longrightarrow> ?thesis" by (auto simp: recall_state)
next
  case (Improve i rep a n e k')
  then show "dict_get (idempotency s) k = Some dec \<Longrightarrow> ?thesis"
    by (cases rule: improve_cases[of i rep a n e k' s]) auto
next
  case (Forget i a n)
  then show "dict_get (idempotency s) k = Some dec \<Longrightarrow> ?thesis"
    by (cases rule: forget_cases[of i a n s]) auto
qed simp

lemma run_ops_idempotency:
  "dict_get (idempotency s) k = Some dec \<Longrightarrow> dict_get (idempotency (run_ops xs s)) k = Some dec"
  by (induction xs arbitrary: s) (auto simp: run_op_idempotency)

end
