(* ===== verification/Backend_Spec.thy ===== *)
theory Backend_Spec
  imports Backend_Inv
begin

text \<open>
  What the reference backend promises, without its representation: a partial map of memories, a
  set of spent nonces and a partial map of settled proposals. A specified recall answers with the
  set of memories the actor may see and whose text shares a word with the query; a specified
  forget maps the whole store at once. The simulation lemmas say that every operation of theory
  \<open>Backend\<close> implements its specification, so that a property of the specification holds of any
  sequence of calls.
\<close>

subsection \<open>The specification\<close>

record authority =
  a_mem :: "string \<rightharpoonup> memory"
  a_nonces :: "(string \<times> string) set"
  a_settled :: "string \<rightharpoonup> decision"

datatype outcome = Accepted "string set" | Denied | Silent

text \<open>the outcome a decision stands for; receipts and the order of the ids are not part of it\<close>

definition outcome_of :: "decision option \<Rightarrow> outcome" where
  "outcome_of r = (case r of None \<Rightarrow> Silent
     | Some dec \<Rightarrow> if allowed dec then Accepted (set (ids dec)) else Denied)"

definition mark :: "string \<Rightarrow> memory \<Rightarrow> memory" where
  "mark st m = m\<lparr>mem_state := st\<rparr>"

fun op_actor :: "op \<Rightarrow> actor option" where
  "op_actor (Remember m a n) = Some a"
| "op_actor (Recall q a d n) = Some a"
| "op_actor (Improve i rep a n e k) = Some a"
| "op_actor (Forget i a n) = Some a"
| "op_actor Restart = None"

text \<open>the guard of each operation, the nonce aside\<close>

fun permitted :: "op \<Rightarrow> authority \<Rightarrow> bool" where
  "permitted (Remember m a n) t \<longleftrightarrow> act_can_mutate a \<and> py_len (mem_text m) \<le> MAX_TEXT_CHARS
     \<and> mem_tenant m = act_tenant a \<and> mem_space m = act_space a \<and> sensitivity m \<le> act_clearance a"
| "permitted (Recall q a d n) t \<longleftrightarrow> py_len q \<le> MAX_QUERY_CHARS"
| "permitted (Improve i rep a n e k) t \<longleftrightarrow> act_can_mutate a \<and> sensitivity rep \<le> act_clearance a
     \<and> (\<exists>m. a_mem t i = Some m \<and> source_digest m = e \<and> authorized m a)"
| "permitted (Forget i a n) t \<longleftrightarrow> act_can_mutate a \<and> (\<exists>m. a_mem t i = Some m \<and> authorized m a)"
| "permitted Restart t \<longleftrightarrow> False"

text \<open>what a permitted operation does to the memories, and the ids it reports\<close>

fun effect :: "op \<Rightarrow> (string \<rightharpoonup> memory) \<Rightarrow> (string \<rightharpoonup> memory)" where
  "effect (Remember m a n) M = M(memory_id m \<mapsto> m)"
| "effect (Improve i rep a n e k) M = (M(i := map_option (mark ''superseded'') (M i)))(memory_id rep \<mapsto> rep)"
| "effect (Forget i a n) M =
     (\<lambda>k. map_option (\<lambda>m. if k = i \<or> i \<in> set (derived_from m) then mark ''forgotten'' m else m) (M k))"
| "effect _ M = M"

fun reported :: "op \<Rightarrow> (string \<rightharpoonup> memory) \<Rightarrow> string set" where
  "reported (Remember m a n) M = {memory_id m}"
| "reported (Recall q a d n) M = {i. \<exists>m. M i = Some m \<and> relevant (words q) a d m}"
| "reported (Improve i rep a n e k) M = {i, memory_id rep}"
| "reported (Forget i a n) M = {i}"
| "reported Restart M = {}"

text \<open>the settled decision a retry of a proposal returns\<close>

fun settled :: "op \<Rightarrow> authority \<Rightarrow> decision option" where
  "settled (Improve i rep a n e k) t = (if act_can_mutate a then a_settled t k else None)"
| "settled _ t = None"

definition spend :: "op \<Rightarrow> authority \<Rightarrow> authority" where
  "spend x t = t\<lparr>a_nonces := a_nonces t \<union> (case op_nonce x of None \<Rightarrow> {} | Some key \<Rightarrow> {key})\<rparr>"

definition replayed :: "op \<Rightarrow> authority \<Rightarrow> bool" where
  "replayed x t \<longleftrightarrow> (\<exists>key. op_nonce x = Some key \<and> key \<in> a_nonces t)"

fun settle :: "op \<Rightarrow> decision \<Rightarrow> (string \<rightharpoonup> decision) \<Rightarrow> (string \<rightharpoonup> decision)" where
  "settle (Improve i rep a n e k) dec S = S(k \<mapsto> dec)"
| "settle _ dec S = S"

text \<open>
  One specified call: the outcome and the state after it. The concrete decision \<open>dec\<close> is recorded
  for a settled proposal; the specification constrains its outcome only.
\<close>

inductive spec_call :: "op \<Rightarrow> authority \<Rightarrow> outcome \<Rightarrow> authority \<Rightarrow> bool" where
  restart: "spec_call Restart t Silent t"
| replay: "replayed x t \<Longrightarrow> spec_call x t Denied t"
| retry: "\<not> replayed x t \<Longrightarrow> settled x t = Some dec \<Longrightarrow>
    spec_call x t (outcome_of (Some dec)) (spend x t)"
| denied: "\<not> replayed x t \<Longrightarrow> settled x t = None \<Longrightarrow> \<not> permitted x t \<Longrightarrow> x \<noteq> Restart \<Longrightarrow>
    spec_call x t Denied (spend x t)"
| accepted: "\<not> replayed x t \<Longrightarrow> settled x t = None \<Longrightarrow> permitted x t \<Longrightarrow>
    outcome_of (Some dec) = Accepted (reported x (a_mem t)) \<Longrightarrow>
    spec_call x t (Accepted (reported x (a_mem t)))
      (spend x t\<lparr>a_mem := effect x (a_mem t), a_settled := settle x dec (a_settled t)\<rparr>)"

inductive_cases spec_acceptedE: "spec_call x t (Accepted R) u"
inductive_cases spec_deniedE: "spec_call x t Denied u"
inductive_simps spec_restart_iff: "spec_call Restart t out u"

text \<open>A denied call changes no memory and settles nothing; the store changes by accepted calls only.\<close>

lemma spec_denied_frame:
  "spec_call x t Denied u \<Longrightarrow> a_mem u = a_mem t \<and> a_settled u = a_settled t"
  by (erule spec_deniedE) (auto simp: spend_def)

lemma spec_memory_change:
  "spec_call x t out u \<Longrightarrow> a_mem u \<noteq> a_mem t \<Longrightarrow>
   permitted x t \<and> \<not> replayed x t \<and> out = Accepted (reported x (a_mem t)) \<and> a_mem u = effect x (a_mem t)"
  by (erule spec_call.cases) (auto simp: spend_def)

subsection \<open>The backend implements it\<close>

definition abs_backend :: "backend \<Rightarrow> authority" where
  "abs_backend s = \<lparr>a_mem = dict_get (memories s), a_nonces = nonces s,
     a_settled = dict_get (idempotency s)\<rparr>"

lemma abs_sel [simp]:
  "a_mem (abs_backend s) = dict_get (memories s)"
  "a_nonces (abs_backend s) = nonces s"
  "a_settled (abs_backend s) = dict_get (idempotency s)"
  by (simp_all add: abs_backend_def)

lemma authority_eqI:
  "a_mem t = a_mem u \<Longrightarrow> a_nonces t = a_nonces u \<Longrightarrow> a_settled t = a_settled u \<Longrightarrow> t = (u::authority)"
  by simp

text \<open>
  The shape shared by the four simulations: a call whose nonce is spent is refused and changes
  nothing; otherwise the nonce is spent and the outcome is decided by the guard.
\<close>

lemma spec_replay:
  assumes "op_nonce x = Some key" and "key \<in> nonces s"
  shows "spec_call x (abs_backend s) (outcome_of (fst (run_op x s))) (abs_backend (snd (run_op x s)))"
proof -
  have "op_refused x (fst (run_op x s)) \<and> snd (run_op x s) = s" using assms by (rule run_op_replayed)
  then have "outcome_of (fst (run_op x s)) = Denied" "snd (run_op x s) = s"
    by (auto simp: op_refused_def outcome_of_def)
  then show ?thesis using assms by (auto intro!: spec_call.replay simp: replayed_def)
qed

lemma spec_deniedI:
  assumes "op_nonce x = Some key" "key \<notin> nonces s" "settled x (abs_backend s) = None"
    "\<not> permitted x (abs_backend s)"
    "run_op x s = (Some (refused e), s\<lparr>nonces := insert key (nonces s)\<rparr>)"
  shows "spec_call x (abs_backend s) (outcome_of (fst (run_op x s))) (abs_backend (snd (run_op x s)))"
proof -
  have "outcome_of (fst (run_op x s)) = Denied"
    using assms(5) by (simp add: outcome_of_def refused_def)
  moreover have "abs_backend (snd (run_op x s)) = spend x (abs_backend s)"
    using assms(1,5) by (simp add: spend_def abs_backend_def)
  moreover have "x \<noteq> Restart" using assms(1) by auto
  ultimately show ?thesis
    using assms by (auto intro!: spec_call.denied simp: replayed_def)
qed

lemma spec_acceptedI:
  fixes s :: backend and x :: op
  defines "r \<equiv> run_op x s"
  assumes "op_nonce x = Some key" "key \<notin> nonces s" "settled x (abs_backend s) = None"
    "permitted x (abs_backend s)"
    "fst r \<noteq> None" "allowed (the (fst r))"
    "set (ids (the (fst r))) = reported x (dict_get (memories s))"
    "dict_get (memories (snd r)) = effect x (dict_get (memories s))"
    "nonces (snd r) = insert key (nonces s)"
    "dict_get (idempotency (snd r)) = settle x (the (fst r)) (dict_get (idempotency s))"
  shows "spec_call x (abs_backend s) (outcome_of (fst (run_op x s))) (abs_backend (snd (run_op x s)))"
proof -
  obtain dec where dec: "fst r = Some dec" using assms by auto
  have o: "outcome_of (Some dec) = Accepted (reported x (a_mem (abs_backend s)))"
    using assms dec by (simp add: outcome_of_def)
  have "abs_backend (snd r) = spend x (abs_backend s)\<lparr>a_mem := effect x (a_mem (abs_backend s)),
      a_settled := settle x dec (a_settled (abs_backend s))\<rparr>"
    using assms dec by (intro authority_eqI) (simp_all add: spend_def)
  moreover have "\<not> replayed x (abs_backend s)" using assms by (simp add: replayed_def)
  ultimately show ?thesis
    using spec_call.accepted[OF _ assms(4,5) o] dec o by (simp add: r_def)
qed

lemma sim_remember:
  "spec_call (Remember m a n) (abs_backend s) (outcome_of (fst (run_op (Remember m a n) s)))
     (abs_backend (snd (run_op (Remember m a n) s)))"
proof (cases "(act_did a, n) \<in> nonces s")
  case True
  then show ?thesis by (intro spec_replay) auto
next
  case fresh: False
  show ?thesis
  proof (cases "permitted (Remember m a n) (abs_backend s)")
    case True
    with fresh show ?thesis
      by (intro spec_acceptedI[of _ "(act_did a, n)"])
        (simp_all add: remember_def claim_def Let_def fun_eq_iff)
  next
    case False
    then have "\<exists>e. remember m a n s = (refused e, s\<lparr>nonces := insert (act_did a, n) (nonces s)\<rparr>)"
      using fresh by (auto simp: remember_def claim_def Let_def not_le not_less)
    then obtain e where "remember m a n s = (refused e, s\<lparr>nonces := insert (act_did a, n) (nonces s)\<rparr>)"
      by blast
    with False fresh show ?thesis by (intro spec_deniedI) auto
  qed
qed

lemma sim_recall:
  assumes "backend_ok s"
  shows "spec_call (Recall q a d n) (abs_backend s) (outcome_of (fst (run_op (Recall q a d n) s)))
     (abs_backend (snd (run_op (Recall q a d n) s)))"
proof (cases "(act_did a, n) \<in> nonces s")
  case True
  then show ?thesis by (intro spec_replay) auto
next
  case fresh: False
  show ?thesis
  proof (cases "py_len q \<le> MAX_QUERY_CHARS")
    case True
    have "snd ` set (ranking q a d s) = {i. \<exists>m. dict_get (memories s) i = Some m \<and> relevant (words q) a d m}"
      unfolding set_ranking[OF assms] by (force simp: image_iff)
    with True fresh show ?thesis
      by (intro spec_acceptedI[of _ "(act_did a, n)"]) (simp_all add: recall_eq)
  next
    case False
    with fresh show ?thesis
      by (intro spec_deniedI[of _ "(act_did a, n)" _ "''oversized-query''"]) (simp_all add: recall_eq)
  qed
qed

lemma sim_improve:
  "spec_call (Improve i rep a n e k) (abs_backend s) (outcome_of (fst (run_op (Improve i rep a n e k) s)))
     (abs_backend (snd (run_op (Improve i rep a n e k) s)))"
  (is "spec_call ?x _ _ _")
proof (cases "(act_did a, n) \<in> nonces s")
  case True
  then show ?thesis by (intro spec_replay) auto
next
  case fresh: False
  let ?s = "s\<lparr>nonces := insert (act_did a, n) (nonces s)\<rparr>"
  show ?thesis
  proof (cases "settled ?x (abs_backend s)")
    case (Some dec)
    then have "improve i rep a n e k s = (dec, ?s)"
      using fresh by (auto simp: improve_def claim_def Let_def split: if_splits)
    moreover have "abs_backend ?s = spend ?x (abs_backend s)"
      by (intro authority_eqI) (simp_all add: spend_def)
    ultimately show ?thesis
      using spec_call.retry[OF _ Some] fresh by (simp add: replayed_def)
  next
    case None
    show ?thesis
    proof (cases "permitted ?x (abs_backend s)")
      case True
      with None fresh show ?thesis
        by (intro spec_acceptedI[of _ "(act_did a, n)"])
          (auto simp: improve_def claim_def Let_def mark_def)
    next
      case False
      then have "\<exists>err. improve i rep a n e k s = (refused err, ?s)"
        using fresh None
        by (auto simp: improve_def claim_def Let_def split: option.splits if_splits)
      then obtain err where "improve i rep a n e k s = (refused err, ?s)" by blast
      with False None fresh show ?thesis by (intro spec_deniedI[of _ "(act_did a, n)" _ err]) auto
    qed
  qed
qed

lemma sim_forget:
  assumes "backend_ok s"
  shows "spec_call (Forget i a n) (abs_backend s) (outcome_of (fst (run_op (Forget i a n) s)))
     (abs_backend (snd (run_op (Forget i a n) s)))"
  (is "spec_call ?x _ _ _")
proof (cases "(act_did a, n) \<in> nonces s")
  case True
  then show ?thesis by (intro spec_replay) auto
next
  case fresh: False
  let ?s = "s\<lparr>nonces := insert (act_did a, n) (nonces s)\<rparr>"
  show ?thesis
  proof (cases "permitted ?x (abs_backend s)")
    case True
    then obtain m where m: "dict_get (memories s) i = Some m" "authorized m a" "act_can_mutate a"
      by auto
    let ?ms = "dict_set i (m\<lparr>mem_state := ''forgotten''\<rparr>) (memories s)"
    have "dict_ok ?ms" using assms by (simp add: backend_ok_def)
    then have "dict_get (forget_derived i ?ms ?ms) = effect ?x (dict_get (memories s))"
      using m(1) by (intro ext) (auto simp: get_forgotten mark_def map_option_case split: option.splits)
    with m fresh True show ?thesis
      by (intro spec_acceptedI[of _ "(act_did a, n)"]) (simp_all add: forget_def claim_def Let_def)
  next
    case False
    then have "\<exists>err. forget i a n s = (refused err, ?s)"
      using fresh by (auto simp: forget_def claim_def Let_def split: option.splits if_splits)
    then obtain err where "forget i a n s = (refused err, ?s)" by blast
    with False fresh show ?thesis by (intro spec_deniedI[of _ "(act_did a, n)" _ err]) auto
  qed
qed

lemma simulation:
  assumes "backend_ok s"
  shows "spec_call x (abs_backend s) (outcome_of (fst (run_op x s))) (abs_backend (snd (run_op x s)))"
proof (cases x)
  case Restart
  then show ?thesis using spec_call.restart by (simp add: outcome_of_def)
qed (use sim_remember sim_recall[OF assms] sim_improve sim_forget[OF assms] in auto)

text \<open>A run of the specification, and the outcomes of a run of the backend.\<close>

inductive spec_run :: "op list \<Rightarrow> authority \<Rightarrow> outcome list \<Rightarrow> authority \<Rightarrow> bool" where
  finish: "spec_run [] t [] t"
| step: "spec_call x t out u \<Longrightarrow> spec_run xs u outs v \<Longrightarrow> spec_run (x # xs) t (out # outs) v"

fun run_outcomes :: "op list \<Rightarrow> backend \<Rightarrow> outcome list" where
  "run_outcomes [] s = []"
| "run_outcomes (x # xs) s = outcome_of (fst (run_op x s)) # run_outcomes xs (snd (run_op x s))"

end
