(* ===== verification/Backend_Props.thy ===== *)
theory Backend_Props
  imports Backend_Spec
begin

text \<open>
  The properties of the reference backend: recall is exact, ordered and does not leak, nonces are
  spent once, proposals settle once, forgotten memories stay forgotten, only an authorized call
  changes the store; and what the code allows against its stated policy (a superseded or forgotten
  memory can be improved again, an id of another scope can be overwritten).
\<close>

subsection \<open>Shared lemmas\<close>

lemma reachable_ok [simp]: "backend_ok (run_ops xs new_backend)"
  by (simp add: run_ops_ok)

text \<open>ids that a call can make current\<close>

fun introduces :: "op \<Rightarrow> string set" where
  "introduces (Remember m a n) = {memory_id m}"
| "introduces (Improve i rep a n e k) = {memory_id rep}"
| "introduces _ = {}"

definition retired :: "string \<Rightarrow> backend \<Rightarrow> bool" where
  "retired k s \<longleftrightarrow> (\<forall>m. dict_get (memories s) k = Some m \<longrightarrow> mem_state m \<noteq> ''current'')"

lemma run_op_retired:
  assumes "backend_ok s" "retired k s" "k \<notin> introduces x"
  shows "retired k (snd (run_op x s))"
proof (cases x)
  case (Remember m a n)
  then show ?thesis using assms
    by (cases rule: remember_cases[of m a n s]) (auto simp: retired_def)
next
  case (Recall q a d n)
  then show ?thesis using assms by (simp add: recall_state retired_def)
next
  case (Improve i rep a n e key)
  then show ?thesis using assms
    by (cases rule: improve_cases[of i rep a n e key s]) (auto simp: retired_def)
next
  case (Forget i a n)
  show ?thesis
  proof (cases rule: forget_cases[of i a n s])
    case (applied m ms)
    have "dict_ok ms" using assms(1) applied(5) by (simp add: backend_ok_def)
    then show ?thesis
      using applied(3,5,6) assms(2) Forget by (auto simp: retired_def get_forgotten)
  qed (use assms Forget in \<open>auto simp: retired_def\<close>)
qed (use assms in simp)

lemma run_ops_retired:
  "backend_ok s \<Longrightarrow> retired k s \<Longrightarrow> \<forall>x \<in> set xs. k \<notin> introduces x \<Longrightarrow> retired k (run_ops xs s)"
  by (induction xs arbitrary: s) (auto simp: run_op_ok run_op_retired)

lemma retired_not_recalled:
  assumes "backend_ok s" "retired k s"
  shows "k \<notin> set (ids (fst (recall q a d n s)))"
proof -
  have "k \<notin> snd ` set (ranking q a d s)"
    using assms by (auto simp: set_ranking retired_def relevant_def)
  then show ?thesis by (auto simp: recall_eq refused_def)
qed

lemma recall_allowed_iff:
  "allowed (fst (recall q a d n s)) \<longleftrightarrow> (act_did a, n) \<notin> nonces s \<and> py_len q \<le> MAX_QUERY_CHARS"
  by (simp add: recall_eq refused_def)

lemma recall_ids:
  "(act_did a, n) \<notin> nonces s \<Longrightarrow> py_len q \<le> MAX_QUERY_CHARS \<Longrightarrow>
   ids (fst (recall q a d n s)) = map snd (ranking q a d s)"
  by (simp add: recall_eq)

text \<open>the number of query words in the text stored under an id\<close>

definition score_of :: "string \<Rightarrow> backend \<Rightarrow> string \<Rightarrow> nat" where
  "score_of q s i = (case dict_get (memories s) i of None \<Rightarrow> 0
     | Some m \<Rightarrow> card (words q \<inter> words (mem_text m)))"

definition ranks_before :: "string \<Rightarrow> backend \<Rightarrow> string \<Rightarrow> string \<Rightarrow> bool" where
  "ranks_before q s i j \<longleftrightarrow> score_of q s j < score_of q s i \<or> score_of q s i = score_of q s j \<and> i < j"

lemma ranking_order:
  assumes "backend_ok s"
  shows "sorted_wrt (ranks_before q s) (map snd (ranking q a d s))"
proof -
  have score: "fst p = score_of q s (snd p)" if "p \<in> set (ranking q a d s)" for p
    using that by (auto simp: set_ranking[OF assms] score_of_def)
  have "distinct (map snd (ranking q a d s))" using assms by (rule distinct_ranking_ids)
  then have "sorted_wrt (\<lambda>x y. snd x \<noteq> snd y) (ranking q a d s)"
    by (simp add: sorted_wrt_iff_nth_less distinct_conv_nth)
  with sorted_ranking have "sorted_wrt (\<lambda>x y. rank_key x \<le> rank_key y \<and> snd x \<noteq> snd y) (ranking q a d s)"
    by (simp add: sorted_wrt_iff_nth_less)
  then have "sorted_wrt (\<lambda>x y. ranks_before q s (snd x) (snd y)) (ranking q a d s)"
    by (rule sorted_wrt_mono_rel[rotated])
      (auto simp: rank_key_def ranks_before_def score[symmetric])
  then show ?thesis by (simp add: sorted_wrt_map)
qed

subsection \<open>A store with one memory\<close>

text \<open>The concrete input of the witnesses: one remembered note, and calls of its owner.\<close>

definition note_op :: op where
  "note_op = Remember (new_memory ''m1'' ''coffee price'' ''src'' ''d1'') (new_actor ''did:a'') ''n1''"

lemma note_guards [simp]:
  "py_len ''coffee price'' \<le> MAX_TEXT_CHARS" "py_len ''coffee'' \<le> MAX_QUERY_CHARS"
  "\<not> MAX_TEXT_CHARS < py_len ''coffee price''" "\<not> MAX_QUERY_CHARS < py_len ''coffee''"
  by (simp_all add: py_len_def MAX_TEXT_CHARS_def MAX_QUERY_CHARS_def)

lemma note_words: "words ''coffee'' = {''coffee''}" "words ''coffee price'' = {''coffee'', ''price''}"
  by code_simp+

lemma note_store [simp]:
  "snd (run_op note_op new_backend) =
     \<lparr>memories = [(''m1'', new_memory ''m1'' ''coffee price'' ''src'' ''d1'')],
      nonces = {(''did:a'', ''n1'')}, idempotency = []\<rparr>"
  by (simp add: note_op_def remember_def claim_def Let_def new_memory_def new_actor_def new_backend_def)

lemma note_authorized [simp]:
  "authorized (new_memory i t s d) (new_actor w)"
  by (simp add: authorized_def new_memory_def new_actor_def)

lemma new_actor_sel [simp]:
  "act_did (new_actor w) = w" "act_clearance (new_actor w) = 1" "act_can_mutate (new_actor w)"
  "act_tenant (new_actor w) = ''agstack''" "act_space (new_actor w) = ''coffee''"
  "act_purpose (new_actor w) = ''market-research''"
  by (simp_all add: new_actor_def)

lemma new_memory_sel [simp]:
  "memory_id (new_memory i t s d) = i" "mem_text (new_memory i t s d) = t"
  "source_digest (new_memory i t s d) = d" "mem_state (new_memory i t s d) = ''current''"
  "sensitivity (new_memory i t s d) = 1" "derived_from (new_memory i t s d) = []"
  "valid_from (new_memory i t s d) = Date 2026 1 1" "valid_until (new_memory i t s d) = None"
  "mem_tenant (new_memory i t s d) = ''agstack''" "mem_space (new_memory i t s d) = ''coffee''"
  by (simp_all add: new_memory_def)

subsection \<open>Recall\<close>

text \<open>C1: After any sequence of calls on a new backend, a recall with a fresh nonce and a bounded
  query is allowed and returns exactly the ids of the memories that are current, that the actor is
  authorized for, that are valid at the date and that share a token with the query; without
  duplicates, ordered by decreasing number of shared tokens and then by id.\<close>

theorem recall_exact:
  fixes xs :: "op list"
  defines "s \<equiv> run_ops xs new_backend"
  assumes "(act_did a, n) \<notin> nonces s" and "py_len q \<le> MAX_QUERY_CHARS"
  shows "allowed (fst (recall q a d n s))
    \<and> set (ids (fst (recall q a d n s)))
        = {i. \<exists>m. dict_get (memories s) i = Some m \<and> mem_state m = ''current'' \<and> authorized m a
             \<and> valid_from m \<le> d \<and> (\<forall>u. valid_until m = Some u \<longrightarrow> d < u)
             \<and> words q \<inter> words (mem_text m) \<noteq> {}}
    \<and> distinct (ids (fst (recall q a d n s)))
    \<and> sorted_wrt (ranks_before q s) (ids (fst (recall q a d n s)))"
proof -
  have ok: "backend_ok s" by (simp add: s_def)
  have "set (map snd (ranking q a d s)) = {i. \<exists>m. dict_get (memories s) i = Some m \<and> relevant (words q) a d m}"
    using set_ranking[OF ok] by (force simp: image_iff)
  also have "\<dots> = {i. \<exists>m. dict_get (memories s) i = Some m \<and> mem_state m = ''current'' \<and> authorized m a
      \<and> valid_from m \<le> d \<and> (\<forall>u. valid_until m = Some u \<longrightarrow> d < u) \<and> words q \<inter> words (mem_text m) \<noteq> {}}"
    by (auto simp: relevant_def split: option.splits)
  finally show ?thesis
    using assms distinct_ranking_ids[OF ok] ranking_order[OF ok]
    by (simp add: recall_ids recall_allowed_iff)
qed

lemma recall_exact_witness:
  "set (ids (fst (recall ''coffee'' (new_actor ''did:a'') (Date 2026 7 11) ''n2''
      (run_ops [note_op] new_backend)))) = {''m1''}"
  using recall_exact[of "new_actor ''did:a''" "''n2''" "[note_op]" "''coffee''" "Date 2026 7 11"]
  by (simp add: note_words)

text \<open>C2: A recall leaks nothing about memories the actor is not authorized for: two stores, each
  the result of any calls, that agree on the memories authorized for the actor and on whether the
  nonce is spent give the same decision, the receipt and the order of the ids included.\<close>

theorem recall_noninterference:
  fixes xs ys :: "op list"
  defines "s \<equiv> run_ops xs new_backend" and "t \<equiv> run_ops ys new_backend"
  assumes "\<And>m. authorized m a \<Longrightarrow>
      m \<in> set (dict_values (memories s)) \<longleftrightarrow> m \<in> set (dict_values (memories t))"
    and "(act_did a, n) \<in> nonces s \<longleftrightarrow> (act_did a, n) \<in> nonces t"
  shows "fst (recall q a d n s) = fst (recall q a d n t)"
proof -
  have "ranking q a d s = ranking q a d t"
    using assms(3) by (intro ranking_cong) (auto simp: s_def t_def relevant_def)
  then show ?thesis using assms(4) by (simp add: recall_eq)
qed

definition secret_op :: op where
  "secret_op = Remember (new_memory ''m0'' ''coffee secret'' ''src'' ''d0''\<lparr>mem_tenant := ''rival''\<rparr>)
     (new_actor ''did:r''\<lparr>act_tenant := ''rival''\<rparr>) ''n0''"

lemma recall_noninterference_witness:
  "fst (recall ''coffee'' (new_actor ''did:a'') (Date 2026 7 11) ''n2'' (run_ops [secret_op, note_op] new_backend))
   = fst (recall ''coffee'' (new_actor ''did:a'') (Date 2026 7 11) ''n2'' (run_ops [note_op] new_backend))"
proof (rule recall_noninterference)
  fix m :: memory
  assume "authorized m (new_actor ''did:a'')"
  then have "mem_tenant m = ''agstack''" by (simp add: authorized_def new_actor_def)
  then show "m \<in> set (dict_values (memories (run_ops [secret_op, note_op] new_backend)))
      \<longleftrightarrow> m \<in> set (dict_values (memories (run_ops [note_op] new_backend)))"
    by (auto simp: secret_op_def note_op_def remember_def claim_def Let_def new_memory_def new_actor_def
        new_backend_def dict_values_def py_len_def MAX_TEXT_CHARS_def)
qed (simp_all add: secret_op_def note_op_def remember_def claim_def Let_def new_memory_def new_actor_def
        new_backend_def py_len_def MAX_TEXT_CHARS_def)

text \<open>A recall depends on the query's words only as a set: reordering the words of a query,
  each the encoding of some text, changes neither the ids, their order nor the receipt.\<close>

theorem recall_word_order:
  fixes xs :: "op list"
  assumes "mset ws = mset ws'" and "\<forall>w \<in> set ws. starts_clean w"
  shows "fst (recall (join '' '' ws) a d n (run_ops xs new_backend))
       = fst (recall (join '' '' ws') a d n (run_ops xs new_backend))"
proof -
  have "set ws = set ws'" using assms(1) by (rule mset_eq_setD)
  then have w: "words (join '' '' ws) = words (join '' '' ws')" using assms(2) by (simp add: words_join)
  then have "ranking (join '' '' ws) a d (run_ops xs new_backend)
      = ranking (join '' '' ws') a d (run_ops xs new_backend)"
    by (intro ranking_cong) simp_all
  moreover have "py_len (join '' '' ws) = py_len (join '' '' ws')"
    using assms(1) by (rule py_len_join_mset)
  ultimately show ?thesis by (simp add: recall_eq)
qed

lemma recall_word_order_witness:
  "fst (recall (join '' '' [''price'', ''coffee'']) (new_actor ''did:a'') (Date 2026 7 11) ''n2''
      (run_ops [note_op] new_backend))
   = fst (recall (join '' '' [''coffee'', ''price'']) (new_actor ''did:a'') (Date 2026 7 11) ''n2''
      (run_ops [note_op] new_backend))"
  by (rule recall_word_order) (simp_all add: starts_clean_def)

subsection \<open>Refinement of the specification\<close>

text \<open>C3: The backend implements its specification: the outcomes of any sequence of calls and
  restarts on a new backend, errors included, and the memories, spent nonces and settled proposals
  it ends with are a run of the abstract authority.\<close>

theorem backend_refines_spec:
  "spec_run xs (abs_backend new_backend) (run_outcomes xs new_backend) (abs_backend (run_ops xs new_backend))"
proof -
  have "spec_run xs (abs_backend s) (run_outcomes xs s) (abs_backend (run_ops xs s))" if "backend_ok s" for s
    using that by (induction xs arbitrary: s)
      (auto intro: spec_run.intros simulation run_op_ok)
  then show ?thesis by simp
qed

subsection \<open>Mutations\<close>

text \<open>C6: In any reachable state, a call that changes a memory is a mutation by an actor allowed to
  mutate, with a nonce the actor had not spent, accepted by its guard, and the memories after it are
  exactly the specified effect of the call.\<close>

theorem memory_change_authorized:
  assumes "dict_get (memories (snd (run_op x (run_ops xs new_backend)))) k
       \<noteq> dict_get (memories (run_ops xs new_backend)) k"
  shows "(\<exists>a n. op_actor x = Some a \<and> op_nonce x = Some (act_did a, n) \<and> act_can_mutate a
        \<and> (act_did a, n) \<notin> nonces (run_ops xs new_backend))
    \<and> permitted x (abs_backend (run_ops xs new_backend))
    \<and> dict_get (memories (snd (run_op x (run_ops xs new_backend))))
        = effect x (dict_get (memories (run_ops xs new_backend)))"
proof -
  let ?s = "run_ops xs new_backend"
  have "spec_call x (abs_backend ?s) (outcome_of (fst (run_op x ?s))) (abs_backend (snd (run_op x ?s)))"
    by (rule simulation) simp
  from spec_memory_change[OF this] assms
  have p: "permitted x (abs_backend ?s)" "\<not> replayed x (abs_backend ?s)"
    "dict_get (memories (snd (run_op x ?s))) = effect x (dict_get (memories ?s))"
    by (auto dest: fun_cong)
  moreover have "act_can_mutate a" if "op_actor x = Some a" for a
    using p(1,3) assms that by (cases x) auto
  ultimately show ?thesis
    by (cases x) (auto simp: replayed_def)
qed

lemma memory_change_authorized_witness:
  "permitted note_op (abs_backend new_backend)"
proof -
  have "memories new_backend = []" by (simp add: new_backend_def)
  then show ?thesis using memory_change_authorized[of note_op "[]" "''m1''"] by simp
qed

text \<open>C4: A spent nonce is never accepted again: after any call, and any number of further calls
  and restarts, a call with the same actor identity and nonce, whatever its kind, is refused and
  changes nothing.\<close>

theorem nonce_spent_once:
  assumes "op_nonce x = Some key" and "op_nonce y = Some key"
  shows "op_refused y (fst (run_op y (run_ops xs (snd (run_op x s)))))
    \<and> snd (run_op y (run_ops xs (snd (run_op x s)))) = run_ops xs (snd (run_op x s))"
  using backend_nonces.replay_refused[OF assms, of xs s] by (simp add: run_all_run_ops)

lemma nonce_spent_once_witness:
  "snd (run_op (Forget ''m1'' (new_actor ''did:a'') ''n1'')
      (run_ops [Restart, Recall ''coffee'' (new_actor ''did:a'') (Date 2026 7 11) ''n2'', Restart]
        (snd (run_op note_op new_backend))))
   = run_ops [Restart, Recall ''coffee'' (new_actor ''did:a'') (Date 2026 7 11) ''n2'', Restart]
        (snd (run_op note_op new_backend))"
  using nonce_spent_once[of note_op "(''did:a'', ''n1'')" "Forget ''m1'' (new_actor ''did:a'') ''n1''"
      "[Restart, Recall ''coffee'' (new_actor ''did:a'') (Date 2026 7 11) ''n2'', Restart]" new_backend]
  unfolding note_op_def by simp

text \<open>A proposal settles once: when an improvement is accepted under an idempotency key, then
  after any further calls and restarts a retry of the same proposal under that key, by an actor
  allowed to mutate and with a fresh nonce, returns the same decision and changes no memory.\<close>

theorem improve_retry_stable:
  assumes "improve i rep a n e key s = (dec, s1)" and "allowed dec"
    and "act_can_mutate a" and "(act_did a, n') \<notin> nonces (run_ops xs s1)"
  shows "fst (improve i rep a n' e key (run_ops xs s1)) = dec
    \<and> memories (snd (improve i rep a n' e key (run_ops xs s1))) = memories (run_ops xs s1)
    \<and> idempotency (snd (improve i rep a n' e key (run_ops xs s1))) = idempotency (run_ops xs s1)"
proof -
  have "dict_get (idempotency s1) key = Some dec"
    using assms(1,2) by (cases rule: improve_cases[of i rep a n e key s]) (auto simp: refused_def)
  then have "dict_get (idempotency (run_ops xs s1)) key = Some dec" by (rule run_ops_idempotency)
  then show ?thesis using assms(3,4) by (simp add: improve_def claim_def Let_def)
qed

abbreviation "repl \<equiv> new_memory ''m2'' ''coffee price'' ''src2'' ''d2''"

lemma note_improve:
  "improve ''m1'' repl (new_actor ''did:a'') ''n2'' ''d1'' ''k1'' (snd (run_op note_op new_backend)) =
     (\<lparr>allowed = True, ids = [''m1'', ''m2''], err = [], receipt = digest (''improve:m1:m2'')\<rparr>,
      \<lparr>memories = [(''m1'', new_memory ''m1'' ''coffee price'' ''src'' ''d1''\<lparr>mem_state := ''superseded''\<rparr>),
         (''m2'', repl)],
       nonces = {(''did:a'', ''n2''), (''did:a'', ''n1'')},
       idempotency = [(''k1'', \<lparr>allowed = True, ids = [''m1'', ''m2''], err = [],
          receipt = digest (''improve:m1:m2'')\<rparr>)]\<rparr>)"
  by (simp add: improve_def claim_def Let_def)

lemma improve_retry_stable_witness:
  "fst (improve ''m1'' repl (new_actor ''did:a'') ''n3'' ''d1'' ''k1''
      (run_ops [Restart] (snd (improve ''m1'' repl (new_actor ''did:a'') ''n2'' ''d1'' ''k1''
        (snd (run_op note_op new_backend))))))
   = \<lparr>allowed = True, ids = [''m1'', ''m2''], err = [], receipt = digest (''improve:m1:m2'')\<rparr>"
  using improve_retry_stable[OF note_improve, of "''n3''" "[Restart]"] by (simp add: note_improve[unfolded note_store])

text \<open>C5: A forgotten memory stays forgotten: after an accepted forget, no recall by any actor
  returns the memory or a memory derived from it, whatever calls and restarts come in between,
  unless one of them remembers, or improves into, that very id again.\<close>

theorem forgotten_stays_forgotten:
  fixes xs ys :: "op list"
  defines "s \<equiv> run_ops xs new_backend"
  assumes "allowed (fst (forget i a n s))"
    and "k = i \<or> (\<exists>m. dict_get (memories s) k = Some m \<and> i \<in> set (derived_from m))"
    and "\<forall>x \<in> set ys. k \<notin> introduces x"
  shows "k \<notin> set (ids (fst (recall q b d n' (run_ops ys (snd (forget i a n s))))))"
proof (rule retired_not_recalled)
  have ok: "backend_ok s" by (simp add: s_def)
  have "retired k (snd (forget i a n s))"
  proof (cases rule: forget_cases[of i a n s])
    case (refusal e s')
    then show ?thesis using assms(2) by (simp add: refused_def)
  next
    case (applied m ms)
    have "dict_ok ms" using ok applied(5) by (simp add: backend_ok_def)
    then show ?thesis using applied(5,6) assms(3)
      by (auto simp: retired_def get_forgotten dest!: arg_cong[where f = mem_state])
  qed
  then show "retired k (run_ops ys (snd (forget i a n s)))"
    using ok assms(4) by (simp add: run_ops_retired forget_ok)
  show "backend_ok (run_ops ys (snd (forget i a n s)))" using ok by (simp add: run_ops_ok forget_ok)
qed

lemma note_forget:
  "forget ''m1'' (new_actor ''did:a'') ''n2'' (run_ops [note_op] new_backend) =
     (\<lparr>allowed = True, ids = [''m1''], err = [], receipt = digest (''forget:m1'')\<rparr>,
      \<lparr>memories = [(''m1'', new_memory ''m1'' ''coffee price'' ''src'' ''d1''\<lparr>mem_state := ''forgotten''\<rparr>)],
       nonces = {(''did:a'', ''n2''), (''did:a'', ''n1'')}, idempotency = []\<rparr>)"
  by (simp add: forget_def claim_def)

lemma forgotten_stays_forgotten_witness:
  "''m1'' \<notin> set (ids (fst (recall ''coffee'' (new_actor ''did:a'') (Date 2026 7 11) ''n3''
     (run_ops [Restart] (snd (forget ''m1'' (new_actor ''did:a'') ''n2'' (run_ops [note_op] new_backend)))))))"
  by (rule forgotten_stays_forgotten) (simp_all only: note_forget, simp_all)

subsection \<open>Where the code departs from its policy\<close>

text \<open>A proposal bound to superseded evidence commits: after an accepted improvement of a
  memory, another proposal for the same memory with the digest of the superseded source, a new key
  and a fresh nonce is accepted too, because the state of the memory is never consulted.\<close>

theorem superseded_evidence_commits:
  assumes "improve i rep a n e key s = (dec, s1)" and "allowed dec"
    and "dict_get (idempotency s) key = None" and "memory_id rep \<noteq> i"
    and "dict_get (idempotency s) key' = None" and "key' \<noteq> key"
    and "act_can_mutate a" and "(act_did a, n') \<notin> nonces s1" and "sensitivity rep' \<le> act_clearance a"
  shows "(\<exists>m. dict_get (memories s1) i = Some m \<and> mem_state m = ''superseded'')
    \<and> allowed (fst (improve i rep' a n' e key' s1))
    \<and> dict_get (memories (snd (improve i rep' a n' e key' s1))) (memory_id rep') = Some rep'"
proof (cases rule: improve_cases[of i rep a n e key s])
  case (applied m dec')
  then have "s1 = s\<lparr>memories := dict_set (memory_id rep) rep
      (dict_set i (m\<lparr>mem_state := ''superseded''\<rparr>) (memories s)),
      nonces := insert (act_did a, n) (nonces s), idempotency := dict_set key dec' (idempotency s)\<rparr>"
    using assms(1) by simp
  moreover have "authorized (m\<lparr>mem_state := ''superseded''\<rparr>) a"
    using applied(6) by (simp add: authorized_def)
  ultimately show ?thesis
    using assms(4-9) applied(5) by (simp add: improve_def claim_def Let_def)
qed (use assms in \<open>auto simp: refused_def\<close>)

lemma superseded_evidence_commits_witness:
  "allowed (fst (improve ''m1'' (new_memory ''m3'' ''other'' ''src3'' ''d3'') (new_actor ''did:a'') ''n3'' ''d1'' ''k2''
     (snd (improve ''m1'' repl (new_actor ''did:a'') ''n2'' ''d1'' ''k1'' (snd (run_op note_op new_backend))))))"
  using superseded_evidence_commits[OF note_improve, of "''k2''" "''n3''" "new_memory ''m3'' ''other'' ''src3'' ''d3''"]
  by (simp add: note_improve[unfolded note_store])

text \<open>C7: An id is not protected by the scope of the memory it holds: an actor of another tenant who
  remembers a memory of the own scope under that id replaces it, and the former owner no longer
  recalls the id.\<close>

theorem remember_overwrites_foreign_memory:
  fixes xs :: "op list"
  defines "s \<equiv> run_ops xs new_backend"
  assumes "dict_get (memories s) (memory_id m) = Some old" and "mem_tenant old \<noteq> act_tenant a"
    and "act_can_mutate a" and "(act_did a, n) \<notin> nonces s" and "py_len (mem_text m) \<le> MAX_TEXT_CHARS"
    and "mem_tenant m = act_tenant a" and "mem_space m = act_space a" and "sensitivity m \<le> act_clearance a"
    and "act_tenant b = mem_tenant old"
  shows "allowed (fst (remember m a n s))
    \<and> dict_get (memories (snd (remember m a n s))) (memory_id m) = Some m
    \<and> memory_id m \<notin> set (ids (fst (recall q b d n' (snd (remember m a n s)))))"
proof -
  have s': "memories (snd (remember m a n s)) = dict_set (memory_id m) m (memories s)"
    and al: "allowed (fst (remember m a n s))"
    using assms by (auto simp: remember_def claim_def Let_def)
  have "backend_ok (snd (remember m a n s))" by (simp add: s_def remember_ok)
  moreover have "\<not> relevant w b d m" for w
    using assms by (simp add: relevant_def authorized_def)
  ultimately have "memory_id m \<notin> snd ` set (ranking q b d (snd (remember m a n s)))"
    using s' by (auto simp: set_ranking)
  then have "memory_id m \<notin> set (ids (fst (recall q b d n' (snd (remember m a n s)))))"
    by (auto simp: recall_eq refused_def)
  with s' al show ?thesis by simp
qed

lemma remember_overwrites_foreign_memory_witness:
  "''m1'' \<notin> set (ids (fst (recall ''coffee'' (new_actor ''did:a'') (Date 2026 7 11) ''n3''
     (snd (remember (new_memory ''m1'' ''coffee price'' ''x'' ''x''\<lparr>mem_tenant := ''rival''\<rparr>)
        (new_actor ''did:r''\<lparr>act_tenant := ''rival''\<rparr>) ''n9'' (run_ops [note_op] new_backend))))))"
  using remember_overwrites_foreign_memory[of "[note_op]"
      "new_memory ''m1'' ''coffee price'' ''x'' ''x''\<lparr>mem_tenant := ''rival''\<rparr>"
      "new_memory ''m1'' ''coffee price'' ''src'' ''d1''"
      "new_actor ''did:r''\<lparr>act_tenant := ''rival''\<rparr>" "''n9''" "new_actor ''did:a''"]
  by simp

end
