(* ===== verification/BackendV2.thy ===== *)
theory BackendV2
  imports Identity Backend_Props
begin

text \<open>
  \<^verbatim>\<open>adversarial_cognition/backend_v2.py\<close>: the policy core of theory \<open>Backend\<close> behind authenticated
  sessions. A call presents a DID and a credential; the actor the core sees is built from the
  registry's record alone. A call answers with a decision or raises (the \<^verbatim>\<open>TypeError\<close> of
  \<open>authenticate\<close>). The properties: an authenticated call is the core's call for the registered
  actor, and an unauthenticated one is invisible.
\<close>

subsection \<open>State and operations\<close>

definition DENIED :: decision where
  "DENIED = refused ''authentication-denied''"

definition PRINCIPALS :: "identity_record list" where
  "PRINCIPALS = [
     (new_identity ''did:key:operator'')\<lparr>idr_clearance := 3\<rparr>,
     (new_identity ''did:key:analyst'')\<lparr>idr_clearance := 1\<rparr>,
     (new_identity ''did:key:outsider'')\<lparr>idr_tenant := ''rival''\<rparr>,
     (new_identity ''did:key:advertiser'')\<lparr>idr_purpose := ''advertising''\<rparr>]"

record auth_backend =
  core :: backend
  identities :: identity_registry
  credentials :: "(string, string) pydict"

text \<open>the dictionary comprehension that registers every principal and keeps its credential\<close>

fun register_all :: "identity_record list \<Rightarrow> (string, string) pydict \<Rightarrow> identity_registry
    \<Rightarrow> (string, string) pydict \<times> identity_registry" where
  "register_all [] cs r = (cs, r)"
| "register_all (x # xs) cs r =
     (case register x r of (c, r') \<Rightarrow> register_all xs (dict_set (idr_did x) c cs) r')"

definition new_auth_backend :: auth_backend where
  "new_auth_backend =
     (case register_all PRINCIPALS [] (new_registry BENCHMARK_IDENTITY_KEY) of (cs, r) \<Rightarrow>
        \<lparr>core = new_backend, identities = r, credentials = cs\<rparr>)"

definition seed_v2 :: "auth_backend \<Rightarrow> auth_backend" where
  "seed_v2 s = s\<lparr>core := seed (core s)\<rparr>"

definition restart_v2 :: "auth_backend \<Rightarrow> auth_backend" where
  "restart_v2 s = s\<lparr>core := restart (core s)\<rparr>"

definition authenticate_v2 :: "string \<Rightarrow> string \<Rightarrow> auth_backend \<Rightarrow> session option result" where
  "authenticate_v2 d c s = authenticate d c (identities s)"

definition session_actor :: "session \<Rightarrow> actor" where
  "session_actor se = (let x = session_record se in
     \<lparr>act_did = idr_did x, act_tenant = idr_tenant x, act_space = idr_space x,
      act_purpose = idr_purpose x, act_clearance = idr_clearance x, act_can_mutate = idr_can_mutate x\<rparr>)"

text \<open>The guard every operation starts with, and the call of the core behind it.\<close>

definition with_session :: "string \<Rightarrow> string \<Rightarrow> (actor \<Rightarrow> backend \<Rightarrow> decision \<times> backend)
    \<Rightarrow> auth_backend \<Rightarrow> decision result \<times> auth_backend" where
  "with_session d c f s =
     (case authenticate_v2 d c s of
        Inl e \<Rightarrow> (Inl e, s)
      | Inr None \<Rightarrow> (Inr DENIED, s)
      | Inr (Some se) \<Rightarrow> (case f (session_actor se) (core s) of
          (dec, t) \<Rightarrow> (Inr dec, s\<lparr>core := t\<rparr>)))"

definition remember_v2 :: "memory \<Rightarrow> string \<Rightarrow> string \<Rightarrow> string \<Rightarrow> auth_backend
    \<Rightarrow> decision result \<times> auth_backend" where
  "remember_v2 m d c n = with_session d c (\<lambda>a. remember m a n)"

definition recall_v2 :: "string \<Rightarrow> string \<Rightarrow> string \<Rightarrow> date \<Rightarrow> string \<Rightarrow> auth_backend
    \<Rightarrow> decision result \<times> auth_backend" where
  "recall_v2 q d c as_of n = with_session d c (\<lambda>a. recall q a as_of n)"

definition improve_v2 :: "string \<Rightarrow> memory \<Rightarrow> string \<Rightarrow> string \<Rightarrow> string \<Rightarrow> string \<Rightarrow> string
    \<Rightarrow> auth_backend \<Rightarrow> decision result \<times> auth_backend" where
  "improve_v2 i rep d c n e k = with_session d c (\<lambda>a. improve i rep a n e k)"

definition forget_v2 :: "string \<Rightarrow> string \<Rightarrow> string \<Rightarrow> string \<Rightarrow> auth_backend
    \<Rightarrow> decision result \<times> auth_backend" where
  "forget_v2 i d c n = with_session d c (\<lambda>a. forget i a n)"

lemmas backend_v2_ops [op_defs] =
  remember_v2_def recall_v2_def improve_v2_def forget_v2_def seed_v2_def restart_v2_def

subsection \<open>Sequences of calls\<close>

datatype op_v2 =
    RememberV2 memory string string string
  | RecallV2 string string string date string
  | ImproveV2 string memory string string string string string
  | ForgetV2 string string string string
  | RestartV2

fun run_op_v2 :: "op_v2 \<Rightarrow> auth_backend \<Rightarrow> decision result option \<times> auth_backend" where
  "run_op_v2 (RememberV2 m d c n) s = map_prod Some id (remember_v2 m d c n s)"
| "run_op_v2 (RecallV2 q d c as_of n) s = map_prod Some id (recall_v2 q d c as_of n s)"
| "run_op_v2 (ImproveV2 i rep d c n e k) s = map_prod Some id (improve_v2 i rep d c n e k s)"
| "run_op_v2 (ForgetV2 i d c n) s = map_prod Some id (forget_v2 i d c n s)"
| "run_op_v2 RestartV2 s = (None, restart_v2 s)"

fun run_ops_v2 :: "op_v2 list \<Rightarrow> auth_backend \<Rightarrow> auth_backend" where
  "run_ops_v2 [] s = s"
| "run_ops_v2 (x # xs) s = run_ops_v2 xs (snd (run_op_v2 x s))"

text \<open>the identity and the credential a call presents\<close>

fun presented :: "op_v2 \<Rightarrow> (string \<times> string) option" where
  "presented (RememberV2 m d c n) = Some (d, c)"
| "presented (RecallV2 q d c as_of n) = Some (d, c)"
| "presented (ImproveV2 i rep d c n e k) = Some (d, c)"
| "presented (ForgetV2 i d c n) = Some (d, c)"
| "presented RestartV2 = None"

text \<open>the call of the core a call stands for, for the actor of a session\<close>

fun core_op :: "op_v2 \<Rightarrow> actor \<Rightarrow> op" where
  "core_op (RememberV2 m d c n) a = Remember m a n"
| "core_op (RecallV2 q d c as_of n) a = Recall q a as_of n"
| "core_op (ImproveV2 i rep d c n e k) a = Improve i rep a n e k"
| "core_op (ForgetV2 i d c n) a = Forget i a n"
| "core_op RestartV2 a = Restart"

text \<open>
  Whether a registry accepts what a call presents; a restart presents nothing and always counts.
\<close>

definition authentic :: "identity_registry \<Rightarrow> op_v2 \<Rightarrow> bool" where
  "authentic r x \<longleftrightarrow> (case presented x of None \<Rightarrow> True | Some (d, c) \<Rightarrow> accepts_credential r d c)"

lemma with_session_cases:
  obtains (denied) "\<not> accepts_credential (identities s) d c" "snd (with_session d c f s) = s"
      "fst (with_session d c f s) = Inr DENIED \<or> fst (with_session d c f s) =
         raise_error ''TypeError'' ''comparing strings with non-ASCII characters is not supported''"
    | (session) x where "accepts_credential (identities s) d c"
      "dict_get (reg_records (identities s)) d = Some x"
      "with_session d c f s = (Inr (fst (f (session_actor (Session x)) (core s))),
         s\<lparr>core := snd (f (session_actor (Session x)) (core s))\<rparr>)"
  by (cases rule: authenticate_cases[of "identities s" d c])
    (auto simp: with_session_def authenticate_v2_def accepts_credential_def split: prod.splits)

lemma run_op_v2_cases:
  obtains (restart) "x = RestartV2" "run_op_v2 x s = (None, s)"
    | (denied) d c out where "presented x = Some (d, c)" "\<not> accepts_credential (identities s) d c"
      "run_op_v2 x s = (Some out, s)"
      "out = Inr DENIED \<or> out =
         raise_error ''TypeError'' ''comparing strings with non-ASCII characters is not supported''"
    | (session) d c y dec where "presented x = Some (d, c)" "accepts_credential (identities s) d c"
      "dict_get (reg_records (identities s)) d = Some y"
      "fst (run_op (core_op x (session_actor (Session y))) (core s)) = Some dec"
      "run_op_v2 x s = (Some (Inr dec),
         s\<lparr>core := snd (run_op (core_op x (session_actor (Session y))) (core s))\<rparr>)"
proof (cases x)
  case RestartV2
  then show thesis by (intro restart) (simp_all add: restart_v2_def)
next
  case (RememberV2 m d c n)
  then show thesis
    by (cases rule: with_session_cases[of s d c "\<lambda>a. remember m a n"])
      (auto intro: denied session simp: remember_v2_def prod_eq_iff)
next
  case (RecallV2 q d c as_of n)
  then show thesis
    by (cases rule: with_session_cases[of s d c "\<lambda>a. recall q a as_of n"])
      (auto intro: denied session simp: recall_v2_def prod_eq_iff)
next
  case (ImproveV2 i rep d c n e k)
  then show thesis
    by (cases rule: with_session_cases[of s d c "\<lambda>a. improve i rep a n e k"])
      (auto intro: denied session simp: improve_v2_def prod_eq_iff)
next
  case (ForgetV2 i d c n)
  then show thesis
    by (cases rule: with_session_cases[of s d c "\<lambda>a. forget i a n"])
      (auto intro: denied session simp: forget_v2_def prod_eq_iff)
qed

lemma run_op_v2_frame [simp]:
  "identities (snd (run_op_v2 x s)) = identities s" "credentials (snd (run_op_v2 x s)) = credentials s"
  by (cases rule: run_op_v2_cases[of x s]; simp)+

lemma run_ops_v2_frame [simp]:
  "identities (run_ops_v2 xs s) = identities s" "credentials (run_ops_v2 xs s) = credentials s"
  by (induction xs arbitrary: s) auto

lemma not_authentic_frame: "\<not> authentic (identities s) x \<Longrightarrow> snd (run_op_v2 x s) = s"
  by (cases rule: run_op_v2_cases[of x s]) (auto simp: authentic_def)

subsection \<open>The registered principals\<close>

lemma new_auth_backend_eq:
  "identities new_auth_backend = \<lparr>reg_key = BENCHMARK_IDENTITY_KEY,
     reg_records = map (\<lambda>x. (idr_did x, x)) PRINCIPALS\<rparr>"
  "credentials new_auth_backend =
     map (\<lambda>x. (idr_did x, credential (idr_did x) (identities new_auth_backend))) PRINCIPALS"
  "core new_auth_backend = new_backend"
  by (simp_all add: new_auth_backend_def PRINCIPALS_def register_def new_registry_def new_identity_def
      credential_def Let_def)

lemma principals_distinct: "distinct (map idr_did PRINCIPALS)"
  by (simp add: PRINCIPALS_def new_identity_def)

lemma new_auth_lookup:
  "dict_get (reg_records (identities new_auth_backend)) d = Some x \<longleftrightarrow> x \<in> set PRINCIPALS \<and> d = idr_did x"
proof -
  have "distinct (map fst (map (\<lambda>x. (idr_did x, x)) PRINCIPALS))"
    using principals_distinct by (simp add: comp_def)
  from map_of_eq_Some_iff[OF this, of d x] show ?thesis
    by (auto simp: new_auth_backend_eq(1))
qed

text \<open>the calls of the core a sequence of calls amounts to under a registry\<close>

definition core_ops :: "identity_registry \<Rightarrow> op_v2 list \<Rightarrow> op list" where
  "core_ops r xs = concat (map (\<lambda>x.
     case presented x of
       None \<Rightarrow> [Restart]
     | Some (d, c) \<Rightarrow> (case authenticate d c r of
         Inr (Some se) \<Rightarrow> [core_op x (session_actor se)] | _ \<Rightarrow> [])) xs)"

lemma core_ops_Nil [simp]: "core_ops r [] = []"
  by (simp add: core_ops_def)

lemma core_ops_Cons: "core_ops r (x # xs) = core_ops r [x] @ core_ops r xs"
  by (simp add: core_ops_def)

lemma run_ops_append: "run_ops (xs @ ys) s = run_ops ys (run_ops xs s)"
  by (induction xs arbitrary: s) auto

lemma run_op_v2_core:
  "core (snd (run_op_v2 x s)) = run_ops (core_ops (identities s) [x]) (core s)"
proof (cases rule: run_op_v2_cases[of x s])
  case (denied d c out)
  then have "authenticate d c (identities s) = Inr None \<or> (\<exists>e. authenticate d c (identities s) = Inl e)"
    by (cases rule: authenticate_cases[of "identities s" d c]) (auto simp: accepts_credential_def)
  with denied show ?thesis by (auto simp: core_ops_def)
next
  case (session d c y dec)
  then have "authenticate d c (identities s) = Inr (Some (Session y))"
    by (auto simp: accepts_credential_def authenticate_Some_iff)
  with session show ?thesis by (simp add: core_ops_def)
qed (simp add: core_ops_def)

lemma run_ops_v2_core:
  "core (run_ops_v2 xs s) = run_ops (core_ops (identities s) xs) (core s)"
proof (induction xs arbitrary: s)
  case (Cons x xs)
  have "core (run_ops_v2 (x # xs) s) = core (run_ops_v2 xs (snd (run_op_v2 x s)))" by simp
  also have "\<dots> = run_ops (core_ops (identities s) xs) (core (snd (run_op_v2 x s)))"
    using Cons.IH by simp
  also have "\<dots> = run_ops (core_ops (identities s) (x # xs)) (core s)"
    by (simp only: run_op_v2_core run_ops_append[symmetric] core_ops_Cons[of _ x xs])
  finally show ?case .
qed simp

text \<open>what each call of a sequence answered\<close>

fun results_v2 :: "op_v2 list \<Rightarrow> auth_backend \<Rightarrow> (op_v2 \<times> decision result option) list" where
  "results_v2 [] s = []"
| "results_v2 (x # xs) s = (x, fst (run_op_v2 x s)) # results_v2 xs (snd (run_op_v2 x s))"

subsection \<open>Properties\<close>

text \<open>C8: A call that presents no valid credential is invisible: dropping every such call from a
  sequence changes neither the final state, spent nonces included, nor what any authenticated call
  of the sequence answers.\<close>

theorem unauthenticated_invisible:
  fixes s :: auth_backend
  defines "ok \<equiv> authentic (identities s)"
  shows "run_ops_v2 (filter ok xs) s = run_ops_v2 xs s
    \<and> results_v2 (filter ok xs) s = filter (\<lambda>p. ok (fst p)) (results_v2 xs s)"
proof -
  have "run_ops_v2 (filter ok xs) t = run_ops_v2 xs t
      \<and> results_v2 (filter ok xs) t = filter (\<lambda>p. ok (fst p)) (results_v2 xs t)"
    if "identities t = identities s" for t
    using that
  proof (induction xs arbitrary: t)
    case (Cons x xs)
    have "snd (run_op_v2 x t) = t" if "\<not> ok x"
      using that Cons.prems not_authentic_frame[of t x] by (simp add: ok_def)
    with Cons show ?case by auto
  qed simp
  then show ?thesis by simp
qed

text \<open>
  The specification: the four actors as the benchmark documents them, and a call as the call of the
  core that the holder of the presented identity makes, if the credential is the HMAC of the
  identity under the benchmark key. Neither the registry nor its sessions are mentioned.
\<close>

definition holder :: "string \<Rightarrow> actor option" where
  "holder d =
     (if d = ''did:key:operator'' then Some \<lparr>act_did = d, act_tenant = ''agstack'', act_space = ''coffee'',
        act_purpose = ''market-research'', act_clearance = 3, act_can_mutate = True\<rparr>
      else if d = ''did:key:analyst'' then Some \<lparr>act_did = d, act_tenant = ''agstack'', act_space = ''coffee'',
        act_purpose = ''market-research'', act_clearance = 1, act_can_mutate = True\<rparr>
      else if d = ''did:key:outsider'' then Some \<lparr>act_did = d, act_tenant = ''rival'', act_space = ''coffee'',
        act_purpose = ''market-research'', act_clearance = 1, act_can_mutate = True\<rparr>
      else if d = ''did:key:advertiser'' then Some \<lparr>act_did = d, act_tenant = ''agstack'', act_space = ''coffee'',
        act_purpose = ''advertising'', act_clearance = 1, act_can_mutate = True\<rparr>
      else None)"

definition spec_call :: "op_v2 \<Rightarrow> backend \<Rightarrow> decision result option \<times> backend" where
  "spec_call x b =
     (case presented x of
        None \<Rightarrow> (None, snd (run_op Restart b))
      | Some (d, c) \<Rightarrow>
          (case holder d of
             None \<Rightarrow> (Some (Inr \<lparr>allowed = False, ids = [], err = ''authentication-denied'', receipt = []\<rparr>), b)
           | Some a \<Rightarrow>
               if \<not> is_ascii c then
                 (Some (raise_error ''TypeError'' ''comparing strings with non-ASCII characters is not supported''), b)
               else if c \<noteq> hmac_sha256_hex ''marciana-adversarial-v2-identity'' d then
                 (Some (Inr \<lparr>allowed = False, ids = [], err = ''authentication-denied'', receipt = []\<rparr>), b)
               else map_prod (map_option Inr) id (run_op (core_op x a) b)))"

fun spec_calls :: "op_v2 list \<Rightarrow> backend \<Rightarrow> decision result option list \<times> backend" where
  "spec_calls [] b = ([], b)"
| "spec_calls (x # xs) b =
     (case spec_call x b of (out, b') \<Rightarrow> case spec_calls xs b' of (outs, b'') \<Rightarrow> (out # outs, b''))"

lemma holder_registered:
  "holder d = map_option (\<lambda>x. session_actor (Session x)) (dict_get (reg_records (identities new_auth_backend)) d)"
  by (simp add: holder_def new_auth_backend_eq(1) PRINCIPALS_def new_identity_def session_actor_def)

lemma with_session_spec:
  assumes "identities s = identities new_auth_backend"
  shows "with_session d c f s = (case holder d of
      None \<Rightarrow> (Inr DENIED, s)
    | Some a \<Rightarrow> if \<not> is_ascii c then
          (raise_error ''TypeError'' ''comparing strings with non-ASCII characters is not supported'', s)
        else if c \<noteq> hmac_sha256_hex ''marciana-adversarial-v2-identity'' d then (Inr DENIED, s)
        else (Inr (fst (f a (core s))), s\<lparr>core := snd (f a (core s))\<rparr>))"
proof -
  have c: "credential d (identities new_auth_backend) = hmac_sha256_hex ''marciana-adversarial-v2-identity'' d"
    by (simp add: credential_def new_auth_backend_eq(1) BENCHMARK_IDENTITY_KEY_def)
  show ?thesis
    using credential_ascii[of d "identities new_auth_backend"] unfolding c holder_registered
    by (cases rule: authenticate_cases[of "identities new_auth_backend" d c])
      (simp_all add: with_session_def authenticate_v2_def assms c split: prod.splits)
qed

lemma denied_record: "DENIED = \<lparr>allowed = False, ids = [], err = ''authentication-denied'', receipt = []\<rparr>"
  by (simp add: DENIED_def refused_def)

lemma run_op_v2_spec:
  assumes "identities s = identities new_auth_backend"
  shows "fst (run_op_v2 x s) = fst (spec_call x (core s))" "core (snd (run_op_v2 x s)) = snd (spec_call x (core s))"
  by (cases x; auto simp: spec_call_def backend_v2_ops with_session_spec[OF assms] denied_record split: option.split)+

lemma run_ops_v2_spec:
  assumes "identities s = identities new_auth_backend"
  shows "(map snd (results_v2 xs s), core (run_ops_v2 xs s)) = spec_calls xs (core s)"
  using assms
proof (induction xs arbitrary: s)
  case (Cons x xs)
  have "identities (snd (run_op_v2 x s)) = identities new_auth_backend" using Cons.prems by simp
  from Cons.IH[OF this] run_op_v2_spec[OF Cons.prems, of x] show ?case
    by (auto simp: case_prod_beta prod_eq_iff)
qed simp

text \<open>C9: The authenticated backend refines the core: over any sequence of calls on a new backend, every
  answer and the final core are those of the specification, in which a call is the core's call made
  by the actor documented for the presented identity (its tenant, space, purpose, clearance and
  permission, whatever the caller asserts) if the credential is the HMAC of that identity, and
  otherwise is denied, or raises for a credential outside ASCII, and leaves the core as it is. The
  registry never changes.\<close>

theorem v2_refines_core:
  "(map snd (results_v2 xs new_auth_backend), core (run_ops_v2 xs new_auth_backend)) = spec_calls xs new_backend
   \<and> identities (run_ops_v2 xs new_auth_backend) = identities new_auth_backend"
  using run_ops_v2_spec[OF refl, of xs] by (simp add: new_auth_backend_eq(3))

text \<open>Whatever was called, a session is only ever given to one of the four registered
  principals, for the HMAC of its DID under the benchmark key, and the session carries the
  attributes registered at construction.\<close>

theorem only_registered_principals:
  "authenticate_v2 d c (run_ops_v2 xs new_auth_backend) = Inr (Some se) \<longleftrightarrow>
     (\<exists>x \<in> set PRINCIPALS. d = idr_did x \<and> c = hmac_sha256_hex BENCHMARK_IDENTITY_KEY d \<and> se = Session x)"
proof -
  have "credential d (identities new_auth_backend) = hmac_sha256_hex BENCHMARK_IDENTITY_KEY d"
    by (simp add: credential_def new_auth_backend_eq(1))
  then show ?thesis by (auto simp: authenticate_v2_def authenticate_Some_iff new_auth_lookup)
qed

text \<open>A recall discloses only what the registered attributes of the identity allow: every id of
  an answer, in any reachable state, names a stored memory of the principal's tenant, space and
  purpose whose sensitivity is within its clearance.\<close>

theorem recall_v2_within_registration:
  fixes xs :: "op_v2 list"
  defines "s \<equiv> run_ops_v2 xs new_auth_backend"
  assumes "fst (recall_v2 q d c as_of n s) = Inr dec" and "i \<in> set (ids dec)"
  shows "\<exists>x \<in> set PRINCIPALS. \<exists>m. d = idr_did x \<and> dict_get (memories (core s)) i = Some m
    \<and> mem_tenant m = idr_tenant x \<and> mem_space m = idr_space x \<and> mem_purpose m = idr_purpose x
    \<and> sensitivity m \<le> idr_clearance x \<and> mem_state m = ''current''"
proof (cases rule: with_session_cases[of s d c "\<lambda>a. recall q a as_of n"])
  case denied
  then show ?thesis using assms(2,3) by (auto simp: recall_v2_def DENIED_def refused_def)
next
  case (session x)
  let ?a = "session_actor (Session x)"
  have dec: "dec = fst (recall q ?a as_of n (core s))"
    using assms(2) session(3) by (simp add: recall_v2_def)
  have ok: "backend_ok (core s)"
    by (simp add: s_def run_ops_v2_core new_auth_backend_eq(3))
  have "i \<in> snd ` set (ranking q ?a as_of (core s))"
    using assms(3) dec by (auto simp: recall_eq refused_def split: if_splits)
  then obtain m where "dict_get (memories (core s)) i = Some m" "relevant (words q) ?a as_of m"
    by (auto simp: set_ranking[OF ok])
  moreover have "x \<in> set PRINCIPALS" "d = idr_did x"
    using session(2) by (simp_all add: s_def new_auth_lookup)
  ultimately show ?thesis
    by (auto simp: relevant_def authorized_def session_actor_def)
qed

lemma operator_credential:
  "authenticate ''did:key:operator'' (credential ''did:key:operator'' (identities new_auth_backend))
     (identities new_auth_backend)
   = Inr (Some (Session ((new_identity ''did:key:operator'')\<lparr>idr_clearance := 3\<rparr>)))"
  by (auto simp: authenticate_Some_iff new_auth_lookup PRINCIPALS_def new_identity_def)

lemma recall_v2_within_registration_witness:
  "\<exists>x \<in> set PRINCIPALS. idr_did x = ''did:key:operator''
     \<and> sensitivity (new_memory ''m1'' ''coffee price'' ''src'' ''d1'') \<le> idr_clearance x"
proof -
  let ?c = "credential ''did:key:operator'' (identities new_auth_backend)"
  let ?xs = "[RememberV2 (new_memory ''m1'' ''coffee price'' ''src'' ''d1'') ''did:key:operator'' ?c ''n1'']"
  let ?s = "run_ops_v2 ?xs new_auth_backend"
  have core: "memories (core ?s) = [(''m1'', new_memory ''m1'' ''coffee price'' ''src'' ''d1'')]"
    "nonces (core ?s) = {(''did:key:operator'', ''n1'')}"
    by (simp_all add: remember_v2_def with_session_def authenticate_v2_def operator_credential
        session_actor_def new_identity_def remember_def claim_def Let_def new_auth_backend_eq(3) new_backend_def)
  have "relevant (words ''coffee'') (session_actor (Session ((new_identity ''did:key:operator'')\<lparr>idr_clearance := 3\<rparr>)))
      (Date 2026 2 1) (new_memory ''m1'' ''coffee price'' ''src'' ''d1'')"
    by (simp add: relevant_def authorized_def session_actor_def new_identity_def note_words new_memory_def)
  then have r: "fst (recall_v2 ''coffee'' ''did:key:operator'' ?c (Date 2026 2 1) ''n2'' ?s)
      = Inr \<lparr>allowed = True, ids = [''m1''], err = [], 
         receipt = digest (''recall:'' @ repr_pairs [(1, ''m1'')])\<rparr>"
    unfolding recall_v2_def with_session_def authenticate_v2_def run_ops_v2_frame operator_credential
    by (simp del: run_ops_v2.simps add: core session_actor_def new_identity_def recall_eq ranking_def rank_loop_eq
        dict_values_def note_words)
  show ?thesis
    using recall_v2_within_registration[OF r, of "''m1''"] core by auto
qed

end
