(* ===== verification/Dates.thy ===== *)
theory Dates
  imports PyStr
begin

text \<open>
  \<^verbatim>\<open>date.fromisoformat\<close>: the calendar forms \<^verbatim>\<open>YYYY-MM-DD\<close> and \<^verbatim>\<open>YYYYMMDD\<close> and the week forms
  \<^verbatim>\<open>YYYY-Www[-D]\<close> and \<^verbatim>\<open>YYYYWww[D]\<close>, with the ranges \<^verbatim>\<open>datetime\<close> checks.
\<close>

definition leap :: "int \<Rightarrow> bool" where
  "leap y \<longleftrightarrow> y mod 4 = 0 \<and> (y mod 100 \<noteq> 0 \<or> y mod 400 = 0)"

definition days_in_month :: "int \<Rightarrow> int \<Rightarrow> int" where
  "days_in_month y m = (if m = 2 then (if leap y then 29 else 28)
     else if m \<in> {4, 6, 9, 11} then 30 else 31)"

definition days_before_year :: "int \<Rightarrow> int" where
  "days_before_year y = (let p = y - 1 in p * 365 + p div 4 - p div 100 + p div 400)"

definition valid_date :: "date \<Rightarrow> bool" where
  "valid_date d \<longleftrightarrow> 1 \<le> year d \<and> year d \<le> 9999 \<and> 1 \<le> month d \<and> month d \<le> 12
     \<and> 1 \<le> day d \<and> day d \<le> days_in_month (year d) (month d)"

definition make_date :: "int \<Rightarrow> int \<Rightarrow> int \<Rightarrow> date result" where
  "make_date y m d =
     (if y < 1 \<or> 9999 < y then raise_error ''ValueError'' (''year '' @ int_str y @ '' is out of range'')
      else if m < 1 \<or> 12 < m then raise_error ''ValueError'' ''month must be in 1..12''
      else if d < 1 \<or> days_in_month y m < d then raise_error ''ValueError'' ''day is out of range for month''
      else Inr (Date y m d))"

text \<open>the date \<open>n\<close> days after the first of a month, in the months of one year; the fuel is the
  number of months left\<close>

fun walk_months :: "nat \<Rightarrow> int \<Rightarrow> int \<Rightarrow> int \<Rightarrow> int \<times> int" where
  "walk_months 0 y m n = (m, n + 1)"
| "walk_months (Suc k) y m n =
     (if n < days_in_month y m then (m, n + 1) else walk_months k y (m + 1) (n - days_in_month y m))"

definition days_in_year :: "int \<Rightarrow> int" where
  "days_in_year y = (if leap y then 366 else 365)"

text \<open>day \<open>n\<close> of year \<open>y\<close>, counted from zero; up to a year outside on both sides\<close>

definition day_of_year :: "int \<Rightarrow> int \<Rightarrow> date result" where
  "day_of_year y n =
     (let (y', n') = (if n < 0 then (y - 1, n + days_in_year (y - 1))
                      else if n \<ge> days_in_year y then (y + 1, n - days_in_year y) else (y, n));
          (m, d) = walk_months 11 y' 1 n'
      in make_date y' m d)"

text \<open>the weekday of the first of January, Monday being zero\<close>

definition first_weekday :: "int \<Rightarrow> int" where
  "first_weekday y = (days_before_year y + 7) mod 7"

definition weeks_in_year :: "int \<Rightarrow> int" where
  "weeks_in_year y = (let w = first_weekday y in if w = 3 \<or> w = 2 \<and> leap y then 53 else 52)"

definition week_date :: "int \<Rightarrow> int \<Rightarrow> int \<Rightarrow> date option" where
  "week_date y w d =
     (if w < 1 \<or> weeks_in_year y < w \<or> d < 1 \<or> 7 < d \<or> y < 1 then None
      else let f = first_weekday y; monday = (if f \<le> 3 then - f else 7 - f)
           in case day_of_year y (monday + (w - 1) * 7 + d - 1) of Inl e \<Rightarrow> None | Inr x \<Rightarrow> Some x)"

definition digit_of :: "char \<Rightarrow> int option" where
  "digit_of c = (if CHR ''0'' \<le> c \<and> c \<le> CHR ''9'' then Some (of_char c - 48) else None)"

fun digits_of :: "string \<Rightarrow> int \<Rightarrow> int option" where
  "digits_of [] n = Some n"
| "digits_of (c # s) n = (case digit_of c of None \<Rightarrow> None | Some d \<Rightarrow> digits_of s (10 * n + d))"

text \<open>the fields of a text: \<open>Inl\<close> a calendar date, \<open>Inr\<close> a week date\<close>

definition iso_fields :: "string \<Rightarrow> (string \<times> string \<times> string) + (string \<times> string \<times> string)" where
  "iso_fields s =
     (let y = take 4 s; r = drop 4 s; ext = (take 1 r = ''-''); r1 = (if ext then drop 1 r else r)
      in if take 1 r1 = ''W'' then
           (let w = take 2 (drop 1 r1); t = drop 3 r1
            in if t = [] then Inr (y, w, ''1'')
               else if ext then (if take 1 t = ''-'' \<and> length t = 2 then Inr (y, w, drop 1 t) else Inr (y, w, ''x''))
               else if length t = 1 then Inr (y, w, t) else Inr (y, w, ''x''))
         else if ext then
           (if length r1 = 5 \<and> take 1 (drop 2 r1) = ''-'' then Inl (y, take 2 r1, drop 3 r1) else Inl (y, ''x'', ''x''))
         else if length r1 = 4 then Inl (y, take 2 r1, drop 2 r1) else Inl (y, ''x'', ''x''))"

definition date_fromisoformat :: "string \<Rightarrow> date result" where
  "date_fromisoformat s =
     (let bad = raise_error ''ValueError'' (''Invalid isoformat string: '' @ repr_str s)
      in if length s < 7 then bad
         else case iso_fields s of
           Inl (y, m, d) \<Rightarrow>
             (case (digits_of y 0, digits_of m 0, digits_of d 0) of
                (Some y, Some m, Some d) \<Rightarrow> make_date y m d | _ \<Rightarrow> bad)
         | Inr (y, w, d) \<Rightarrow>
             (case (digits_of y 0, digits_of w 0, digits_of d 0) of
                (Some y, Some w, Some d) \<Rightarrow> (case week_date y w d of None \<Rightarrow> bad | Some x \<Rightarrow> Inr x) | _ \<Rightarrow> bad))"

lemma make_date_valid: "make_date y m d = Inr x \<Longrightarrow> valid_date x"
  by (auto simp: make_date_def valid_date_def not_less split: if_splits)

lemma date_fromisoformat_valid: "date_fromisoformat s = Inr x \<Longrightarrow> valid_date x"
  by (auto simp: date_fromisoformat_def week_date_def day_of_year_def Let_def case_prod_beta
      split: sum.splits option.splits if_splits dest: make_date_valid)

end
