(* ===== verification/Digests.thy ===== *)
theory Digests
  imports Backend
begin

text \<open>
  The two digests the scenarios compare: the kernel computes the first register of three hashes.
\<close>

lemma replicate_numeral: "replicate (numeral k) x = x # replicate (pred_numeral k) x"
  by (simp add: numeral_eq_Suc)

lemma extend_words_numeral:
  "extend_words (numeral k) w = hd w # extend_words (pred_numeral k) (tl w @ [next_word w])"
  by (simp only: numeral_eq_Suc extend_words.simps)

lemma be_bytes_0: "be_bytes 0 x = []"
  by (simp add: be_bytes_def)

lemma be_bytes_Suc: "be_bytes (Suc n) x = (x div 256 ^ n) mod 256 # be_bytes n x"
  by (simp add: be_bytes_def)

lemma be_bytes_numeral:
  "be_bytes (numeral k) x = (x div 256 ^ pred_numeral k) mod 256 # be_bytes (pred_numeral k) x"
  by (simp only: numeral_eq_Suc be_bytes_Suc)

lemma sha_blocks_one: "length ws = 16 \<Longrightarrow> sha_blocks (length ws) ws s = compress s ws"
  by (cases ws) (auto simp: eval_nat_numeral)

lemmas sha_pad_eval = sha_pad_def pad_zeros_def be_bytes_0 be_bytes_Suc be_bytes_numeral byte_of_def
  replicate_numeral

lemmas sha_eval = compress_def round_keys_def sha_initial_def extend_words_numeral next_word_def
  small_sigma0_def small_sigma1_def big_sigma0_def big_sigma1_def choose32_def majority32_def
  rotr32_def add32_def

lemma one_block:
  assumes "be_words (sha_pad (map byte_of s)) = ws" "length ws = 16" "compress sha_initial ws = r"
  shows "sha256_words (map byte_of s) = r"
  using assms(1,3) sha_blocks_one[OF assms(2)] by (simp add: sha256_words_def Let_def)

lemmas hex_eval = sha256_hex_def sha256_bytes_def hex_of_bytes_def hex_digit_def be_bytes_0 be_bytes_Suc be_bytes_numeral

lemma words_wrong:
  "sha256_words (map byte_of ''wrong'') =
     [2282794328, 509211324, 958968417, 1887072560, 2407404446, 2957516854, 1841616321, 2375549477]"
proof (rule one_block)
  show "be_words (sha_pad (map byte_of ''wrong'')) =
     [2003988334, 1736441856, 0, 0, 0, 0, 0, 0, 0, 0, 0, 0, 0, 0, 0, 40]"
    by (simp add: sha_pad_eval)
qed (simp_all add: sha_eval)

lemma sha256_wrong: "sha256_hex ''wrong'' =
  ''8810ad581e59f2bc3928b261707a71308f7e139eb04820366dc4d5c18d980225''"
proof -
  have "map byte_of ''wrong'' = [119, 114, 111, 110, 103]" by (simp add: byte_of_def)
  with words_wrong show ?thesis by (simp add: hex_eval char_of_def bit_iff_odd)
qed

lemma words_price_current:
  "sha256_words (map byte_of ''price-current'') =
     [1483547551, 3686207499, 1887233531, 4205687137, 440168114, 1086717164, 2438801155, 416452782]"
proof (rule one_block)
  show "be_words (sha_pad (map byte_of ''price-current'')) =
     [1886546275, 1697473397, 1920099694, 1954545664, 0, 0, 0, 0, 0, 0, 0, 0, 0, 0, 0, 104]"
    by (simp add: sha_pad_eval)
qed (simp_all add: sha_eval)

lemma sha256_price_current: "sha256_hex ''price-current'' =
  ''586d239fdbb7100b707ce5fbfaadb1611a3c6eb240c5fcec915d270318d290ae''"
proof -
  have "map byte_of ''price-current'' = [112, 114, 105, 99, 101, 45, 99, 117, 114, 114, 101, 110, 116]" by (simp add: byte_of_def)
  with words_price_current show ?thesis by (simp add: hex_eval char_of_def bit_iff_odd)
qed

lemma words_price_old:
  "sha256_words (map byte_of ''price-old'') =
     [653710788, 1012715960, 2717102456, 1015626521, 1833390310, 1652593002, 3652460424, 862550628]"
proof (rule one_block)
  show "be_words (sha_pad (map byte_of ''price-old'')) =
     [1886546275, 1697476460, 1686110208, 0, 0, 0, 0, 0, 0, 0, 0, 0, 0, 0, 0, 72]"
    by (simp add: sha_pad_eval)
qed (simp_all add: sha_eval)

lemma sha256_price_old: "sha256_hex ''price-old'' =
  ''26f6d5c43c5cd1b8a1f3b1783c893b196d4750e66280916ad9b41f8833697a64''"
proof -
  have "map byte_of ''price-old'' = [112, 114, 105, 99, 101, 45, 111, 108, 100]" by (simp add: byte_of_def)
  with words_price_old show ?thesis by (simp add: hex_eval char_of_def bit_iff_odd)
qed

text \<open>The digests of the seeded price and of the two proposals that must not commit differ.\<close>

lemma digest_wrong_neq: "digest ''wrong'' \<noteq> digest ''price-current''"
  by (simp add: digest_def sha256_wrong sha256_price_current)

lemma digest_old_neq: "digest ''price-old'' \<noteq> digest ''price-current''"
  by (simp add: digest_def sha256_price_old sha256_price_current)

end
