(* ===== verification/AgentProps.thy ===== *)
theory AgentProps
  imports AgentBackends Cases_Eval
begin

text \<open>
  What the two agent backends guarantee behind the shared loop. Isolation: the sessions of the
  reference satisfy the interface \<open>isolated_session\<close> of theory \<open>Tools\<close>, so a whole operation of the
  harness, whatever the model calls, is independent of the memories its principal may not see.
  Persistence: a restart of the flat store loses nothing that a session wrote.
\<close>

subsection \<open>What an actor can see of a store\<close>

definition visible :: "actor \<Rightarrow> backend \<Rightarrow> string \<Rightarrow> memory option" where
  "visible a s i = (case dict_get (memories s) i of None \<Rightarrow> None
     | Some m \<Rightarrow> if authorized m a then Some m else None)"

text \<open>two well-formed stores an actor cannot tell apart: the memories it may see and the nonces it spent\<close>

definition same_view :: "actor \<Rightarrow> backend \<Rightarrow> backend \<Rightarrow> bool" where
  "same_view a s t \<longleftrightarrow> backend_ok s \<and> backend_ok t \<and> visible a s = visible a t
     \<and> (\<forall>n. (act_did a, n) \<in> nonces s \<longleftrightarrow> (act_did a, n) \<in> nonces t)"

lemma visible_Some: "visible a s i = Some m \<longleftrightarrow> dict_get (memories s) i = Some m \<and> authorized m a"
  by (auto simp: visible_def split: option.splits)

lemma visible_nonces [simp]: "visible a (s\<lparr>nonces := N\<rparr>) = visible a s"
  by (simp add: visible_def fun_eq_iff)

lemma visible_set:
  "visible a (s\<lparr>memories := dict_set i m ms, nonces := N\<rparr>) j =
     (if j = i then if authorized m a then Some m else None
      else visible a (s\<lparr>memories := ms\<rparr>) j)"
  by (auto simp: visible_def)

lemma same_viewD:
  assumes "same_view a s t"
  shows "backend_ok s" "backend_ok t" "visible a s = visible a t"
    "(act_did a, n) \<in> nonces s \<longleftrightarrow> (act_did a, n) \<in> nonces t"
  using assms by (auto simp: same_view_def)

lemma same_view_claim:
  assumes "same_view a s t" and "backend_ok s'" and "backend_ok t'"
    and "nonces s' = insert (act_did a, n) (nonces s)" "nonces t' = insert (act_did a, n) (nonces t)"
    and "visible a s' = visible a t'"
  shows "same_view a s' t'"
  using assms by (auto simp: same_view_def)

lemma relevant_visible:
  assumes "backend_ok s"
  shows "set (filter (relevant q a d) (dict_values (memories s)))
    = {m. visible a s (memory_id m) = Some m \<and> relevant q a d m}"
  using in_values_iff[OF assms] by (auto simp: visible_Some relevant_def)

lemma same_view_ranking: "same_view a s t \<Longrightarrow> ranking q a d s = ranking q a d t"
  by (rule ranking_cong) (simp_all only: relevant_visible same_viewD)

lemma recall_same_view:
  assumes "same_view a s t"
  shows "fst (recall q a d n s) = fst (recall q a d n t)
    \<and> same_view a (snd (recall q a d n s)) (snd (recall q a d n t))"
proof
  show "fst (recall q a d n s) = fst (recall q a d n t)"
    using same_viewD(4)[OF assms] same_view_ranking[OF assms] by (simp add: recall_eq)
  show "same_view a (snd (recall q a d n s)) (snd (recall q a d n t))"
    using assms by (intro same_view_claim[OF assms, of _ _ n]) (auto simp: recall_state same_view_def)
qed

lemma visible_memories:
  "visible a (s\<lparr>memories := dict_set i m (memories s), nonces := N\<rparr>) =
     (visible a s)(i := if authorized m a then Some m else None)"
  by (auto simp: visible_def fun_eq_iff)

lemma remember_same_view:
  assumes "same_view a s t"
  shows "fst (remember m a n s) = fst (remember m a n t)
    \<and> same_view a (snd (remember m a n s)) (snd (remember m a n t))"
proof -
  have eq: "fst (remember m a n s) = fst (remember m a n t)"
    using same_viewD(4)[OF assms, of n] by (auto simp: remember_def claim_def Let_def)
  have ok: "backend_ok (snd (remember m a n u))" if "backend_ok u" for u
    using that by (rule remember_ok)
  have vis: "visible a (snd (remember m a n u)) =
      (if allowed (fst (remember m a n u)) then (visible a u)(memory_id m := if authorized m a then Some m else None)
       else visible a u) \<and> nonces (snd (remember m a n u)) = insert (act_did a, n) (nonces u)" for u
    by (cases rule: remember_cases[of m a n u]) (auto simp: visible_memories refused_def visible_def fun_eq_iff)
  have "same_view a (snd (remember m a n s)) (snd (remember m a n t))"
    using eq vis[of s] vis[of t] same_viewD[OF assms] ok
    by (intro same_view_claim[OF assms, of _ _ n]) simp_all
  with eq show ?thesis by blast
qed

text \<open>a forget, seen by the actor: the target and what is derived from it, as far as visible\<close>

definition forget_mark :: "string \<Rightarrow> string \<Rightarrow> memory \<Rightarrow> memory" where
  "forget_mark i j m = (if j = i \<or> i \<in> set (derived_from m) then m\<lparr>mem_state := ''forgotten''\<rparr> else m)"

lemma authorized_mark [simp]: "authorized (forget_mark i j m) a = authorized m a"
  "authorized (m\<lparr>mem_state := v\<rparr>) a = authorized m a"
  by (simp_all add: forget_mark_def authorized_def)

lemma forget_view:
  assumes "backend_ok s"
  shows "visible a (snd (forget i a n s)) =
      (if allowed (fst (forget i a n s)) then (\<lambda>j. map_option (forget_mark i j) (visible a s j)) else visible a s)
    \<and> nonces (snd (forget i a n s)) = insert (act_did a, n) (nonces s)"
proof (cases rule: forget_cases[of i a n s])
  case (refusal e s')
  then show ?thesis by (simp add: refused_def visible_def fun_eq_iff)
next
  case (applied m ms)
  have ok: "dict_ok ms" using applied(5) backend_okD(1)[OF assms] by simp
  have "dict_get (forget_derived i ms ms) j = map_option (forget_mark i j) (dict_get (memories s) j)" for j
    unfolding get_forgotten[OF ok] using applied(3,5)
    by (cases "dict_get (memories s) j") (auto simp: forget_mark_def)
  then show ?thesis using applied(6) by (auto simp: visible_def fun_eq_iff split: option.splits)
qed

lemma forget_same_view:
  assumes "same_view a s t"
  shows "fst (forget i a n s) = fst (forget i a n t)
    \<and> same_view a (snd (forget i a n s)) (snd (forget i a n t))"
proof -
  have vis: "(\<exists>m. dict_get (memories u) i = Some m \<and> authorized m a) \<longleftrightarrow> visible a u i \<noteq> None" for u
    by (auto simp: visible_def split: option.splits)
  have "fst (forget i a n u) = (if (act_did a, n) \<in> nonces u \<or> \<not> act_can_mutate a then refused ''replay-or-mutation-denied''
      else if visible a u i = None then refused ''authorization-denied''
      else \<lparr>allowed = True, ids = [i], err = [], receipt = digest (''forget:'' @ i)\<rparr>)" for u
    by (auto simp: forget_def claim_def Let_def visible_def split: option.splits)
  then have eq: "fst (forget i a n s) = fst (forget i a n t)"
    using same_viewD[OF assms] by simp
  have "same_view a (snd (forget i a n s)) (snd (forget i a n t))"
    using eq forget_view[of s a i n] forget_view[of t a i n] same_viewD[OF assms] forget_ok
    by (intro same_view_claim[OF assms, of _ _ n]) simp_all
  with eq show ?thesis by blast
qed


text \<open>a recalled id names the same memory in both stores\<close>

lemma recall_same_rows:
  assumes "same_view a s t" and "i \<in> set (ids (fst (recall q a d n s)))"
  shows "dict_get (memories (snd (recall q a d n s))) i = dict_get (memories (snd (recall q a d n t))) i"
proof -
  have "i \<in> snd ` set (ranking q a d s)"
    using assms(2) by (auto simp: recall_eq refused_def split: if_splits)
  then obtain m where "dict_get (memories s) i = Some m" "relevant (words q) a d m"
    by (auto simp: set_ranking[OF same_viewD(1)[OF assms(1)]])
  then have "visible a s i = Some m" by (simp add: visible_Some relevant_def)
  then have "visible a t i = Some m" using same_viewD(3)[OF assms(1)] by simp
  then show ?thesis using \<open>dict_get (memories s) i = Some m\<close> by (simp add: visible_Some recall_state)
qed

subsection \<open>Sessions of the reference are isolated\<close>

definition registered_actor :: "auth_backend \<Rightarrow> string \<Rightarrow> actor option" where
  "registered_actor b d = map_option (\<lambda>x. session_actor (Session x)) (dict_get (reg_records (identities b)) d)"

definition marciana_same :: "string \<Rightarrow> marciana_state \<Rightarrow> marciana_state \<Rightarrow> bool" where
  "marciana_same d s t \<longleftrightarrow> mb_nonce s = mb_nonce t
     \<and> identities (mb_backend s) = identities (mb_backend t)
     \<and> (case registered_actor (mb_backend s) d of None \<Rightarrow> True
        | Some a \<Rightarrow> same_view a (core (mb_backend s)) (core (mb_backend t)))"

text \<open>a call of the core that cannot tell stores apart stays so behind the session's guard\<close>

lemma guarded_blind:
  assumes f: "\<And>a s t. same_view a s t \<Longrightarrow>
      fst (f a s) = fst (f a t) \<and> same_view a (snd (f a s)) (snd (f a t))"
    and same: "marciana_same d s t"
  shows "fst (v2_call (with_session d c f) s) = fst (v2_call (with_session d c f) t)
    \<and> marciana_same d (snd (v2_call (with_session d c f) s)) (snd (v2_call (with_session d c f) t))"
proof -
  let ?r = "identities (mb_backend s)"
  have r: "identities (mb_backend t) = ?r" using same by (simp add: marciana_same_def)
  have idle: ?thesis if "with_session d c f (mb_backend s) = (out, mb_backend s)"
      "with_session d c f (mb_backend t) = (out, mb_backend t)" for out
    using that same by (simp add: v2_call_def on_part_def)
  show ?thesis
  proof (cases rule: authenticate_cases[of ?r d c])
    case (accepted x)
    let ?a = "session_actor (Session x)"
    have run: "with_session d c f u = (Inr (fst (f ?a (core u))), u\<lparr>core := snd (f ?a (core u))\<rparr>)"
      if "identities u = ?r" for u
      using accepted that by (simp add: with_session_def authenticate_v2_def split: prod.splits)
    have "same_view ?a (core (mb_backend s)) (core (mb_backend t))"
      using same accepted by (simp add: marciana_same_def registered_actor_def)
    note view = f[OF this]
    have calls: "v2_call (with_session d c f) u = (Inr (fst (f ?a (core (mb_backend u)))),
        u\<lparr>mb_backend := (mb_backend u)\<lparr>core := snd (f ?a (core (mb_backend u)))\<rparr>\<rparr>)" if "u = s \<or> u = t" for u
      using that run[OF refl] run[OF r] by (auto simp: v2_call_def on_part_def)
    from view same accepted(1) show ?thesis
      by (auto simp: calls marciana_same_def registered_actor_def)
  qed (auto intro!: idle simp: with_session_def authenticate_v2_def r)
qed

lemma blind_next_nonce: "blind (marciana_same d) next_nonce"
  by (rule blindI) (auto simp: next_nonce_def Let_def marciana_same_def split: option.splits)

lemma blind_guarded:
  assumes "\<And>a s t. same_view a s t \<Longrightarrow> fst (f a s) = fst (f a t) \<and> same_view a (snd (f a s)) (snd (f a t))"
  shows "blind (marciana_same d) (v2_call (with_session d c f))"
  by (intro blindI guarded_blind[where f = f, OF assms])

lemma blind_write: "blind (marciana_same d) (marciana_write (Some (d, c)) i t vf vu private derived)"
  unfolding marciana_write_def remember_v2_def Let_def
  unfolding option.case prod.case
  by (intro blind_and_then blind_lift blind_next_nonce blind_ret blind_guarded remember_same_view)

lemma blind_delete: "blind (marciana_same d) (marciana_delete (Some (d, c)) i)"
  unfolding marciana_delete_def forget_v2_def
  unfolding option.case prod.case
  by (intro blind_and_then blind_next_nonce blind_ret blind_guarded forget_same_view)

lemma blind_list: "blind (marciana_same d) (marciana_list_ids (Some (d, c)))"
  unfolding marciana_list_ids_def recall_v2_def
  unfolding option.case prod.case
  by (intro blind_and_then blind_next_nonce blind_ret blind_guarded recall_same_view)

text \<open>what a read answers, from the decision of the recall and the store after it\<close>

definition read_answer :: "decision \<Rightarrow> (marciana_state, tool_result) act" where
  "read_answer dec s =
     (if \<not> allowed dec then (Inr (tool_failure (if err dec = [] then ''denied'' else err dec)), s)
      else (Inr \<lparr>tr_ok = True, tr_results = concat (map (memory_row (mb_backend s)) (ids dec)),
                 tr_ids = ids dec, tr_error = []\<rparr>, s))"

lemma recall_rows_same:
  assumes "marciana_same d s t" and "v2_call (recall_v2 q d c w n) s = (Inr dec, s')"
    and "i \<in> set (ids dec)"
  shows "memory_row (mb_backend s') i = memory_row (mb_backend (snd (v2_call (recall_v2 q d c w n) t))) i"
proof (cases rule: with_session_cases[of "mb_backend s" d c "\<lambda>a. recall q a w n"])
  case denied
  then show ?thesis
    using assms(2,3) by (auto simp: v2_call_def on_part_def recall_v2_def DENIED_def refused_def split: prod.splits)
next
  case (session x)
  let ?a = "session_actor (Session x)"
  have t: "identities (mb_backend t) = identities (mb_backend s)"
    using assms(1) by (simp add: marciana_same_def)
  have acc: "authenticate d c (identities (mb_backend s)) = Inr (Some (Session x))"
    using session(1,2) by (auto simp: accepts_credential_def authenticate_Some_iff)
  have dec: "dec = fst (recall q ?a w n (core (mb_backend s)))"
    "core (mb_backend s') = snd (recall q ?a w n (core (mb_backend s)))"
    using assms(2) session(3) by (auto simp: v2_call_def on_part_def recall_v2_def)
  have t': "core (mb_backend (snd (v2_call (recall_v2 q d c w n) t))) = snd (recall q ?a w n (core (mb_backend t)))"
    using acc t by (auto simp: v2_call_def on_part_def recall_v2_def with_session_def authenticate_v2_def split: prod.splits)
  have "same_view ?a (core (mb_backend s)) (core (mb_backend t))"
    using assms(1) session(2) by (simp add: marciana_same_def registered_actor_def)
  from recall_same_rows[OF this] assms(3) dec t' show ?thesis by (simp add: memory_row_def)
qed

lemma blind_read_answer:
  "blind (marciana_same d) (and_then (v2_call (recall_v2 q d c w n)) read_answer)"
proof (rule blindI)
  fix s t
  assume same: "marciana_same d s t"
  note b = guarded_blind[where f = "\<lambda>a. recall q a w n", OF recall_same_view same, of c, folded recall_v2_def]
  show "fst (and_then (v2_call (recall_v2 q d c w n)) read_answer s)
        = fst (and_then (v2_call (recall_v2 q d c w n)) read_answer t)
      \<and> marciana_same d (snd (and_then (v2_call (recall_v2 q d c w n)) read_answer s))
        (snd (and_then (v2_call (recall_v2 q d c w n)) read_answer t))"
  proof (cases "v2_call (recall_v2 q d c w n) s")
    case (Pair r s')
    obtain t' where t': "v2_call (recall_v2 q d c w n) t = (r, t')"
      using b Pair by (cases "v2_call (recall_v2 q d c w n) t") auto
    show ?thesis
    proof (cases r)
      case (Inl e)
      with Pair t' b show ?thesis by simp
    next
      case (Inr dec)
      have "map (memory_row (mb_backend s')) (ids dec) = map (memory_row (mb_backend t')) (ids dec)"
        using recall_rows_same[OF same Pair[unfolded Inr]] t' by (simp cong: map_cong)
      then have "concat (map (memory_row (mb_backend s')) (ids dec)) = concat (map (memory_row (mb_backend t')) (ids dec))"
        by (rule arg_cong)
      with Pair t' Inr b show ?thesis by (simp add: read_answer_def)
    qed
  qed
qed

lemma blind_read: "blind (marciana_same d) (marciana_read (Some (d, c)) q w)"
  unfolding marciana_read_def
  unfolding option.case prod.case read_answer_def[abs_def, symmetric]
  by (intro blind_and_then blind_lift blind_next_nonce blind_read_answer)

interpretation marciana: isolated_session marciana_agent "Some (d, c)" "marciana_same d" for d c
  by unfold_locales (simp_all add: marciana_agent_def blind_write blind_read blind_delete blind_list)


subsection \<open>The reference under the driver\<close>

lemma is_ascii_init: "is_ascii c \<Longrightarrow> is_ascii (py_init c)"
  unfolding py_init_ascii by (auto simp: is_ascii_def dest: in_set_butlastD)

definition benchmark_secret :: "string \<Rightarrow> string" where
  "benchmark_secret n = credential (''did:key:'' @ n) (identities new_auth_backend)"

lemma marciana_provision_eq:
  assumes "credentials (mb_backend s) = credentials new_auth_backend"
  shows "marciana_provision s = (Inr (map (\<lambda>n. (n, benchmark_secret n)) HARNESS_PRINCIPALS), s)"
  by (simp add: marciana_provision_def assms new_auth_backend_eq(2) PRINCIPALS_def new_identity_def
      HARNESS_PRINCIPALS_def benchmark_secret_def last_field_def)

lemma marciana_open_issued:
  assumes "identities (mb_backend s) = identities new_auth_backend" and "n \<in> set HARNESS_PRINCIPALS"
  shows "marciana_open_session \<lparr>cred_name = n, cred_secret = benchmark_secret n\<rparr> s
    = (Inr (Some (''did:key:'' @ n, benchmark_secret n)), s)"
proof -
  have "''did:key:'' @ n \<in> idr_did ` set PRINCIPALS"
    using assms(2) by (simp add: HARNESS_PRINCIPALS_def PRINCIPALS_def new_identity_def)
  then obtain x where "dict_get (reg_records (identities new_auth_backend)) (''did:key:'' @ n) = Some x"
    unfolding new_auth_lookup by blast
  then have "authenticate (''did:key:'' @ n) (benchmark_secret n) (identities new_auth_backend) = Inr (Some (Session x))"
    unfolding benchmark_secret_def authenticate_Some_iff by blast
  with assms(1) show ?thesis by (simp add: marciana_open_session_def authenticate_v2_def Let_def)
qed

lemma marciana_open_forged:
  assumes "identities (mb_backend s) = identities new_auth_backend"
  shows "marciana_open_session \<lparr>cred_name = n, cred_secret = forged_secret (benchmark_secret n)\<rparr> s = (Inr None, s)"
proof -
  let ?d = "''did:key:'' @ n" and ?r = "identities new_auth_backend"
  have f: "forged_secret (benchmark_secret n) = py_init (credential ?d ?r) @ ''x''"
    by (simp add: forged_secret_def benchmark_secret_def)
  have "is_ascii (py_init (credential ?d ?r) @ ''x'')"
    using is_ascii_init[OF credential_ascii] by (auto simp: is_ascii_def)
  moreover have "py_init (credential ?d ?r) @ ''x'' \<noteq> credential ?d ?r"
  proof
    assume e: "py_init (credential ?d ?r) @ ''x'' = credential ?d ?r"
    then have "CHR ''x'' \<in> set (credential ?d ?r)" by (metis in_set_conv_decomp append_Cons)
    then show False using credential_chars by (fastforce simp: hex_chars_def)
  qed
  ultimately have "authenticate ?d (py_init (credential ?d ?r) @ ''x'') ?r = Inr None"
    by (cases rule: authenticate_cases[of ?r ?d "py_init (credential ?d ?r) @ ''x''"]) auto
  with assms f show ?thesis by (simp add: marciana_open_session_def authenticate_v2_def Let_def)
qed


lemma marciana_provision_run:
  assumes "mb_backend (tk_backend k) = new_auth_backend"
  shows "provision marciana_agent k = (Inr (), k\<lparr>
      tk_sessions := map (\<lambda>n. (n, (''did:key:'' @ n, benchmark_secret n))) HARNESS_PRINCIPALS,
      tk_check := ''passed''\<rparr>)"
proof -
  have secret: "secret_of (map (\<lambda>n. (n, benchmark_secret n)) HARNESS_PRINCIPALS) n = benchmark_secret n"
    if "n \<in> set HARNESS_PRINCIPALS" for n
    using that by (auto simp: HARNESS_PRINCIPALS_def secret_of_def)
  let ?secrets = "map (\<lambda>n. (n, benchmark_secret n)) HARNESS_PRINCIPALS"
  let ?open = "\<lambda>n. and_then (backend_call (ab_open_session marciana_agent
      \<lparr>cred_name = n, cred_secret = secret_of ?secrets n\<rparr>)) (\<lambda>h. add_session n h)"
  have step: "?open n u = (Inr (), u\<lparr>tk_sessions := dict_set n (''did:key:'' @ n, benchmark_secret n) (tk_sessions u)\<rparr>)"
    if "n \<in> set HARNESS_PRINCIPALS" "mb_backend (tk_backend u) = new_auth_backend"
    for n and u :: "(marciana_state, 't, string \<times> string) track_run"
    using that marciana_open_issued[of "tk_backend u" n]
    by (simp add: backend_call_def on_part_def marciana_agent_def secret add_session_def)
  have sess: "map_act ?open xs u = (Inr (map (\<lambda>_. ()) xs),
      u\<lparr>tk_sessions := foldl (\<lambda>d n. dict_set n (''did:key:'' @ n, benchmark_secret n) d) (tk_sessions u) xs\<rparr>)"
    if "set xs \<subseteq> set HARNESS_PRINCIPALS" "mb_backend (tk_backend u) = new_auth_backend"
    for xs and u :: "(marciana_state, 't, string \<times> string) track_run"
    using that
  proof (induction xs arbitrary: u)
    case (Cons n xs)
    have "?open n u = (Inr (), u\<lparr>tk_sessions := dict_set n (''did:key:'' @ n, benchmark_secret n) (tk_sessions u)\<rparr>)"
      using Cons.prems by (intro step) auto
    moreover have "map_act ?open xs (u\<lparr>tk_sessions := dict_set n (''did:key:'' @ n, benchmark_secret n) (tk_sessions u)\<rparr>)
      = (Inr (map (\<lambda>_. ()) xs), u\<lparr>tk_sessions := foldl (\<lambda>d n. dict_set n (''did:key:'' @ n, benchmark_secret n) d)
          (dict_set n (''did:key:'' @ n, benchmark_secret n) (tk_sessions u)) xs\<rparr>)"
      using Cons.IH[of "u\<lparr>tk_sessions := dict_set n (''did:key:'' @ n, benchmark_secret n) (tk_sessions u)\<rparr>"]
        Cons.prems by simp
    ultimately show ?case by simp
  qed simp
  have probe: "backend_call (ab_open_session marciana_agent
        \<lparr>cred_name = ''operator'', cred_secret = forged_secret (benchmark_secret ''operator'')\<rparr>) u = (Inr None, u)"
    if "mb_backend (tk_backend u) = new_auth_backend" for u :: "(marciana_state, 't, string \<times> string) track_run"
    using that marciana_open_forged[of "tk_backend u" "''operator''"] by (simp add: backend_call_def on_part_def marciana_agent_def)
  have caps: "ab_capabilities marciana_agent \<inter> AUTHORIZATION_CAPABILITIES \<noteq> {}"
    by (auto simp: marciana_agent_def AUTHORIZATION_CAPABILITIES_def)
  have op: "''operator'' \<in> set HARNESS_PRINCIPALS" by (simp add: HARNESS_PRINCIPALS_def)
  have prov: "backend_call (ab_provision marciana_agent) k = (Inr (map (\<lambda>n. (n, benchmark_secret n)) HARNESS_PRINCIPALS), k)"
    using assms by (simp add: backend_call_def on_part_def marciana_agent_def marciana_provision_eq)
  have clear: "set_sessions [] k = (Inr (), k\<lparr>tk_sessions := []\<rparr>)" by (simp add: set_sessions_def)
  show ?thesis
    unfolding provision_def negative_probe_def using assms caps
    by (simp add: prov clear sess secret[OF op] probe set_check_def) (simp add: HARNESS_PRINCIPALS_def)
qed


subsection \<open>Seeding through the tool contract\<close>

lemma ranking_sources:
  assumes "list_all2 (\<lambda>m m'. memory_id m = memory_id m' \<and> mem_text m = mem_text m' \<and> mem_tenant m = mem_tenant m'
      \<and> mem_space m = mem_space m' \<and> sensitivity m = sensitivity m' \<and> valid_from m = valid_from m'
      \<and> valid_until m = valid_until m' \<and> mem_state m = mem_state m' \<and> mem_purpose m = mem_purpose m')
    (dict_values (memories s)) (dict_values (memories t))"
  shows "ranking q a d s = ranking q a d t"
proof -
  have "rank_loop ws a d ms = rank_loop ws a d ms'" if "list_all2 (\<lambda>m m'. memory_id m = memory_id m'
      \<and> mem_text m = mem_text m' \<and> mem_tenant m = mem_tenant m'
      \<and> mem_space m = mem_space m' \<and> sensitivity m = sensitivity m' \<and> valid_from m = valid_from m'
      \<and> valid_until m = valid_until m' \<and> mem_state m = mem_state m' \<and> mem_purpose m = mem_purpose m') ms ms'" for ws ms ms'
    using that by (induction rule: list_all2_induct) (auto simp: authorized_def Let_def)
  with assms show ?thesis by (simp add: ranking_def)
qed

text \<open>what the operator's session writes for one entry of the seed corpus\<close>

definition harness_memory :: "string \<times> string \<times> date \<times> date option \<times> bool \<Rightarrow> memory" where
  "harness_memory x = (case x of (i, t, vf, vu, private) \<Rightarrow>
     (new_memory i t ''agent:did:key:operator'' (digest t))
       \<lparr>sensitivity := (if private then 3 else 1), valid_from := vf, valid_until := vu, derived_from := []\<rparr>)"

lemma operator_actor:
  "session_actor (Session ((new_identity ''did:key:operator'')\<lparr>idr_clearance := 3\<rparr>))
    = (new_actor ''did:key:operator'')\<lparr>act_clearance := 3\<rparr>"
  by (simp add: session_actor_def new_identity_def new_actor_def)

lemma marciana_write_operator:
  assumes s: "identities (mb_backend s) = identities new_auth_backend"
    and n: "(''did:key:operator'', ''agent-nonce-'' @ nat_str (Suc (mb_nonce s))) \<notin> nonces (core (mb_backend s))"
    and len: "py_len t \<le> MAX_TEXT_CHARS"
    and vf: "parse_date vf = Inr from_date" and vu: "parse_date vu = Inr until_date"
  shows "marciana_write (Some (''did:key:operator'', benchmark_secret ''operator'')) i t vf vu private [] s =
    (Inr (tool_ok True [] []), s\<lparr>mb_nonce := Suc (mb_nonce s), mb_backend := (mb_backend s)\<lparr>core := (core (mb_backend s))
      \<lparr>memories := dict_set i (harness_memory (i, t, (case from_date of None \<Rightarrow> Date 2026 1 1 | Some x \<Rightarrow> x), until_date, private))
          (memories (core (mb_backend s))),
       nonces := insert (''did:key:operator'', ''agent-nonce-'' @ nat_str (Suc (mb_nonce s))) (nonces (core (mb_backend s)))\<rparr>\<rparr>\<rparr>)"
proof -
  let ?n = "''agent-nonce-'' @ nat_str (Suc (mb_nonce s))"
  define m where "m = harness_memory (i, t, (case from_date of None \<Rightarrow> Date 2026 1 1 | Some x \<Rightarrow> x), until_date, private)"
  define a where "a = (new_actor ''did:key:operator'')\<lparr>act_clearance := 3\<rparr>"
  have nonce: "next_nonce s = (Inr ?n, s\<lparr>mb_nonce := Suc (mb_nonce s)\<rparr>)"
    by (simp add: next_nonce_def Let_def)
  have auth: "authenticate ''did:key:operator'' (benchmark_secret ''operator'') (identities new_auth_backend)
      = Inr (Some (Session ((new_identity ''did:key:operator'')\<lparr>idr_clearance := 3\<rparr>)))"
    using operator_credential by (simp add: benchmark_secret_def)
  have r: "remember m a ?n c = (\<lparr>allowed = True, ids = [memory_id m], err = [],
        receipt = digest (''remember:'' @ memory_id m @ '':'' @ source_digest m)\<rparr>,
        c\<lparr>memories := dict_set (memory_id m) m (memories c), nonces := insert (''did:key:operator'', ?n) (nonces c)\<rparr>)"
    if "c = core (mb_backend s)" for c
    using n len that
    by (simp add: remember_def claim_def Let_def m_def a_def harness_memory_def new_memory_def new_actor_def)
  have mem: "(new_memory i t (''agent:'' @ ''did:key:operator'') (digest t))
      \<lparr>sensitivity := (if private then 3 else 1), valid_from := (case from_date of None \<Rightarrow> Date 2026 1 1 | Some x \<Rightarrow> x),
       valid_until := until_date, derived_from := []\<rparr> = m"
    by (simp add: m_def harness_memory_def)
  have i: "memory_id m = i" by (simp add: m_def harness_memory_def new_memory_def)
  have call: "v2_call (remember_v2 m ''did:key:operator'' (benchmark_secret ''operator'') ?n) (s\<lparr>mb_nonce := Suc (mb_nonce s)\<rparr>)
    = (Inr \<lparr>allowed = True, ids = [memory_id m], err = [],
        receipt = digest (''remember:'' @ memory_id m @ '':'' @ source_digest m)\<rparr>,
       s\<lparr>mb_nonce := Suc (mb_nonce s), mb_backend := (mb_backend s)\<lparr>core := (core (mb_backend s))
        \<lparr>memories := dict_set i m (memories (core (mb_backend s))),
         nonces := insert (''did:key:operator'', ?n) (nonces (core (mb_backend s)))\<rparr>\<rparr>\<rparr>)"
    using s r[OF refl] by (simp add: v2_call_def on_part_def remember_v2_def with_session_def authenticate_v2_def auth
        operator_actor[folded a_def] i)
  show ?thesis
    unfolding marciana_write_def option.case prod.case and_then_def lift_result_def vf vu sum.case Let_def mem nonce
      call ret_def decision.simps m_def[symmetric] by (rule refl)
qed


lemma nat_str_Suc:
  "nat_str (Suc 0) = ''1''" "nat_str (Suc (Suc 0)) = ''2''" "nat_str (Suc (Suc (Suc 0))) = ''3''"
  "nat_str (Suc (Suc (Suc (Suc 0)))) = ''4''"
  by code_simp+

lemma seed_dates:
  "parse_date None = Inr None"
  "parse_date (Some ''2025-01-01'') = Inr (Some (Date 2025 1 1))"
  "parse_date (Some ''2026-01-01'') = Inr (Some (Date 2026 1 1))"
  "parse_date (Some HARNESS_AS_OF_NOW) = Inr (Some (Date 2026 2 1))"
  "parse_date (Some HARNESS_AS_OF_PAST) = Inr (Some (Date 2025 12 1))"
  by code_simp+

text \<open>the store the driver's seeding leaves: the entries of its corpus, in order\<close>

definition harness_store :: "(string, memory) pydict" where
  "harness_store = [
     (''price-old'', harness_memory (''price-old'', ''Honduras coffee price was 3.80 USD per kg at San Pedro Sula'',
        Date 2025 1 1, Some (Date 2026 1 1), False)),
     (''price-current'', harness_memory (''price-current'', ''Honduras coffee price is 4.20 USD per kg at San Pedro Sula'',
        Date 2026 1 1, None, False)),
     (''private-farm'', harness_memory (''private-farm'', ''Private farm price is 9.00 USD per kg'',
        Date 2026 1 1, None, True)),
     (''soil'', harness_memory (''soil'', ''Honduras coffee farms use volcanic soil at high altitude'',
        Date 2026 1 1, None, False))]"


definition seeding_nonces :: "nat \<Rightarrow> (string \<times> string) set" where
  "seeding_nonces n = (\<lambda>j. (''did:key:operator'', ''agent-nonce-'' @ nat_str j)) ` {1..n}"

lemma seeding_nonces_Suc:
  "insert (''did:key:operator'', ''agent-nonce-'' @ nat_str (Suc n)) (seeding_nonces n) = seeding_nonces (Suc n)"
  by (simp add: seeding_nonces_def atLeastAtMostSuc_conv)

definition seeding_state :: "nat \<Rightarrow> (string, memory) pydict \<Rightarrow> marciana_state" where
  "seeding_state n ms = \<lparr>mb_backend = new_auth_backend\<lparr>core := \<lparr>memories = ms,
     nonces = seeding_nonces n, idempotency = []\<rparr>\<rparr>, mb_nonce = n\<rparr>"

lemma seeding_sel [simp]:
  "mb_nonce (seeding_state n ms) = n" "identities (mb_backend (seeding_state n ms)) = identities new_auth_backend"
  "nonces (core (mb_backend (seeding_state n ms))) = seeding_nonces n"
  "memories (core (mb_backend (seeding_state n ms))) = ms"
  by (simp_all add: seeding_state_def)

lemma seeding_update:
  "seeding_state n ms\<lparr>mb_nonce := n', mb_backend := (mb_backend (seeding_state n ms))\<lparr>core :=
     (core (mb_backend (seeding_state n ms)))\<lparr>memories := ms', nonces := seeding_nonces n'\<rparr>\<rparr>\<rparr> = seeding_state n' ms'"
  by (simp add: seeding_state_def)

lemma seeding_write:
  assumes "nat_str (Suc n) \<notin> nat_str ` {1..n}" and "py_len t \<le> MAX_TEXT_CHARS"
    and "parse_date vf = Inr from_date" and "parse_date vu = Inr until_date"
  shows "backend_call (ab_write marciana_agent (Some (''did:key:operator'', benchmark_secret ''operator'')) i t vf vu private [])
      (k\<lparr>tk_backend := seeding_state n ms\<rparr>)
    = (Inr (tool_ok True [] []), k\<lparr>tk_backend := seeding_state (Suc n) (dict_set i
        (harness_memory (i, t, (case from_date of None \<Rightarrow> Date 2026 1 1 | Some x \<Rightarrow> x), until_date, private)) ms)\<rparr>)"
proof -
  have fresh: "(''did:key:operator'', ''agent-nonce-'' @ nat_str (Suc n)) \<notin> seeding_nonces n"
    using assms(1) by (auto simp: seeding_nonces_def)
  note w = marciana_write_operator[of "seeding_state n ms", unfolded seeding_sel seeding_nonces_Suc seeding_update,
      OF refl fresh assms(2-4)]
  have wr: "ab_write marciana_agent = marciana_write" by (simp add: marciana_agent_def)
  have sel: "tk_backend (k\<lparr>tk_backend := x\<rparr>) = x" "k\<lparr>tk_backend := x, tk_backend := y\<rparr> = k\<lparr>tk_backend := y\<rparr>" for x y
    by simp_all
  show ?thesis unfolding backend_call_def on_part_def wr sel w prod.case by (rule refl)
qed

lemma seeding_done:
  assumes "dict_get (tk_sessions k) ''operator'' = Some (''did:key:operator'', benchmark_secret ''operator'')"
    and "tk_backend k = new_marciana"
  shows "seed_track marciana_agent k = (Inr (), k\<lparr>tk_backend := seeding_state 4 harness_store\<rparr>)"
proof -
  have start: "k = k\<lparr>tk_backend := seeding_state 0 []\<rparr>"
    using assms(2) by (simp add: seeding_state_def new_marciana_def seeding_nonces_def new_auth_backend_eq(3)[symmetric] new_backend_def[symmetric])
  have fresh: "nat_str (Suc 0) \<notin> nat_str ` {1..0}" "nat_str (Suc (Suc 0)) \<notin> nat_str ` {1..Suc 0}"
    "nat_str (Suc (Suc (Suc 0))) \<notin> nat_str ` {1..Suc (Suc 0)}"
    "nat_str (Suc (Suc (Suc (Suc 0)))) \<notin> nat_str ` {1..Suc (Suc (Suc 0))}"
    by (simp_all add: nat_str_Suc atLeastAtMostSuc_conv)
  have short: "py_len ''Honduras coffee price was 3.80 USD per kg at San Pedro Sula'' \<le> MAX_TEXT_CHARS"
    "py_len ''Honduras coffee price is 4.20 USD per kg at San Pedro Sula'' \<le> MAX_TEXT_CHARS"
    "py_len ''Private farm price is 9.00 USD per kg'' \<le> MAX_TEXT_CHARS"
    "py_len ''Honduras coffee farms use volcanic soil at high altitude'' \<le> MAX_TEXT_CHARS"
    by code_simp+
  note w1 = seeding_write[OF fresh(1) short(1) seed_dates(2,3)]
  note w2 = seeding_write[OF fresh(2) short(2) seed_dates(3,1)]
  note w3 = seeding_write[OF fresh(3) short(3) seed_dates(1,1)]
  note w4 = seeding_write[OF fresh(4) short(4) seed_dates(1,1)]
  have get: "get_session ''operator'' (k\<lparr>tk_backend := x\<rparr>)
      = (Inr (Some (''did:key:operator'', benchmark_secret ''operator'')), k\<lparr>tk_backend := x\<rparr>)" for x
    using assms(1) by (simp add: get_session_def)
  have "seed_track marciana_agent (k\<lparr>tk_backend := seeding_state 0 []\<rparr>) =
    (Inr (), k\<lparr>tk_backend := seeding_state (Suc (Suc (Suc (Suc 0)))) harness_store\<rparr>)"
    unfolding seed_track_def HARNESS_SEED_CORPUS_def map_act.simps and_then_def prod.case get sum.case
      ret_def w1 w2 w3 w4 option.case
    by (simp add: harness_store_def)
  then show ?thesis
    unfolding start[symmetric] by (simp add: numeral_eq_Suc)
qed


lemma fresh_marciana:
  "fresh_track marciana_agent k = (Inr (), k\<lparr>
      tk_sessions := map (\<lambda>n. (n, (''did:key:'' @ n, benchmark_secret n))) HARNESS_PRINCIPALS,
      tk_check := ''passed'', tk_backend := seeding_state 4 harness_store\<rparr>)"
proof -
  let ?k = "k\<lparr>tk_backend := new_marciana\<rparr>"
  have reset: "backend_call (ab_reset marciana_agent) k = (Inr (), ?k)"
    by (simp add: backend_call_def on_part_def marciana_agent_def marciana_reset_def)
  have prov: "provision marciana_agent ?k = (Inr (), ?k\<lparr>
      tk_sessions := map (\<lambda>n. (n, (''did:key:'' @ n, benchmark_secret n))) HARNESS_PRINCIPALS,
      tk_check := ''passed''\<rparr>)"
    by (rule marciana_provision_run) (simp add: new_marciana_def)
  have seed: "seed_track marciana_agent u = (Inr (), u\<lparr>tk_backend := seeding_state 4 harness_store\<rparr>)"
    if "u = ?k\<lparr>tk_sessions := map (\<lambda>n. (n, (''did:key:'' @ n, benchmark_secret n))) HARNESS_PRINCIPALS,
      tk_check := ''passed''\<rparr>" for u
    by (rule seeding_done) (simp_all add: that HARNESS_PRINCIPALS_def)
  show ?thesis
    unfolding fresh_track_def and_then_def reset prov seed[OF refl] prod.case sum.case by simp
qed

lemma harness_ranking: "ranking q a d (core (mb_backend (seeding_state 4 harness_store))) = ranking q a d fresh_v1"
  by (rule ranking_sources)
    (simp add: harness_store_def fresh_v1_eq seeded_def m_defs dict_values_def harness_memory_def new_memory_def)


subsection \<open>The flat store\<close>

lemma memfs_scored_mem:
  "(n, i, t) \<in> set (memfs_scored q s) \<longleftrightarrow>
     (i, t) \<in> set (fs_store s) \<and> words q \<inter> words t \<noteq> {} \<and> n = card (words q \<inter> words t)"
  by (force simp: memfs_scored_def)

lemma memfs_ids_distinct:
  assumes "dict_ok (fs_store s)"
  shows "distinct (map (\<lambda>(n, i, t). i) (memfs_scored q s))"
proof -
  let ?rows = "map (\<lambda>(i, t). (card (words q \<inter> words t), i, t)) (filter (\<lambda>(i, t). words q \<inter> words t \<noteq> {}) (fs_store s))"
  have eq: "map (\<lambda>(n, i, t). i) ?rows = map fst (filter (\<lambda>(i, t). words q \<inter> words t \<noteq> {}) (fs_store s))"
    by (simp only: map_map) (rule map_cong[OF refl], simp add: split_beta)
  have "distinct (map (\<lambda>(n, i, t). i) ?rows)"
    unfolding eq using assms by (simp add: dict_ok_def distinct_map_filter)
  then show ?thesis
    unfolding memfs_scored_def distinct_map_sort_key .
qed

lemma memfs_sorted: "sorted_wrt (\<lambda>x y. memfs_key x \<le> memfs_key y) (memfs_scored q s)"
  using sorted_sort_key[of memfs_key] by (simp add: memfs_scored_def sorted_map)

text \<open>what a session writes is durable at once\<close>

definition memfs_synced :: "memfs_state \<Rightarrow> bool" where
  "memfs_synced s \<longleftrightarrow> fs_store s = fs_durable s \<and> dict_ok (fs_store s)"

lemma memfs_keeps_synced: "session_keeps memfs_synced memfs_agent h"
  by (auto simp: session_keeps_def memfs_agent_def keeps_def memfs_write_def memfs_read_def memfs_delete_def
      memfs_list_ids_def memfs_synced_def Let_def)

lemma session_keeps_call: "session_keeps I b h \<Longrightarrow> keeps I (tool_call p b h c)"
  unfolding tool_call_def by (intro keeps_and_then keeps_lift keeps_ret dispatch_keeps)

lemma keeps_backend: "keeps I m \<Longrightarrow> keeps (\<lambda>x. I (fst x)) (on_backend m)"
  by (auto simp: keeps_def on_backend_eq)

lemma keeps_transport: "keeps (\<lambda>x. I (fst x)) (on_transport m)"
  by (auto simp: keeps_def on_transport_def on_part_def split: prod.splits)

lemma turn_keeps:
  assumes "session_keeps I b h"
  shows "keeps (\<lambda>x. I (fst x)) (turn p tr b h n ms)"
  unfolding turn_def Let_def
  by (intro keeps_if keeps_ret keeps_and_then keeps_catch keeps_transport)
    (auto split: sum.splits intro!: keeps_if keeps_ret keeps_and_then keeps_lift keeps_backend
      keeps_map_act session_keeps_call[OF assms])

lemma turns_keep:
  assumes "session_keeps I b h"
  shows "keeps (\<lambda>x. I (fst x)) (turns left n p tr b h ms)"
proof (induction left arbitrary: n ms)
  case (Suc left)
  have "keeps (\<lambda>x. I (fst x)) (case e of Done r \<Rightarrow> ret r
      | Continue ms' \<Rightarrow> turns left (Suc n) p tr b h ms')" for e
    using Suc by (cases e) auto
  then show ?case by (simp add: keeps_and_then turn_keeps[OF assms])
qed simp

text \<open>an invariant of the four tools is an invariant of a whole operation\<close>

lemma run_operation_keeps:
  "session_keeps I b h \<Longrightarrow> keeps (\<lambda>x. I (fst x)) (run_operation p tr b h prompt)"
  unfolding run_operation_def by (rule turns_keep)

subsection \<open>Properties\<close>

text \<open>C12: A principal's whole operation is independent of what it may not see: on two states of the
  reference that agree on the memories the session's registered identity may see, and on its spent
  nonces, an operation of the harness gives the same result and leaves the transport, and with it
  every message the model was sent, in the same state, whatever the model calls; the states it
  leaves agree again. Injected text cannot make the loop leak a restricted memory.\<close>

theorem agent_loop_noninterference:
  assumes "marciana_same d s t"
  shows "fst (run_operation p tr marciana_agent (Some (d, c)) prompt (s, x))
      = fst (run_operation p tr marciana_agent (Some (d, c)) prompt (t, x))
    \<and> snd (snd (run_operation p tr marciana_agent (Some (d, c)) prompt (s, x)))
      = snd (snd (run_operation p tr marciana_agent (Some (d, c)) prompt (t, x)))
    \<and> marciana_same d (fst (snd (run_operation p tr marciana_agent (Some (d, c)) prompt (s, x))))
        (fst (snd (run_operation p tr marciana_agent (Some (d, c)) prompt (t, x))))"
  using blindD[OF marciana.run_operation_blind, of d "(s, x)" "(t, x)" p tr c prompt] assms
  by (auto simp: pair_rel_def)

text \<open>a transport whose model reads the query and then answers with what it was told last\<close>

definition echo_prims :: py_prims where
  "echo_prims = \<lparr>float_repr = (\<lambda>r. []), float_parse = (\<lambda>s. raise_error ''ValueError'' s), json_error_text = id\<rparr>"

definition silent_transport :: "nat transport" where
  "silent_transport ms tools opts n = (Inr (JObj [(''message'', JObj [(''content'', JStr ''[]'')])]), Suc n)"

definition farm_secret :: memory where
  "farm_secret = (new_memory ''private-farm'' ''Private farm price is 9.00 USD per kg'' ''private:farm-7'' ''d'')
     \<lparr>sensitivity := 3\<rparr>"

definition marciana_with :: "(string, memory) pydict \<Rightarrow> marciana_state" where
  "marciana_with ms = new_marciana\<lparr>mb_backend := new_auth_backend\<lparr>core := new_backend\<lparr>memories := ms\<rparr>\<rparr>\<rparr>"

lemma agent_loop_noninterference_witness:
  "fst (run_operation echo_prims silent_transport marciana_agent (Some (''did:key:analyst'', benchmark_secret ''analyst''))
      (recall_prompt ''private farm price'' None) (marciana_with [(''private-farm'', farm_secret)], 0))
   = fst (run_operation echo_prims silent_transport marciana_agent (Some (''did:key:analyst'', benchmark_secret ''analyst''))
      (recall_prompt ''private farm price'' None) (marciana_with [], 0))"
proof (rule agent_loop_noninterference[THEN conjunct1])
  have "\<not> authorized farm_secret (session_actor (Session x))"
    if "dict_get (reg_records (identities new_auth_backend)) ''did:key:analyst'' = Some x" for x
    using that unfolding new_auth_lookup
    by (auto simp: PRINCIPALS_def new_identity_def session_actor_def authorized_def farm_secret_def new_memory_def)
  then show "marciana_same ''did:key:analyst'' (marciana_with [(''private-farm'', farm_secret)]) (marciana_with [])"
    by (auto simp: marciana_same_def registered_actor_def marciana_with_def new_marciana_def same_view_def
        backend_ok_def dict_ok_def new_backend_def visible_def fun_eq_iff farm_secret_def new_memory_def
        split: option.splits)
qed

text \<open>Both tracks replay the same corpus: whatever state a run was in, resetting, provisioning and
  seeding the reference through the tool contract succeeds, opens the session of each of the four
  principals under its own identity, rejects the forged credential of the negative probe, and leaves
  a store on which every recall of every actor answers exactly as on the seeded backend of the
  memory-store track.\<close>

theorem harness_seeds_reference_corpus:
  "\<exists>k'. fresh_track marciana_agent k = (Inr (), k') \<and> tk_check k' = ''passed''
     \<and> dict_keys (tk_sessions k') = [''operator'', ''analyst'', ''outsider'', ''advertiser'']
     \<and> list_all (\<lambda>(n, did, secret). did = ''did:key:'' @ n
          \<and> accepts_credential (identities (mb_backend (tk_backend k'))) did secret) (tk_sessions k')
     \<and> (\<forall>q a d n. fst (recall q a d n (core (mb_backend (tk_backend k'))\<lparr>nonces := {}\<rparr>))
          = fst (recall q a d n (fresh_v1\<lparr>nonces := {}\<rparr>)))"
proof -
  let ?k = "k\<lparr>tk_sessions := map (\<lambda>n. (n, (''did:key:'' @ n, benchmark_secret n))) HARNESS_PRINCIPALS,
      tk_check := ''passed'', tk_backend := seeding_state 4 harness_store\<rparr>"
  have acc: "accepts_credential (identities new_auth_backend) (''did:key:'' @ n) (benchmark_secret n)"
    if "n \<in> set HARNESS_PRINCIPALS" for n
    using that marciana_open_issued[of new_marciana n]
    by (auto simp: accepts_credential_def marciana_open_session_def authenticate_v2_def new_marciana_def Let_def
        bind_result_Inr_iff split: option.splits)
  have rank: "ranking q a d (s\<lparr>nonces := N\<rparr>) = ranking q a d s" for q a d s N
    by (simp add: ranking_def)
  have "fst (recall q a d n (core (mb_backend (seeding_state 4 harness_store))\<lparr>nonces := {}\<rparr>))
      = fst (recall q a d n (fresh_v1\<lparr>nonces := {}\<rparr>))" for q a d n
    by (simp add: recall_eq rank harness_ranking)
  then show ?thesis
    using acc by (intro exI[of _ ?k]) (auto simp: fresh_marciana dict_keys_def comp_def HARNESS_PRINCIPALS_def)
qed

text \<open>The reference's \<^verbatim>\<open>memory_list\<close> never lists anything: it recalls the empty query, which shares
  no word with any memory, so a session that is answered at all is told that nothing is visible to
  it, whatever the store holds.\<close>

theorem marciana_list_is_empty:
  assumes "marciana_list_ids h s = (Inr r, s')"
  shows "tr_ids r = []"
proof (cases h)
  case None
  then show ?thesis using assms by (auto simp: marciana_list_ids_def tool_failure_def)
next
  case (Some dc)
  obtain d c where h: "h = Some (d, c)" using Some by (cases dc) auto
  have none: "ids (fst (recall [] a w n b)) = []" for a w n b
    by (simp add: recall_eq refused_def ranking_def rank_loop_eq relevant_def)
  have "ids dec = []" if "with_session d c (\<lambda>a. recall [] a w n) b = (Inr dec, b')" for dec w n b b'
    using that none by (cases rule: with_session_cases[of b d c "\<lambda>a. recall [] a w n"])
      (auto simp: DENIED_def refused_def prod_eq_iff)
  then show ?thesis
    using assms h by (auto simp: marciana_list_ids_def recall_v2_def v2_call_def on_part_def tool_ok_def
        elim!: and_then_cases split: prod.splits)
qed

lemma marciana_list_is_empty_witness:
  "\<exists>r s'. marciana_list_ids (Some (''did:key:operator'', benchmark_secret ''operator''))
      (marciana_with [(''private-farm'', farm_secret)]) = (Inr r, s') \<and> tr_ok r \<and> tr_ids r = []"
proof -
  let ?run = "marciana_list_ids (Some (''did:key:operator'', benchmark_secret ''operator''))
      (marciana_with [(''private-farm'', farm_secret)])"
  obtain r s' where run: "?run = (Inr r, s')" and ok: "tr_ok r"
    by (simp add: marciana_list_ids_def next_nonce_def Let_def and_then_def v2_call_def on_part_def recall_v2_def
        with_session_def authenticate_v2_def marciana_with_def new_marciana_def benchmark_secret_def
        operator_credential tool_ok_def split_beta)
  with marciana_list_is_empty[OF run] show ?thesis by blast
qed

text \<open>The flat store's search is exact: it answers with at most eight distinct ids, each of a stored
  text that shares a token with the query, and a match it leaves out is beaten by all eight it
  returns, which share more tokens, or as many and come first by id. The store is not changed.\<close>

theorem memfs_read_exact:
  assumes "dict_ok (fs_store s)" and "memfs_read h q d s = (Inr r, s')"
  shows "s' = s \<and> tr_ok r \<and> distinct (tr_ids r) \<and> length (tr_ids r) \<le> 8
    \<and> (\<forall>i \<in> set (tr_ids r). \<exists>t. dict_get (fs_store s) i = Some t \<and> words q \<inter> words t \<noteq> {})
    \<and> (\<forall>j t. dict_get (fs_store s) j = Some t \<and> words q \<inter> words t \<noteq> {} \<and> j \<notin> set (tr_ids r)
        \<longrightarrow> length (tr_ids r) = 8 \<and> (\<forall>i \<in> set (tr_ids r). \<exists>u. dict_get (fs_store s) i = Some u
          \<and> (card (words q \<inter> words t) < card (words q \<inter> words u)
             \<or> card (words q \<inter> words t) = card (words q \<inter> words u) \<and> i < j)))"
proof (cases "words q = {}")
  case True
  then show ?thesis using assms(2) by (auto simp: memfs_read_def tool_ok_def)
next
  case False
  let ?all = "memfs_scored q s" and ?id = "\<lambda>(n :: nat, i :: string, t :: string). i"
  have r: "s' = s" "tr_ok r" "tr_ids r = map ?id (take 8 ?all)"
    using assms(2) False by (auto simp: memfs_read_def Let_def)
  have mem: "dict_get (fs_store s) i = Some t \<and> words q \<inter> words t \<noteq> {} \<and> n = card (words q \<inter> words t)"
    if "(n, i, t) \<in> set ?all" for n i t
    using that assms(1) by (simp add: memfs_scored_mem in_dict_iff)
  have dist: "distinct (map ?id ?all)" using assms(1) by (rule memfs_ids_distinct)
  have beaten: "length (tr_ids r) = 8 \<and> (\<forall>i \<in> set (tr_ids r). \<exists>u. dict_get (fs_store s) i = Some u
      \<and> (card (words q \<inter> words t) < card (words q \<inter> words u)
         \<or> card (words q \<inter> words t) = card (words q \<inter> words u) \<and> i < j))"
    if j: "dict_get (fs_store s) j = Some t" "words q \<inter> words t \<noteq> {}" "j \<notin> set (tr_ids r)" for j t
  proof -
    let ?x = "(card (words q \<inter> words t), j, t)"
    have "?x \<in> set ?all" using j assms(1) by (simp add: memfs_scored_mem in_dict_iff)
    moreover have "?x \<notin> set (take 8 ?all)" using j(3) r(3) by force
    ultimately have x: "?x \<in> set (drop 8 ?all)"
      by (metis append_take_drop_id in_set_conv_decomp Un_iff set_append)
    then have len: "length (tr_ids r) = 8" using r(3) by (cases "length ?all \<ge> 8") auto
    have "\<exists>u. dict_get (fs_store s) i = Some u \<and> (card (words q \<inter> words t) < card (words q \<inter> words u)
         \<or> card (words q \<inter> words t) = card (words q \<inter> words u) \<and> i < j)" if i: "i \<in> set (tr_ids r)" for i
    proof -
      obtain n u where u: "(n, i, u) \<in> set (take 8 ?all)" using i r(3) by auto
      have "sorted_wrt (\<lambda>x y. memfs_key x \<le> memfs_key y) (take 8 ?all @ drop 8 ?all)"
        using memfs_sorted by simp
      then have "memfs_key (n, i, u) \<le> memfs_key ?x"
        using u x unfolding sorted_wrt_append by blast
      moreover have "i \<noteq> j" using i j(3) by blast
      moreover have "(n, i, u) \<in> set ?all" using u by (rule in_set_takeD)
      ultimately show ?thesis using mem by (auto simp: memfs_key_def)
    qed
    with len show ?thesis by blast
  qed
  have found: "\<exists>t. dict_get (fs_store s) i = Some t \<and> words q \<inter> words t \<noteq> {}" if i: "i \<in> set (tr_ids r)" for i
  proof -
    obtain n u where "(n, i, u) \<in> set (take 8 ?all)" using i r(3) by auto
    then have "(n, i, u) \<in> set ?all" by (rule in_set_takeD)
    with mem show ?thesis by blast
  qed
  have "distinct (tr_ids r)" "length (tr_ids r) \<le> 8"
    using dist r(3) by (simp_all add: take_map[symmetric] distinct_take)
  with r(1,2) found beaten show ?thesis by blast
qed

lemma memfs_read_exact_witness:
  "\<exists>r. memfs_read None ''coffee'' None \<lparr>fs_store = [(''a'', ''coffee'')], fs_durable = []\<rparr>
      = (Inr r, \<lparr>fs_store = [(''a'', ''coffee'')], fs_durable = []\<rparr>) \<and> tr_ids r = [''a''] \<and> length (tr_ids r) \<le> 8"
proof -
  let ?s = "\<lparr>fs_store = [(''a'', ''coffee'')], fs_durable = []\<rparr>"
  obtain r where run: "memfs_read None ''coffee'' None ?s = (Inr r, ?s)" and ids: "tr_ids r = [''a'']"
    by (simp add: memfs_read_def memfs_scored_def note_words)
  have "length (tr_ids r) \<le> 8"
    using memfs_read_exact[OF _ run] by (simp add: dict_ok_def)
  with run ids show ?thesis by blast
qed

text \<open>Persistence of the flat store: an operation of the harness, whatever the model calls, leaves the
  durable copy equal to the live one, so a restart after it loses nothing and brings nothing back.\<close>

theorem memfs_restart_lossless:
  assumes "memfs_synced s"
    and "run_operation p tr memfs_agent h prompt (s, x) = (r, (s', x'))"
  shows "memfs_synced s' \<and> ab_restart memfs_agent s' = (Inr (), s')"
proof -
  have "memfs_synced s'"
    using keepsD[OF run_operation_keeps[OF memfs_keeps_synced] _ assms(2)] assms(1) by simp
  then show ?thesis by (auto simp: memfs_agent_def memfs_restart_def memfs_synced_def)
qed

lemma memfs_restart_lossless_witness:
  "memfs_synced (fst (snd (run_operation echo_prims silent_transport memfs_agent (Some ''operator'')
     (forget_prompt ''price-current'') (new_memfs, 0))))"
  using memfs_restart_lossless[of new_memfs echo_prims silent_transport "Some ''operator''" "forget_prompt ''price-current''" 0]
  by (cases "run_operation echo_prims silent_transport memfs_agent (Some ''operator'')
     (forget_prompt ''price-current'') (new_memfs, 0)") (auto simp: memfs_synced_def new_memfs_def)

lemma operation_bounded_witness:
  "length (snd (snd (snd (run_operation echo_prims (recording silent_transport) memfs_agent (Some ''operator'')
     (recall_prompt ''coffee'' None) (new_memfs, (0, [])))))) \<le> 6"
  by (cases "run_operation echo_prims (recording silent_transport) memfs_agent (Some ''operator'')
     (recall_prompt ''coffee'' None) (new_memfs, (0, []))") (auto dest: operation_bounded)

end
