(* ===== verification/Adapters.thy ===== *)
theory Adapters
  imports Json Metrics Cases
begin

text \<open>
  \<^verbatim>\<open>adversarial_cognition/adapters.py\<close>: the systems a run compares. The reference is executed in
  process; an external system is a command that receives the cases as JSON and prints its outcomes.
  The command itself is outside the program: running it is the parameter \<open>spawn\<close>, which takes the
  configured command line, the text on its standard input and the timeout, and gives what it
  printed or the exception of \<^verbatim>\<open>subprocess.run(shlex.split(command), ...)\<close>. The elapsed time of a
  case is the parameter \<open>elapsed\<close>.
\<close>

subsection \<open>Data\<close>

definition ADAPTER_PROTOCOL :: string where "ADAPTER_PROTOCOL = ''marciana-adversarial-adapter-v1''"

definition EXTERNAL_TIMEOUT_SECONDS :: int where "EXTERNAL_TIMEOUT_SECONDS = 600"

definition MAX_ERROR_CHARS :: nat where "MAX_ERROR_CHARS = 256"

definition EXTERNAL_SYSTEMS :: "(string \<times> string) list" where
  "EXTERNAL_SYSTEMS = [
     (''mem0'', ''MARCIANA_ADVERSARIAL_MEM0_CMD''),
     (''letta'', ''MARCIANA_ADVERSARIAL_LETTA_CMD''),
     (''letta-direct'', ''MARCIANA_ADVERSARIAL_LETTA_DIRECT_CMD''),
     (''cognee'', ''MARCIANA_ADVERSARIAL_COGNEE_CMD''),
     (''cognee-rs'', ''MARCIANA_ADVERSARIAL_COGNEE_RS_CMD''),
     (''graphiti'', ''MARCIANA_ADVERSARIAL_GRAPHITI_CMD''),
     (''akka-fluree'', ''MARCIANA_ADVERSARIAL_AKKA_FLUREE_CMD'')]"

definition EXTERNAL_SYSTEMS_V2 :: "(string \<times> string) list" where
  "EXTERNAL_SYSTEMS_V2 = [
     (''mem0'', ''MARCIANA_ADVERSARIAL_MEM0_CMD''),
     (''letta-direct'', ''MARCIANA_ADVERSARIAL_LETTA_DIRECT_CMD''),
     (''cognee'', ''MARCIANA_ADVERSARIAL_COGNEE_CMD''),
     (''cognee-rs'', ''MARCIANA_ADVERSARIAL_COGNEE_RS_CMD''),
     (''graphiti'', ''MARCIANA_ADVERSARIAL_GRAPHITI_CMD''),
     (''akka-fluree'', ''MARCIANA_ADVERSARIAL_AKKA_FLUREE_CMD''),
     (''marciana-agent'', ''MARCIANA_ADVERSARIAL_MARCIANA_AGENT_CMD''),
     (''memfs-agent'', ''MARCIANA_ADVERSARIAL_MEMFS_AGENT_CMD''),
     (''letta-agent'', ''MARCIANA_ADVERSARIAL_LETTA_AGENT_CMD'')]"

definition external_systems :: "int \<Rightarrow> (string \<times> string) list" where
  "external_systems v = (if v \<ge> 2 then EXTERNAL_SYSTEMS_V2 else EXTERNAL_SYSTEMS)"

record case_outcome =
  oc_case_id :: string
  oc_category :: string
  oc_correct :: bool
  oc_allowed :: bool
  oc_returned_ids :: "string list"
  oc_receipt :: string
  oc_latency_us :: py_float
  oc_supported :: bool

definition round3_float :: "py_float \<Rightarrow> py_float" where
  "round3_float x = (case x of Finite r \<Rightarrow> Finite (round3 r) | Special s \<Rightarrow> Special s)"

definition outcome_dict :: "case_outcome \<Rightarrow> (string, json) pydict" where
  "outcome_dict c = [
     (''case_id'', JStr (oc_case_id c)),
     (''category'', JStr (oc_category c)),
     (''correct'', JBool (oc_correct c)),
     (''allowed'', JBool (oc_allowed c)),
     (''returned_ids'', JStrs (oc_returned_ids c)),
     (''receipt'', JStr (oc_receipt c)),
     (''latency_us'', json_float (round3_float (oc_latency_us c))),
     (''supported'', JBool (oc_supported c))]"

record system_report =
  sr_system :: string
  sr_adapter_version :: string
  sr_status :: string
  sr_missing_configuration :: "string list"
  sr_error :: string
  sr_interface :: string
  sr_outcomes :: "case_outcome list"
  sr_harness :: "(string, json) pydict option"

text \<open>\<^verbatim>\<open>SystemReport(system, version, status)\<close>, the other fields at their defaults\<close>

definition new_report :: "string \<Rightarrow> string \<Rightarrow> string \<Rightarrow> system_report" where
  "new_report n v st = \<lparr>sr_system = n, sr_adapter_version = v, sr_status = st,
     sr_missing_configuration = [], sr_error = [], sr_interface = ''direct-api'', sr_outcomes = [],
     sr_harness = None\<rparr>"

text \<open>\<^verbatim>\<open>SystemReport.as_dict\<close>\<close>

definition report_dict :: "system_report \<Rightarrow> (string, json) pydict" where
  "report_dict r =
     [(''system'', JStr (sr_system r)),
      (''adapter_version'', JStr (sr_adapter_version r)),
      (''status'', JStr (sr_status r))]
     @ (if sr_missing_configuration r \<noteq> []
        then [(''missing_configuration'', JStrs (sr_missing_configuration r))] else [])
     @ (if sr_error r \<noteq> [] then [(''error'', JStr (sr_error r))] else [])
     @ (if sr_status r = ''executed'' then
          [(''interface'', JStr (sr_interface r)),
           (''cases'', JList (map (\<lambda>c. JObj (outcome_dict c)) (sr_outcomes r))),
           (''unsupported_cases'', JInt (int (count_if (\<lambda>c. \<not> oc_supported c) (sr_outcomes r))))]
          @ (case sr_harness r of None \<Rightarrow> [] | Some h \<Rightarrow> if h = [] then [] else [(''harness'', JObj h)])
        else [])"

subsection \<open>The reference\<close>

text \<open>\<^verbatim>\<open>for _ in range(repeats): correct, decision = runner(case)\<close>: the last pair, if any\<close>

fun run_repeats :: "nat \<Rightarrow> ('c \<Rightarrow> (bool \<times> decision) result) \<Rightarrow> 'c \<Rightarrow> (bool \<times> decision) option
    \<Rightarrow> (bool \<times> decision) option result" where
  "run_repeats 0 runner c out0 = Inr out0"
| "run_repeats (Suc n) runner c out0 =
     bind_result (runner c) (\<lambda>r. run_repeats n runner c (Some r))"

text \<open>
  The loop over the suite; \<open>out0\<close> holds the variables of the previous case, which Python leaves
  bound. \<open>elapsed k\<close> is the time of the \<open>k\<close>-th case in nanoseconds.
\<close>

fun marciana_loop :: "nat \<Rightarrow> (nat \<Rightarrow> rat) \<Rightarrow> int \<Rightarrow> ('r bench_case \<Rightarrow> (bool \<times> decision) result)
    \<Rightarrow> (bool \<times> decision) option \<Rightarrow> 'r bench_case list \<Rightarrow> case_outcome list result" where
  "marciana_loop k elapsed repeats runner out0 [] = Inr []"
| "marciana_loop k elapsed repeats runner out0 (c # cs) =
     bind_result (run_repeats (nat repeats) runner c out0) (\<lambda>out.
       if repeats = 0 then raise_error ''ZeroDivisionError'' ''float division by zero''
       else case out of
         None \<Rightarrow> raise_error ''UnboundLocalError''
           (''cannot access local variable '' @ repr_str ''correct'' @ '' where it is not associated with a value'')
       | Some (correct, dec) \<Rightarrow>
           bind_result (marciana_loop (Suc k) elapsed repeats runner out cs) (\<lambda>rest.
             Inr (\<lparr>oc_case_id = case_id c, oc_category = case_category c, oc_correct = correct,
                 oc_allowed = allowed dec, oc_returned_ids = ids dec, oc_receipt = receipt dec,
                 oc_latency_us = Finite (elapsed k / 1000 / of_int repeats), oc_supported = True\<rparr> # rest)))"

definition execute_marciana :: "(nat \<Rightarrow> rat) \<Rightarrow> 'r bench_case list \<Rightarrow> int
    \<Rightarrow> ('r bench_case \<Rightarrow> (bool \<times> decision) result) \<Rightarrow> system_report result" where
  "execute_marciana elapsed suite repeats runner =
     bind_result (marciana_loop 0 elapsed repeats runner None suite) (\<lambda>outs.
       Inr ((new_report ''marciana'' ADAPTER_PROTOCOL ''executed'')
         \<lparr>sr_interface := ''direct-api'', sr_outcomes := outs\<rparr>))"

subsection \<open>The request of an external system\<close>

definition case_dict :: "'r bench_case \<Rightarrow> (string, json) pydict" where
  "case_dict c = [
     (''case_id'', JStr (case_id c)),
     (''category'', JStr (case_category c)),
     (''description'', JStr (case_description c)),
     (''expected_allowed'', JBool (expected_allowed c)),
     (''expected_ids'', JStrs (expected_ids c)),
     (''must_abstain'', JBool (must_abstain c)),
     (''forbidden_ids'', JStrs (forbidden_ids c))]"

definition external_request :: "py_prims \<Rightarrow> 'r bench_case list \<Rightarrow> int \<Rightarrow> string" where
  "external_request p suite repeats =
     json_dumps p True (JObj [
       (''protocol'', JStr ADAPTER_PROTOCOL),
       (''repeats'', JInt repeats),
       (''cases'', JList (map (\<lambda>c. JObj (case_dict c)) suite))])"

subsection \<open>The answer of an external system\<close>

definition HARNESS_KEYS :: "string list" where
  "HARNESS_KEYS = [''model'', ''seed'', ''temperature'', ''num_ctx'', ''max_turns'',
     ''prompt_digest'', ''tool_contract'']"

definition bound_text :: "nat \<Rightarrow> json \<Rightarrow> json" where
  "bound_text n v = (case v of JStr s \<Rightarrow> JStr (py_take n s) | _ \<Rightarrow> v)"

definition parse_harness :: "json \<Rightarrow> string \<Rightarrow> int \<Rightarrow> (string, json) pydict option result" where
  "parse_harness parsed interface version =
     bind_result (json_get parsed ''harness'') (\<lambda>harness.
       if version < 2 then Inr None
       else if interface \<noteq> ''agent-loop'' then Inr None
       else case harness of
         Some (JObj h) \<Rightarrow>
           (let missing = filter (\<lambda>k. dict_get h k = None) HARNESS_KEYS
            in if missing \<noteq> []
               then raise_error ''ValueError'' (''harness attestation missing keys: ''
                 @ ''['' @ join '', '' (map repr_str missing) @ '']'')
               else Inr (Some (map (\<lambda>k. (k, bound_text 128 (the (dict_get h k)))) HARNESS_KEYS)))
       | _ \<Rightarrow> raise_error ''ValueError'' ''agent-loop declared without a harness attestation'')"

text \<open>one entry of the dictionary of rows; a list or a dictionary cannot be a key\<close>

definition row_entry :: "json \<Rightarrow> (json \<times> json) result" where
  "row_entry row = bind_result (json_item row ''case_id'') (\<lambda>k. case k of
       JList xs \<Rightarrow> raise_error ''TypeError'' (''unhashable type: '' @ repr_str (type_name k))
     | JObj d \<Rightarrow> raise_error ''TypeError'' (''unhashable type: '' @ repr_str (type_name k))
     | _ \<Rightarrow> Inr (k, row))"

definition get_default :: "json \<Rightarrow> string \<Rightarrow> json \<Rightarrow> json result" where
  "get_default v k d = bind_result (json_get v k) (\<lambda>x. Inr (case x of None \<Rightarrow> d | Some y \<Rightarrow> y))"

definition parse_row :: "py_prims \<Rightarrow> json \<Rightarrow> 'r bench_case \<Rightarrow> case_outcome result" where
  "parse_row p row c =
     bind_result (json_item row ''correct'') (\<lambda>correct.
     bind_result (json_item row ''allowed'') (\<lambda>allow.
     bind_result (get_default row ''returned_ids'' (JList [])) (\<lambda>returned.
     bind_result (json_iter returned) (\<lambda>items.
     bind_result (get_default row ''receipt'' (JStr [])) (\<lambda>rcpt.
     bind_result (get_default row ''latency_us'' (JFloat 0)) (\<lambda>lat.
     bind_result (json_to_float p lat) (\<lambda>latency.
     bind_result (get_default row ''supported'' (JBool True)) (\<lambda>supp.
       Inr \<lparr>oc_case_id = case_id c, oc_category = case_category c, oc_correct = truthy correct,
            oc_allowed = truthy allow, oc_returned_ids = map (json_str p) items,
            oc_receipt = json_str p rcpt, oc_latency_us = latency, oc_supported = truthy supp\<rparr>))))))))"

definition parse_external_outcomes :: "py_prims \<Rightarrow> string \<Rightarrow> 'r bench_case list \<Rightarrow> int
    \<Rightarrow> (string \<times> string \<times> (string, json) pydict option \<times> case_outcome list) result" where
  "parse_external_outcomes p payload suite version =
     bind_result (json_loads p payload) (\<lambda>parsed.
     bind_result (get_default parsed ''adapter_version'' (JStr ADAPTER_PROTOCOL)) (\<lambda>av.
     bind_result (json_get parsed ''interface'') (\<lambda>declared.
       if version \<ge> 2 \<and> declared = None
       then raise_error ''ValueError'' ''v2 adapter payload must declare its interface''
       else
         let interface = py_take 32 (json_str p (case declared of None \<Rightarrow> JStr ''direct-api'' | Some v \<Rightarrow> v))
         in bind_result (parse_harness parsed interface version) (\<lambda>harness.
            bind_result (json_item parsed ''cases'') (\<lambda>rows.
            bind_result (json_iter rows) (\<lambda>items.
            bind_result (map_result row_entry items) (\<lambda>entries.
              let by_id = dict_of entries []
              in if set (dict_keys by_id) \<noteq> (\<lambda>c. JStr (case_id c)) ` set suite
                 then raise_error ''ValueError'' ''external adapter did not report every case exactly once''
                 else bind_result
                   (map_result (\<lambda>c. parse_row p (the (dict_get by_id (JStr (case_id c)))) c) suite)
                   (\<lambda>outs. Inr (py_take 64 (json_str p av), interface, harness, outs)))))))))"

subsection \<open>Running an external system\<close>

text \<open>\<^verbatim>\<open>int(text)\<close>: blanks around, an optional sign, digits with single underscores between\<close>

fun digit_groups :: "bool \<Rightarrow> string \<Rightarrow> bool" where
  "digit_groups prev [] = prev"
| "digit_groups prev (c # s) =
     (if is_digit c then digit_groups True s
      else if c = CHR ''_'' then prev \<and> s \<noteq> [] \<and> is_digit (hd s) \<and> digit_groups False s
      else False)"

definition int_of_text :: "string \<Rightarrow> int result" where
  "int_of_text s =
     (let t = py_strip s; neg = (take 1 t = ''-'');
          ds = (if take 1 t = ''-'' \<or> take 1 t = ''+'' then tl t else t)
      in if digit_groups False ds
         then Inr ((if neg then -1 else 1) * int (digits_val (filter is_digit ds)))
         else raise_error ''ValueError''
           (''invalid literal for int() with base 10: '' @ repr_str s))"

definition replace_newlines :: "string \<Rightarrow> string" where
  "replace_newlines s = map (\<lambda>c. if c = CHR 0x0A then CHR '' '' else c) s"

definition error_message :: "py_error \<Rightarrow> string" where
  "error_message e =
     (let stderr = (case e of ProcessError ty t eo \<Rightarrow> eo | PyError ty t \<Rightarrow> [])
      in if py_strip stderr \<noteq> [] then replace_newlines (py_strip stderr) else error_text e)"

definition environ_get :: "(string, string) pydict \<Rightarrow> string \<Rightarrow> string" where
  "environ_get env k = (case dict_get env k of None \<Rightarrow> [] | Some v \<Rightarrow> v)"

definition execute_external :: "py_prims \<Rightarrow> (string \<Rightarrow> string \<Rightarrow> int \<Rightarrow> string result) \<Rightarrow> string \<Rightarrow> string
    \<Rightarrow> 'r bench_case list \<Rightarrow> int \<Rightarrow> (string, string) pydict \<Rightarrow> int \<Rightarrow> system_report result" where
  "execute_external p spawn name variable suite repeats env version =
     (let command = py_strip (environ_get env variable)
      in if command = [] then
           Inr ((new_report name ADAPTER_PROTOCOL ''unavailable'')\<lparr>sr_missing_configuration := [variable]\<rparr>)
         else bind_result
           (case dict_get env ''MARCIANA_ADVERSARIAL_TIMEOUT_SECONDS'' of
              None \<Rightarrow> Inr EXTERNAL_TIMEOUT_SECONDS | Some t \<Rightarrow> int_of_text t)
           (\<lambda>timeout.
              case bind_result (spawn command (external_request p suite repeats) timeout)
                     (\<lambda>stdout. parse_external_outcomes p stdout suite version) of
                Inl e \<Rightarrow> Inr ((new_report name ADAPTER_PROTOCOL ''error'')
                    \<lparr>sr_error := py_take MAX_ERROR_CHARS (error_message e)\<rparr>)
              | Inr (av, interface, harness, outs) \<Rightarrow> Inr ((new_report name av ''executed'')
                    \<lparr>sr_interface := interface, sr_outcomes := outs, sr_harness := harness\<rparr>)))"

definition execute_systems :: "py_prims \<Rightarrow> (nat \<Rightarrow> rat) \<Rightarrow> (string \<Rightarrow> string \<Rightarrow> int \<Rightarrow> string result)
    \<Rightarrow> string list \<Rightarrow> 'r bench_case list \<Rightarrow> int \<Rightarrow> (string, string) pydict \<Rightarrow> int
    \<Rightarrow> ('r bench_case \<Rightarrow> (bool \<times> decision) result) \<Rightarrow> system_report list result" where
  "execute_systems p elapsed spawn selected suite repeats env version runner =
     (let registry = external_systems version;
          known = ''marciana'' # map fst registry;
          unknown = filter (\<lambda>s. s \<notin> set known) (remdups selected)
      in if unknown \<noteq> [] then
           raise_error ''ValueError'' (''unknown benchmark systems: ['' @ join '', '' (map repr_str (sort unknown)) @ '']'')
         else bind_result
           (if ''marciana'' \<in> set selected
            then map_result (\<lambda>_. execute_marciana elapsed suite repeats runner) [()] else Inr []) (\<lambda>first.
          bind_result
           (map_result (\<lambda>(name, variable). execute_external p spawn name variable suite repeats env version)
             (filter (\<lambda>(name, variable). name \<in> set selected) registry)) (\<lambda>rest.
          Inr (first @ rest))))"

subsection \<open>What an accepted answer holds\<close>

lemma parse_row_keeps: "parse_row p row c = Inr out \<Longrightarrow> oc_case_id out = case_id c \<and> oc_category out = case_category c"
  by (auto simp: parse_row_def bind_result_Inr_iff)

lemma list_all2_maps:
  "list_all2 (\<lambda>x y. f y = g x) xs ys \<Longrightarrow> map f ys = map g xs"
  by (induction rule: list_all2_induct) auto

lemma parse_rows_keep:
  assumes "map_result (\<lambda>c. parse_row p (r c) c) suite = Inr outs"
  shows "map oc_case_id outs = map case_id suite" "map oc_category outs = map case_category suite"
proof -
  have l: "list_all2 (\<lambda>c out. parse_row p (r c) c = Inr out) suite outs"
    using assms by (simp add: map_result_Inr_iff)
  have "list_all2 (\<lambda>c out. oc_case_id out = case_id c) suite outs"
    using l by (rule list_all2_mono) (auto dest: parse_row_keeps)
  then show "map oc_case_id outs = map case_id suite" by (rule list_all2_maps)
  have "list_all2 (\<lambda>c out. oc_category out = case_category c) suite outs"
    using l by (rule list_all2_mono) (auto dest: parse_row_keeps)
  then show "map oc_category outs = map case_category suite" by (rule list_all2_maps)
qed

text \<open>a harness block of bounded size: the attested keys, with short texts\<close>

definition harness_ok :: "(string, json) pydict \<Rightarrow> bool" where
  "harness_ok h \<longleftrightarrow> map fst h = HARNESS_KEYS \<and> (\<forall>k s. (k, JStr s) \<in> set h \<longrightarrow> py_len s \<le> 128)"

lemma bound_text_JStr: "bound_text n v = JStr s \<Longrightarrow> py_len s \<le> n"
  by (auto simp: bound_text_def py_len_take split: json.splits)

lemma parse_harness_ok:
  assumes "parse_harness parsed i v = Inr h"
  shows "case h of None \<Rightarrow> v < 2 \<or> i \<noteq> ''agent-loop'' | Some d \<Rightarrow> v \<ge> 2 \<and> i = ''agent-loop'' \<and> harness_ok d"
proof -
  obtain hv where hv: "json_get parsed ''harness'' = Inr hv"
    using assms by (auto simp: parse_harness_def bind_result_Inr_iff)
  consider "v < 2 \<or> i \<noteq> ''agent-loop''" "h = None"
    | d where "v \<ge> 2" "i = ''agent-loop''" "h = Some (map (\<lambda>k. (k, bound_text 128 (the (dict_get d k)))) HARNESS_KEYS)"
    using assms hv
    by (auto simp: parse_harness_def Let_def split: if_splits option.splits json.splits)
  then show ?thesis
  proof cases
    case (2 d)
    then show ?thesis
      by (auto simp: harness_ok_def comp_def dest!: bound_text_JStr[OF sym])
  qed auto
qed

subsection \<open>Properties\<close>

text \<open>An accepted answer of an external system is complete and within its declared interface: the
  outcomes are those of the suite, one per case in the order of the suite and under the case's own
  category; a v2 answer on the agent loop carries the seven attested harness keys with texts of at
  most 128 characters, any other answer carries none; version and interface are bounded.\<close>

theorem external_answer_complete:
  assumes "parse_external_outcomes p payload suite v = Inr (av, i, h, outs)"
  shows "map oc_case_id outs = map case_id suite \<and> map oc_category outs = map case_category suite
    \<and> (case h of None \<Rightarrow> v < 2 \<or> i \<noteq> ''agent-loop''
        | Some d \<Rightarrow> v \<ge> 2 \<and> i = ''agent-loop'' \<and> harness_ok d)
    \<and> py_len av \<le> 64 \<and> py_len i \<le> 32
    \<and> (v \<ge> 2 \<longrightarrow> (\<exists>d x. json_loads p payload = Inr (JObj d) \<and> dict_get d ''interface'' = Some x
          \<and> i = py_take 32 (json_str p x)))"
proof -
  obtain parsed avj decl rows items entries where
    l: "json_loads p payload = Inr parsed" and a: "av = py_take 64 (json_str p avj)"
    and d: "json_get parsed ''interface'' = Inr decl" and dv: "\<not> (v \<ge> 2 \<and> decl = None)"
    and i: "i = py_take 32 (json_str p (case decl of None \<Rightarrow> JStr ''direct-api'' | Some v \<Rightarrow> v))"
    and h: "parse_harness parsed i v = Inr h"
    and o: "map_result (\<lambda>c. parse_row p (the (dict_get (dict_of entries []) (JStr (case_id c)))) c) suite = Inr outs"
    using assms
    by (auto simp: parse_external_outcomes_def bind_result_Inr_iff Let_def split: if_splits)
  have "\<exists>dd x. parsed = JObj dd \<and> dict_get dd ''interface'' = Some x \<and> i = py_take 32 (json_str p x)" if "v \<ge> 2"
    using that d dv i by (auto simp: json_get_def split: json.splits)
  then show ?thesis
    using parse_rows_keep[OF o] parse_harness_ok[OF h] a i l by (auto simp: py_len_take)
qed

definition tiny_suite :: "unit bench_case list" where
  "tiny_suite = [new_case ''a'' ''retrieval'' ''d'' () True [] False []]"

definition sample_prims :: py_prims where
  "sample_prims = \<lparr>float_repr = (\<lambda>r. ''0.0''), float_parse = (\<lambda>s. raise_error ''ValueError'' s),
     json_error_text = (\<lambda>s. ''Expecting value'')\<rparr>"

text \<open>the text of a JSON document without quotes, each of its texts in the place of one\<close>

definition quoted :: "string \<Rightarrow> string" where
  "quoted s = CHR 0x22 # s @ [CHR 0x22]"

definition tiny_payload :: string where
  "tiny_payload = ''{'' @ quoted ''cases'' @ '': [{'' @ quoted ''case_id'' @ '': '' @ quoted ''a'' @ '', ''
     @ quoted ''correct'' @ '': true, '' @ quoted ''allowed'' @ '': true}]}''"

lemma tiny_parse:
  "parse_external_outcomes sample_prims tiny_payload tiny_suite 1 =
     Inr (ADAPTER_PROTOCOL, ''direct-api'', None, [\<lparr>oc_case_id = ''a'', oc_category = ''retrieval'',
       oc_correct = True, oc_allowed = True, oc_returned_ids = [], oc_receipt = [],
       oc_latency_us = Finite 0, oc_supported = True\<rparr>])"
  by code_simp

lemma external_answer_complete_witness:
  "py_len ADAPTER_PROTOCOL \<le> 64 \<and> map case_id tiny_suite = [''a'']"
  using external_answer_complete[OF tiny_parse] by simp

lemma execute_external_cases:
  obtains (unavailable) "py_strip (environ_get env variable) = []"
      "execute_external p spawn name variable suite repeats env v
         = Inr ((new_report name ADAPTER_PROTOCOL ''unavailable'')\<lparr>sr_missing_configuration := [variable]\<rparr>)"
    | (timeout) t e where "py_strip (environ_get env variable) \<noteq> []"
      "dict_get env ''MARCIANA_ADVERSARIAL_TIMEOUT_SECONDS'' = Some t" "int_of_text t = Inl e"
      "execute_external p spawn name variable suite repeats env v = Inl e"
    | (failed) e where "py_strip (environ_get env variable) \<noteq> []"
      "execute_external p spawn name variable suite repeats env v
         = Inr ((new_report name ADAPTER_PROTOCOL ''error'')\<lparr>sr_error := py_take MAX_ERROR_CHARS (error_message e)\<rparr>)"
    | (executed) t out av i h outs where "py_strip (environ_get env variable) \<noteq> []"
      "spawn (py_strip (environ_get env variable)) (external_request p suite repeats) t = Inr out"
      "parse_external_outcomes p out suite v = Inr (av, i, h, outs)"
      "execute_external p spawn name variable suite repeats env v
         = Inr ((new_report name av ''executed'')\<lparr>sr_interface := i, sr_outcomes := outs, sr_harness := h\<rparr>)"
proof (cases "py_strip (environ_get env variable) = []")
  case True
  then show thesis by (intro unavailable) (simp_all add: execute_external_def)
next
  case conf: False
  let ?cmd = "py_strip (environ_get env variable)"
  define tm where "tm = (case dict_get env ''MARCIANA_ADVERSARIAL_TIMEOUT_SECONDS'' of
    None \<Rightarrow> Inr EXTERNAL_TIMEOUT_SECONDS | Some t \<Rightarrow> int_of_text t)"
  show thesis
  proof (cases tm)
    case (Inl e)
    then obtain t where "dict_get env ''MARCIANA_ADVERSARIAL_TIMEOUT_SECONDS'' = Some t" "int_of_text t = Inl e"
      by (auto simp: tm_def split: option.splits)
    with conf show thesis by (intro timeout) (simp_all add: execute_external_def)
  next
    case (Inr t)
    note eq = execute_external_def[of p spawn name variable suite repeats env v, folded tm_def]
    show thesis
    proof (cases "bind_result (spawn ?cmd (external_request p suite repeats) t)
        (\<lambda>out. parse_external_outcomes p out suite v)")
      case (Inl e)
      with conf Inr show thesis by (intro failed) (simp_all add: eq)
    next
      case b: (Inr r)
      obtain av i h outs where r: "r = (av, i, h, outs)" by (cases r) auto
      with b obtain out where "spawn ?cmd (external_request p suite repeats) t = Inr out"
        "parse_external_outcomes p out suite v = Inr (av, i, h, outs)"
        by (auto simp: bind_result_Inr_iff)
      with conf Inr show thesis by (intro executed) (simp_all add: eq)
    qed
  qed
qed

text \<open>Running an external system never substitutes one and never lets it fail the run: whatever
  the command prints or raises, the call returns a report under the system's own name, which is
  unavailable exactly when no command is configured, and whose error text has at most 256
  characters; the only exception is a timeout setting that is not an integer.\<close>

theorem external_failures_are_reported:
  "(\<exists>r. execute_external p spawn name variable suite repeats env v = Inr r
      \<and> sr_system r = name \<and> sr_status r \<in> {''unavailable'', ''error'', ''executed''}
      \<and> (sr_status r = ''unavailable'' \<longleftrightarrow> py_strip (environ_get env variable) = [])
      \<and> py_len (sr_error r) \<le> 256
      \<and> (sr_status r \<noteq> ''executed'' \<longrightarrow> sr_outcomes r = []))
   \<or> (\<exists>t e. dict_get env ''MARCIANA_ADVERSARIAL_TIMEOUT_SECONDS'' = Some t
      \<and> int_of_text t = Inl e \<and> execute_external p spawn name variable suite repeats env v = Inl e)"
  by (cases rule: execute_external_cases[of env variable p spawn name suite repeats v])
    (auto simp: new_report_def py_len_take MAX_ERROR_CHARS_def)

lemma external_failures_are_reported_witness:
  "\<exists>r. execute_external sample_prims (\<lambda>cmd inp t. raise_error ''OSError'' ''no such file'') ''mem0'' ''CMD'' tiny_suite 1
     [(''CMD'', ''run'')] 2 = Inr r \<and> sr_system r = ''mem0'' \<and> sr_outcomes r = []"
proof -
  have "\<nexists>out. (\<lambda>cmd inp t. raise_error ''OSError'' ''no such file'') (x::string) (y::string) (z::int) = Inr (out::string)" for x y z
    by simp
  then have "\<exists>r. execute_external sample_prims (\<lambda>cmd inp t. raise_error ''OSError'' ''no such file'') ''mem0'' ''CMD'' tiny_suite 1
     [(''CMD'', ''run'')] 2 = Inr r \<and> sr_status r \<noteq> ''executed''"
    by (cases rule: execute_external_cases[of "[(''CMD'', ''run'')]" "''CMD''" sample_prims
        "\<lambda>cmd inp t. raise_error ''OSError'' ''no such file''" "''mem0''" tiny_suite 1 2])
      (auto simp: new_report_def)
  then show ?thesis
    using external_failures_are_reported[of sample_prims "\<lambda>cmd inp t. raise_error ''OSError'' ''no such file''" "''mem0''"
        "''CMD''" tiny_suite 1 "[(''CMD'', ''run'')]" 2] by auto
qed

lemma execute_external_system:
  "execute_external p spawn name variable suite repeats env v = Inr r \<Longrightarrow> sr_system r = name"
  by (cases rule: execute_external_cases[of env variable p spawn name suite repeats v])
    (auto simp: new_report_def)

lemma execute_marciana_system:
  "execute_marciana elapsed suite repeats runner = Inr r \<Longrightarrow>
   sr_system r = ''marciana'' \<and> sr_status r = ''executed''"
  by (auto simp: execute_marciana_def bind_result_Inr_iff new_report_def)

text \<open>A run executes every selected system once, in declaration order with the reference first,
  under its own name, and nothing else; a selection with an unknown system is refused as a whole,
  before anything is executed.\<close>

theorem systems_in_declaration_order:
  "(\<forall>reports. execute_systems p elapsed spawn selected suite repeats env v runner = Inr reports \<longrightarrow>
      map sr_system reports = filter (\<lambda>n. n \<in> set selected) (''marciana'' # map fst (external_systems v)))
   \<and> (set selected - set (''marciana'' # map fst (external_systems v)) \<noteq> {} \<longrightarrow>
      (\<exists>t. execute_systems p elapsed spawn selected suite repeats env v runner = raise_error ''ValueError'' t))"
proof (intro conjI allI impI)
  fix reports
  let ?reg = "external_systems v"
  assume r: "execute_systems p elapsed spawn selected suite repeats env v runner = Inr reports"
  let ?f = "\<lambda>(name, variable). execute_external p spawn name variable suite repeats env v"
  let ?sel = "filter (\<lambda>(name, variable). name \<in> set selected) ?reg"
  obtain first rest where
    first: "(if ''marciana'' \<in> set selected
      then map_result (\<lambda>_. execute_marciana elapsed suite repeats runner) [()] else Inr []) = Inr first"
    and rest: "map_result ?f ?sel = Inr rest" and reports: "reports = first @ rest"
    using r by (auto simp: execute_systems_def Let_def bind_result_Inr_iff split: if_splits)
  have "map sr_system first = filter (\<lambda>n. n \<in> set selected) [''marciana'']"
    using first by (auto simp: bind_result_Inr_iff dest!: execute_marciana_system split: if_splits)
  moreover have "map sr_system rest = map fst ?sel"
  proof (rule list_all2_maps)
    show "list_all2 (\<lambda>x r. sr_system r = fst x) ?sel rest"
      using rest unfolding map_result_Inr_iff
      by (rule list_all2_mono) (auto dest: execute_external_system)
  qed
  moreover have "map fst ?sel = filter (\<lambda>n. n \<in> set selected) (map fst ?reg)"
    by (simp add: filter_map comp_def case_prod_unfold)
  ultimately show "map sr_system reports = filter (\<lambda>n. n \<in> set selected) (''marciana'' # map fst ?reg)"
    by (simp add: reports del: filter.simps) (simp add: filter.simps)
next
  assume "set selected - set (''marciana'' # map fst (external_systems v)) \<noteq> {}"
  then obtain x where "x \<in> set selected" "x \<notin> set (''marciana'' # map fst (external_systems v))" by auto
  then have "filter (\<lambda>s. s \<notin> set (''marciana'' # map fst (external_systems v))) (remdups selected) \<noteq> []"
    by (auto simp: filter_empty_conv)
  then show "\<exists>t. execute_systems p elapsed spawn selected suite repeats env v runner = raise_error ''ValueError'' t"
    unfolding execute_systems_def Let_def by auto
qed

lemma systems_in_declaration_order_witness:
  "\<exists>rs. execute_systems sample_prims (\<lambda>k. 0) (\<lambda>c i t. Inr i) [''mem0'', ''marciana''] tiny_suite 1 [] 1
     (\<lambda>c. Inr (True, refused [])) = Inr rs \<and> map sr_system rs = [''marciana'', ''mem0'']"
proof -
  have "\<exists>rs. execute_systems sample_prims (\<lambda>k. 0) (\<lambda>c i t. Inr i) [''mem0'', ''marciana''] tiny_suite 1 [] 1
     (\<lambda>c. Inr (True, refused [])) = Inr rs"
    by (simp add: execute_systems_def Let_def external_systems_def EXTERNAL_SYSTEMS_def execute_marciana_def
        tiny_suite_def execute_external_def environ_get_def py_strip_def)
  then show ?thesis
    using systems_in_declaration_order[of sample_prims "\<lambda>k. 0" "\<lambda>c i t. Inr i" "[''mem0'', ''marciana'']" tiny_suite 1 "[]" 1
      "\<lambda>c. Inr (True, refused [])"]
    by (auto simp: external_systems_def EXTERNAL_SYSTEMS_def)
qed

text \<open>
  The check that every case is reported once compares sets of ids: an answer that reports a case
  twice passes it, and the later row counts.
\<close>

definition double_payload :: string where
  "double_payload = ''{'' @ quoted ''cases'' @ '': [{'' @ quoted ''case_id'' @ '': '' @ quoted ''a'' @ '', ''
     @ quoted ''correct'' @ '': false, '' @ quoted ''allowed'' @ '': false}, {'' @ quoted ''case_id'' @ '': '' @ quoted ''a''
     @ '', '' @ quoted ''correct'' @ '': true, '' @ quoted ''allowed'' @ '': true}]}''"

lemma duplicate_rows_accepted:
  "map_sum (\<lambda>_. ()) (\<lambda>(av, i, h, outs). map oc_correct outs)
     (parse_external_outcomes sample_prims double_payload tiny_suite 1) = Inr [True]"
  by code_simp

end
