(* ===== verification/DriverProps.thy ===== *)
theory DriverProps
  imports AgentProps Adapters
begin

text \<open>
  What the driver of the agent-memory track guarantees for any backend and any model: its scoring is
  the reference's, its rows answer the request one by one and claim support only for what the
  backend declares, and a backend that accepts a forged credential is credited with no
  authorization case in the whole run.
\<close>

subsection \<open>Scoring\<close>

lemma json_iter_JStrs: "json_iter (JStrs xs) = Inr (map JStr xs)"
  by (simp add: json_iter_def)

lemma items_of_case:
  "items_of (JObj (case_dict c)) ''expected_ids'' = Inr (map JStr (expected_ids c))"
  "items_of (JObj (case_dict c)) ''forbidden_ids'' = Inr (map JStr (forbidden_ids c))"
  by (auto simp: items_of_def case_dict_def json_get_def or_default_def json_iter_def)

lemma set_of_texts: "set_of_items (map JStr xs) = Inr (set (map JStr xs))"
  by (induction xs) (auto simp: set_of_items_def hashable_def filter_empty_conv split: list.splits)

lemma map_JStr_eq [simp]: "map JStr xs = map JStr ys \<longleftrightarrow> xs = ys"
  by (simp add: inj_def inj_map_eq_map)

lemma evaluate_judges:
  "evaluate_case (JObj (case_dict c)) (allowed dec) (ids dec) = Inr (judge c dec)"
proof -
  have item: "json_item (JObj (case_dict c)) ''expected_allowed'' = Inr (JBool (expected_allowed c))"
    "json_get (JObj (case_dict c)) ''must_abstain'' = Inr (Some (JBool (must_abstain c)))"
    by (simp_all add: case_dict_def json_item_def json_get_def)
  have prefix: "take n (map JStr xs) = map JStr ys \<longleftrightarrow> take n xs = ys" for n xs ys
    by (simp add: take_map)
  have meet: "JStr ` A \<inter> JStr ` B = {} \<longleftrightarrow> A \<inter> B = {}" for A B by auto
  show ?thesis
    by (simp add: evaluate_case_def item items_of_case set_of_texts judge_def Let_def eq_bool_def or_default_def
        prefix meet)
qed


subsection \<open>The verdict of the negative probe\<close>

definition voided :: "('s, 't, 'h) track_run \<Rightarrow> bool" where
  "voided k \<longleftrightarrow> tk_check k = ''failed-negative-probe''"

lemma keeps_voided_calls [intro]:
  "keeps voided (backend_call m)" "keeps voided (loop_call n)" "keeps voided (get_session u)"
  "keeps voided (set_sessions d)" "keeps voided (add_session u h)"
  by (auto simp: keeps_def voided_def backend_call_def loop_call_def on_part_def get_session_def set_sessions_def
      add_session_def split: prod.splits option.splits)

text \<open>a backend that issues a session for every credential\<close>

definition accepts_all :: "('s, 'h) agent_backend \<Rightarrow> bool" where
  "accepts_all b \<longleftrightarrow> (\<forall>c s. \<exists>h t. ab_open_session b c s = (Inr (Some h), t))"

lemma probe_fails:
  fixes k :: "('s, 't, 'h) track_run"
  assumes "accepts_all b"
  shows "\<exists>k'. negative_probe b secrets k = (Inr (), k') \<and> voided k'"
proof -
  obtain h t where "ab_open_session b \<lparr>cred_name = ''operator'',
      cred_secret = forged_secret (secret_of secrets ''operator'')\<rparr> (tk_backend k) = (Inr (Some h), t)"
    using assms unfolding accepts_all_def by blast
  then show ?thesis by (simp add: negative_probe_def backend_call_def on_part_def set_check_def voided_def)
qed

lemma probe_voids: "accepts_all b \<Longrightarrow> negative_probe b secrets k = (r, k') \<Longrightarrow> voided k'"
  using probe_fails[of b secrets k] by auto

lemma provision_keeps_voided:
  assumes "accepts_all b"
  shows "keeps voided (provision b)"
proof -
  have "keeps voided (negative_probe b secrets)" for secrets
    by (intro keepsI, rule probe_voids[OF assms], rule prod.collapse[symmetric])
  then show ?thesis unfolding provision_def by (auto intro!: keeps_and_then keeps_map_act)
qed

lemma provision_voids:
  assumes "accepts_all b" and "ab_capabilities b \<inter> AUTHORIZATION_CAPABILITIES \<noteq> {}"
    and "provision b k = (Inr u, k')"
  shows "voided k'"
  using assms(3) unfolding provision_def
  by (elim and_then_cases) (auto simp: assms(2) dest: probe_voids[OF assms(1)])

lemma seed_keeps_voided: "keeps voided (seed_track b)"
  unfolding seed_track_def by (auto intro!: keeps_and_then keeps_map_act split: prod.splits)

lemma fresh_voids:
  assumes "accepts_all b" and "ab_capabilities b \<inter> AUTHORIZATION_CAPABILITIES \<noteq> {}"
  shows "keeps voided (fresh_track b)" "fresh_track b k = (Inr u, k') \<Longrightarrow> voided k'"
proof -
  show "keeps voided (fresh_track b)"
    unfolding fresh_track_def using provision_keeps_voided[OF assms(1)] seed_keeps_voided by (auto intro!: keeps_and_then)
  assume "fresh_track b k = (Inr u, k')"
  then obtain x y where "provision b x = (Inr (), y)" "seed_track b y = (Inr u, k')"
    unfolding fresh_track_def by (auto elim!: and_then_cases)
  with provision_voids[OF assms] keepsD[OF seed_keeps_voided] show "voided k'" by blast
qed

lemma scenario_keeps_voided: "keeps voided (scenario p tr b i)"
  unfolding scenario_def recall_step_def Let_def by (intro keeps_if keeps_and_then keeps_ret keeps_throw keeps_voided_calls)

lemma case_keeps_voided:
  assumes "accepts_all b" and "ab_capabilities b \<inter> AUTHORIZATION_CAPABILITIES \<noteq> {}"
  shows "keeps voided (run_track_case p tr el b c)"
proof -
  show ?thesis
    unfolding run_track_case_def
  proof (intro keeps_and_then keeps_lift keepsI)
    fix cid and k :: "('a, 'c, 'b) track_run"
    assume k: "voided k"
    show "voided (snd (if \<not> hashable cid
        then (raise_error ''TypeError'' (''unhashable type: '' @ repr_str (type_name cid)), k)
        else case cid of JStr i \<Rightarrow>
            if \<not> harness_supported b i \<or> authorization_voided i k then (Inr (unsupported_row cid), k)
            else and_then (fresh_track b) (\<lambda>_. and_then (scenario p tr b i) (\<lambda>(allow, xs).
                and_then (lift_result (evaluate_case c allow xs)) (\<lambda>correct. ret
                  [(''case_id'', cid), (''correct'', JBool correct), (''allowed'', JBool allow),
                   (''returned_ids'', JStrs xs), (''latency_us'', JFloat (round3 (el c))),
                   (''supported'', JBool True)]))) k
          | _ \<Rightarrow> (Inr (unsupported_row cid), k)))"
      using k fresh_voids(1)[OF assms] scenario_keeps_voided
      by (auto split: json.splits prod.splits intro!: keeps_snd[where I = voided and s = k] keeps_and_then)
  qed
qed


subsection \<open>Properties\<close>

definition auth_cases :: "string list" where
  "auth_cases = [''isolation-tenant'', ''isolation-clearance'', ''purpose-denial'', ''confusable-query'',
     ''injection-contained'']"

lemma auth_cases_voided: "i \<in> set auth_cases \<Longrightarrow> voided k \<Longrightarrow> authorization_voided i k"
  by (auto simp: auth_cases_def authorization_voided_def voided_def harness_requirements_def
      HARNESS_REQUIREMENTS_def AUTHORIZATION_CAPABILITIES_def)

lemma map_act_invariant:
  assumes "\<And>x. x \<in> set xs \<Longrightarrow> keeps I (f x)" and "I s" and "map_act f xs s = (Inr ys, t)"
    and "\<And>x s' y t'. x \<in> set xs \<Longrightarrow> I s' \<Longrightarrow> f x s' = (Inr y, t') \<Longrightarrow> P x y"
  shows "I t \<and> list_all2 P xs ys"
  using assms
proof (induction xs arbitrary: s ys)
  case (Cons x xs)
  obtain y s1 zs where fx: "f x s = (Inr y, s1)" and rest: "map_act f xs s1 = (Inr zs, t)" and ys: "ys = y # zs"
    using Cons.prems(3) by (auto elim!: and_then_cases)
  have "I s1" using keepsD[OF Cons.prems(1)[of x] Cons.prems(2) fx] by simp
  then have "I t \<and> list_all2 P xs zs"
    using Cons.IH[of s1 zs] Cons.prems(1,4) rest by simp
  moreover have "P x y" using Cons.prems(4)[OF _ Cons.prems(2) fx] by simp
  ultimately show ?case by (simp add: ys)
qed simp

text \<open>C15: A backend that issues a session for a corrupted credential loses its authorization claims for the
  whole run: if it accepts every credential and claims any authorization capability, then whatever
  the model answers, every authorization case of the request is reported as unsupported, incorrect
  and without ids, in every position, and the verdict at the end is that the probe failed.\<close>

theorem forged_sessions_void_authorization:
  assumes "accepts_all b" and "ab_capabilities b \<inter> AUTHORIZATION_CAPABILITIES \<noteq> {}"
    and "fresh_track b k0 = (Inr (), k)" and "map_act (run_track_case p tr el b) cs k = (Inr rows, k')"
  shows "tk_check k' = ''failed-negative-probe'' \<and> list_all2 (\<lambda>c row. \<forall>i \<in> set auth_cases.
      json_item c ''case_id'' = Inr (JStr i) \<longrightarrow> row = unsupported_row (JStr i)) cs rows"
proof -
  have k: "voided k" by (rule fresh_voids(2)[OF assms(1-3)])
  have "voided k' \<and> list_all2 (\<lambda>c row. \<forall>i \<in> set auth_cases.
      json_item c ''case_id'' = Inr (JStr i) \<longrightarrow> row = unsupported_row (JStr i)) cs rows"
    using case_keeps_voided[OF assms(1,2)] k assms(4)
  proof (rule map_act_invariant)
    fix c s row t
    assume s: "voided s" and run: "run_track_case p tr el b c s = (Inr row, t)"
    show "\<forall>i \<in> set auth_cases. json_item c ''case_id'' = Inr (JStr i) \<longrightarrow> row = unsupported_row (JStr i)"
    proof (intro ballI impI)
      fix i
      assume "i \<in> set auth_cases" "json_item c ''case_id'' = Inr (JStr i)"
      with run auth_cases_voided[OF _ s] show "row = unsupported_row (JStr i)"
        by (auto simp: run_track_case_def hashable_def)
    qed
  qed
  then show ?thesis by (simp add: voided_def)
qed

definition open_store :: "(memfs_state, string) agent_backend" where
  "open_store = memfs_agent\<lparr>ab_capabilities := {''retrieval'', ''isolation''}\<rparr>"

lemma open_store_ops:
  "ab_reset open_store = memfs_reset" "ab_provision open_store = memfs_provision"
  "ab_open_session open_store = memfs_open_session" "ab_write open_store = memfs_write"
  by (simp_all add: open_store_def memfs_agent_def)

lemma forged_sessions_void_authorization_witness:
  "\<exists>k k'. fresh_track open_store (new_track new_memfs (0 :: nat)) = (Inr (), k)
     \<and> map_act (run_track_case echo_prims silent_transport (\<lambda>_. 0) open_store)
         [JObj [(''case_id'', JStr ''isolation-tenant'')]] k = (Inr [unsupported_row (JStr ''isolation-tenant'')], k')
     \<and> tk_check k' = ''failed-negative-probe''"
proof -
  have acc: "accepts_all open_store" by (simp add: accepts_all_def open_store_ops memfs_open_session_def)
  have caps: "ab_capabilities open_store \<inter> AUTHORIZATION_CAPABILITIES \<noteq> {}"
    by (simp add: open_store_def AUTHORIZATION_CAPABILITIES_def)
  have total: "\<exists>k'. provision open_store k = (Inr (), k')" for k :: "(memfs_state, nat, string) track_run"
    using caps by (simp add: provision_def negative_probe_def open_store_ops backend_call_def on_part_def
        memfs_provision_def memfs_open_session_def set_sessions_def add_session_def set_check_def HARNESS_PRINCIPALS_def
        and_then_def)
  have "\<exists>k'. seed_track open_store k = (Inr (), k')" for k :: "(memfs_state, nat, string) track_run"
    by (simp add: seed_track_def HARNESS_SEED_CORPUS_def get_session_def and_then_def backend_call_def on_part_def
        open_store_ops memfs_write_def)
  then obtain k where k: "fresh_track open_store (new_track new_memfs (0 :: nat)) = (Inr (), k)"
    using total by (auto simp: fresh_track_def and_then_def backend_call_def on_part_def open_store_ops memfs_reset_def)
      (metis (no_types, lifting) old.prod.case old.sum.simps(6))
  let ?cs = "[JObj [(''case_id'', JStr ''isolation-tenant'')]]"
  have "authorization_voided ''isolation-tenant'' k"
    using fresh_voids(2)[OF acc caps k] by (auto intro: auth_cases_voided simp: auth_cases_def)
  then have run: "map_act (run_track_case echo_prims silent_transport (\<lambda>_. 0) open_store) ?cs k
      = (Inr [unsupported_row (JStr ''isolation-tenant'')], k)"
    by (simp add: run_track_case_def json_item_def hashable_def and_then_def)
  from forged_sessions_void_authorization[OF acc caps k run] k run show ?thesis by blast
qed

text \<open>The rows of a run answer the request one by one and credit nothing that was not declared:
  there is one row for every requested case, in order, under the requested id, and a row that is
  reported as supported is of a case the shared tool contract can express and whose required
  capabilities the backend all declares; every other row claims neither a correct nor an allowed
  outcome and no ids.\<close>

theorem rows_answer_request:
  assumes "map_act (run_track_case p tr el b) cs k = (Inr rows, k')"
  shows "list_all2 (\<lambda>c row. \<exists>cid. json_item c ''case_id'' = Inr cid
    \<and> (row = unsupported_row cid
       \<or> (\<exists>i. cid = JStr i \<and> i \<in> EXPRESSIBLE_CASES
            \<and> (\<exists>needed \<in> set (harness_requirements i). needed \<subseteq> ab_capabilities b)
            \<and> map fst row = map fst (unsupported_row cid) \<and> dict_get row ''case_id'' = Some cid
            \<and> dict_get row ''supported'' = Some (JBool True)))) cs rows"
proof -
  let ?P = "\<lambda>c row. \<exists>cid. json_item c ''case_id'' = Inr cid
    \<and> (row = unsupported_row cid
       \<or> (\<exists>i. cid = JStr i \<and> i \<in> EXPRESSIBLE_CASES
            \<and> (\<exists>needed \<in> set (harness_requirements i). needed \<subseteq> ab_capabilities b)
            \<and> map fst row = map fst (unsupported_row cid) \<and> dict_get row ''case_id'' = Some cid
            \<and> dict_get row ''supported'' = Some (JBool True)))"
  have one: "?P c row" if run: "run_track_case p tr el b c s = (Inr row, t)" for c s row t
  proof -
    obtain cid where cid: "json_item c ''case_id'' = Inr cid"
      using run by (cases "json_item c ''case_id''") (auto simp: run_track_case_def)
    show ?thesis
    proof (cases "row = unsupported_row cid")
      case False
      with run cid obtain i where i: "cid = JStr i" "harness_supported b i"
        by (auto simp: run_track_case_def split: if_splits json.splits)
      with run cid False have "map fst row = map fst (unsupported_row cid) \<and> dict_get row ''case_id'' = Some cid
          \<and> dict_get row ''supported'' = Some (JBool True)"
        by (auto simp: run_track_case_def hashable_def unsupported_row_def split: if_splits elim!: and_then_cases)
      with i cid show ?thesis by (auto simp: harness_supported_def)
    qed (use cid in blast)
  qed
  have "True \<and> list_all2 ?P cs rows"
    using assms by (intro map_act_invariant[where I = "\<lambda>_. True" and f = "run_track_case p tr el b" and s = k and t = k'])
      (auto simp: keeps_def intro: one)
  then show ?thesis by blast
qed


lemma rows_answer_request_witness:
  "\<exists>row. map_act (run_track_case echo_prims silent_transport (\<lambda>_. 0) memfs_agent)
      [JObj [(''case_id'', JStr ''oversized-query'')]] (new_track new_memfs (0 :: nat)) = (Inr [row], new_track new_memfs 0)
    \<and> row = unsupported_row (JStr ''oversized-query'')"
proof -
  have "\<not> harness_supported memfs_agent ''oversized-query''"
    by (simp add: harness_supported_def EXPRESSIBLE_CASES_def)
  then have run: "map_act (run_track_case echo_prims silent_transport (\<lambda>_. 0) memfs_agent)
      [JObj [(''case_id'', JStr ''oversized-query'')]] (new_track new_memfs (0 :: nat))
      = (Inr [unsupported_row (JStr ''oversized-query'')], new_track new_memfs 0)"
    by (simp add: run_track_case_def json_item_def hashable_def and_then_def)
  from rows_answer_request[OF run] run show ?thesis by (auto simp: json_item_def EXPRESSIBLE_CASES_def)
qed

end
