(* ===== verification/ProtocolProps.thy ===== *)
theory ProtocolProps
  imports ProtocolV2 DriverProps
begin

text \<open>
  What the memory-store driver guarantees whatever the system under test does: every case ends in
  one bounded row after at most three attempts, a system without working authentication gets no
  credit for authorization, and an authenticated system never sees the name of a principal.
\<close>

subsection \<open>Attempts\<close>

lemma scenario_declared: "map fst (scenarios sys temporal) = map fst PROTOCOL_REQUIREMENTS"
  by (simp add: scenarios_def Let_def PROTOCOL_REQUIREMENTS_def)

lemma dict_get_keys: "dict_get d k \<noteq> None \<longleftrightarrow> k \<in> set (map fst d)"
  by (induction d) auto

lemma protocol_supported_scenario:
  "protocol_supported sys cid \<Longrightarrow> \<exists>a. dict_get (scenarios sys temporal) cid = Some a"
  using dict_get_keys[of PROTOCOL_REQUIREMENTS cid] dict_get_keys[of "scenarios sys temporal" cid]
  by (auto simp: protocol_supported_def protocol_requirements_def scenario_declared split: option.splits)

lemma py_len_attempt_error: "py_len (attempt_error e) \<le> 200"
  by (simp add: attempt_error_def py_len_take)

text \<open>the state after a number of failed attempts\<close>

definition after_attempts :: "('s, 'a) act \<Rightarrow> nat \<Rightarrow> 's \<Rightarrow> 's" where
  "after_attempts a n = (snd \<circ> a) ^^ n"

lemma after_attempts_simps [simp]:
  "after_attempts a 0 s = s"
  "after_attempts a (Suc n) s = after_attempts a n (snd (a s))"
  by (simp_all add: after_attempts_def funpow_Suc_right del: funpow.simps)

definition transient :: "'a result \<Rightarrow> bool" where
  "transient r \<longleftrightarrow> (case r of Inl e \<Rightarrow> \<not> is_unsupported e | Inr x \<Rightarrow> False)"

lemma retry_transient:
  assumes "transient (fst (a s))"
  shows "\<exists>e. retry_case (Suc n) cid e0 a s = retry_case n cid (attempt_error e) a (snd (a s)) \<and> fst (a s) = Inl e"
  using assms by (cases "a s"; cases "fst (a s)") (auto simp: transient_def catch_def)

lemma retry_answers:
  "m < n \<Longrightarrow> list_all (\<lambda>j. transient (fst (a (after_attempts a j s)))) [0..<m]
    \<Longrightarrow> fst (a (after_attempts a m s)) = Inr row
    \<Longrightarrow> retry_case n cid e a s = (Inr row, after_attempts a (Suc m) s)"
proof (induction m arbitrary: n e s)
  case 0
  then obtain k where "n = Suc k" by (cases n) auto
  with 0 show ?case by (cases "a s") (simp add: catch_def)
next
  case (Suc m)
  then obtain k where n: "n = Suc k" "m < k" by (cases n) auto
  have j: "transient (fst (a (after_attempts a j s)))" if "j < Suc m" for j
    using Suc.prems(2) that by (auto simp: list_all_iff simp del: upt_Suc)
  have t: "transient (fst (a s))" using j[of 0] by simp
  have "list_all (\<lambda>j. transient (fst (a (after_attempts a j (snd (a s)))))) [0..<m]"
    using j[of "Suc _"] by (auto simp: list_all_iff)
  from Suc.IH[OF n(2) this] Suc.prems(3) retry_transient[of a s k cid e, OF t] show ?case
    by (auto simp: n)
qed

lemma retry_total: "\<exists>row t. retry_case n cid e a s = (Inr row, t)"
proof (induction n arbitrary: e s)
  case (Suc n)
  then show ?case by (cases "a s"; cases "fst (a s)") (auto simp: catch_def)
qed simp

text \<open>the shape of a row, whatever the system did\<close>

definition row_bounded :: "(string, json) pydict \<Rightarrow> bool" where
  "row_bounded row \<longleftrightarrow>
     (case dict_get row ''returned_ids'' of
        Some (JList xs) \<Rightarrow> length xs \<le> PROTOCOL_MAX_IDS \<and> list_all (\<lambda>v. case v of JStr i \<Rightarrow> py_len i \<le> PROTOCOL_MAX_ID_CHARS | _ \<Rightarrow> False) xs
      | _ \<Rightarrow> False)
     \<and> (case dict_get row ''error'' of None \<Rightarrow> True | Some (JStr e) \<Rightarrow> py_len e \<le> 200 | _ \<Rightarrow> False)
     \<and> dict_get row ''supported'' \<in> {Some (JBool True), Some (JBool False)}"

lemma row_bounded_unsupported: "row_bounded (protocol_unsupported_row cid)"
  by (simp add: row_bounded_def protocol_unsupported_row_def)

lemma row_bounded_failed: "py_len e \<le> 200 \<Longrightarrow> row_bounded (failed_row cid e)"
  by (simp add: row_bounded_def failed_row_def)

lemma row_bounded_attempt:
  assumes "attempt_case elapsed sys temporal c cid s = (Inr row, t)"
  shows "row_bounded row" "dict_get row ''case_id'' = Some (JStr cid)"
  using assms
  by (auto simp: attempt_case_def row_bounded_def bound_ids_def py_len_take list_all_iff Let_def
      elim!: and_then_cases)

lemma retry_bounded:
  assumes "\<And>s row t. a s = (Inr row, t) \<Longrightarrow> row_bounded row \<and> dict_get row ''case_id'' = Some (JStr cid)"
  shows "py_len e \<le> 200 \<Longrightarrow> retry_case n cid e a s = (Inr row, t)
    \<Longrightarrow> row_bounded row \<and> dict_get row ''case_id'' = Some (JStr cid)"
proof (induction n arbitrary: e s)
  case 0
  then show ?case by (auto simp: row_bounded_failed) (simp add: failed_row_def)
next
  case (Suc n)
  show ?case
  proof (cases "fst (a s)")
    case (Inr x)
    with Suc.prems assms[of s x] show ?thesis by (cases "a s") (auto simp: catch_def)
  next
    case (Inl x)
    show ?thesis
    proof (cases "is_unsupported x")
      case True
      with Inl Suc.prems show ?thesis
        by (cases "a s") (auto simp: catch_def row_bounded_unsupported, simp add: protocol_unsupported_row_def)
    next
      case False
      with Inl Suc.prems Suc.IH[OF py_len_attempt_error] show ?thesis
        by (cases "a s") (auto simp: catch_def)
    qed
  qed
qed

lemma case_returns:
  assumes "dict_get c ''case_id'' = Some (JStr cid)"
  shows "\<exists>row t. protocol_run_case elapsed sys temporal (JObj c) s = (Inr row, t)
     \<and> row_bounded row \<and> dict_get row ''case_id'' = Some (JStr cid)"
proof (cases "protocol_supported sys cid")
  case False
  have "protocol_run_case elapsed sys temporal (JObj c) s = (Inr (protocol_unsupported_row (JStr cid)), s)"
    using assms False by (simp add: protocol_run_case_def json_item_def hashable_def and_then_def)
  then show ?thesis by (simp add: row_bounded_unsupported) (simp add: protocol_unsupported_row_def)
next
  case True
  let ?a = "attempt_case elapsed sys temporal (JObj c) cid"
  have e: "protocol_run_case elapsed sys temporal (JObj c) s = retry_case ATTEMPTS cid [] ?a s"
    using assms True by (simp add: protocol_run_case_def json_item_def hashable_def and_then_def)
  obtain row t where r: "retry_case ATTEMPTS cid [] ?a s = (Inr row, t)" using retry_total[of ATTEMPTS cid "[]" ?a s] by blast
  have "row_bounded row \<and> dict_get row ''case_id'' = Some (JStr cid)"
    by (rule retry_bounded[OF _ _ r]) (auto dest: row_bounded_attempt)
  with e r show ?thesis by auto
qed

text \<open>C16: Whatever the system under test does, a requested case ends in a row of its own: no failure
of the system escapes the driver, at most eight ids of at most 64 characters are reported, an
error text has at most 200 characters and the row says whether the case is supported.\<close>

theorem protocol_case_total:
  assumes "dict_get c ''case_id'' = Some (JStr cid)"
  shows "\<exists>row t. protocol_run_case elapsed sys temporal (JObj c) s = (Inr row, t)
     \<and> row_bounded row \<and> dict_get row ''case_id'' = Some (JStr cid)"
  by (rule case_returns[OF assms])

text \<open>A transient failure costs nothing: when the first attempts fail with errors that do not
decline the case and one of the three attempts succeeds, its row is the row of the case, and no
further attempt is made.\<close>

theorem protocol_retry_answers:
  assumes "protocol_supported sys cid" "dict_get c ''case_id'' = Some (JStr cid)" "m < ATTEMPTS"
    "list_all (\<lambda>j. transient (fst (attempt_case elapsed sys temporal (JObj c) cid
       (after_attempts (attempt_case elapsed sys temporal (JObj c) cid) j s)))) [0..<m]"
    "fst (attempt_case elapsed sys temporal (JObj c) cid
       (after_attempts (attempt_case elapsed sys temporal (JObj c) cid) m s)) = Inr row"
  shows "protocol_run_case elapsed sys temporal (JObj c) s
     = (Inr row, after_attempts (attempt_case elapsed sys temporal (JObj c) cid) (Suc m) s)"
  using assms retry_answers[OF assms(3-5)]
  by (simp add: protocol_run_case_def json_item_def hashable_def and_then_def)

subsection \<open>Scoring\<close>

lemma evaluate_agrees: "protocol_evaluate c r = evaluate_case c (op_allowed r) (op_ids r)"
  by (simp add: protocol_evaluate_def evaluate_case_def Let_def)

text \<open>C14: Both drivers score an outcome exactly as the judge of the reference suite does: the
verdict computed from the expectations in the JSON of the request is the verdict of the case itself.\<close>

theorem drivers_score_as_reference:
  "evaluate_case (JObj (case_dict c)) (allowed dec) (ids dec) = Inr (judge c dec)
   \<and> protocol_evaluate (JObj (case_dict c)) (new_outcome (allowed dec) (ids dec)) = Inr (judge c dec)"
  by (simp add: evaluate_agrees evaluate_judges new_outcome_def)

lemma evaluate_denied:
  "protocol_evaluate (JObj (case_dict c)) (new_outcome False []) = Inr (judge c (refused []))"
  using evaluate_judges[of c "refused []"] by (simp add: evaluate_agrees new_outcome_def refused_def)

text \<open>The retries do not cover a failing recall: an error raised by the recall of a case (not
\<^verbatim>\<open>Unsupported\<close>) is scored at once as a denied answer, so a case that expects an answer is reported
as incorrect after a single attempt, without an error text.\<close>

theorem recall_failure_not_retried:
  assumes "protocol_supported sys (case_id c)" "expected_allowed c"
    "dict_get (scenarios sys temporal) (case_id c) = Some (guarded_recall sys q who d)"
    "ms_reset sys s = (Inr (), s1)" "seed_system sys temporal s1 = (Inr (), s2)"
    "ms_recall sys q who d s2 = (Inl e, t)" "\<not> is_unsupported e"
  shows "protocol_run_case elapsed sys temporal (JObj (case_dict c)) s =
    (Inr [(''case_id'', JStr (case_id c)), (''correct'', JBool False), (''allowed'', JBool False),
          (''returned_ids'', JList []), (''receipt'', JStr []),
          (''latency_us'', JFloat (round3 (elapsed (JObj (case_dict c))))), (''supported'', JBool True)], t)"
proof -
  have ev: "protocol_evaluate (JObj (case_dict c)) (new_outcome False []) = Inr False"
    using assms(2) by (simp add: evaluate_denied judge_def refused_def)
  have "guarded_recall sys q who d s2 = (Inr (new_outcome False []), t)"
    using assms(6,7) by (simp add: guarded_recall_def catch_def)
  then have "attempt_case elapsed sys temporal (JObj (case_dict c)) (case_id c) s =
    (Inr [(''case_id'', JStr (case_id c)), (''correct'', JBool False), (''allowed'', JBool False),
          (''returned_ids'', JList []), (''receipt'', JStr []),
          (''latency_us'', JFloat (round3 (elapsed (JObj (case_dict c))))), (''supported'', JBool True)], t)"
    using assms(3-5) ev
    by (simp add: attempt_case_def scenario_of_def bound_ids_def Let_def new_outcome_def and_then_def)
  then show ?thesis
    using assms(1) by (simp add: protocol_run_case_def json_item_def hashable_def case_dict_def ATTEMPTS_def
        eval_nat_numeral catch_def)
qed

subsection \<open>Authentication\<close>

lemma prepare_strips:
  assumes "prepare v s = (Inr po, t)" "po_check po \<noteq> ''passed''"
  shows "po_capabilities po \<inter> STRIPPED_CAPABILITIES = {}"
  using assms
  by (auto simp: prepare_def Let_def new_posture_def split: option.splits if_splits elim!: and_then_cases)

text \<open>the cases every alternative requirement of which is an authorization capability\<close>

definition PROTOCOL_AUTH_CASES :: "string list" where
  "PROTOCOL_AUTH_CASES = [''isolation-tenant'', ''isolation-clearance'', ''purpose-denial'',
     ''confusable-query'', ''injection-contained'']"

lemma auth_case_requirements:
  "cid \<in> set PROTOCOL_AUTH_CASES \<Longrightarrow> needed \<in> set (protocol_requirements cid) \<Longrightarrow> needed \<inter> STRIPPED_CAPABILITIES \<noteq> {}"
  by (auto simp: PROTOCOL_AUTH_CASES_def protocol_requirements_def PROTOCOL_REQUIREMENTS_def STRIPPED_CAPABILITIES_def)

text \<open>
  A system without authentication, told by its own behaviour: it has no authentication surface, or its
  surface issues a token for the operator's secret with the last character replaced (for the word
  \<^verbatim>\<open>forged\<close>, if it issued none).
\<close>

definition corrupted :: "string \<Rightarrow> string" where
  "corrupted secret = (if secret = [] then ''forged'' else concat (butlast (chunks secret)) @ ''x'')"

definition issued_secret :: "(string, string) pydict \<Rightarrow> string" where
  "issued_secret secrets = (case dict_get secrets ''operator'' of None \<Rightarrow> [] | Some secret \<Rightarrow> secret)"

definition takes_forgery :: "'s auth_surface \<Rightarrow> 's \<Rightarrow> bool" where
  "takes_forgery a s \<longleftrightarrow> (\<exists>secrets u token t. as_issued a s = (Inr secrets, u)
     \<and> as_authenticate a ''operator'' (corrupted (issued_secret secrets)) u = (Inr (Some token), t))"

definition unauthenticated_system :: "'s v2_system \<Rightarrow> 's \<Rightarrow> bool" where
  "unauthenticated_system v s \<longleftrightarrow> (case vs_surface v of None \<Rightarrow> True | Some a \<Rightarrow> takes_forgery a s)"

definition declined_row :: "string \<Rightarrow> (string, json) pydict" where
  "declined_row cid = [(''case_id'', JStr cid), (''correct'', JBool False), (''allowed'', JBool False),
     (''returned_ids'', JList []), (''receipt'', JStr []), (''latency_us'', JFloat 0), (''supported'', JBool False)]"

lemma prepare_unauthenticated:
  assumes "unauthenticated_system v s"
  shows "\<exists>po t. prepare v s = (Inr po, t) \<and> po_check po \<noteq> ''passed'' \<and> po_capabilities po \<inter> STRIPPED_CAPABILITIES = {}"
proof (cases "vs_surface v")
  case None
  then show ?thesis by (auto simp: prepare_def Let_def new_posture_def)
next
  case (Some a)
  then obtain secrets u token t where "as_issued a s = (Inr secrets, u)"
    "as_authenticate a ''operator'' (corrupted (issued_secret secrets)) u = (Inr (Some token), t)"
    using assms by (auto simp: unauthenticated_system_def takes_forgery_def)
  moreover have "forged_secret (secret_of secrets ''operator'') = corrupted (issued_secret secrets)"
    by (simp add: forged_secret_def secret_of_def corrupted_def issued_secret_def py_init_def)
  ultimately show ?thesis using Some by (auto simp: prepare_def Let_def new_posture_def)
qed

lemma stripped_case_declined:
  assumes "po_capabilities po \<inter> STRIPPED_CAPABILITIES = {}" "cid \<in> set PROTOCOL_AUTH_CASES"
    "dict_get c ''case_id'' = Some (JStr cid)"
  shows "protocol_run_case elapsed (scoped po) temporal (JObj c) k = (Inr (declined_row cid), k)"
proof -
  have "\<not> protocol_supported (scoped po) cid"
    using assms(1) auth_case_requirements[OF assms(2)] by (fastforce simp: protocol_supported_def scoped_def)
  then show ?thesis
    using assms(3) by (simp add: protocol_run_case_def json_item_def hashable_def and_then_def protocol_unsupported_row_def
        declined_row_def)
qed

text \<open>the row of a case, if the case is one of the five\<close>

definition declined_if_auth :: "(string, json) pydict \<Rightarrow> (string, json) pydict \<Rightarrow> bool" where
  "declined_if_auth c row \<longleftrightarrow> (\<forall>cid \<in> set PROTOCOL_AUTH_CASES. dict_get c ''case_id'' = Some (JStr cid) \<longrightarrow> row = declined_row cid)"

lemma stripped_rows:
  assumes "po_capabilities po \<inter> STRIPPED_CAPABILITIES = {}" "\<And>c. c \<in> set cs \<Longrightarrow> \<exists>cid. dict_get c ''case_id'' = Some (JStr cid)"
  shows "\<exists>rows t. map_act (protocol_run_case elapsed (scoped po) temporal) (map JObj cs) k = (Inr rows, t)
    \<and> list_all2 declined_if_auth cs rows"
  using assms(2)
proof (induction cs arbitrary: k)
  case (Cons c cs)
  obtain cid where cid: "dict_get c ''case_id'' = Some (JStr cid)" using Cons.prems by auto
  obtain row u where row: "protocol_run_case elapsed (scoped po) temporal (JObj c) k = (Inr row, u)"
    using case_returns[OF cid, of elapsed "scoped po" temporal k] by blast
  have "declined_if_auth c row"
    using stripped_case_declined[OF assms(1), of _ c elapsed temporal k] row by (auto simp: declined_if_auth_def)
  moreover obtain rows t where "map_act (protocol_run_case elapsed (scoped po) temporal) (map JObj cs) u = (Inr rows, t)"
    "list_all2 declined_if_auth cs rows" using Cons.IH[of u] Cons.prems by auto
  ultimately show ?case using row by (intro exI[of _ "row # rows"] exI[of _ t]) simp
qed simp

text \<open>C17: A system that has no authentication surface, or whose surface issues a token for a corrupted
secret of the operator, is credited with no authorization case in a run of the second version:
whatever it claims and whatever its operations do, the run prints a row for every requested case,
its attestation does not say passed, each of the five authorization cases is declined as
unsupported, and deciding so makes no call of the system.\<close>

theorem unauthenticated_claims_declined:
  assumes "unauthenticated_system v s" "json_loads p stdin = Inr (JObj r)" "dict_get r ''cases'' = Some (JList (map JObj cs))"
    "\<And>c. c \<in> set cs \<Longrightarrow> \<exists>cid. dict_get c ''case_id'' = Some (JStr cid)"
  shows "\<exists>version mechanism check rows po u t. prepare v s = (Inr po, u)
    \<and> (\<forall>c k temporal. \<forall>cid \<in> set PROTOCOL_AUTH_CASES. dict_get c ''case_id'' = Some (JStr cid) \<longrightarrow>
         protocol_run_case elapsed (scoped po) temporal (JObj c) k = (Inr (declined_row cid), k))
    \<and> run_v2 p elapsed v stdin s = (Inr (json_dumps p False (JObj [(''adapter_version'', version), (''interface'', JStr ''direct-api''),
         (''authorization_mechanism'', mechanism), (''authorization_check'', JStr check), (''cases'', JList (map JObj rows))])
         @ [CHR 0x0A]), t)
    \<and> check \<noteq> ''passed'' \<and> list_all2 declined_if_auth cs rows"
proof -
  obtain po u where po: "prepare v s = (Inr po, u)" "po_check po \<noteq> ''passed''" "po_capabilities po \<inter> STRIPPED_CAPABILITIES = {}"
    using prepare_unauthenticated[OF assms(1)] by blast
  obtain rows t where rows: "map_act (protocol_run_case elapsed (scoped po) (''temporal'' \<in> po_capabilities po)) (map JObj cs) u
      = (Inr rows, t)" "list_all2 declined_if_auth cs rows"
    using stripped_rows[OF po(3) assms(4)] by blast
  have "run_v2 p elapsed v stdin s = (Inr (json_dumps p False (JObj [
         (''adapter_version'', JStr (ms_name (vs_memory v) @ ''-'' @ ms_version (vs_memory v))), (''interface'', JStr ''direct-api''),
         (''authorization_mechanism'', JStr (py_take 128 (po_mechanism po))), (''authorization_check'', JStr (po_check po)),
         (''cases'', JList (map JObj rows))]) @ [CHR 0x0A]), t)"
    using assms(2,3) po(1) rows(1) by (simp add: run_v2_def request_cases_def json_item_def json_iter_def)
  then show ?thesis using po rows(2) stripped_case_declined[OF po(3)] by blast
qed

text \<open>two systems with the same operations for the principals of a set\<close>

definition same_for :: "string set \<Rightarrow> 's memory_system \<Rightarrow> 's memory_system \<Rightarrow> bool" where
  "same_for ps a b \<longleftrightarrow> ms_name a = ms_name b \<and> ms_version a = ms_version b
     \<and> ms_capabilities a = ms_capabilities b \<and> ms_interface a = ms_interface b
     \<and> ms_reset a = ms_reset b \<and> ms_restart a = ms_restart b
     \<and> (\<forall>i t. \<forall>who \<in> ps. ms_remember a i t who = ms_remember b i t who)
     \<and> (\<forall>q. \<forall>who \<in> ps. ms_recall a q who = ms_recall b q who)
     \<and> (\<forall>i. \<forall>who \<in> ps. ms_forget a i who = ms_forget b i who)
     \<and> (\<forall>i i' t. \<forall>who \<in> ps. ms_improve a i i' t who = ms_improve b i i' t who)"

lemma token_view_same:
  assumes "same_for (range (token_of tokens)) a b"
  shows "token_view a tokens = token_view b tokens"
  using assms by (cases a; cases b) (auto simp: same_for_def token_view_def fun_eq_iff)

text \<open>An authenticated system is judged by its tokens alone: two systems that behave alike for the
tokens they issued and for the \<^verbatim>\<open>unauthenticated:\<close> markers of the others give the same rows from
the same state, however differently they treat the plain names of the principals.\<close>

theorem names_of_principals_hidden:
  assumes "same_for (range (token_of tokens)) a b"
  shows "protocol_run_case elapsed (token_view a tokens) temporal c k
    = protocol_run_case elapsed (token_view b tokens) temporal c k"
  by (simp only: token_view_same[OF assms])

subsection \<open>A system under test\<close>

text \<open>A store that answers everybody, whose first reset of a run fails: the state counts the resets.\<close>

definition flaky_system :: "nat memory_system" where
  "flaky_system = \<lparr>ms_name = ''flaky'', ms_version = ''1'', ms_capabilities = CAPABILITIES,
     ms_interface = ''direct-api'',
     ms_reset = (\<lambda>n. (if n = 0 then raise_error ''ConnectionError'' ''dropped'' else Inr (), Suc n)),
     ms_remember = (\<lambda>i t who vf vu private nonce old ds. ret True),
     ms_recall = (\<lambda>q who d. if q = ''Honduras coffee price'' then throw (PyError ''ConnectionError'' ''dropped'')
        else if who = ''operator'' then ret [''soil''] else ret []),
     ms_forget = (\<lambda>i who. ret True),
     ms_improve = (\<lambda>i i' t who e k. ret False),
     ms_restart = ret ()\<rparr>"

lemma flaky_simps [simp]:
  "ms_capabilities flaky_system = CAPABILITIES"
  "ms_reset flaky_system n = (if n = 0 then raise_error ''ConnectionError'' ''dropped'' else Inr (), Suc n)"
  "ms_recall flaky_system q who d = (if q = ''Honduras coffee price'' then throw (PyError ''ConnectionError'' ''dropped'')
        else if who = ''operator'' then ret [''soil''] else ret [])"
  by (simp_all add: flaky_system_def)

lemma flaky_seed [simp]: "seed_system flaky_system temporal n = (Inr (), n)"
  by (simp add: seed_system_def seed_entry_def flaky_system_def PROTOCOL_SEED_def)

lemma flaky_attempt:
  "attempt_case elapsed flaky_system True (JObj [(''case_id'', JStr ''malformed-empty''), (''expected_allowed'', JBool True)])
     ''malformed-empty'' n =
   (if n = 0 then raise_error ''ConnectionError'' ''dropped'' else
      Inr [(''case_id'', JStr ''malformed-empty''), (''correct'', JBool True), (''allowed'', JBool True),
         (''returned_ids'', JList [JStr ''soil'']), (''receipt'', JStr []),
         (''latency_us'', JFloat (round3 (elapsed (JObj [(''case_id'', JStr ''malformed-empty''), (''expected_allowed'', JBool True)])))),
         (''supported'', JBool True)], Suc n)"
  by (simp add: attempt_case_def scenario_of_def scenarios_def Let_def guarded_recall_def and_then_def catch_def
      bound_ids_def new_outcome_def PROTOCOL_MAX_IDS_def PROTOCOL_MAX_ID_CHARS_def py_take_ascii is_ascii_def
      protocol_evaluate_def json_item_def items_of_def json_get_def json_iter_def or_default_def set_of_items_def eq_bool_def)

theorem protocol_case_total_witness:
  "\<exists>row t. protocol_run_case (\<lambda>_. 0) flaky_system True (JObj [(''case_id'', JStr ''forget-derived'')]) 0 = (Inr row, t)
     \<and> row_bounded row \<and> dict_get row ''case_id'' = Some (JStr ''forget-derived'')"
  by (rule protocol_case_total) simp

theorem protocol_retry_answers_witness:
  "snd (protocol_run_case (\<lambda>_. 0) flaky_system True
      (JObj [(''case_id'', JStr ''malformed-empty''), (''expected_allowed'', JBool True)]) 0) = 2"
proof -
  have sup: "protocol_supported flaky_system ''malformed-empty''"
    by (simp add: protocol_supported_def protocol_requirements_def PROTOCOL_REQUIREMENTS_def CAPABILITIES_def)
  show ?thesis
    by (subst protocol_retry_answers[OF sup, of _ 1])
      (simp_all add: ATTEMPTS_def flaky_attempt transient_def is_unsupported_def)
qed

theorem recall_failure_not_retried_witness:
  "fst (protocol_run_case (\<lambda>_. 0) flaky_system True (JObj (case_dict (hd cases_v1))) 1) =
    Inr [(''case_id'', JStr ''retrieval-current''), (''correct'', JBool False), (''allowed'', JBool False),
          (''returned_ids'', JList []), (''receipt'', JStr []),
          (''latency_us'', JFloat (round3 0)), (''supported'', JBool True)]"
proof -
  have c: "case_id (hd cases_v1) = ''retrieval-current''" "expected_allowed (hd cases_v1)"
    by (simp_all add: cases_v1_def new_case_def)
  have sup: "protocol_supported flaky_system ''retrieval-current''"
    by (simp add: protocol_supported_def protocol_requirements_def PROTOCOL_REQUIREMENTS_def CAPABILITIES_def)
  show ?thesis
    by (subst recall_failure_not_retried[where q = "''Honduras coffee price''" and who = "''operator''"
          and d = "Some PROTOCOL_AS_OF_NOW" and e = "PyError ''ConnectionError'' ''dropped''"])
      (simp_all add: c sup scenarios_def Let_def is_unsupported_def)
qed

text \<open>the flaky system with a surface that accepts every secret\<close>

definition gullible_system :: "nat v2_system" where
  "gullible_system = \<lparr>vs_memory = flaky_system,
     vs_surface = Some \<lparr>as_issued = ret [], as_authenticate = (\<lambda>who secret. ret (Some who))\<rparr>,
     vs_mechanism = Some ''names''\<rparr>"

text \<open>a request for one case, with \<^verbatim>\<open>q\<close> for the quotation mark\<close>

definition one_case_request :: string where
  "one_case_request = map (\<lambda>c. if c = CHR ''q'' then CHR 0x22 else c) ''{qcasesq: [{qcase_idq: qisolation-tenantq}]}''"

definition bare_prims :: py_prims where
  "bare_prims = \<lparr>float_repr = (\<lambda>x. ''0.0''), float_parse = (\<lambda>s. raise_error ''ValueError'' s), json_error_text = (\<lambda>s. s)\<rparr>"

theorem unauthenticated_claims_declined_witness:
  "\<exists>version mechanism check rows po u t. prepare gullible_system 0 = (Inr po, u)
    \<and> run_v2 bare_prims (\<lambda>_. 0) gullible_system one_case_request 0 = (Inr (json_dumps bare_prims False (JObj [(''adapter_version'', version),
         (''interface'', JStr ''direct-api''), (''authorization_mechanism'', mechanism), (''authorization_check'', JStr check),
         (''cases'', JList (map JObj rows))]) @ [CHR 0x0A]), t)
    \<and> check \<noteq> ''passed'' \<and> rows = [declined_row ''isolation-tenant'']"
proof -
  have u: "unauthenticated_system gullible_system 0"
    by (simp add: unauthenticated_system_def takes_forgery_def gullible_system_def)
  have l: "json_loads bare_prims one_case_request = Inr (JObj [(''cases'', JList (map JObj [[(''case_id'', JStr ''isolation-tenant'')]]))])"
    by code_simp
  have c: "\<exists>cid. dict_get c ''case_id'' = Some (JStr cid)" if "c \<in> set [[(''case_id'', JStr ''isolation-tenant'')]]" for c
    using that by simp
  have "declined_if_auth [(''case_id'', JStr ''isolation-tenant'')] row \<Longrightarrow> row = declined_row ''isolation-tenant''" for row
    by (simp add: declined_if_auth_def PROTOCOL_AUTH_CASES_def)
  moreover have "dict_get [(''cases'', JList (map JObj [[(''case_id'', JStr ''isolation-tenant'')]]))] ''cases''
      = Some (JList (map JObj [[(''case_id'', JStr ''isolation-tenant'')]]))" by simp
  note unauthenticated_claims_declined[OF u l this c, where elapsed = "\<lambda>_. 0"]
  ultimately show ?thesis unfolding list_all2_Cons1 list_all2_Nil by blast
qed

theorem names_of_principals_hidden_witness:
  "protocol_run_case (\<lambda>_. 0) (token_view flaky_system [(''operator'', ''t0'')]) True (JObj []) 1
   = protocol_run_case (\<lambda>_. 0) (token_view (flaky_system\<lparr>ms_recall := (\<lambda>q who d.
       if who = ''operator'' then ret [''price-current''] else ms_recall flaky_system q who d)\<rparr>)
       [(''operator'', ''t0'')]) True (JObj []) 1"
proof -
  have "token_of [(''operator'', ''t0'')] w \<noteq> ''operator''" for w
    by (simp add: token_of_def)
  then show ?thesis
    by (intro names_of_principals_hidden) (auto simp: same_for_def)
qed

end
