(* ===== verification/Tracks.thy ===== *)
theory Tracks
  imports Json
begin

text \<open>
  \<^verbatim>\<open>adversarial_cognition/tracks.py\<close>: the two comparison tracks of a v2 report. An entry is the
  dictionary a system report becomes; its interface is a string.
\<close>

definition MEMORY_STORE :: string where "MEMORY_STORE = ''memory-store''"

definition AGENT_MEMORY :: string where "AGENT_MEMORY = ''agent-memory''"

definition TRACKS :: "string list" where "TRACKS = [MEMORY_STORE, AGENT_MEMORY]"

definition INTERFACE_TRACK :: "(string, string) pydict" where
  "INTERFACE_TRACK = [(''direct-api'', MEMORY_STORE), (''agent-loop'', AGENT_MEMORY)]"

definition track_for_interface :: "string \<Rightarrow> string" where
  "track_for_interface i = (case dict_get INTERFACE_TRACK i of None \<Rightarrow> MEMORY_STORE | Some t \<Rightarrow> t)"

text \<open>\<^verbatim>\<open>entry.get("interface", "direct-api")\<close>; an entry holds a string there\<close>

definition entry_interface :: "(string, json) pydict \<Rightarrow> string" where
  "entry_interface e = (case dict_get e ''interface'' of Some (JStr s) \<Rightarrow> s | _ \<Rightarrow> ''direct-api'')"

definition entry_executed :: "(string, json) pydict \<Rightarrow> bool" where
  "entry_executed e \<longleftrightarrow> dict_get e ''status'' = Some (JStr ''executed'')"

text \<open>\<^verbatim>\<open>groups[track].append(name)\<close>\<close>

definition append_to :: "string \<Rightarrow> string \<Rightarrow> (string, string list) pydict \<Rightarrow> (string, string list) pydict" where
  "append_to t n g = map (\<lambda>(k, v). (k, if k = t then v @ [n] else v)) g"

fun group_loop :: "(string \<times> (string, json) pydict) list \<Rightarrow> (string, string list) pydict
    \<Rightarrow> (string, string list) pydict" where
  "group_loop [] g = g"
| "group_loop ((n, e) # xs) g =
     group_loop xs (if entry_executed e then append_to (track_for_interface (entry_interface e)) n g else g)"

definition group_by_track :: "(string, (string, json) pydict) pydict \<Rightarrow> (string, string list) pydict" where
  "group_by_track systems = group_loop systems (map (\<lambda>t. (t, [])) TRACKS)"

lemma track_cases: "track_for_interface i = (if i = ''agent-loop'' then AGENT_MEMORY else MEMORY_STORE)"
  by (simp add: track_for_interface_def INTERFACE_TRACK_def)

lemma track_in: "track_for_interface i \<in> set TRACKS"
  by (simp add: track_cases TRACKS_def)

lemma track_neq: "MEMORY_STORE \<noteq> AGENT_MEMORY"
  by (simp add: MEMORY_STORE_def AGENT_MEMORY_def)

definition track_members :: "string \<Rightarrow> (string \<times> (string, json) pydict) list \<Rightarrow> string list" where
  "track_members t xs =
     map fst (filter (\<lambda>(n, e). entry_executed e \<and> track_for_interface (entry_interface e) = t) xs)"

lemma group_loop_eq: "group_loop xs g = map (\<lambda>(k, v). (k, v @ track_members k xs)) g"
proof (induction xs g rule: group_loop.induct)
  case (2 n e xs g)
  then show ?case by (auto simp: append_to_def track_members_def comp_def case_prod_beta)
qed (simp add: track_members_def)

lemma group_by_track_eq:
  "group_by_track systems = map (\<lambda>t. (t, track_members t systems)) TRACKS"
  by (simp add: group_by_track_def group_loop_eq comp_def)

text \<open>Grouping by track is a partition of the executed systems: the report has exactly the two
  tracks, in order, every executed system is listed in exactly one of them and nowhere twice, no
  other system is listed, and a system is in the agent-memory track if and only if it declared the
  agent loop.\<close>

theorem group_by_track_partition:
  fixes systems :: "(string, (string, json) pydict) pydict"
  defines "g \<equiv> group_by_track systems"
  assumes "dict_ok systems"
  shows "map fst g = TRACKS
    \<and> (\<forall>t n. (\<exists>ns. dict_get g t = Some ns \<and> n \<in> set ns) \<longleftrightarrow>
         (\<exists>e. dict_get systems n = Some e \<and> entry_executed e
            \<and> t = (if entry_interface e = ''agent-loop'' then AGENT_MEMORY else MEMORY_STORE)))
    \<and> distinct (concat (map snd g))"
proof -
  have m: "n \<in> set (track_members t systems) \<longleftrightarrow>
      (\<exists>e. dict_get systems n = Some e \<and> entry_executed e \<and> track_for_interface (entry_interface e) = t)" for n t
    using assms(2) by (force simp: track_members_def in_dict_iff[symmetric] image_iff)
  have d: "distinct (track_members t systems)" for t
    using assms(2) by (simp add: track_members_def dict_ok_def distinct_map_filter)
  have g: "g = [(MEMORY_STORE, track_members MEMORY_STORE systems), (AGENT_MEMORY, track_members AGENT_MEMORY systems)]"
    by (simp add: g_def group_by_track_eq TRACKS_def)
  have "set (track_members MEMORY_STORE systems) \<inter> set (track_members AGENT_MEMORY systems) = {}"
    using track_neq by (auto simp: m)
  with d have "distinct (concat (map snd g))" by (simp add: g)
  moreover have "(\<exists>ns. dict_get g t = Some ns \<and> n \<in> set ns) \<longleftrightarrow>
      (\<exists>e. dict_get systems n = Some e \<and> entry_executed e
         \<and> t = (if entry_interface e = ''agent-loop'' then AGENT_MEMORY else MEMORY_STORE))" for t n
    using track_neq by (auto simp: g m track_cases split: if_splits)
  ultimately show ?thesis by (simp add: g TRACKS_def)
qed

lemma group_by_track_partition_witness:
  "distinct (concat (map snd (group_by_track
     [(''marciana'', [(''status'', JStr ''executed''), (''interface'', JStr ''direct-api'')])])))"
  using group_by_track_partition[of "[(''marciana'', [(''status'', JStr ''executed''), (''interface'', JStr ''direct-api'')])]"]
  by (simp add: dict_ok_def)

end
