(* ===== verification/Report.thy ===== *)
theory Report
  imports Adapters Tracks CasesV2 Driver
begin

text \<open>
  \<^verbatim>\<open>adversarial_cognition/report.py\<close> and \<^verbatim>\<open>metadata.py\<close>: the hard gates, the quality and performance
  blocks, the manifest a corpus digest pins, and the assembly of a report with its final bound
  check. A report is the JSON value the program writes.
\<close>

subsection \<open>Metadata\<close>

definition MAX_METADATA_TEXT :: nat where "MAX_METADATA_TEXT = 256"

record benchmark_metadata =
  md_model :: string
  md_provider :: string
  md_embedding :: string
  md_prompt :: string
  md_profile :: string
  md_hardware :: string
  md_revision :: string

definition metadata_values :: "benchmark_metadata \<Rightarrow> string list" where
  "metadata_values m = [md_model m, md_provider m, md_embedding m, md_prompt m, md_profile m, md_hardware m, md_revision m]"

text \<open>\<^verbatim>\<open>BenchmarkMetadata(...)\<close>: the checks of \<^verbatim>\<open>__post_init__\<close>\<close>

definition make_metadata :: "benchmark_metadata \<Rightarrow> benchmark_metadata result" where
  "make_metadata m =
     (if \<exists>v \<in> set (metadata_values m). v = [] \<or> py_len v > MAX_METADATA_TEXT \<or> CHR 0x0A \<in> set v
      then raise_error ''ValueError'' ''benchmark metadata is invalid'' else Inr m)"

definition metadata_dict :: "benchmark_metadata \<Rightarrow> (string, string) pydict" where
  "metadata_dict m = [(''model'', md_model m), (''provider'', md_provider m), (''embedding'', md_embedding m),
     (''prompt'', md_prompt m), (''profile'', md_profile m), (''hardware'', md_hardware m), (''revision'', md_revision m)]"

subsection \<open>Manifests\<close>

definition BENCHMARK :: string where "BENCHMARK = ''MARCIANA-ADVERSARIAL-v1''"

definition BENCHMARK_V2 :: string where "BENCHMARK_V2 = ''MARCIANA-ADVERSARIAL-v2''"

definition MAX_REPORT_TEXT :: nat where "MAX_REPORT_TEXT = 256"

definition manifest_cases :: "'r bench_case list \<Rightarrow> json" where
  "manifest_cases suite = JList (map (\<lambda>c. JObj [
     (''case_id'', JStr (case_id c)),
     (''category'', JStr (case_category c)),
     (''description'', JStr (case_description c)),
     (''expected_allowed'', JBool (expected_allowed c)),
     (''expected_ids'', JStrs (expected_ids c)),
     (''must_abstain'', JBool (must_abstain c)),
     (''forbidden_ids'', JStrs (forbidden_ids c))]) suite)"

definition corpus_manifest :: "'r bench_case list \<Rightarrow> (string, json) pydict" where
  "corpus_manifest suite = [
     (''benchmark'', JStr BENCHMARK),
     (''corpus_version'', JStr CORPUS_VERSION),
     (''cases'', manifest_cases suite)]"

text \<open>the dash of the attributes' description\<close>

definition em_dash :: string where "em_dash = [CHR 0xE2, CHR 0x80, CHR 0x94]"

definition corpus_manifest_v2 :: "'r bench_case list \<Rightarrow> (string, json) pydict" where
  "corpus_manifest_v2 suite = [
     (''benchmark'', JStr BENCHMARK_V2),
     (''corpus_version'', JStr CORPUS_VERSION_V2),
     (''cases'', manifest_cases suite),
     (''identity_model'', JObj [
        (''credentialing'', JStr ''server-side registry; HMAC credential per DID''),
        (''attributes'', JStr (''tenant, space, purpose, clearance, can_mutate '' @ em_dash
           @ '' registry-held, never caller-asserted'')),
        (''principals'', JStrs (map idr_did PRINCIPALS)),
        (''negative_probe'', JStr ''corrupted credential must be rejected before any case'')]),
     (''tracks'', JObj [
        (''memory-store'', JStr ''all 18 cases''),
        (''agent-memory'', JObj [
           (''expressible'', JStrs (sorted_list_of_set EXPRESSIBLE_CASES)),
           (''inexpressible_note'', JStr (''uniform for the whole track; includes oversized-query ''
              @ ''(the harness budget would supply the bound)''))])])]"

definition corpus_digest :: "py_prims \<Rightarrow> (string, json) pydict \<Rightarrow> string" where
  "corpus_digest p manifest = digest (json_dumps p True (JObj manifest))"

subsection \<open>Hard gates\<close>

definition CATEGORY_GATES :: "(string, string) pydict" where
  "CATEGORY_GATES = [
     (''authorization'', ''unauthorized_disclosure''),
     (''provenance'', ''invalid_provenance_accepted''),
     (''mutation'', ''stale_proposal_committed''),
     (''replay'', ''replayed_mutation_accepted''),
     (''recovery'', ''duplicate_durable_mutation''),
     (''forget'', ''residual_recall_after_forget''),
     (''reproducibility'', ''non_deterministic_receipts''),
     (''robustness'', ''adversarial_input_mishandled'')]"

definition CASE_GATES :: "(string, string) pydict" where
  "CASE_GATES = [(''isolation-tenant'', ''cross_scope_leakage'')]"

definition GATE_NAMES :: "string list" where
  "GATE_NAMES = first_occurrences (dict_values CASE_GATES @ dict_values CATEGORY_GATES)"

text \<open>\<^verbatim>\<open>CASE_GATES.get(outcome.case_id, CATEGORY_GATES.get(outcome.category))\<close>\<close>

definition gate_of :: "case_outcome \<Rightarrow> string option" where
  "gate_of c = (case dict_get CASE_GATES (oc_case_id c) of
     None \<Rightarrow> dict_get CATEGORY_GATES (oc_category c) | Some g \<Rightarrow> Some g)"

text \<open>\<^verbatim>\<open>gates[g] += n\<close> for a gate of the table\<close>

definition bump :: "string \<Rightarrow> int \<Rightarrow> (string, int) pydict \<Rightarrow> (string, int) pydict" where
  "bump g n gates = map (\<lambda>(k, v). (k, if k = g then v + n else v)) gates"

fun gate_loop :: "case_outcome list \<Rightarrow> (string, int) pydict \<Rightarrow> (string, int) pydict" where
  "gate_loop [] gates = gates"
| "gate_loop (c # cs) gates = gate_loop cs
     (case gate_of c of None \<Rightarrow> gates | Some g \<Rightarrow> if \<not> oc_correct c then bump g 1 gates else gates)"

definition hard_gates :: "case_outcome list \<Rightarrow> int \<Rightarrow> (string, int) pydict" where
  "hard_gates outcomes mismatches =
     bump ''non_deterministic_receipts'' mismatches (gate_loop outcomes (map (\<lambda>g. (g, 0)) GATE_NAMES))"

text \<open>\<^verbatim>\<open>sum(1 for one, two in zip(first, second, strict=True) if ...)\<close>\<close>

definition receipt_mismatches :: "case_outcome list \<Rightarrow> case_outcome list \<Rightarrow> nat result" where
  "receipt_mismatches first second =
     (if length second < length first
      then raise_error ''ValueError'' ''zip() argument 2 is shorter than argument 1''
      else if length first < length second
      then raise_error ''ValueError'' ''zip() argument 2 is longer than argument 1''
      else Inr (count_if (\<lambda>(one, two). (oc_receipt one, oc_returned_ids one) \<noteq> (oc_receipt two, oc_returned_ids two))
        (zip first second)))"

subsection \<open>Quality and performance\<close>

text \<open>\<^verbatim>\<open>by_category.setdefault(outcome.category, []).append(outcome)\<close>\<close>

fun group_categories :: "case_outcome list \<Rightarrow> (string, case_outcome list) pydict
    \<Rightarrow> (string, case_outcome list) pydict" where
  "group_categories [] d = d"
| "group_categories (c # cs) d = group_categories cs
     (dict_set (oc_category c) ((case dict_get d (oc_category c) of None \<Rightarrow> [] | Some xs \<Rightarrow> xs) @ [c]) d)"

definition share :: "('a \<Rightarrow> bool) \<Rightarrow> 'a list \<Rightarrow> rat" where
  "share P xs = of_nat (count_if P xs) / of_nat (length xs)"

definition quality :: "case_outcome list \<Rightarrow> (string, json) pydict" where
  "quality outcomes =
     (let supported = filter oc_supported outcomes;
          by_category = group_categories supported [];
          abstentions = (case dict_get by_category ''abstention'' of None \<Rightarrow> [] | Some xs \<Rightarrow> xs)
      in [(''accuracy'', JFloat (if supported \<noteq> [] then share oc_correct supported else 0)),
          (''unsupported_cases'', JInt (int (length outcomes) - int (length supported))),
          (''category_accuracy'', JObj (map (\<lambda>(category, rows). (category, JFloat (share oc_correct rows)))
             (sort_key fst by_category))),
          (''unsupported_answer_rate'', JFloat (if abstentions \<noteq> []
             then share (\<lambda>c. oc_returned_ids c \<noteq> []) abstentions else 0))])"

text \<open>the latencies of the reference; its clock readings are finite\<close>

definition latencies :: "case_outcome list \<Rightarrow> rat list" where
  "latencies outcomes = concat (map (\<lambda>c. case oc_latency_us c of Finite r \<Rightarrow> [r] | Special s \<Rightarrow> []) outcomes)"

definition performance :: "case_outcome list \<Rightarrow> rat \<Rightarrow> rat \<Rightarrow> (string, json) pydict result" where
  "performance outcomes formation_us restart_us =
     bind_result (percentile (latencies outcomes) 50) (\<lambda>p50.
     bind_result (percentile (latencies outcomes) 95) (\<lambda>p95.
     bind_result (percentile (latencies outcomes) 99) (\<lambda>p99.
     Inr [(''p50_latency_us'', JFloat (round3 p50)),
          (''p95_latency_us'', JFloat (round3 p95)),
          (''p99_latency_us'', JFloat (round3 p99)),
          (''formation_us'', JFloat (round3 formation_us)),
          (''restart_us'', JFloat (round3 restart_us))])))"

subsection \<open>The report\<close>

text \<open>\<^verbatim>\<open>next((report for report in systems if report.system == "marciana"), None)\<close>\<close>

definition find_marciana :: "system_report list \<Rightarrow> system_report option" where
  "find_marciana systems = find (\<lambda>r. sr_system r = ''marciana'') systems"

definition overall_status :: "(string, int) pydict \<Rightarrow> system_report list \<Rightarrow> string" where
  "overall_status gates systems =
     (if \<exists>v \<in> set (dict_values gates). v \<noteq> 0 then ''fail''
      else case find_marciana systems of
        None \<Rightarrow> ''incomplete''
      | Some r \<Rightarrow> if sr_status r \<noteq> ''executed'' then ''incomplete'' else ''pass'')"

definition text_bounded :: "string \<Rightarrow> bool" where
  "text_bounded s \<longleftrightarrow> \<not> (py_len s > MAX_REPORT_TEXT \<or> CHR 0x0A \<in> set s)"

text \<open>the recursive \<^verbatim>\<open>walk\<close> of \<^verbatim>\<open>assert_bounded\<close>: whether it raises nothing\<close>

fun walk :: "json \<Rightarrow> bool" where
  "walk (JStr s) = text_bounded s"
| "walk (JObj d) = (\<forall>e \<in> set d. text_bounded (fst e) \<and> walk (snd e))"
| "walk (JList xs) = (\<forall>x \<in> set xs. walk x)"
| "walk _ = True"

definition assert_bounded :: "json \<Rightarrow> unit result" where
  "assert_bounded report = (if walk report then Inr ()
     else raise_error ''ValueError'' ''benchmark report contains an unbounded string'')"

text \<open>\<^verbatim>\<open>entry["track"] = track_for_interface(...)\<close> for every executed entry\<close>

definition stamp_track :: "(string, json) pydict \<Rightarrow> (string, json) pydict" where
  "stamp_track e = (if entry_executed e
     then dict_set ''track'' (JStr (track_for_interface (entry_interface e))) e else e)"

definition reference_outcomes :: "system_report list \<Rightarrow> case_outcome list" where
  "reference_outcomes systems = (case find_marciana systems of None \<Rightarrow> []
     | Some r \<Rightarrow> if sr_status r = ''executed'' then sr_outcomes r else [])"

definition system_entries :: "system_report list \<Rightarrow> (string, (string, json) pydict) pydict" where
  "system_entries systems = dict_of (map (\<lambda>r. (sr_system r, report_dict r)) systems) []"

definition build_report :: "(string, string) pydict \<Rightarrow> string \<Rightarrow> system_report list \<Rightarrow> int \<Rightarrow> rat \<Rightarrow> rat
    \<Rightarrow> (string, json) pydict \<Rightarrow> string \<Rightarrow> json result" where
  "build_report metadata manifest_digest systems mismatches formation_us restart_us corpora benchmark =
     (let outcomes = reference_outcomes systems;
          gates = hard_gates outcomes mismatches;
          entries = system_entries systems
      in bind_result (if outcomes \<noteq> [] then performance outcomes formation_us restart_us else Inr []) (\<lambda>perf.
         let v2 = (benchmark = BENCHMARK_V2);
             stamped = (if v2 then map (\<lambda>(n, e). (n, stamp_track e)) entries else entries);
             report = JObj (
               [(''benchmark'', JStr benchmark),
                (''corpus_digest'', JStr manifest_digest),
                (''status'', JStr (overall_status gates systems)),
                (''metadata'', JObj (map (\<lambda>(k, v). (k, JStr v)) metadata)),
                (''hard_gates'', JObj (map (\<lambda>(k, v). (k, JInt v)) gates)),
                (''systems'', JObj (map (\<lambda>(n, e). (n, JObj e)) stamped)),
                (''cases'', JList (map (\<lambda>c. JObj (outcome_dict c)) outcomes)),
                (''quality'', JObj (if outcomes \<noteq> [] then quality outcomes else [])),
                (''performance'', JObj perf),
                (''public_corpora'', JObj corpora)]
               @ (if v2 then [(''tracks'', JObj (map (\<lambda>(t, ns). (t, JStrs ns)) (group_by_track stamped)))] else []))
         in bind_result (assert_bounded report) (\<lambda>_. Inr report)))"

end
