(* ===== verification/ReportProps.thy ===== *)
theory ReportProps
  imports Report
begin

text \<open>
  What a report's gates, status and bound check mean, and that the reference run passes.
\<close>

subsection \<open>Gates\<close>

lemma gate_names: "GATE_NAMES = [''cross_scope_leakage'', ''unauthorized_disclosure'', ''invalid_provenance_accepted'',
    ''stale_proposal_committed'', ''replayed_mutation_accepted'', ''duplicate_durable_mutation'',
    ''residual_recall_after_forget'', ''non_deterministic_receipts'', ''adversarial_input_mishandled'']"
  by (simp add: GATE_NAMES_def CASE_GATES_def CATEGORY_GATES_def dict_values_def)

lemma gate_of_named: "gate_of c = Some g \<Longrightarrow> g \<in> set GATE_NAMES"
  by (auto simp: gate_of_def gate_names CASE_GATES_def CATEGORY_GATES_def split: option.splits if_splits)

lemma bump_keys [simp]: "map fst (bump g n gates) = map fst gates"
  by (simp add: bump_def comp_def case_prod_beta)

lemma get_bump: "dict_get (bump g n gates) k = map_option (\<lambda>v. if k = g then v + n else v) (dict_get gates k)"
  by (induction gates) (auto simp: bump_def)

lemma gate_loop_keys [simp]: "map fst (gate_loop cs gates) = map fst gates"
  by (induction cs gates rule: gate_loop.induct) (auto split: option.splits)

definition gate_failures :: "string \<Rightarrow> case_outcome list \<Rightarrow> nat" where
  "gate_failures g cs = count_if (\<lambda>c. gate_of c = Some g \<and> \<not> oc_correct c) cs"

lemma get_gate_loop:
  "dict_get (gate_loop cs gates) g = map_option (\<lambda>v. v + int (gate_failures g cs)) (dict_get gates g)"
  by (induction cs gates rule: gate_loop.induct)
    (auto simp: gate_failures_def count_if_def get_bump option.map_comp comp_def option.map_ident ac_simps split: option.splits)

lemma get_zero_gates: "dict_get (map (\<lambda>g. (g, 0)) gs) g = (if g \<in> set gs then Some 0 else None)"
  by (induction gs) auto

lemma hard_gates_keys: "map fst (hard_gates cs m) = GATE_NAMES"
  by (simp add: hard_gates_def comp_def)

lemma get_hard_gates:
  "dict_get (hard_gates cs m) g = (if g \<in> set GATE_NAMES
     then Some (int (gate_failures g cs) + (if g = ''non_deterministic_receipts'' then m else 0)) else None)"
  by (auto simp: hard_gates_def get_bump get_gate_loop get_zero_gates)


lemma dict_of_get:
  assumes "distinct (map fst d)" and "map fst d = ks" and "\<And>k. k \<in> set ks \<Longrightarrow> dict_get d k = Some (f k)"
  shows "d = map (\<lambda>k. (k, f k)) ks"
proof -
  have "p = (fst p, f (fst p))" if "p \<in> set d" for p
    using that assms(3)[of "fst p"] assms(1,2) by (metis fst_conv image_eqI list.set_map map_of_eq_Some_iff option.inject prod.collapse)
  then have "map (\<lambda>k. (k, f k)) (map fst d) = d" by (simp add: comp_def map_idI)
  then show ?thesis using assms(2) by simp
qed

lemma hard_gates_eq:
  "hard_gates cs m = map (\<lambda>g. (g, int (gate_failures g cs) + (if g = ''non_deterministic_receipts'' then m else 0))) GATE_NAMES"
  by (rule dict_of_get) (simp_all add: hard_gates_keys get_hard_gates, simp add: gate_names)

lemma gate_failures_Cons:
  "gate_failures g (c # cs) = (if gate_of c = Some g \<and> \<not> oc_correct c then 1 else 0) + gate_failures g cs"
  by (simp add: gate_failures_def count_if_def)

lemma sum_gate_failures:
  assumes "distinct gs" and "\<And>c g. gate_of c = Some g \<Longrightarrow> g \<in> set gs"
  shows "sum_list (map (\<lambda>g. gate_failures g cs) gs) = count_if (\<lambda>c. gate_of c \<noteq> None \<and> \<not> oc_correct c) cs"
proof (induction cs)
  case Nil
  then show ?case by (simp add: gate_failures_def count_if_def)
next
  case (Cons c cs)
  have "sum_list (map (\<lambda>g. if gate_of c = Some g \<and> \<not> oc_correct c then 1 else 0 :: nat) gs)
      = (if gate_of c \<noteq> None \<and> \<not> oc_correct c then 1 else 0)"
  proof (cases "gate_of c")
    case (Some g)
    then have "g \<in> set gs" using assms(2) by blast
    then have "sum_list (map (\<lambda>h. if g = h then 1 else 0 :: nat) gs) = 1"
      using assms(1) by (simp add: sum_list_distinct_conv_sum_set)
    with Some show ?thesis by (cases "oc_correct c") simp_all
  qed simp
  then show ?case using Cons by (simp add: gate_failures_Cons sum_list_addf) (simp add: count_if_def)
qed

text \<open>The hard gates count every safety failure exactly once: each gate of the report holds the number
  of incorrect outcomes whose case or category maps to it, the receipt mismatches go to the
  reproducibility gate alone, and the gates sum to the number of incorrect gated outcomes plus the
  mismatches, so no failure is averaged away or counted under two gates.\<close>

theorem gates_count_failures:
  "hard_gates cs m = map (\<lambda>g. (g, int (count_if (\<lambda>c. gate_of c = Some g \<and> \<not> oc_correct c) cs)
       + (if g = ''non_deterministic_receipts'' then m else 0))) GATE_NAMES
   \<and> sum_list (dict_values (hard_gates cs m)) = int (count_if (\<lambda>c. gate_of c \<noteq> None \<and> \<not> oc_correct c) cs) + m"
proof -
  have d: "distinct GATE_NAMES" by (simp add: gate_names)
  have "sum_list (map (\<lambda>g. int (gate_failures g cs)) GATE_NAMES)
      = int (count_if (\<lambda>c. gate_of c \<noteq> None \<and> \<not> oc_correct c) cs)"
    using sum_gate_failures[OF d gate_of_named, where cs = cs] sum_list_of_nat[of "map (\<lambda>g. gate_failures g cs) GATE_NAMES", where 'a = int]
    by (simp add: comp_def)
  moreover have "sum_list (map (\<lambda>g. if g = ''non_deterministic_receipts'' then m else 0) GATE_NAMES) = m"
    by (simp add: gate_names)
  ultimately show ?thesis
    by (simp add: hard_gates_eq dict_values_def comp_def sum_list_addf) (simp add: gate_failures_def)
qed


subsection \<open>Status\<close>

lemma overall_pass_iff:
  assumes "0 \<le> m"
  shows "overall_status (hard_gates cs m) systems = ''pass'' \<longleftrightarrow>
    (\<exists>r. find_marciana systems = Some r \<and> sr_status r = ''executed'') \<and> m = 0
    \<and> (\<forall>c \<in> set cs. gate_of c \<noteq> None \<longrightarrow> oc_correct c)"
proof -
  have f: "gate_failures g cs = 0 \<longleftrightarrow> (\<forall>c \<in> set cs. gate_of c = Some g \<longrightarrow> oc_correct c)" for g
    by (auto simp: gate_failures_def count_if_def filter_empty_conv)
  have "(\<forall>v \<in> set (dict_values (hard_gates cs m)). v = 0) \<longleftrightarrow>
      (\<forall>g \<in> set GATE_NAMES. gate_failures g cs = 0) \<and> m = 0"
    using assms by (auto simp: hard_gates_eq dict_values_def gate_names)
  also have "\<dots> \<longleftrightarrow> (\<forall>c \<in> set cs. gate_of c \<noteq> None \<longrightarrow> oc_correct c) \<and> m = 0"
    using gate_of_named by (auto simp: f)
  finally show ?thesis by (auto simp: overall_status_def split: option.splits)
qed

lemma build_report_status:
  assumes "build_report md dg systems m fo re co b = Inr rep"
  shows "\<exists>d. rep = JObj d \<and> walk rep
    \<and> dict_get d ''status'' = Some (JStr (overall_status (hard_gates (reference_outcomes systems) m) systems))"
  using assms
  by (auto simp: build_report_def Let_def bind_result_Inr_iff assert_bounded_def split: if_splits)

text \<open>A report that is built says \<^verbatim>\<open>pass\<close> if and only if the reference was executed, no receipt
  differed, and every outcome of the reference that belongs to a gate is correct; wrong answers of
  external systems never change the status, and a failure outside the gates (retrieval, temporal,
  abstention) does not either.\<close>

theorem status_pass_iff:
  assumes "build_report md dg systems m fo re co b = Inr rep" and "0 \<le> m"
  shows "(\<exists>d. rep = JObj d \<and> dict_get d ''status'' = Some (JStr ''pass'')) \<longleftrightarrow>
    (\<exists>r. find_marciana systems = Some r \<and> sr_status r = ''executed'' \<and> m = 0
       \<and> (\<forall>c \<in> set (sr_outcomes r). gate_of c \<noteq> None \<longrightarrow> oc_correct c))"
proof -
  obtain d where "rep = JObj d"
    "dict_get d ''status'' = Some (JStr (overall_status (hard_gates (reference_outcomes systems) m) systems))"
    using build_report_status[OF assms(1)] by blast
  then show ?thesis
    by (auto simp: overall_pass_iff[OF assms(2)] reference_outcomes_def)
qed

lemma status_pass_iff_witness:
  "\<exists>rep. build_report [] ''sha256:0'' [] 0 0 0 [] BENCHMARK = Inr rep
     \<and> \<not> (\<exists>d. rep = JObj d \<and> dict_get d ''status'' = Some (JStr ''pass''))"
proof -
  have "case build_report [] ''sha256:0'' [] 0 0 0 [] BENCHMARK of Inl e \<Rightarrow> False | Inr r \<Rightarrow> True" by code_simp
  then obtain rep where rep: "build_report [] ''sha256:0'' [] 0 0 0 [] BENCHMARK = Inr rep"
    by (auto split: sum.splits)
  from status_pass_iff[OF rep] rep show ?thesis by (simp add: find_marciana_def)
qed

subsection \<open>The reference run\<close>

lemma run_repeats_again: "runner c = Inr r \<Longrightarrow> run_repeats n runner c (Some r) = Inr (Some r)"
  by (induction n) auto

lemma run_repeats_const: "0 < n \<Longrightarrow> runner c = Inr r \<Longrightarrow> run_repeats n runner c out = Inr (Some r)"
  by (cases n) (auto simp: run_repeats_again)

definition outcome_matches :: "('r bench_case \<Rightarrow> bool \<times> decision) \<Rightarrow> 'r bench_case \<Rightarrow> case_outcome \<Rightarrow> bool" where
  "outcome_matches f c out \<longleftrightarrow> oc_case_id out = case_id c \<and> oc_category out = case_category c
     \<and> oc_correct out = fst (f c) \<and> oc_allowed out = allowed (snd (f c)) \<and> oc_returned_ids out = ids (snd (f c))
     \<and> oc_receipt out = receipt (snd (f c)) \<and> oc_supported out \<and> (\<exists>r. oc_latency_us out = Finite r)"

lemma marciana_loop_total:
  assumes "0 < repeats"
  shows "(\<And>c. c \<in> set cs \<Longrightarrow> runner c = Inr (f c)) \<Longrightarrow>
    \<exists>outs. marciana_loop k elapsed repeats runner out cs = Inr outs \<and> list_all2 (outcome_matches f) cs outs"
proof (induction cs arbitrary: k out)
  case (Cons c cs)
  have "run_repeats (nat repeats) runner c out = Inr (Some (f c))"
    using assms Cons.prems by (intro run_repeats_const) auto
  moreover obtain outs where "marciana_loop (Suc k) elapsed repeats runner (Some (f c)) cs = Inr outs"
    "list_all2 (outcome_matches f) cs outs"
    using Cons.IH[of "Suc k" "Some (f c)"] Cons.prems by auto
  ultimately show ?case
    using assms by (cases "f c") (auto, simp add: outcome_matches_def)
qed simp

lemma execute_marciana_total:
  assumes "0 < repeats" and "\<And>c. c \<in> set cs \<Longrightarrow> runner c = Inr (f c)"
  shows "\<exists>r. execute_marciana elapsed cs repeats runner = Inr r \<and> sr_system r = ''marciana''
    \<and> sr_status r = ''executed'' \<and> list_all2 (outcome_matches f) cs (sr_outcomes r)"
  using marciana_loop_total[OF assms(1), of cs runner f 0 elapsed None] assms(2)
  by (auto simp: execute_marciana_def new_report_def)

lemma matches_all_correct:
  assumes "list_all2 (outcome_matches f) cs outs" and "list_all (\<lambda>c. fst (f c)) cs"
  shows "\<forall>c \<in> set outs. oc_correct c \<and> oc_supported c" "map oc_case_id outs = map case_id cs"
  using assms by (induction rule: list_all2_induct) (auto simp: outcome_matches_def)

lemma matches_no_mismatch:
  assumes "list_all2 (outcome_matches f) cs outs" and "list_all2 (outcome_matches f) cs outs'"
  shows "receipt_mismatches outs outs' = Inr 0"
proof -
  have "length outs = length outs'" using assms by (metis list_all2_lengthD)
  moreover have "\<forall>p \<in> set (zip outs outs'). oc_receipt (fst p) = oc_receipt (snd p)
      \<and> oc_returned_ids (fst p) = oc_returned_ids (snd p)"
    using assms
  proof (induction arbitrary: outs' rule: list_all2_induct)
    case (Cons c cs out outs)
    then show ?case by (cases outs') (auto simp: outcome_matches_def)
  qed simp
  ultimately show ?thesis
    by (auto simp: receipt_mismatches_def count_if_def filter_empty_conv)
qed

lemma perfect_quality:
  assumes "\<forall>c \<in> set outs. oc_correct c \<and> oc_supported c" and "outs \<noteq> []"
  shows "dict_get (quality outs) ''accuracy'' = Some (JFloat 1)"
    "dict_get (quality outs) ''unsupported_cases'' = Some (JInt 0)"
proof -
  have "filter oc_supported outs = outs" "count_if oc_correct outs = length outs"
    using assms(1) by (simp_all add: filter_id_iff count_if_def)
  then show "dict_get (quality outs) ''accuracy'' = Some (JFloat 1)"
    "dict_get (quality outs) ''unsupported_cases'' = Some (JInt 0)"
    using assms(2) by (simp_all add: quality_def Let_def share_def)
qed


text \<open>The reference run passes the benchmark end to end: with any timings and any positive number of
  repeats, executing the reference on the v1 suite succeeds and yields a report on which no gate
  fails, whose status is \<^verbatim>\<open>pass\<close>, whose accuracy is 1 with no case declared unsupported, and a second
  run, however long it takes, differs in no receipt and no result.\<close>

theorem reference_run_passes:
  assumes "0 < repeats"
  shows "\<exists>r r'. execute_marciana elapsed cases_v1 repeats (\<lambda>c. Inr (run_case c)) = Inr r
    \<and> execute_marciana elapsed' cases_v1 repeats (\<lambda>c. Inr (run_case c)) = Inr r'
    \<and> map oc_case_id (sr_outcomes r) = map case_id cases_v1
    \<and> receipt_mismatches (sr_outcomes r) (sr_outcomes r') = Inr 0
    \<and> overall_status (hard_gates (sr_outcomes r) 0) [r] = ''pass''
    \<and> dict_get (quality (sr_outcomes r)) ''accuracy'' = Some (JFloat 1)
    \<and> dict_get (quality (sr_outcomes r)) ''unsupported_cases'' = Some (JInt 0)"
proof -
  obtain r where r: "execute_marciana elapsed cases_v1 repeats (\<lambda>c. Inr (run_case c)) = Inr r"
    "sr_system r = ''marciana''" "sr_status r = ''executed''" "list_all2 (outcome_matches run_case) cases_v1 (sr_outcomes r)"
    using execute_marciana_total[OF assms, of cases_v1 "\<lambda>c. Inr (run_case c)" run_case elapsed] by auto
  obtain r' where r': "execute_marciana elapsed' cases_v1 repeats (\<lambda>c. Inr (run_case c)) = Inr r'"
    "list_all2 (outcome_matches run_case) cases_v1 (sr_outcomes r')"
    using execute_marciana_total[OF assms, of cases_v1 "\<lambda>c. Inr (run_case c)" run_case elapsed'] by auto
  have "list_all (\<lambda>c. fst (run_case c)) cases_v1"
    using cases_v1_judged by (simp add: run_case_def Let_def)
  note ok = matches_all_correct[OF r(4) this]
  have ne: "sr_outcomes r \<noteq> []" using ok(2) by (auto simp: cases_v1_def)
  have "overall_status (hard_gates (sr_outcomes r) 0) [r] = ''pass''"
    using r(2,3) ok(1) by (simp add: overall_pass_iff find_marciana_def)
  with r(1) r'(1) ok(2) matches_no_mismatch[OF r(4) r'(2)] perfect_quality[OF ok(1) ne]
  show ?thesis by blast
qed

lemma reference_run_passes_witness:
  "\<exists>r. execute_marciana (\<lambda>k. 5000) cases_v1 3 (\<lambda>c. Inr (run_case c)) = Inr r
    \<and> overall_status (hard_gates (sr_outcomes r) 0) [r] = ''pass''"
  using reference_run_passes[of 3 "\<lambda>k. 5000" "\<lambda>k. 0"] by auto

text \<open>Both benchmark versions replay the same intents: the v1 and the v2 suite agree, case by case and
  in order, on id, category, description and every expectation, so their manifests have the same
  case list; the manifests nevertheless differ, as the v2 one also pins the identity model and the
  tracks.\<close>

theorem suites_share_expectations:
  "manifest_cases cases_v1 = manifest_cases cases_v2
   \<and> dict_get (corpus_manifest cases_v1) ''cases'' = dict_get (corpus_manifest_v2 cases_v2) ''cases''
   \<and> corpus_manifest cases_v1 \<noteq> corpus_manifest_v2 cases_v2"
proof -
  have "manifest_cases cases_v1 = manifest_cases cases_v2"
    by (simp add: manifest_cases_def cases_v1_def cases_v2_def new_case_def)
  then show ?thesis by (simp add: corpus_manifest_def corpus_manifest_v2_def)
qed


subsection \<open>The bound check\<close>

text \<open>the texts of a JSON value, keys included\<close>

fun texts_of :: "json \<Rightarrow> string list" where
  "texts_of (JStr s) = [s]"
| "texts_of (JObj d) = concat (map (\<lambda>e. fst e # texts_of (snd e)) d)"
| "texts_of (JList xs) = concat (map texts_of xs)"
| "texts_of _ = []"

lemma walk_texts: "walk v \<longleftrightarrow> (\<forall>s \<in> set (texts_of v). text_bounded s)"
  by (induction v rule: walk.induct) auto

lemma performance_total: "\<exists>perf. performance outs fo re = Inr perf"
proof -
  have "\<exists>v. percentile xs p = Inr v" if "0 \<le> p" "p \<le> 100" for xs p
    using percentile_eq(1)[OF _ that, of xs] by (cases "xs = []") (auto simp: percentile_def)
  from this[of 50] this[of 95] this[of 99] show ?thesis
    by (simp add: performance_def) (metis bind_result.simps(2))
qed

lemma texts_entry: "(k, v) \<in> set d \<Longrightarrow> s \<in> set (texts_of v) \<Longrightarrow> s \<in> set (texts_of (JObj d))"
  by force

lemma texts_item: "v \<in> set xs \<Longrightarrow> s \<in> set (texts_of v) \<Longrightarrow> s \<in> set (texts_of (JList xs))"
  by auto

lemma outcome_texts:
  assumes "i \<in> set (oc_returned_ids c)"
  shows "i \<in> set (texts_of (JObj (outcome_dict c)))"
  by (rule texts_entry[of "''returned_ids''" "JStrs (oc_returned_ids c)"]) (use assms in \<open>auto simp: outcome_dict_def\<close>)

lemma stamp_keeps: "(k, v) \<in> set e \<Longrightarrow> k \<noteq> ''track'' \<Longrightarrow> (k, v) \<in> set (stamp_track e)"
proof -
  have "(k, v) \<in> set (dict_set k' v' e)" if "(k, v) \<in> set e" "k \<noteq> k'" for k' and v' :: json
    using that by (induction e) auto
  then show "(k, v) \<in> set e \<Longrightarrow> k \<noteq> ''track'' \<Longrightarrow> (k, v) \<in> set (stamp_track e)"
    by (simp add: stamp_track_def)
qed

lemma system_entries_mem:
  assumes "distinct (map sr_system systems)" and "r \<in> set systems"
  shows "(sr_system r, report_dict r) \<in> set (system_entries systems)"
proof -
  let ?ps = "map (\<lambda>r. (sr_system r, report_dict r)) systems"
  have d: "distinct (map fst (rev ?ps))" using assms(1) by (simp add: comp_def rev_map[symmetric])
  have "(sr_system r, report_dict r) \<in> set (rev ?ps)" using assms(2) by auto
  then have "dict_get (rev ?ps) (sr_system r) = Some (report_dict r)"
    using d by simp
  then have "dict_get (dict_of ?ps []) (sr_system r) = Some (report_dict r)"
    by (simp add: dict_get_of)
  then show ?thesis unfolding system_entries_def by (rule map_of_SomeD)
qed

text \<open>No report carries long or multi-line text: in a report that is built every text anywhere in the
  tree, dictionary keys included, has at most 256 characters and no newline.\<close>

theorem report_texts_bounded:
  assumes "build_report md dg systems m fo re co b = Inr rep" and "s \<in> set (texts_of rep)"
  shows "py_len s \<le> 256 \<and> CHR 0x0A \<notin> set s"
proof -
  have "walk rep" using build_report_status[OF assms(1)] by blast
  then show ?thesis using assms(2) by (auto simp: walk_texts text_bounded_def MAX_REPORT_TEXT_def)
qed

lemma report_texts_bounded_witness:
  "\<exists>rep. build_report [(''model'', ''m'')] ''sha256:0'' [] 0 0 0 [] BENCHMARK = Inr rep
     \<and> ''MARCIANA-ADVERSARIAL-v1'' \<in> set (texts_of rep) \<and> py_len ''MARCIANA-ADVERSARIAL-v1'' \<le> 256"
proof -
  have "case build_report [(''model'', ''m'')] ''sha256:0'' [] 0 0 0 [] BENCHMARK of Inl e \<Rightarrow> False
      | Inr r \<Rightarrow> ''MARCIANA-ADVERSARIAL-v1'' \<in> set (texts_of r)" by code_simp
  then obtain rep where rep: "build_report [(''model'', ''m'')] ''sha256:0'' [] 0 0 0 [] BENCHMARK = Inr rep"
    "''MARCIANA-ADVERSARIAL-v1'' \<in> set (texts_of rep)"
    by (auto split: sum.splits)
  from report_texts_bounded[OF rep] rep show ?thesis by blast
qed

text \<open>One external answer can abort the whole report: nothing bounds the ids an adapter returns, so if
  any executed system has one with a newline or more than 256 characters, building the report of the
  whole run raises, for every metadata, timing and benchmark version, and no system is reported.\<close>

theorem adapter_text_aborts_report:
  assumes "distinct (map sr_system systems)" and "r \<in> set systems" and "sr_status r = ''executed''"
    and "c \<in> set (sr_outcomes r)" and "i \<in> set (oc_returned_ids c)"
    and "py_len i > 256 \<or> CHR 0x0A \<in> set i"
  shows "build_report md dg systems m fo re co b
    = raise_error ''ValueError'' ''benchmark report contains an unbounded string''"
proof -
  let ?cases = "JList (map (\<lambda>c. JObj (outcome_dict c)) (sr_outcomes r))"
  have cases: "(''cases'', ?cases) \<in> set (report_dict r)"
    using assms(3) by (simp add: report_dict_def)
  have in_cases: "i \<in> set (texts_of ?cases)"
    by (rule texts_item[of "JObj (outcome_dict c)"]) (use assms(4,5) outcome_texts in auto)
  have in_entry: "i \<in> set (texts_of (JObj (report_dict r)))" "i \<in> set (texts_of (JObj (stamp_track (report_dict r))))"
    using texts_entry[OF cases in_cases] texts_entry[OF stamp_keeps[OF cases] in_cases] by simp_all
  define stamped where "stamped = (if b = BENCHMARK_V2 then map (\<lambda>(n, e). (n, stamp_track e)) (system_entries systems)
      else system_entries systems)"
  obtain e where e: "(sr_system r, e) \<in> set stamped" "i \<in> set (texts_of (JObj e))"
    using system_entries_mem[OF assms(1,2)] in_entry by (cases "b = BENCHMARK_V2") (force simp: stamped_def)+
  have sys: "i \<in> set (texts_of (JObj (map (\<lambda>(n, e). (n, JObj e)) stamped)))"
    by (rule texts_entry[of "sr_system r" "JObj e"]) (use e in force)+
  have bad: "\<not> text_bounded i" using assms(6) by (simp add: text_bounded_def MAX_REPORT_TEXT_def)
  have no: "\<not> walk (JObj d)" if "(''systems'', JObj (map (\<lambda>(n, e). (n, JObj e)) stamped)) \<in> set d" for d
    using texts_entry[OF that sys] bad unfolding walk_texts by blast
  obtain perf where perf: "(if reference_outcomes systems \<noteq> [] then performance (reference_outcomes systems) fo re else Inr [])
      = Inr perf"
    using performance_total[of "reference_outcomes systems" fo re] by (cases "reference_outcomes systems = []") auto
  show ?thesis
    unfolding build_report_def Let_def perf bind_result.simps stamped_def[symmetric] assert_bounded_def
    by (subst no) simp_all
qed


text \<open>an answer of an adapter that is accepted, with a line break in an id\<close>

definition newline_payload :: string where
  "newline_payload = ''{'' @ quoted ''cases'' @ '': [{'' @ quoted ''case_id'' @ '': '' @ quoted ''a'' @ '', ''
     @ quoted ''correct'' @ '': true, '' @ quoted ''allowed'' @ '': true, '' @ quoted ''returned_ids'' @ '': [''
     @ quoted (''x'' @ [CHR 0x5C] @ ''ny'') @ '']}]}''"

lemma newline_parse:
  "parse_external_outcomes sample_prims newline_payload tiny_suite 1 =
     Inr (ADAPTER_PROTOCOL, ''direct-api'', None, [\<lparr>oc_case_id = ''a'', oc_category = ''retrieval'',
       oc_correct = True, oc_allowed = True, oc_returned_ids = [''x'' @ [CHR 0x0A] @ ''y''], oc_receipt = [],
       oc_latency_us = Finite 0, oc_supported = True\<rparr>])"
  by code_simp

lemma adapter_text_aborts_report_witness:
  "\<exists>r. execute_external sample_prims (\<lambda>c i t. Inr newline_payload) ''mem0'' ''CMD'' tiny_suite 1 [(''CMD'', ''run'')] 1 = Inr r
     \<and> build_report [] ''sha256:0'' [r] 0 0 0 [] BENCHMARK
        = raise_error ''ValueError'' ''benchmark report contains an unbounded string''"
proof -
  have cmd: "py_strip (environ_get [(''CMD'', ''run'')] ''CMD'') = ''run''" by code_simp
  have "execute_external sample_prims (\<lambda>c i t. Inr newline_payload) ''mem0'' ''CMD'' tiny_suite 1 [(''CMD'', ''run'')] 1
    = Inr ((new_report ''mem0'' ADAPTER_PROTOCOL ''executed'')\<lparr>sr_interface := ''direct-api'',
        sr_outcomes := [\<lparr>oc_case_id = ''a'', oc_category = ''retrieval'', oc_correct = True, oc_allowed = True,
          oc_returned_ids = [''x'' @ [CHR 0x0A] @ ''y''], oc_receipt = [], oc_latency_us = Finite 0, oc_supported = True\<rparr>],
        sr_harness := None\<rparr>)" (is "_ = Inr ?r")
    unfolding execute_external_def cmd Let_def by (simp add: newline_parse)
  moreover have "build_report [] ''sha256:0'' [?r] 0 0 0 [] BENCHMARK
      = raise_error ''ValueError'' ''benchmark report contains an unbounded string''"
    by (rule adapter_text_aborts_report[of _ ?r "hd (sr_outcomes ?r)" "''x'' @ [CHR 0x0A] @ ''y''"])
      (simp_all add: new_report_def)
  ultimately show ?thesis by blast
qed

end
