(* ===== verification/Corpora.thy ===== *)
theory Corpora
  imports Driver Sha256 Dates
begin

text \<open>
  \<^verbatim>\<open>corpus.py\<close>, \<^verbatim>\<open>public_loaders.py\<close> and \<^verbatim>\<open>corpora.py\<close>: the contract of a normalized corpus, the
  loaders of the public corpora and their inventory. Reading a file, reading a Parquet table (a
  third-party library) and \<^verbatim>\<open>ast.literal_eval\<close> are parameters, the fields of \<open>files\<close>; a value of
  a table or of a literal is a value of \<open>json\<close>.
\<close>

subsection \<open>The contract\<close>

definition MAX_CASES :: nat where "MAX_CASES = 100000"

definition MAX_ID :: nat where "MAX_ID = 256"

definition MAX_QUERY :: nat where "MAX_QUERY = 16384"

record source_pin =
  src_name :: string
  src_url :: string
  src_revision :: string
  src_schema :: string

definition new_pin :: "string \<Rightarrow> string \<Rightarrow> string \<Rightarrow> string \<Rightarrow> source_pin" where
  "new_pin n u r k = \<lparr>src_name = n, src_url = u, src_revision = r, src_schema = k\<rparr>"

definition is_sha1 :: "string \<Rightarrow> bool" where
  "is_sha1 s \<longleftrightarrow> length s = 40
     \<and> list_all (\<lambda>c. c \<in> set ''0123456789abcdef'') s"

definition validate_pin :: "source_pin \<Rightarrow> unit result" where
  "validate_pin pin =
     (if src_name pin = [] \<or> take 8 (src_url pin) \<noteq> ''https://'' \<or> \<not> is_sha1 (src_revision pin)
      then raise_error ''ValueError'' ''benchmark source must have an HTTPS URL and exact revision''
      else if src_schema pin = [] then raise_error ''ValueError'' ''benchmark source schema is required''
      else Inr ())"

text \<open>A loader keeps the values of some fields as it found them, whatever their type.\<close>

record evaluation_case =
  ev_id :: string
  ev_query :: json
  ev_as_of :: date
  ev_expected :: "json list"
  ev_abstain :: bool

definition new_evaluation :: "string \<Rightarrow> json \<Rightarrow> date \<Rightarrow> json list \<Rightarrow> bool \<Rightarrow> evaluation_case" where
  "new_evaluation i q d xs a = \<lparr>ev_id = i, ev_query = q, ev_as_of = d, ev_expected = xs, ev_abstain = a\<rparr>"

record files =
  read_text :: "string \<Rightarrow> string result"
  read_bytes :: "string \<Rightarrow> string result"
  has_pyarrow :: bool
  read_table :: "string \<Rightarrow> json list result"
  literal_eval :: "string \<Rightarrow> json result"

subsection \<open>Lines\<close>

definition is_line_break :: "string \<Rightarrow> bool" where
  "is_line_break ch \<longleftrightarrow> ch \<in> set (map (\<lambda>n. [char_of (n::nat)]) [10, 11, 12, 13, 28, 29, 30]
     @ [[CHR 0xC2, CHR 0x85], [CHR 0xE2, CHR 0x80, CHR 0xA8], [CHR 0xE2, CHR 0x80, CHR 0xA9]])"

fun split_chunks :: "string \<Rightarrow> string list \<Rightarrow> string list" where
  "split_chunks line [] = (if line = [] then [] else [line])"
| "split_chunks line (ch # rest) =
     (if ch = [CHR 0x0D] \<and> rest \<noteq> [] \<and> hd rest = [CHR 0x0A] then line # split_chunks [] (tl rest)
      else if is_line_break ch then line # split_chunks [] rest
      else split_chunks (line @ ch) rest)"

text \<open>\<^verbatim>\<open>str.splitlines\<close>\<close>

definition splitlines :: "string \<Rightarrow> string list" where
  "splitlines s = split_chunks [] (chunks s)"

subsection \<open>Normalized cases\<close>

definition from_iso :: "json \<Rightarrow> date result" where
  "from_iso v = (case v of JStr s \<Rightarrow> date_fromisoformat s
     | _ \<Rightarrow> raise_error ''TypeError'' ''fromisoformat: argument must be str'')"

text \<open>the fields of a line: identifier, query, date, expected ids and abstention\<close>

definition read_fields :: "py_prims \<Rightarrow> string \<Rightarrow> (json \<times> json \<times> date \<times> json list \<times> bool) result" where
  "read_fields p line =
     bind_result (json_loads p line) (\<lambda>row.
     bind_result (json_item row ''case_id'') (\<lambda>cid.
     bind_result (json_item row ''query'') (\<lambda>query.
     bind_result (bind_result (json_item row ''as_of'') from_iso) (\<lambda>d.
     bind_result (bind_result (json_item row ''expected_ids'') json_iter) (\<lambda>expected.
     bind_result (json_get row ''abstain'') (\<lambda>a.
       Inr (cid, query, d, expected, case a of None \<Rightarrow> False | Some v \<Rightarrow> truthy v)))))))"

definition text_within :: "nat \<Rightarrow> json \<Rightarrow> bool" where
  "text_within n v = (case v of JStr s \<Rightarrow> s \<noteq> [] \<and> py_len s \<le> n | _ \<Rightarrow> False)"

definition caught_by_loader :: "py_error \<Rightarrow> bool" where
  "caught_by_loader e \<longleftrightarrow> error_type e \<in> {''KeyError'', ''TypeError'', ''ValueError'', ''JSONDecodeError''}"

definition invalid_line :: "nat \<Rightarrow> py_error" where
  "invalid_line n = PyError ''ValueError'' (''invalid benchmark case at line '' @ nat_str n)"

text \<open>one line that is not blank, after the identifiers \<open>seen\<close>\<close>

definition read_case :: "py_prims \<Rightarrow> string set \<Rightarrow> nat \<Rightarrow> string \<Rightarrow> evaluation_case result" where
  "read_case p seen n line = (case read_fields p line of
       Inl e \<Rightarrow> if caught_by_loader e then Inl (invalid_line n) else Inl e
     | Inr (cid, query, d, expected, a) \<Rightarrow>
         (case cid of
            JStr i \<Rightarrow>
              if i = [] \<or> py_len i > MAX_ID \<or> i \<in> seen \<or> \<not> text_within MAX_QUERY query
                 \<or> \<not> list_all (text_within MAX_ID) expected
              then Inl (invalid_line n) else Inr (new_evaluation i query d expected a)
          | _ \<Rightarrow> Inl (invalid_line n)))"

fun read_lines :: "py_prims \<Rightarrow> nat \<Rightarrow> evaluation_case list \<Rightarrow> string list \<Rightarrow> evaluation_case list result" where
  "read_lines p n cases [] = Inr cases"
| "read_lines p n cases (line # ls) =
     (if py_strip line = [] then read_lines p (Suc n) cases ls
      else bind_result (read_case p (ev_id ` set cases) n line) (\<lambda>c.
        if length cases + 1 > MAX_CASES
        then raise_error ''ValueError'' ''benchmark corpus exceeds its fixed case bound''
        else read_lines p (Suc n) (cases @ [c]) ls))"

definition load_cases :: "py_prims \<Rightarrow> files \<Rightarrow> string \<Rightarrow> source_pin \<Rightarrow> evaluation_case list result" where
  "load_cases p fs path pin =
     bind_result (validate_pin pin) (\<lambda>_.
     bind_result (read_text fs path) (\<lambda>text.
     bind_result (read_lines p 1 [] (splitlines text)) (\<lambda>cases.
       if cases = [] then raise_error ''ValueError'' ''benchmark corpus is empty'' else Inr cases)))"

subsection \<open>Public corpora\<close>

definition LOCOMO_SOURCE :: source_pin where
  "LOCOMO_SOURCE = new_pin ''locomo10'' ''https://github.com/snap-research/locomo.git''
     ''3eb6f2c585f5e1699204e3c3bdf7adc5c28cb376'' ''locomo10-qa-v1''"

definition LONGMEMEVAL_SOURCE :: source_pin where
  "LONGMEMEVAL_SOURCE = new_pin ''longmemeval-cleaned''
     ''https://huggingface.co/datasets/xiaowu0162/longmemeval-cleaned''
     ''98d7416c24c778c2fee6e6f3006e7a073259d48f'' ''longmemeval-question-v1''"

definition BEAM_SOURCE :: source_pin where
  "BEAM_SOURCE = new_pin ''beam'' ''https://huggingface.co/datasets/Mohammadta/BEAM''
     ''3205395e897e7318c7b094ef4e6047b9b82dbb03'' ''beam-parquet-v1''"

definition BEAM_10M_SOURCE :: source_pin where
  "BEAM_10M_SOURCE = new_pin ''beam-10m'' ''https://huggingface.co/datasets/Mohammadta/BEAM-10M''
     ''9b2096193fe74e2837e4713e483351e19817773c'' ''beam-parquet-v1''"

definition DMR_SOURCE :: source_pin where
  "DMR_SOURCE = new_pin ''dmr-msc-self-instruct''
     ''https://huggingface.co/datasets/MemGPT/MSC-Self-Instruct''
     ''5138f416f8fa76b75b2e080da87e8a8e346e1500'' ''normalized-jsonl-v1''"

definition LETTA_EVALS_SOURCE :: source_pin where
  "LETTA_EVALS_SOURCE = new_pin ''letta-evals'' ''https://github.com/letta-ai/letta-evals.git''
     ''80a097d8519590c0f7827be1940ace0b8d1ebabb'' ''normalized-jsonl-v1''"

text \<open>one annotation of a sample of LoCoMo\<close>

definition locomo_case :: "date \<Rightarrow> nat \<Rightarrow> nat \<times> json \<Rightarrow> evaluation_case result" where
  "locomo_case d i x = (case x of (j, annotation) \<Rightarrow>
     bind_result (items_of annotation ''evidence'') (\<lambda>evidence.
     bind_result (json_item annotation ''question'') (\<lambda>q.
       Inr (new_evaluation (''locomo:'' @ nat_str i @ '':'' @ nat_str j) q d evidence (evidence = [])))))"

definition locomo_sample :: "date \<Rightarrow> nat \<times> json \<Rightarrow> evaluation_case list result" where
  "locomo_sample d x = (case x of (i, sample) \<Rightarrow>
     bind_result (json_get sample ''qa'') (\<lambda>qa.
     bind_result (json_iter (case qa of None \<Rightarrow> JList [] | Some v \<Rightarrow> v)) (\<lambda>annotations.
       map_result (locomo_case d i) (enumerate 0 annotations))))"

definition locomo_cases :: "date \<Rightarrow> json \<Rightarrow> evaluation_case list result" where
  "locomo_cases d rows =
     bind_result (json_iter rows) (\<lambda>samples.
     bind_result (map_result (locomo_sample d) (enumerate 0 samples)) (\<lambda>cases.
       if concat cases = [] then raise_error ''ValueError'' ''LoCoMo corpus has no QA annotations''
       else Inr (concat cases)))"

definition load_locomo :: "py_prims \<Rightarrow> files \<Rightarrow> date \<Rightarrow> string \<Rightarrow> evaluation_case list result" where
  "load_locomo p fs d path =
     bind_result (read_text fs path) (\<lambda>text. bind_result (json_loads p text) (locomo_cases d))"

text \<open>\<^verbatim>\<open>v[:10]\<close>\<close>

definition slice10 :: "json \<Rightarrow> json result" where
  "slice10 v = (case v of JStr s \<Rightarrow> Inr (JStr (py_take 10 s)) | JList xs \<Rightarrow> Inr (JList (take 10 xs))
     | JObj d \<Rightarrow> raise_error ''TypeError'' (''unhashable type: '' @ repr_str ''slice'')
     | _ \<Rightarrow> raise_error ''TypeError'' (repr_str (type_name v) @ '' object is not subscriptable''))"

definition ends_with :: "string \<Rightarrow> string \<Rightarrow> bool" where
  "ends_with s e \<longleftrightarrow> length e \<le> length s \<and> drop (length s - length e) s = e"

definition longmemeval_case :: "py_prims \<Rightarrow> json \<Rightarrow> evaluation_case result" where
  "longmemeval_case p row =
     bind_result (json_item row ''question_id'') (\<lambda>qid.
     bind_result (bind_result (bind_result (json_item row ''question_date'') slice10) from_iso) (\<lambda>d.
     bind_result (items_of row ''answer_session_ids'') (\<lambda>evidence.
     bind_result (json_item row ''question'') (\<lambda>q.
       case qid of
         JStr i \<Rightarrow> Inr (new_evaluation (''longmemeval:'' @ i) q d evidence (ends_with i ''_abs''))
       | _ \<Rightarrow> raise_error ''AttributeError''
           (repr_str (type_name qid) @ '' object has no attribute '' @ repr_str ''endswith'')))))"

definition longmemeval_cases :: "py_prims \<Rightarrow> json \<Rightarrow> evaluation_case list result" where
  "longmemeval_cases p rows =
     bind_result (json_iter rows) (\<lambda>xs.
     bind_result (map_result (longmemeval_case p) xs) (\<lambda>cases.
       if cases = [] then raise_error ''ValueError'' ''LongMemEval corpus is empty'' else Inr cases))"

definition load_longmemeval :: "py_prims \<Rightarrow> files \<Rightarrow> string \<Rightarrow> evaluation_case list result" where
  "load_longmemeval p fs path =
     bind_result (read_text fs path) (\<lambda>text. bind_result (json_loads p text) (longmemeval_cases p))"

text \<open>the cases of one category of a BEAM row; an entry without a question is passed over\<close>

definition beam_entry :: "py_prims \<Rightarrow> string \<Rightarrow> string \<Rightarrow> nat \<times> json \<Rightarrow> evaluation_case list" where
  "beam_entry p conversation category x = (case x of
       (i, JObj d) \<Rightarrow>
         (case dict_get d ''question'' of
            None \<Rightarrow> []
          | Some q \<Rightarrow> if truthy q then
              [new_evaluation (''beam:'' @ conversation @ '':'' @ category @ '':'' @ nat_str i)
                 (JStr (json_str p q)) date_max [JStr conversation] (py_lower category = ''abstention'')]
              else [])
     | _ \<Rightarrow> [])"

definition beam_category :: "py_prims \<Rightarrow> string \<Rightarrow> string \<times> json \<Rightarrow> evaluation_case list result" where
  "beam_category p conversation x = (case x of (category, entries) \<Rightarrow>
     bind_result (json_iter (if truthy entries then entries else JList [])) (\<lambda>xs.
       Inr (concat (map (beam_entry p conversation category) (enumerate 0 xs)))))"

definition normalize_beam_row :: "py_prims \<Rightarrow> files \<Rightarrow> json \<Rightarrow> evaluation_case list result" where
  "normalize_beam_row p fs row =
     bind_result (json_item row ''conversation_id'') (\<lambda>cid.
     bind_result (json_get row ''probing_questions'') (\<lambda>encoded.
     bind_result (case encoded of None \<Rightarrow> literal_eval fs [] | Some (JStr s) \<Rightarrow> literal_eval fs s
        | Some v \<Rightarrow> Inr v) (\<lambda>questions.
       case (if truthy questions then questions else JObj []) of
         JObj d \<Rightarrow>
           bind_result (map_result (beam_category p (json_str p cid)) d) (\<lambda>cases.
             if concat cases = [] then raise_error ''ValueError'' ''BEAM row has no probing questions''
             else Inr (concat cases))
       | v \<Rightarrow> raise_error ''AttributeError''
           (repr_str (type_name v) @ '' object has no attribute '' @ repr_str ''items''))))"

definition load_beam_parquet :: "py_prims \<Rightarrow> files \<Rightarrow> string \<Rightarrow> evaluation_case list result" where
  "load_beam_parquet p fs path =
     (if \<not> has_pyarrow fs then
        raise_error ''RuntimeError'' ''BEAM Parquet loading requires the optional pyarrow dependency''
      else bind_result (read_table fs path) (\<lambda>rows.
           bind_result (map_result (normalize_beam_row p fs) rows) (\<lambda>cases.
             if concat cases = [] then raise_error ''ValueError'' ''BEAM corpus is empty''
             else Inr (concat cases))))"

definition load_dmr :: "py_prims \<Rightarrow> files \<Rightarrow> string \<Rightarrow> evaluation_case list result" where
  "load_dmr p fs path = load_cases p fs path DMR_SOURCE"

definition load_letta_evals :: "py_prims \<Rightarrow> files \<Rightarrow> string \<Rightarrow> evaluation_case list result" where
  "load_letta_evals p fs path = load_cases p fs path LETTA_EVALS_SOURCE"

subsection \<open>Inventory\<close>

definition PUBLIC_CORPORA ::
    "(string \<times> string \<times> source_pin \<times> (py_prims \<Rightarrow> files \<Rightarrow> string \<Rightarrow> evaluation_case list result)) list" where
  "PUBLIC_CORPORA = [
     (''locomo'', ''MARCIANA_ADVERSARIAL_LOCOMO_PATH'', LOCOMO_SOURCE, \<lambda>p fs. load_locomo p fs date_max),
     (''longmemeval'', ''MARCIANA_ADVERSARIAL_LONGMEMEVAL_PATH'', LONGMEMEVAL_SOURCE, load_longmemeval),
     (''beam'', ''MARCIANA_ADVERSARIAL_BEAM_PATH'', BEAM_SOURCE, load_beam_parquet),
     (''dmr'', ''MARCIANA_ADVERSARIAL_DMR_PATH'', DMR_SOURCE, load_dmr),
     (''letta-evals'', ''MARCIANA_ADVERSARIAL_LETTA_EVALS_PATH'', LETTA_EVALS_SOURCE, load_letta_evals)]"

definition source_fields :: "source_pin \<Rightarrow> (string, json) pydict" where
  "source_fields pin = [(''source'', JStr (src_name pin)), (''url'', JStr (src_url pin)),
     (''revision'', JStr (src_revision pin)), (''schema'', JStr (src_schema pin))]"

text \<open>The entry is updated as far as the code came: a file whose digest cannot be read keeps its
  number of cases beside the error.\<close>

definition corpus_status :: "py_prims \<Rightarrow> files \<Rightarrow> string \<Rightarrow> string
    \<Rightarrow> (py_prims \<Rightarrow> files \<Rightarrow> string \<Rightarrow> evaluation_case list result) \<Rightarrow> (string, json) pydict" where
  "corpus_status p fs variable configured loader =
     (if configured = [] then
        [(''status'', JStr ''unavailable''), (''missing_configuration'', JStrs [variable])]
      else case loader p fs configured of
        Inl e \<Rightarrow> [(''status'', JStr ''error''), (''error'', JStr (py_take 256 (error_text e)))]
      | Inr cases \<Rightarrow>
          (case read_bytes fs configured of
             Inl e \<Rightarrow> [(''status'', JStr ''error''), (''cases'', JInt (int (length cases))),
               (''error'', JStr (py_take 256 (error_text e)))]
           | Inr bytes \<Rightarrow> [(''status'', JStr ''normalized''), (''cases'', JInt (int (length cases))),
               (''file_digest'', JStr (digest bytes))]))"

definition inventory :: "py_prims \<Rightarrow> files \<Rightarrow> (string, string) pydict \<Rightarrow> (string, json) pydict" where
  "inventory p fs environ = map (\<lambda>(name, variable, pin, loader).
     (name, JObj (source_fields pin @ corpus_status p fs variable
        (py_strip (case dict_get environ variable of None \<Rightarrow> [] | Some v \<Rightarrow> v)) loader))) PUBLIC_CORPORA"

end
