(* ===== verification/CorporaProps.thy ===== *)
theory CorporaProps
  imports Corpora
begin

text \<open>
  What a loaded corpus guarantees: its cases are the lines of the file, typed, bounded and without
  duplicates; the cases of LoCoMo have identifiers of their own; the inventory never fails.
\<close>

subsection \<open>Lines of a normalized corpus\<close>

definition case_ok :: "evaluation_case \<Rightarrow> bool" where
  "case_ok c \<longleftrightarrow> ev_id c \<noteq> [] \<and> py_len (ev_id c) \<le> MAX_ID \<and> text_within MAX_QUERY (ev_query c)
     \<and> list_all (text_within MAX_ID) (ev_expected c) \<and> valid_date (ev_as_of c)"

definition reads_as :: "py_prims \<Rightarrow> string \<Rightarrow> evaluation_case \<Rightarrow> bool" where
  "reads_as p line c \<longleftrightarrow>
     read_fields p line = Inr (JStr (ev_id c), ev_query c, ev_as_of c, ev_expected c, ev_abstain c)"

lemma from_iso_valid: "from_iso v = Inr d \<Longrightarrow> valid_date d"
  by (auto simp: from_iso_def date_fromisoformat_valid split: json.splits)

lemma read_fields_date: "read_fields p line = Inr (cid, q, d, xs, a) \<Longrightarrow> valid_date d"
  by (auto simp: read_fields_def bind_result_Inr_iff from_iso_valid)

lemma read_case_ok:
  assumes "read_case p seen n line = Inr c"
  shows "reads_as p line c" "case_ok c" "ev_id c \<notin> seen"
  using assms
  by (auto simp: read_case_def reads_as_def case_ok_def new_evaluation_def dest: read_fields_date
      split: sum.splits if_splits prod.splits json.splits)

definition not_blank :: "string \<Rightarrow> bool" where
  "not_blank line \<longleftrightarrow> py_strip line \<noteq> []"

lemma read_lines_ok:
  "read_lines p n cases ls = Inr out \<Longrightarrow> list_all case_ok cases \<Longrightarrow> distinct (map ev_id cases)
    \<Longrightarrow> length cases \<le> MAX_CASES
    \<Longrightarrow> list_all case_ok out \<and> distinct (map ev_id out) \<and> length out \<le> MAX_CASES
       \<and> (\<exists>new. out = cases @ new \<and> list_all2 (reads_as p) (filter not_blank ls) new)"
proof (induction ls arbitrary: n cases)
  case (Cons line ls)
  show ?case
  proof (cases "py_strip line = []")
    case True
    with Cons show ?thesis by (simp add: not_blank_def)
  next
    case False
    with Cons.prems(1) obtain c where c: "read_case p (ev_id ` set cases) n line = Inr c"
        "length cases + 1 \<le> MAX_CASES" "read_lines p (Suc n) (cases @ [c]) ls = Inr out"
      by (auto simp: bind_result_Inr_iff split: if_splits)
    note ok = read_case_ok[OF c(1)]
    from Cons.IH[OF c(3)] Cons.prems(2,3) ok c(2)
    obtain new where new: "list_all case_ok out" "distinct (map ev_id out)" "length out \<le> MAX_CASES"
       "out = (cases @ [c]) @ new" "list_all2 (reads_as p) (filter not_blank ls) new" by auto
    from False ok(1) new(5) have "list_all2 (reads_as p) (filter not_blank (line # ls)) (c # new)"
      by (simp add: not_blank_def)
    moreover have "out = cases @ (c # new)" using new(4) by simp
    ultimately show ?thesis using new(1-3) by blast
  qed
qed simp

lemma load_cases_cases:
  assumes "load_cases p fs path pin = Inr cases"
  obtains doc where "read_text fs path = Inr doc" "validate_pin pin = Inr ()"
    "read_lines p 1 [] (splitlines doc) = Inr cases" "cases \<noteq> []"
  using assms by (auto simp: load_cases_def bind_result_Inr_iff split: if_splits)

text \<open>C18: A corpus that loads is well formed: at least one and at most 100,000 cases, pairwise distinct
identifiers of 1 to 256 characters, a text of 1 to 16,384 characters as query, a real calendar
date, and expected ids that are texts of 1 to 256 characters.\<close>

theorem loaded_cases_well_formed:
  assumes "load_cases p fs path pin = Inr cases"
  shows "cases \<noteq> [] \<and> length cases \<le> MAX_CASES \<and> distinct (map ev_id cases) \<and> list_all case_ok cases"
proof -
  from load_cases_cases[OF assms] obtain doc where
    "read_lines p 1 [] (splitlines doc) = Inr cases" "cases \<noteq> []" by metis
  then show ?thesis using read_lines_ok[of p 1 "[]"] by (force simp: MAX_CASES_def)
qed

text \<open>A loaded corpus is exactly its file: the lines that are not blank correspond to the cases one
to one and in order, each case holding the fields of its line.\<close>

theorem loaded_cases_are_lines:
  assumes "load_cases p fs path pin = Inr cases" "read_text fs path = Inr doc"
  shows "list_all2 (reads_as p) (filter not_blank (splitlines doc)) cases"
proof -
  from load_cases_cases[OF assms(1)] assms(2) have "read_lines p 1 [] (splitlines doc) = Inr cases" by auto
  then show ?thesis using read_lines_ok[of p 1 "[]"] by (force simp: MAX_CASES_def)
qed

text \<open>The check of the expected ids does not see that they should be a list: a line whose
\<^verbatim>\<open>expected_ids\<close> is one text is accepted, with the characters of the text as ids.\<close>

theorem expected_text_becomes_characters:
  assumes "json_loads p line = Inr (JObj row)"
    "dict_get row ''case_id'' = Some (JStr i)" "i \<noteq> []" "py_len i \<le> MAX_ID" "i \<notin> seen"
    "dict_get row ''query'' = Some q" "text_within MAX_QUERY q"
    "dict_get row ''as_of'' = Some (JStr s)" "date_fromisoformat s = Inr d"
    "dict_get row ''expected_ids'' = Some (JStr t)" "dict_get row ''abstain'' = None"
  shows "read_case p seen n line = Inr (new_evaluation i q d (map JStr (chunks t)) False)"
proof -
  have "list_all (text_within MAX_ID) (map JStr (chunks t))"
    using chunk_nonempty[of _ t] chunk_len1[of _ t]
    by (auto simp: list_all_iff text_within_def MAX_ID_def) (use le_trans in fastforce)
  then show ?thesis
    using assms by (simp add: read_case_def read_fields_def json_item_def json_get_def json_iter_def from_iso_def not_less)
qed

subsection \<open>LoCoMo\<close>

lemma digits_val_nat_str [simp]: "digits_val (nat_str n) = n"
proof (induction n rule: nat_str.induct)
  case (1 n)
  have d: "digit_val (char_of (48 + k)) = k" if "k < 10" for k :: nat
    using that by (simp add: digit_val_def)
  show ?case
  proof (cases "n < 10")
    case True
    then show ?thesis by (simp add: nat_str.simps[of n] digits_val_def d)
  next
    case False
    with 1 show ?thesis by (simp add: nat_str.simps[of n] digits_val_snoc d)
  qed
qed

lemma nat_str_eq_iff [simp]: "nat_str m = nat_str n \<longleftrightarrow> m = n"
  by (metis digits_val_nat_str)

lemma nat_str_digits: "c \<in> set (nat_str n) \<Longrightarrow> is_digit c"
proof (induction n rule: nat_str.induct)
  case (1 n)
  have d: "is_digit (char_of (48 + k))" if "k < 10" for k :: nat
    using that by (auto simp: is_digit_def less_eq_char_def)
  show ?case
  proof (cases "n < 10")
    case True
    with "1.prems" d show ?thesis by (simp add: nat_str.simps[of n])
  next
    case False
    with 1 d[of "n mod 10"] show ?thesis by (auto simp: nat_str.simps[of n])
  qed
qed

lemma split_at_sep:
  "x \<notin> set a \<Longrightarrow> x \<notin> set c \<Longrightarrow> a @ x # b = c @ x # d \<longleftrightarrow> a = c \<and> b = d"
  by (induction a arbitrary: c) (case_tac c; auto)+

lemma colon_not_in_nat_str: "CHR '':'' \<notin> set (nat_str n)"
  using nat_str_digits[of "CHR '':''" n] by (auto simp: is_digit_def less_eq_char_def)

lemma locomo_id_inj:
  "''locomo:'' @ nat_str i @ '':'' @ nat_str j = ''locomo:'' @ nat_str i' @ '':'' @ nat_str j' \<longleftrightarrow> i = i' \<and> j = j'"
  using split_at_sep[of "CHR '':''" "nat_str i" "nat_str i'" "nat_str j" "nat_str j'"]
  by (simp add: colon_not_in_nat_str)

definition locomo_id :: "nat \<Rightarrow> nat \<Rightarrow> string" where
  "locomo_id i j = ''locomo:'' @ nat_str i @ '':'' @ nat_str j"

lemma locomo_id_eq [simp]: "locomo_id i j = locomo_id i' j' \<longleftrightarrow> i = i' \<and> j = j'"
  using locomo_id_inj by (simp add: locomo_id_def)

lemma locomo_case_fields:
  "locomo_case d i (j, a) = Inr c \<Longrightarrow> ev_id c = locomo_id i j \<and> ev_abstain c = (ev_expected c = [])"
  by (auto simp: locomo_case_def bind_result_Inr_iff new_evaluation_def locomo_id_def)

lemma locomo_sample_cases:
  assumes "locomo_sample d (i, sample) = Inr cs"
  shows "map ev_id cs = map (locomo_id i) [0..<length cs]"
    "list_all (\<lambda>c. ev_abstain c = (ev_expected c = [])) cs"
proof -
  from assms obtain annotations where "map_result (locomo_case d i) (enumerate 0 annotations) = Inr cs"
    by (auto simp: locomo_sample_def bind_result_Inr_iff)
  then have l: "list_all2 (\<lambda>x c. locomo_case d i x = Inr c) (enumerate 0 annotations) cs"
    by (simp add: map_result_Inr_iff)
  then have n: "length cs = length annotations" by (auto dest: list_all2_lengthD)
  have c: "ev_id (cs ! j) = locomo_id i j \<and> ev_abstain (cs ! j) = (ev_expected (cs ! j) = [])"
    if "j < length cs" for j
    using list_all2_nthD2[OF l that] that n by (auto simp: nth_enumerate_eq dest: locomo_case_fields)
  then show "map ev_id cs = map (locomo_id i) [0..<length cs]" by (auto intro: nth_equalityI)
  from c show "list_all (\<lambda>c. ev_abstain c = (ev_expected c = [])) cs" by (simp add: list_all_length)
qed

lemma locomo_samples_cases:
  "map_result (locomo_sample d) (enumerate k samples) = Inr css
    \<Longrightarrow> distinct (map ev_id (concat css)) \<and> list_all (\<lambda>c. ev_abstain c = (ev_expected c = [])) (concat css)
      \<and> ev_id ` set (concat css) \<subseteq> {locomo_id i j | i j. k \<le> i}"
proof (induction samples arbitrary: k css)
  case (Cons sample samples)
  from Cons.prems obtain cs css' where c: "locomo_sample d (k, sample) = Inr cs"
      "map_result (locomo_sample d) (enumerate (Suc k) samples) = Inr css'" "css = cs # css'"
    by (auto simp: bind_result_Inr_iff)
  note one = locomo_sample_cases[OF c(1)]
  have ids: "ev_id ` set cs = locomo_id k ` {0..<length cs}"
    using one(1) by (metis image_set set_upt)
  have dist: "distinct (map ev_id cs)"
    by (simp add: one(1) distinct_map inj_on_def)
  note rest = Cons.IH[OF c(2)]
  have sub: "ev_id ` set (concat css') \<subseteq> {locomo_id i j | i j. Suc k \<le> i}" using rest by (elim conjE)
  have "ev_id ` set cs \<inter> ev_id ` set (concat css') = {}"
  proof (rule equals0I)
    fix x
    assume x: "x \<in> ev_id ` set cs \<inter> ev_id ` set (concat css')"
    from x have "x \<in> locomo_id k ` {0..<length cs}" unfolding ids[symmetric] by (rule IntD1)
    then obtain j where "x = locomo_id k j" by (rule imageE)
    moreover have "x \<in> {locomo_id i j | i j. Suc k \<le> i}" by (rule subsetD[OF sub IntD2[OF x]])
    then obtain i j' where "x = locomo_id i j'" "Suc k \<le> i" by blast
    ultimately show False by simp
  qed
  moreover have "distinct (map ev_id (concat css'))" using rest by (elim conjE)
  ultimately have "distinct (map ev_id (concat css))"
    using dist by (simp only: c(3) concat.simps map_append distinct_append set_map)
  moreover have "list_all (\<lambda>c. ev_abstain c = (ev_expected c = [])) (concat css)"
    using one(2) rest by (simp only: c(3) concat.simps list_all_append)
  moreover have "ev_id ` set (concat css) \<subseteq> {locomo_id i j | i j. k \<le> i}"
  proof -
    have "ev_id ` set cs \<subseteq> {locomo_id i j | i j. k \<le> i}" unfolding ids by blast
    moreover have "{locomo_id i j | i j. Suc k \<le> i} \<subseteq> {locomo_id i j | i j. k \<le> i}"
      using Suc_leD by blast
    moreover from sub calculation(2) have "ev_id ` set (concat css') \<subseteq> {locomo_id i j | i j. k \<le> i}" by (rule subset_trans)
    ultimately show ?thesis unfolding c(3) concat.simps set_append image_Un by (intro Un_least)
  qed
  ultimately show ?case by blast
qed simp

text \<open>Normalizing LoCoMo gives every annotation a case with an identifier of its own, and a case
abstains exactly when its annotation names no evidence.\<close>

theorem locomo_cases_distinct:
  assumes "locomo_cases d rows = Inr cases"
  shows "cases \<noteq> [] \<and> distinct (map ev_id cases) \<and> map ev_abstain cases = map (\<lambda>c. ev_expected c = []) cases"
proof -
  from assms obtain samples css where
    m: "map_result (locomo_sample d) (enumerate 0 samples) = Inr css" and c: "cases = concat css" "concat css \<noteq> []"
    unfolding locomo_cases_def bind_result_Inr_iff by (metis Inl_Inr_False Inr_inject)
  from locomo_samples_cases[OF m] show ?thesis by (simp only: c list_all_iff map_eq_conv) simp
qed

subsection \<open>Inventory\<close>

text \<open>the two pins that a loader checks\<close>

lemma pins_valid: "validate_pin DMR_SOURCE = Inr ()" "validate_pin LETTA_EVALS_SOURCE = Inr ()"
  by code_simp+

definition status_ok :: "(string, json) pydict \<Rightarrow> bool" where
  "status_ok e \<longleftrightarrow> dict_get e ''status'' = Some (JStr ''unavailable'') \<and> dict_get e ''missing_configuration'' \<noteq> None
     \<or> dict_get e ''status'' = Some (JStr ''error'')
       \<and> (case dict_get e ''error'' of Some (JStr t) \<Rightarrow> py_len t \<le> 256 | _ \<Rightarrow> False)
     \<or> dict_get e ''status'' = Some (JStr ''normalized'') \<and> dict_get e ''file_digest'' \<noteq> None
       \<and> (case dict_get e ''cases'' of Some (JInt n) \<Rightarrow> 0 \<le> n | _ \<Rightarrow> False)"

lemma corpus_status_ok: "status_ok (source_fields pin @ corpus_status p fs variable configured loader)"
  by (auto simp: status_ok_def source_fields_def corpus_status_def py_len_take split: sum.splits)

text \<open>The inventory never fails: whatever the environment, the files and the optional library do,
every public corpus has one entry, in order, which is unavailable with the missing variable named, an error with a bounded text, or normalized with its number of cases and
its digest.\<close>

theorem inventory_classifies:
  "map fst (inventory p fs environ) = [''locomo'', ''longmemeval'', ''beam'', ''dmr'', ''letta-evals'']
   \<and> list_all (\<lambda>x. case snd x of JObj e \<Rightarrow> status_ok e | _ \<Rightarrow> False) (inventory p fs environ)"
  by (simp add: inventory_def PUBLIC_CORPORA_def corpus_status_ok)

subsection \<open>A corpus of one line\<close>

definition one_line :: string where
  "one_line = [CHR ''{'', CHR 0x22] @ ''case_id'' @ [CHR 0x22, CHR '':'', CHR 0x22] @ ''a'' @ [CHR 0x22, CHR '','', CHR 0x22]
     @ ''query'' @ [CHR 0x22, CHR '':'', CHR 0x22] @ ''q'' @ [CHR 0x22, CHR '','', CHR 0x22]
     @ ''as_of'' @ [CHR 0x22, CHR '':'', CHR 0x22] @ ''2026-02-01'' @ [CHR 0x22, CHR '','', CHR 0x22]
     @ ''expected_ids'' @ [CHR 0x22, CHR '':'', CHR 0x22] @ ''so'' @ [CHR 0x22, CHR ''}'']"

lemma one_line_tree: "json_parse one_line = Inr (JObj [(''case_id'', JStr ''a''), (''query'', JStr ''q''),
    (''as_of'', JStr ''2026-02-01''), (''expected_ids'', JStr ''so'')])"
  by code_simp

lemma one_line_parsed: "json_loads p one_line = Inr (JObj [(''case_id'', JStr ''a''), (''query'', JStr ''q''),
    (''as_of'', JStr ''2026-02-01''), (''expected_ids'', JStr ''so'')])"
  by (simp add: json_loads_def one_line_tree)

lemma one_line_lines: "splitlines one_line = [one_line]" "not_blank one_line"
  by (simp_all add: not_blank_def) code_simp+

definition so_case :: evaluation_case where
  "so_case = new_evaluation ''a'' (JStr ''q'') (Date 2026 2 1) [JStr ''s'', JStr ''o''] False"

lemma iso_2026: "date_fromisoformat ''2026-02-01'' = Inr (Date 2026 2 1)"
  by (simp add: date_fromisoformat_def iso_fields_def Let_def digit_of_def make_date_def days_in_month_def leap_def
      less_eq_char_def)

definition one_line_files :: files where
  "one_line_files = \<lparr>read_text = (\<lambda>path. Inr one_line), read_bytes = (\<lambda>path. Inr one_line), has_pyarrow = False,
     read_table = (\<lambda>path. Inr []), literal_eval = (\<lambda>s. raise_error ''SyntaxError'' s)\<rparr>"

lemma one_line_read: "read_case p seen n one_line = Inr so_case" if "''a'' \<notin> seen"
  using that
  by (simp add: read_case_def read_fields_def one_line_parsed json_item_def json_get_def json_iter_def from_iso_def
      iso_2026 so_case_def text_within_def MAX_ID_def MAX_QUERY_def py_len_def)

lemma one_line_loaded: "load_cases p one_line_files path DMR_SOURCE = Inr [so_case]"
  using one_line_lines one_line_read[of "{}" p 1] pins_valid
  by (simp add: load_cases_def one_line_files_def not_blank_def MAX_CASES_def)

theorem loaded_cases_well_formed_witness:
  "[so_case] \<noteq> [] \<and> length [so_case] \<le> MAX_CASES \<and> distinct (map ev_id [so_case]) \<and> list_all case_ok [so_case]"
  by (rule loaded_cases_well_formed[OF one_line_loaded])

theorem loaded_cases_are_lines_witness: "list_all2 (reads_as undefined) (filter not_blank [one_line]) [so_case]"
  using loaded_cases_are_lines[OF one_line_loaded[of undefined "[]"], of one_line] one_line_lines
  by (simp add: one_line_files_def)

theorem expected_text_becomes_characters_witness:
  "read_case undefined {} 1 one_line = Inr (new_evaluation ''a'' (JStr ''q'') (Date 2026 2 1) (map JStr (chunks ''so'')) False)"
  by (rule expected_text_becomes_characters[OF one_line_parsed _ _ _ _ _ _ _ iso_2026])
    (simp_all add: iso_2026 text_within_def MAX_ID_def MAX_QUERY_def py_len_def)

theorem locomo_cases_distinct_witness:
  "\<exists>cases. locomo_cases date_max (JList [JObj [(''qa'', JList [JObj [(''question'', JStr ''q''),
      (''evidence'', JList [JStr ''D1:3''])], JObj [(''question'', JStr ''r'')]])]]) = Inr cases
    \<and> map ev_abstain cases = map (\<lambda>c. ev_expected c = []) cases \<and> distinct (map ev_id cases)"
proof -
  have "\<exists>cases. locomo_cases date_max (JList [JObj [(''qa'', JList [JObj [(''question'', JStr ''q''),
      (''evidence'', JList [JStr ''D1:3''])], JObj [(''question'', JStr ''r'')]])]]) = Inr cases"
    by (simp add: locomo_cases_def json_iter_def locomo_sample_def json_get_def locomo_case_def items_of_def
        or_default_def json_item_def)
  then show ?thesis using locomo_cases_distinct by blast
qed

end
