(* ===== verification/Suite.thy ===== *)
theory Suite
  imports Effects Adapters Corpora
begin

text \<open>
  What the capability benchmark and the catalog benchmark of the book share: digests of JSON values,
  a case with its program, the execution of the systems under comparison and the report. Both
  programs have the same code for it, up to names; the names are the fields of \<open>suite_kind\<close>. The
  command of a system is the parameter \<open>spawn\<close>, as in \<^verbatim>\<open>adversarial_cognition/adapters.py\<close>.
\<close>

subsection \<open>Digests\<close>

text \<open>the values that are digested, and their JSON text with sorted keys, given the separators\<close>

datatype plain = PText string | PInt int | PList "plain list" | PDict "(string \<times> plain) list"

fun plain_dumps :: "string \<Rightarrow> string \<Rightarrow> plain \<Rightarrow> string" where
  "plain_dumps comma colon (PText s) = json_quote s"
| "plain_dumps comma colon (PInt i) = int_str i"
| "plain_dumps comma colon (PList xs) = ''['' @ join comma (map (plain_dumps comma colon) xs) @ '']''"
| "plain_dumps comma colon (PDict d) =
     ''{'' @ join comma (map (\<lambda>(k, t). json_quote k @ colon @ t)
        (sort_key fst (map (\<lambda>(k, v). (k, plain_dumps comma colon v)) d))) @ ''}''"

definition domain_digest :: "string \<Rightarrow> plain list \<Rightarrow> string" where
  "domain_digest domain parts = ''sha256:'' @ sha256_hex (domain @ [CHR 0x00] @ plain_dumps '','' '':'' (PList parts))"

subsection \<open>Cases and kinds\<close>

record 's suite_case =
  sc_id :: string
  sc_category :: string
  sc_capability :: string
  sc_description :: string
  sc_run :: "('s, bool) act"
  sc_gate :: string

definition new_suite_case :: "string \<Rightarrow> string \<Rightarrow> string \<Rightarrow> string \<Rightarrow> ('s, bool) act \<Rightarrow> string \<Rightarrow> 's suite_case" where
  "new_suite_case i cat cap d run gate = \<lparr>sc_id = i, sc_category = cat, sc_capability = cap,
     sc_description = d, sc_run = run, sc_gate = gate\<rparr>"

record suite_kind =
  sk_benchmark :: string
  sk_version :: string
  sk_domain :: string
  sk_protocol :: string
  sk_key :: string
  sk_list_key :: string
  sk_capabilities :: "string list"
  sk_gates :: "string list"
  sk_systems :: "(string \<times> string) list"
  sk_timeout_variable :: string
  sk_unknown :: string
  sk_unbounded :: string

definition run_suite_case :: "'s \<Rightarrow> 's suite_case \<Rightarrow> bool result" where
  "run_suite_case seeded c = fst (sc_run c seeded)"

text \<open>an operation that raises nothing, as a step of a case, and the object the case runs on\<close>

definition pure_act :: "('s \<Rightarrow> 'a \<times> 's) \<Rightarrow> ('s, 'a) act" where
  "pure_act f s = (case f s of (x, t) \<Rightarrow> (Inr x, t))"

definition the_state :: "('s, 's) act" where
  "the_state s = (Inr s, s)"

subsection \<open>Gates and metrics\<close>

record suite_row =
  rw_case_id :: string
  rw_capability :: string
  rw_gate :: string
  rw_supported :: bool
  rw_correct :: bool

definition suite_row_of :: "'s suite_case \<Rightarrow> bool \<Rightarrow> bool \<Rightarrow> suite_row" where
  "suite_row_of c s ok = \<lparr>rw_case_id = sc_id c, rw_capability = sc_capability c, rw_gate = sc_gate c,
     rw_supported = s, rw_correct = ok\<rparr>"

definition trips :: "suite_row \<Rightarrow> bool" where
  "trips r \<longleftrightarrow> rw_gate r \<noteq> [] \<and> rw_supported r \<and> \<not> rw_correct r"

fun suite_gate_loop :: "suite_row list \<Rightarrow> (string, int) pydict \<Rightarrow> (string, int) pydict result" where
  "suite_gate_loop [] gates = Inr gates"
| "suite_gate_loop (r # rs) gates =
     (if trips r then
        (case dict_get gates (rw_gate r) of
           None \<Rightarrow> raise_error ''KeyError'' (repr_str (rw_gate r))
         | Some n \<Rightarrow> suite_gate_loop rs (dict_set (rw_gate r) (n + 1) gates))
      else suite_gate_loop rs gates)"

definition suite_gates :: "string list \<Rightarrow> suite_row list \<Rightarrow> (string, int) pydict result" where
  "suite_gates names rows = suite_gate_loop rows (map (\<lambda>n. (n, 0)) names)"

definition suite_summary :: "suite_row list \<Rightarrow> (string, json) pydict" where
  "suite_summary rows =
     (let supported = filter rw_supported rows;
          passed = length (filter rw_correct supported)
      in [(''supported'', JInt (int (length supported))), (''correct'', JInt (int passed)),
          (''unsupported'', JInt (int (length rows) - int (length supported))),
          (''accuracy'', JFloat (if supported \<noteq> [] then of_nat passed / of_nat (length supported) else 0))])"

definition suite_status :: "string \<Rightarrow> (string, int) pydict \<Rightarrow> string" where
  "suite_status s gates =
     (if s \<noteq> ''executed'' then s
      else if list_ex (\<lambda>v. v \<noteq> 0) (dict_values gates) then ''fail'' else ''pass'')"

subsection \<open>Manifest\<close>

definition suite_manifest :: "suite_kind \<Rightarrow> 's suite_case list \<Rightarrow> plain" where
  "suite_manifest k suite = PDict [
     (''benchmark'', PText (sk_benchmark k)), (''corpus_version'', PText (sk_version k)),
     (''cases'', PList (map (\<lambda>c. PDict [(''case_id'', PText (sc_id c)), (''category'', PText (sc_category c)),
        (''capability'', PText (sc_capability c)), (''description'', PText (sc_description c)),
        (''gate'', PText (sc_gate c))]) suite))]"

definition suite_corpus_digest :: "suite_kind \<Rightarrow> plain \<Rightarrow> string" where
  "suite_corpus_digest k manifest =
     domain_digest (sk_domain k) [PText ''manifest'', PText (plain_dumps '', '' '': '' manifest)]"

subsection \<open>Systems\<close>

definition suite_row_json :: "suite_row \<Rightarrow> json" where
  "suite_row_json r = JObj [(''case_id'', JStr (rw_case_id r)), (''capability'', JStr (rw_capability r)),
     (''gate'', JStr (rw_gate r)), (''supported'', JBool (rw_supported r)), (''correct'', JBool (rw_correct r))]"

definition suite_finish :: "suite_kind \<Rightarrow> string \<Rightarrow> string \<Rightarrow> string list \<Rightarrow> suite_row list
    \<Rightarrow> (string, json) pydict result" where
  "suite_finish k name version caps rows =
     bind_result (suite_gates (sk_gates k) rows) (\<lambda>gates.
       Inr [(sk_key k, JStr name), (''adapter_version'', JStr version), (''status'', JStr ''executed''),
          (''capabilities'', JStrs (sort caps)), (''hard_gates'', JObj (map (\<lambda>(g, n). (g, JInt n)) gates)),
          (''summary'', JObj (suite_summary rows)), (''cases'', JList (map suite_row_json rows))])"

definition suite_reference :: "suite_kind \<Rightarrow> 's \<Rightarrow> 's suite_case list \<Rightarrow> (string, json) pydict result" where
  "suite_reference k seeded suite =
     bind_result (map_result (\<lambda>c. bind_result (run_suite_case seeded c) (\<lambda>ok. Inr (suite_row_of c True ok))) suite)
       (\<lambda>rows. suite_finish k ''reference'' (sk_version k) (sk_capabilities k) rows)"

definition suite_request :: "py_prims \<Rightarrow> suite_kind \<Rightarrow> 's suite_case list \<Rightarrow> string" where
  "suite_request p k suite = json_dumps p True (JObj [
     (''protocol'', JStr (sk_protocol k)),
     (''cases'', JList (map (\<lambda>c. JObj [(''case_id'', JStr (sc_id c)), (''capability'', JStr (sc_capability c)),
        (''category'', JStr (sc_category c)), (''gate'', JStr (sc_gate c)),
        (''description'', JStr (sc_description c))]) suite))])"

definition claimed_capabilities :: "suite_kind \<Rightarrow> json list \<Rightarrow> string list" where
  "claimed_capabilities k xs =
     concat (map (\<lambda>v. case v of JStr c \<Rightarrow> if c \<in> set (sk_capabilities k) then [c] else [] | _ \<Rightarrow> []) xs)"

text \<open>a reported case: a system cannot support what it did not claim\<close>

definition suite_parse_row :: "string list \<Rightarrow> json \<Rightarrow> 's suite_case \<Rightarrow> suite_row result" where
  "suite_parse_row caps row c =
     bind_result (get_default row ''supported'' (JBool False)) (\<lambda>s.
       let supported = (truthy s \<and> sc_capability c \<in> set caps)
       in bind_result (if supported then get_default row ''correct'' (JBool False) else Inr (JBool False)) (\<lambda>ok.
          Inr (suite_row_of c supported (supported \<and> truthy ok))))"

definition suite_parse :: "py_prims \<Rightarrow> suite_kind \<Rightarrow> string \<Rightarrow> 's suite_case list
    \<Rightarrow> (string \<times> string list \<times> suite_row list) result" where
  "suite_parse p k payload suite =
     bind_result (json_loads p payload) (\<lambda>parsed.
     bind_result (get_default parsed ''adapter_version'' (JStr (sk_protocol k))) (\<lambda>version.
     bind_result (bind_result (get_default parsed ''capabilities'' (JList [])) json_iter) (\<lambda>cs.
     bind_result (bind_result (json_item parsed ''cases'') json_iter) (\<lambda>items.
     bind_result (map_result row_entry items) (\<lambda>entries.
       let caps = claimed_capabilities k cs;
           by_id = dict_of entries []
       in if set (dict_keys by_id) \<noteq> (\<lambda>c. JStr (sc_id c)) ` set suite
          then raise_error ''ValueError'' ''adapter did not report every case exactly once''
          else bind_result
            (map_result (\<lambda>c. suite_parse_row caps (the (dict_get by_id (JStr (sc_id c)))) c) suite)
            (\<lambda>rows. Inr (py_take 64 (json_str p version), caps, rows)))))))"

definition suite_error :: "py_error \<Rightarrow> string" where
  "suite_error e = py_take MAX_ERROR_CHARS (case e of
       ProcessError ty t eo \<Rightarrow>
         if ty = ''CalledProcessError'' then
           (let reason = splitlines (py_strip eo) in if reason \<noteq> [] then last reason else t)
         else t
     | PyError ty t \<Rightarrow> t)"

definition suite_external :: "py_prims \<Rightarrow> suite_kind \<Rightarrow> (string \<Rightarrow> string \<Rightarrow> int \<Rightarrow> string result) \<Rightarrow> 's suite_case list
    \<Rightarrow> (string, string) pydict \<Rightarrow> string \<times> string \<Rightarrow> (string, json) pydict result" where
  "suite_external p k spawn suite env x = (case x of (name, variable) \<Rightarrow>
     let command = py_strip (environ_get env variable)
     in if command = [] then
          Inr [(sk_key k, JStr name), (''status'', JStr ''unavailable''), (''missing_configuration'', JStrs [variable])]
        else bind_result
          (case dict_get env (sk_timeout_variable k) of None \<Rightarrow> Inr 900 | Some t \<Rightarrow> int_of_text t) (\<lambda>timeout.
            case bind_result (spawn command (suite_request p k suite) timeout) (\<lambda>out. suite_parse p k out suite) of
              Inl e \<Rightarrow> Inr [(sk_key k, JStr name), (''status'', JStr ''error''), (''error'', JStr (suite_error e))]
            | Inr (version, caps, rows) \<Rightarrow> suite_finish k name version caps rows))"

definition suite_systems :: "py_prims \<Rightarrow> suite_kind \<Rightarrow> (string \<Rightarrow> string \<Rightarrow> int \<Rightarrow> string result) \<Rightarrow> 's
    \<Rightarrow> string list \<Rightarrow> 's suite_case list \<Rightarrow> (string, string) pydict \<Rightarrow> (string, json) pydict list result" where
  "suite_systems p k spawn seeded selected suite env =
     (let known = ''reference'' # map fst (sk_systems k);
          unknown = filter (\<lambda>s. s \<notin> set known) (remdups selected)
      in if unknown \<noteq> [] then
           raise_error ''ValueError'' (sk_unknown k @ ''['' @ join '', '' (map repr_str (sort unknown)) @ '']'')
         else bind_result
           (if ''reference'' \<in> set selected then map_result (\<lambda>_. suite_reference k seeded suite) [()] else Inr []) (\<lambda>first.
          bind_result
           (map_result (suite_external p k spawn suite env) (filter (\<lambda>(n, v). n \<in> set selected) (sk_systems k)))
             (\<lambda>rest. Inr (first @ rest))))"

subsection \<open>Report\<close>

definition suite_text_ok :: "string \<Rightarrow> bool" where
  "suite_text_ok s \<longleftrightarrow> py_len s \<le> 256 \<and> CHR 0x0A \<notin> set s"

text \<open>whether \<^verbatim>\<open>walk\<close> raises nothing\<close>

fun suite_walk :: "json \<Rightarrow> bool" where
  "suite_walk (JStr s) = suite_text_ok s"
| "suite_walk (JObj d) = (\<forall>e \<in> set d. suite_text_ok (fst e) \<and> suite_walk (snd e))"
| "suite_walk (JList xs) = (\<forall>x \<in> set xs. suite_walk x)"
| "suite_walk _ = True"

definition gates_tripped :: "(string, json) pydict \<Rightarrow> bool" where
  "gates_tripped e = (case dict_get e ''hard_gates'' of
       Some (JObj d) \<Rightarrow> list_ex truthy (dict_values d) | _ \<Rightarrow> False)"

definition suite_overall :: "suite_kind \<Rightarrow> (string, json) pydict list \<Rightarrow> string" where
  "suite_overall k systems =
     (case find (\<lambda>e. dict_get e (sk_key k) = Some (JStr ''reference'')) systems of
        None \<Rightarrow> ''incomplete''
      | Some e \<Rightarrow> if dict_get e ''status'' \<noteq> Some (JStr ''executed'') then ''incomplete''
          else if gates_tripped e then ''fail'' else ''pass'')"

definition suite_report :: "suite_kind \<Rightarrow> (string, string) pydict \<Rightarrow> string \<Rightarrow> (string, json) pydict list
    \<Rightarrow> json result" where
  "suite_report k metadata manifest_digest systems =
     (let report = JObj [(''benchmark'', JStr (sk_benchmark k)), (''corpus_digest'', JStr manifest_digest),
            (''status'', JStr (suite_overall k systems)),
            (''metadata'', JObj (map (\<lambda>(n, v). (n, JStr v)) metadata)),
            (sk_list_key k, JList (map JObj systems))]
      in if suite_walk report then Inr report else raise_error ''ValueError'' (sk_unbounded k))"

end
