(* ===== verification/Guard.thy ===== *)
theory Guard
  imports Suite
begin

text \<open>
  \<^verbatim>\<open>docs/book/code/capability/capability_adversarial/backend.py\<close>: the reference guard of the
  capability benchmark, an authority boundary that mints, attenuates, revokes and checks sealed
  capabilities. A frozen set of grants given to an operation is the list it is made from.
\<close>

subsection \<open>Digests\<close>

definition GUARD_DOMAIN :: string where "GUARD_DOMAIN = ''querygraph.capability-adversarial.v1''"

definition ENGINE_KEY :: string where "ENGINE_KEY = ''capability-adversarial/reference-engine-key/v1''"

definition LEVELS :: "string list" where "LEVELS = [''public'', ''internal'', ''sensitive'']"

definition REQUEST_FIELDS :: "string set" where
  "REQUEST_FIELDS = {''subject'', ''grants'', ''resource'', ''operation'', ''lease''}"

definition guard_digest :: "plain list \<Rightarrow> string" where
  "guard_digest parts = domain_digest GUARD_DOMAIN parts"

subsection \<open>Levels and grants\<close>

fun index_of :: "'a \<Rightarrow> 'a list \<Rightarrow> nat option" where
  "index_of x [] = None"
| "index_of x (y # ys) = (if x = y then Some 0 else map_option Suc (index_of x ys))"

text \<open>\<^verbatim>\<open>LEVELS.index(label)\<close>\<close>

definition level_of :: "string \<Rightarrow> int result" where
  "level_of l = (case index_of l LEVELS of
       None \<Rightarrow> raise_error ''ValueError'' ''tuple.index(x): x not in tuple'' | Some n \<Rightarrow> Inr (int n))"

text \<open>the level a read grant names, if it is one\<close>

definition read_level :: "string \<Rightarrow> int option" where
  "read_level g = (if take 5 g = ''read:'' then map_option int (index_of (drop 5 g) LEVELS) else None)"

definition raise_best :: "int \<Rightarrow> string \<Rightarrow> int" where
  "raise_best best g = (case read_level g of None \<Rightarrow> best | Some n \<Rightarrow> max best n)"

definition read_ceiling :: "string list \<Rightarrow> int" where
  "read_ceiling gs = foldl raise_best (-1) gs"

definition grant_implied :: "string list \<Rightarrow> string \<Rightarrow> bool" where
  "grant_implied parent g = (case read_level g of
       Some n \<Rightarrow> read_ceiling parent \<ge> n | None \<Rightarrow> g \<in> set parent)"

subsection \<open>Data\<close>

record capability =
  cap_id :: string
  cap_subject :: string
  cap_grants :: "string list"
  cap_resource :: string
  cap_operation :: string
  cap_expiry :: int
  cap_epoch :: int
  cap_seal :: string

definition cap_body :: "capability \<Rightarrow> plain list" where
  "cap_body c = [PText (cap_id c), PText (cap_subject c), PList (map PText (cap_grants c)),
     PText (cap_resource c), PText (cap_operation c), PInt (cap_expiry c), PInt (cap_epoch c)]"

definition cap_mac :: "string \<Rightarrow> capability \<Rightarrow> string" where
  "cap_mac key c = hmac_sha256_hex key
     (GUARD_DOMAIN @ [CHR 0x00] @ plain_dumps '', '' '': '' (PList (PText ''cap'' # cap_body c)))"

definition sealed :: "string \<Rightarrow> capability \<Rightarrow> capability" where
  "sealed key c = c\<lparr>cap_seal := ''hmac:'' @ cap_mac key c\<rparr>"

record secure_value =
  sv_label :: string
  sv_cleartext :: string
  sv_resource :: string

definition REDACTED :: string where "REDACTED = ''<redacted>''"

record guard_outcome =
  go_ok :: bool
  go_error :: string
  go_capability :: "capability option"
  go_revealed :: "string option"
  go_audit :: bool

definition guard_answer :: "bool \<Rightarrow> string \<Rightarrow> bool \<Rightarrow> guard_outcome" where
  "guard_answer ok e a = \<lparr>go_ok = ok, go_error = e, go_capability = None, go_revealed = None, go_audit = a\<rparr>"

record guard =
  gd_policy :: "(string, (string, string set) pydict) pydict"
  gd_revoked :: "string set"
  gd_min_epoch :: int
  gd_now :: int
  gd_audit :: "string list"
  gd_n :: nat

definition new_guard :: guard where
  "new_guard = \<lparr>gd_policy = [], gd_revoked = {}, gd_min_epoch = 0, gd_now = 0, gd_audit = [], gd_n = 0\<rparr>"

subsection \<open>Setup\<close>

definition subject_policy :: "string \<Rightarrow> guard \<Rightarrow> (string, string set) pydict" where
  "subject_policy s g = (case dict_get (gd_policy g) s of None \<Rightarrow> [] | Some d \<Rightarrow> d)"

definition grant_policy :: "string \<Rightarrow> string \<Rightarrow> string set \<Rightarrow> guard \<Rightarrow> guard" where
  "grant_policy s r gs g =
     g\<lparr>gd_policy := dict_set s (dict_set r gs (subject_policy s g)) (gd_policy g)\<rparr>"

definition tick :: "int \<Rightarrow> guard \<Rightarrow> guard" where
  "tick n g = g\<lparr>gd_now := gd_now g + n\<rparr>"

definition next_id :: "guard \<Rightarrow> string" where
  "next_id g = ''cap-'' @ pad4 (gd_n g + 1)"

definition add_audit :: "string \<Rightarrow> (string \<times> plain) list \<Rightarrow> guard \<Rightarrow> guard" where
  "add_audit kind fs g =
     g\<lparr>gd_audit := gd_audit g @ [guard_digest [PText ''audit'', PText kind, PDict fs]]\<rparr>"

subsection \<open>Verification\<close>

definition verify_cap :: "capability option \<Rightarrow> guard \<Rightarrow> bool" where
  "verify_cap co g = (case co of
       None \<Rightarrow> False
     | Some c \<Rightarrow> cap_seal (sealed ENGINE_KEY c) = cap_seal c \<and> cap_id c \<notin> gd_revoked g
         \<and> \<not> cap_epoch c < gd_min_epoch g \<and> \<not> gd_now g \<ge> cap_expiry c)"

subsection \<open>Minting and attenuation\<close>

definition allowed_grants :: "string \<Rightarrow> string \<Rightarrow> guard \<Rightarrow> string set" where
  "allowed_grants s r g = (case dict_get (subject_policy s g) r of None \<Rightarrow> {} | Some gs \<Rightarrow> gs)"

definition mint :: "string \<Rightarrow> string list \<Rightarrow> string \<Rightarrow> string \<Rightarrow> int \<Rightarrow> guard \<Rightarrow> guard_outcome \<times> guard" where
  "mint s gs r opn lease g =
     (if \<not> set gs \<subseteq> allowed_grants s r g then
        (guard_answer False ''policy-denied'' True,
         add_audit ''mint-denied'' [(''subject'', PText s), (''resource'', PText r)] g)
      else
        let c = sealed ENGINE_KEY \<lparr>cap_id = next_id g, cap_subject = s, cap_grants = sort (remdups gs),
              cap_resource = r, cap_operation = opn, cap_expiry = gd_now g + lease,
              cap_epoch = gd_min_epoch g, cap_seal = []\<rparr>
        in ((guard_answer True [] True)\<lparr>go_capability := Some c\<rparr>,
            add_audit ''mint'' [(''cap_id'', PText (cap_id c)), (''subject'', PText s), (''resource'', PText r)]
              (g\<lparr>gd_n := gd_n g + 1\<rparr>)))"

definition attenuate :: "capability \<Rightarrow> string list option \<Rightarrow> int option \<Rightarrow> guard \<Rightarrow> guard_outcome \<times> guard" where
  "attenuate c grants lease g =
     (if \<not> verify_cap (Some c) g then (guard_answer False ''invalid-parent'' False, g)
      else
        let new_grants = (case grants of None \<Rightarrow> cap_grants c | Some gs \<Rightarrow> gs)
        in if \<not> list_all (grant_implied (cap_grants c)) new_grants then
             (guard_answer False ''permission-widened'' True,
              add_audit ''attenuate-denied'' [(''reason'', PText ''widen'')] g)
           else
             let new_expiry = (case lease of None \<Rightarrow> cap_expiry c | Some l \<Rightarrow> gd_now g + l)
             in if new_expiry > cap_expiry c then
                  (guard_answer False ''lease-extended'' True,
                   add_audit ''attenuate-denied'' [(''reason'', PText ''extend'')] g)
                else
                  let d = sealed ENGINE_KEY \<lparr>cap_id = next_id g, cap_subject = cap_subject c,
                        cap_grants = sort (remdups new_grants), cap_resource = cap_resource c,
                        cap_operation = cap_operation c, cap_expiry = new_expiry,
                        cap_epoch = cap_epoch c, cap_seal = []\<rparr>
                  in ((guard_answer True [] True)\<lparr>go_capability := Some d\<rparr>,
                      add_audit ''attenuate'' [(''parent'', PText (cap_id c)), (''cap_id'', PText (cap_id d))]
                        (g\<lparr>gd_n := gd_n g + 1\<rparr>)))"

subsection \<open>Revocation\<close>

definition revoke :: "string \<Rightarrow> guard \<Rightarrow> guard" where
  "revoke i g = add_audit ''revoke'' [(''cap_id'', PText i)] (g\<lparr>gd_revoked := insert i (gd_revoked g)\<rparr>)"

definition revoke_all :: "guard \<Rightarrow> guard" where
  "revoke_all g = (let g' = g\<lparr>gd_min_epoch := gd_min_epoch g + 1\<rparr>
     in add_audit ''revoke-all'' [(''epoch'', PInt (gd_min_epoch g'))] g')"

subsection \<open>Guarded operations\<close>

text \<open>a capability that is valid and bound to the resource\<close>

definition bound_to :: "capability option \<Rightarrow> string \<Rightarrow> guard \<Rightarrow> bool" where
  "bound_to co r g \<longleftrightarrow> verify_cap co g \<and> (case co of None \<Rightarrow> False | Some c \<Rightarrow> cap_resource c = r)"

definition reveal :: "capability option \<Rightarrow> secure_value \<Rightarrow> (guard, guard_outcome) act" where
  "reveal co v g =
     (if \<not> bound_to co (sv_resource v) g then
        (Inr ((guard_answer False ''unauthorized'' True)\<lparr>go_revealed := Some REDACTED\<rparr>),
         add_audit ''reveal-refused'' [(''resource'', PText (sv_resource v))] g)
      else case level_of (sv_label v) of
        Inl e \<Rightarrow> (Inl e, g)
      | Inr level \<Rightarrow>
          if read_ceiling (cap_grants (the co)) < level then
            (Inr ((guard_answer False ''below-clearance'' True)\<lparr>go_revealed := Some REDACTED\<rparr>),
             add_audit ''reveal-redacted''
               [(''resource'', PText (sv_resource v)), (''label'', PText (sv_label v))] g)
          else
            (Inr ((guard_answer True [] True)\<lparr>go_revealed := Some (sv_cleartext v)\<rparr>),
             add_audit ''reveal''
               [(''cap_id'', PText (cap_id (the co))), (''resource'', PText (sv_resource v))] g))"

definition declassify :: "capability option \<Rightarrow> secure_value \<Rightarrow> guard \<Rightarrow> guard_outcome \<times> guard" where
  "declassify co v g =
     (if \<not> bound_to co (sv_resource v) g then (guard_answer False ''unauthorized'' False, g)
      else if ''declassify'' \<notin> set (cap_grants (the co)) then
        (guard_answer False ''no-declassify-grant'' True,
         add_audit ''declassify-refused'' [(''resource'', PText (sv_resource v))] g)
      else
        (guard_answer True [] True,
         add_audit ''declassify''
           [(''cap_id'', PText (cap_id (the co))), (''resource'', PText (sv_resource v))] g))"

definition deny_invoke :: "string \<Rightarrow> string \<Rightarrow> string \<Rightarrow> guard \<Rightarrow> guard_outcome \<times> guard" where
  "deny_invoke e tool reason g = (guard_answer False e True,
     add_audit ''invoke-denied'' [(''tool'', PText tool), (''reason'', PText reason)] g)"

definition invoke :: "capability option \<Rightarrow> string \<Rightarrow> string \<Rightarrow> string \<Rightarrow> guard \<Rightarrow> guard_outcome \<times> guard" where
  "invoke co tool r opn g =
     (if \<not> verify_cap co g then deny_invoke ''ambient-denied'' tool ''no-capability'' g
      else if cap_resource (the co) \<noteq> r then deny_invoke ''cross-resource'' tool ''resource'' g
      else if ''tool:'' @ tool \<notin> set (cap_grants (the co)) \<or> cap_operation (the co) \<noteq> opn
        then deny_invoke ''confused-deputy'' tool ''confused-deputy'' g
      else (guard_answer True [] True,
        add_audit ''invoke''
          [(''cap_id'', PText (cap_id (the co))), (''tool'', PText tool), (''resource'', PText r)] g))"

text \<open>\<^verbatim>\<open>int(x)\<close> of a value off the wire\<close>

definition int_of_value :: "json \<Rightarrow> int result" where
  "int_of_value v = (case v of
       JInt i \<Rightarrow> Inr i
     | JBool b \<Rightarrow> Inr (if b then 1 else 0)
     | JFloat r \<Rightarrow> Inr (if r \<ge> 0 then \<lfloor>r\<rfloor> else \<lceil>r\<rceil>)
     | JSpecial s \<Rightarrow> if s = ''NaN'' then raise_error ''ValueError'' ''cannot convert float NaN to integer''
         else raise_error ''OverflowError'' ''cannot convert float infinity to integer''
     | JStr s \<Rightarrow> int_of_text s
     | _ \<Rightarrow> raise_error ''TypeError''
         (''int() argument must be a string, a bytes-like object or a real number, not '' @ repr_str (type_name v)))"

definition text_of :: "json \<Rightarrow> string option" where
  "text_of v = (case v of JStr s \<Rightarrow> Some s | _ \<Rightarrow> None)"

text \<open>The fields of a request that names only known fields. The guard keeps texts; a payload with
  another value where it has one is outside the model, \<^const>\<open>None\<close>.\<close>

definition request_fields :: "(string, json) pydict
    \<Rightarrow> (string option \<times> string option list \<times> string option \<times> string option \<times> int) result" where
  "request_fields d =
     bind_result (json_item (JObj d) ''subject'') (\<lambda>s.
     bind_result (bind_result (json_item (JObj d) ''grants'') json_iter) (\<lambda>gs.
     bind_result (json_item (JObj d) ''resource'') (\<lambda>r.
     bind_result (int_of_value (case dict_get d ''lease'' of None \<Rightarrow> JInt 100 | Some l \<Rightarrow> l)) (\<lambda>lease.
       Inr (text_of s, map text_of gs, text_of r,
         text_of (case dict_get d ''operation'' of None \<Rightarrow> JStr [] | Some x \<Rightarrow> x), lease)))))"

definition request :: "(string, json) pydict \<Rightarrow> guard \<Rightarrow> (guard_outcome result \<times> guard) option" where
  "request d g =
     (let extra = filter (\<lambda>k. k \<notin> REQUEST_FIELDS) (dict_keys d)
      in if extra \<noteq> [] then
           Some (Inr (guard_answer False ''unknown-fields'' True),
             add_audit ''wire-rejected'' [(''fields'', PList (map PText (sort (remdups extra))))] g)
         else case request_fields d of
           Inl e \<Rightarrow> Some (Inl e, g)
         | Inr (Some s, gs, Some r, Some opn, lease) \<Rightarrow>
             if None \<in> set gs then None
             else (case mint s (map the gs) r opn lease g of (out, g') \<Rightarrow> Some (Inr out, g'))
         | Inr _ \<Rightarrow> None)"

definition restart_guard :: "guard \<Rightarrow> guard" where
  "restart_guard g = new_guard\<lparr>gd_policy := gd_policy g, gd_revoked := gd_revoked g,
     gd_min_epoch := gd_min_epoch g, gd_now := gd_now g, gd_audit := gd_audit g, gd_n := gd_n g\<rparr>"

end
