(* ===== verification/GuardProps.thy ===== *)
theory GuardProps
  imports Guard "HOL-Library.Sublist"
begin

text \<open>
  What the guard guarantees: authority only narrows along a chain of attenuations, a capability that
  stopped authorizing never authorizes again, the guarded operations act exactly on valid and
  matching authority, and the audit log only grows.
\<close>

subsection \<open>Sealing\<close>

lemma sealed_fields [simp]:
  "cap_id (sealed k c) = cap_id c" "cap_subject (sealed k c) = cap_subject c"
  "cap_grants (sealed k c) = cap_grants c" "cap_resource (sealed k c) = cap_resource c"
  "cap_operation (sealed k c) = cap_operation c" "cap_expiry (sealed k c) = cap_expiry c"
  "cap_epoch (sealed k c) = cap_epoch c" "cap_seal (sealed k c) = ''hmac:'' @ cap_mac k c"
  by (simp_all add: sealed_def)

lemma cap_mac_seal [simp]: "cap_mac k (c\<lparr>cap_seal := s\<rparr>) = cap_mac k c"
  by (simp add: cap_mac_def cap_body_def)

lemma sealed_sealed [simp]: "sealed k (sealed k c) = sealed k c"
  by (simp add: sealed_def)

definition genuine :: "capability \<Rightarrow> bool" where
  "genuine c \<longleftrightarrow> sealed ENGINE_KEY c = c"

lemma genuine_sealed [simp]: "genuine (sealed ENGINE_KEY c)"
  by (simp add: genuine_def)

lemma genuine_seal: "genuine c \<longleftrightarrow> cap_seal (sealed ENGINE_KEY c) = cap_seal c"
  by (cases c) (auto simp: genuine_def sealed_def)

lemma verify_cap_Some:
  "verify_cap (Some c) g \<longleftrightarrow> genuine c \<and> cap_id c \<notin> gd_revoked g \<and> gd_min_epoch g \<le> cap_epoch c
     \<and> gd_now g < cap_expiry c"
  by (auto simp: verify_cap_def genuine_seal not_less not_le)

lemma verify_cap_None [simp]: "\<not> verify_cap None g"
  by (simp add: verify_cap_def)

lemma audit_frame [simp]:
  "gd_policy (add_audit k fs g) = gd_policy g" "gd_revoked (add_audit k fs g) = gd_revoked g"
  "gd_min_epoch (add_audit k fs g) = gd_min_epoch g" "gd_now (add_audit k fs g) = gd_now g"
  "gd_n (add_audit k fs g) = gd_n g" "length (gd_audit (add_audit k fs g)) = Suc (length (gd_audit g))"
  "verify_cap co (add_audit k fs g) = verify_cap co g"
  by (auto simp: add_audit_def verify_cap_def split: option.splits)

lemma guard_answer_fields [simp]:
  "go_ok (guard_answer a e b) = a" "go_error (guard_answer a e b) = e" "go_capability (guard_answer a e b) = None"
  "go_revealed (guard_answer a e b) = None" "go_audit (guard_answer a e b) = b"
  by (simp_all add: guard_answer_def)

subsection \<open>Grants\<close>

lemma read_ceiling_iff: "n \<le> read_ceiling gs \<longleftrightarrow> n \<le> -1 \<or> (\<exists>g \<in> set gs. \<exists>m. read_level g = Some m \<and> n \<le> m)"
proof -
  have "n \<le> foldl raise_best b gs \<longleftrightarrow> n \<le> b \<or> (\<exists>g \<in> set gs. \<exists>m. read_level g = Some m \<and> n \<le> m)" for b
    by (induction gs arbitrary: b) (auto simp: raise_best_def le_max_iff_disj split: option.splits)
  then show ?thesis by (simp add: read_ceiling_def)
qed

lemma read_level_nonneg: "read_level g = Some n \<Longrightarrow> 0 \<le> n"
  by (auto simp: read_level_def split: if_splits)

lemma grant_implied_refl: "g \<in> set gs \<Longrightarrow> grant_implied gs g"
  by (auto simp: grant_implied_def read_ceiling_iff split: option.splits)

lemma grant_implied_trans:
  assumes "list_all (grant_implied a) b" "grant_implied b g"
  shows "grant_implied a g"
proof (cases "read_level g")
  case None
  with assms show ?thesis by (auto simp: grant_implied_def list_all_iff)
next
  case (Some n)
  with assms(2) read_level_nonneg[OF Some] obtain h m where h: "h \<in> set b" "read_level h = Some m" "n \<le> m"
    by (auto simp: grant_implied_def read_ceiling_iff)
  with assms(1) have "m \<le> read_ceiling a" by (auto simp: grant_implied_def list_all_iff)
  with h(3) Some show ?thesis by (simp add: grant_implied_def)
qed

lemma list_all_implied_set: "set a = set b \<Longrightarrow> list_all P a = list_all P b"
  by (simp add: list_all_iff)

subsection \<open>Minting and attenuation\<close>

lemma mint_ok:
  "go_ok (fst (mint s gs r opn lease g)) \<longleftrightarrow> set gs \<subseteq> allowed_grants s r g"
  by (simp add: mint_def Let_def)

lemma mint_Some:
  "go_capability (fst (mint s gs r opn lease g)) = Some c \<Longrightarrow>
     genuine c \<and> set gs \<subseteq> allowed_grants s r g \<and> cap_subject c = s \<and> set (cap_grants c) = set gs
     \<and> cap_resource c = r \<and> cap_operation c = opn \<and> cap_expiry c = gd_now g + lease
     \<and> cap_epoch c = gd_min_epoch g \<and> cap_id c = next_id g"
  by (auto simp: mint_def Let_def split: if_splits)

lemma attenuate_Some:
  "go_capability (fst (attenuate c grants lease g)) = Some d \<Longrightarrow>
     verify_cap (Some c) g \<and> genuine d \<and> list_all (grant_implied (cap_grants c)) (cap_grants d)
     \<and> cap_subject d = cap_subject c \<and> cap_resource d = cap_resource c \<and> cap_operation d = cap_operation c
     \<and> cap_expiry d \<le> cap_expiry c \<and> cap_epoch d = cap_epoch c \<and> cap_id d = next_id g"
  by (auto simp: attenuate_def Let_def list_all_iff split: if_splits)

text \<open>a chain of attenuations, each in whatever state the guard was in at the time\<close>

inductive derives :: "capability \<Rightarrow> capability \<Rightarrow> bool" where
  derives_refl: "derives c c"
| derives_step: "derives c d \<Longrightarrow> go_capability (fst (attenuate d grants lease g)) = Some e \<Longrightarrow> derives c e"

lemma derives_narrows:
  "derives c d \<Longrightarrow> cap_subject d = cap_subject c \<and> cap_resource d = cap_resource c
    \<and> cap_operation d = cap_operation c \<and> cap_expiry d \<le> cap_expiry c \<and> cap_epoch d = cap_epoch c
    \<and> list_all (grant_implied (cap_grants c)) (cap_grants d)"
proof (induction rule: derives.induct)
  case (derives_refl c)
  then show ?case by (simp add: list_all_iff grant_implied_refl)
next
  case (derives_step c d grants lease g e)
  note a = attenuate_Some[OF derives_step.hyps(2)]
  have "list_all (grant_implied (cap_grants c)) (cap_grants e)"
    using a derives_step.IH by (auto simp: list_all_iff intro: grant_implied_trans)
  with a derives_step.IH show ?case by auto
qed

lemma delegation:
  assumes "go_capability (fst (mint s gs r opn lease g)) = Some c" "derives c d"
  shows "cap_subject d = s \<and> cap_resource d = r \<and> cap_operation d = opn \<and> cap_expiry d \<le> gd_now g + lease
    \<and> set gs \<subseteq> allowed_grants s r g \<and> list_all (grant_implied gs) (cap_grants d)"
proof -
  note m = mint_Some[OF assms(1)]
  have "grant_implied (cap_grants c) = grant_implied gs"
    using m by (auto simp: grant_implied_def fun_eq_iff read_ceiling_iff order_antisym_conv
        intro!: antisym split: option.splits)
  with m derives_narrows[OF assms(2)] show ?thesis by auto
qed

text \<open>Delegated authority never exceeds what the policy allowed when it was minted: every
capability at the end of a chain of attenuations, made in any states of the guard, acts for the
same subject, resource and operation, expires no later than the minted one, and each of its
grants is implied by grants that the policy gave that subject on that resource.\<close>

theorem delegation_within_policy:
  assumes "go_capability (fst (mint s gs r opn lease g)) = Some c" "derives c d"
  shows "cap_subject d = s \<and> cap_resource d = r \<and> cap_operation d = opn \<and> cap_expiry d \<le> gd_now g + lease
    \<and> set gs \<subseteq> allowed_grants s r g \<and> list_all (grant_implied gs) (cap_grants d)"
  using assms by (rule delegation)

subsection \<open>Sequences of operations\<close>

datatype guard_op =
    GrantPolicy string string "string set"
  | Tick int
  | Mint string "string list" string string int
  | Attenuate capability "string list option" "int option"
  | Revoke string
  | RevokeAll
  | Reveal "capability option" secure_value
  | Declassify "capability option" secure_value
  | Invoke "capability option" string string string
  | Request "(string, json) pydict"
  | Restart

fun guard_step :: "guard \<Rightarrow> guard_op \<Rightarrow> guard" where
  "guard_step g (GrantPolicy s r gs) = grant_policy s r gs g"
| "guard_step g (Tick n) = tick n g"
| "guard_step g (Mint s gs r opn lease) = snd (mint s gs r opn lease g)"
| "guard_step g (Attenuate c gs lease) = snd (attenuate c gs lease g)"
| "guard_step g (Revoke i) = revoke i g"
| "guard_step g RevokeAll = revoke_all g"
| "guard_step g (Reveal co v) = snd (reveal co v g)"
| "guard_step g (Declassify co v) = snd (declassify co v g)"
| "guard_step g (Invoke co tool r opn) = snd (invoke co tool r opn g)"
| "guard_step g (Request d) = (case request d g of None \<Rightarrow> g | Some (out, g') \<Rightarrow> g')"
| "guard_step g Restart = restart_guard g"

definition forward :: "guard_op \<Rightarrow> bool" where
  "forward a \<longleftrightarrow> (case a of Tick n \<Rightarrow> 0 \<le> n | _ \<Rightarrow> True)"

text \<open>what no operation takes back: the revocations, the epoch, the clock (when it runs forward), the
  log, which only grows, and the counter of the identifiers\<close>

definition later :: "guard \<Rightarrow> guard \<Rightarrow> bool" where
  "later g h \<longleftrightarrow> gd_revoked g \<subseteq> gd_revoked h \<and> gd_min_epoch g \<le> gd_min_epoch h \<and> gd_now g \<le> gd_now h
     \<and> prefix (gd_audit g) (gd_audit h) \<and> gd_n g \<le> gd_n h"

lemma later_refl [simp]: "later g g"
  by (simp add: later_def)

lemma later_trans: "later g h \<Longrightarrow> later h k \<Longrightarrow> later g k"
  unfolding later_def by (auto intro: prefix_order.trans)

lemma later_audit: "later g h \<Longrightarrow> later g (add_audit k fs h)"
  unfolding later_def by (auto simp: add_audit_def)

lemma later_frames:
  "later g (g\<lparr>gd_n := Suc (gd_n g)\<rparr>)" "later g (g\<lparr>gd_revoked := insert i (gd_revoked g)\<rparr>)"
  "later g (g\<lparr>gd_min_epoch := gd_min_epoch g + 1\<rparr>)" "later g (g\<lparr>gd_policy := pol\<rparr>)"
  "0 \<le> n \<Longrightarrow> later g (g\<lparr>gd_now := gd_now g + n\<rparr>)"
  by (auto simp: later_def)

lemma restart_guard_id [simp]: "restart_guard g = g"
  by (cases g) (simp add: restart_guard_def new_guard_def)

lemma later_mint: "later g (snd (mint s gs r opn lease g))"
  by (simp add: mint_def Let_def later_audit later_frames)

lemma later_attenuate: "later g (snd (attenuate c gs lease g))"
  by (simp add: attenuate_def Let_def later_audit later_frames)

lemma later_reveal: "later g (snd (reveal co v g))"
  by (simp add: reveal_def later_audit split: sum.splits)

lemma later_checks: "later g (snd (declassify co v g))" "later g (snd (invoke co tool r opn g))"
  by (simp_all add: declassify_def invoke_def deny_invoke_def later_audit)

lemma request_cases:
  assumes "request d g = Some (out, h)"
  shows "h = g \<or> (\<exists>k fs. h = add_audit k fs g) \<or> (\<exists>s gs r opn lease. h = snd (mint s gs r opn lease g))"
  using assms
  by (auto simp: request_def Let_def split: if_splits sum.splits option.splits prod.splits) (metis snd_conv)+

lemma later_request: "request d g = Some (out, h) \<Longrightarrow> later g h"
  by (auto dest!: request_cases simp: later_audit later_mint)

lemma later_step: "forward a \<Longrightarrow> later g (guard_step g a)"
  by (cases a) (auto simp: forward_def later_mint later_attenuate later_reveal later_checks revoke_def revoke_all_def
      grant_policy_def tick_def Let_def later_frames split: option.splits intro: later_audit later_request)

text \<open>
  The interface of revocable authority: something is valid or not in a state, and an admissible
  operation makes nothing valid that was not. Whatever is dead stays dead.
\<close>

locale revocable =
  fixes valid :: "'c \<Rightarrow> 's \<Rightarrow> bool"
    and step :: "'s \<Rightarrow> 'o \<Rightarrow> 's"
    and admissible :: "'o \<Rightarrow> bool"
  assumes step_revives_nothing: "admissible a \<Longrightarrow> valid c (step s a) \<Longrightarrow> valid c s"
begin

lemma dead_forever: "list_all admissible ops \<Longrightarrow> \<not> valid c s \<Longrightarrow> \<not> valid c (foldl step s ops)"
  by (induction ops arbitrary: s) (auto dest: step_revives_nothing)

lemma valid_before: "list_all admissible (ops @ ops') \<Longrightarrow> valid c (foldl step s (ops @ ops'))
    \<Longrightarrow> valid c (foldl step s ops)"
  using dead_forever[of ops' c "foldl step s ops"] by auto

end

lemma verify_later: "later g h \<Longrightarrow> verify_cap co h \<Longrightarrow> verify_cap co g"
  by (cases co) (auto simp: verify_cap_Some later_def)

interpretation guard: revocable verify_cap guard_step forward
  by unfold_locales (blast intro: verify_later later_step)

text \<open>C19: A capability that does not authorize never does again: once it is forged, revoked, of an old
epoch or expired, no sequence of operations makes it valid, restarts, new policies and further
minting included, as long as the clock runs forward.\<close>

theorem dead_capability_stays_dead:
  assumes "list_all forward ops" "\<not> verify_cap co g"
  shows "\<not> verify_cap co (foldl guard_step g ops)"
  using assms by (rule guard.dead_forever)

lemma later_run: "list_all forward ops \<Longrightarrow> later g (foldl guard_step g ops)"
  by (induction ops arbitrary: g) (auto intro: later_trans later_step)

text \<open>C20: Revoking everything reaches the whole delegation tree: after \<^verbatim>\<open>revoke_all\<close>, no capability
derived from one minted before it, at whatever time it was derived, authorizes anything again.\<close>

theorem revoke_all_kills_delegations:
  assumes "go_capability (fst (mint s gs r opn lease g)) = Some c" "derives c d"
    "list_all forward ops" "list_all forward ops'"
  shows "\<not> verify_cap (Some d) (foldl guard_step (snd (mint s gs r opn lease g)) (ops @ RevokeAll # ops'))"
proof -
  let ?h = "foldl guard_step (snd (mint s gs r opn lease g)) ops"
  have "later g ?h" using later_trans[OF later_mint later_run[OF assms(3)]] .
  then have "cap_epoch d \<le> gd_min_epoch ?h"
    using mint_Some[OF assms(1)] derives_narrows[OF assms(2)] by (auto simp: later_def)
  then have "\<not> verify_cap (Some d) (guard_step ?h RevokeAll)"
    by (simp add: verify_cap_Some revoke_all_def Let_def)
  from guard.dead_forever[OF assms(4) this] show ?thesis by simp
qed

text \<open>C21: Revoking by identifier does not reach delegated authority: the holder of a capability can
attenuate it to a copy with the same grants and the same lease, and the copy keeps authorizing
after the original is revoked.\<close>

theorem copy_survives_revocation:
  assumes "verify_cap (Some c) g" "next_id g \<notin> gd_revoked g" "cap_id c \<noteq> next_id g"
  shows "\<exists>d. go_capability (fst (attenuate c None None g)) = Some d \<and> set (cap_grants d) = set (cap_grants c)
    \<and> cap_resource d = cap_resource c \<and> cap_operation d = cap_operation c \<and> cap_expiry d = cap_expiry c
    \<and> \<not> verify_cap (Some c) (revoke (cap_id c) (snd (attenuate c None None g)))
    \<and> verify_cap (Some d) (revoke (cap_id c) (snd (attenuate c None None g)))"
proof -
  have "list_all (grant_implied (cap_grants c)) (cap_grants c)"
    by (simp add: list_all_iff grant_implied_refl)
  with assms show ?thesis
    by (simp add: attenuate_def Let_def revoke_def verify_cap_Some)
qed

subsection \<open>Guarded operations\<close>

lemma reveal_ok:
  assumes "fst (reveal co v g) = Inr out" "go_ok out"
  obtains c n where "co = Some c" "verify_cap (Some c) g" "cap_resource c = sv_resource v"
    "level_of (sv_label v) = Inr n" "n \<le> read_ceiling (cap_grants c)" "go_revealed out = Some (sv_cleartext v)"
  using assms by (cases co) (auto simp: reveal_def bound_to_def split: sum.splits if_splits)

lemma reveal_refused: "fst (reveal co v g) = Inr out \<Longrightarrow> \<not> go_ok out \<Longrightarrow> go_revealed out = Some REDACTED"
  by (auto simp: reveal_def split: sum.splits if_splits)

lemma invoke_ok:
  "go_ok (fst (invoke co tool r opn g)) \<longleftrightarrow> (\<exists>c. co = Some c \<and> verify_cap (Some c) g \<and> cap_resource c = r
     \<and> ''tool:'' @ tool \<in> set (cap_grants c) \<and> cap_operation c = opn)"
  by (cases co) (auto simp: invoke_def deny_invoke_def)

lemma level_nonneg: "level_of l = Inr n \<Longrightarrow> 0 \<le> n"
  by (auto simp: level_of_def split: option.splits)

lemma read_level_tool: "read_level (''tool:'' @ t) = None"
  by (simp add: read_level_def)

text \<open>C22: Nothing is disclosed without a policy behind it: when a capability delegated in any way from a
minted one reveals a value, the value belongs to the resource of the mint and the policy had
given the subject a read grant on it at or above the label of the value; whenever the reveal does
not succeed, the text is redacted.\<close>

theorem disclosure_traces_to_policy:
  assumes "go_capability (fst (mint s gs r opn lease g)) = Some c" "derives c d"
    "fst (reveal (Some d) v h) = Inr out"
  shows "if go_ok out
    then go_revealed out = Some (sv_cleartext v) \<and> sv_resource v = r
      \<and> (\<exists>n. level_of (sv_label v) = Inr n \<and> n \<le> read_ceiling gs) \<and> set gs \<subseteq> allowed_grants s r g
    else go_revealed out = Some REDACTED"
proof (cases "go_ok out")
  case False
  with reveal_refused[OF assms(3)] show ?thesis by simp
next
  case True
  from reveal_ok[OF assms(3) True] obtain n where r: "cap_resource d = sv_resource v"
      "level_of (sv_label v) = Inr n" "n \<le> read_ceiling (cap_grants d)" "go_revealed out = Some (sv_cleartext v)"
    by auto
  note del = delegation[OF assms(1,2)]
  from r(3) level_nonneg[OF r(2)] obtain x m where x: "x \<in> set (cap_grants d)" "read_level x = Some m" "n \<le> m"
    by (auto simp: read_ceiling_iff)
  with del have "m \<le> read_ceiling gs" by (auto simp: list_all_iff grant_implied_def)
  with x r del True show ?thesis by auto
qed

text \<open>No tool runs on ambient or borrowed authority: when a delegated capability lets a tool run,
the call names the resource and the operation of the mint, and the policy had granted the
subject that very tool on that resource.\<close>

theorem invocation_traces_to_policy:
  assumes "go_capability (fst (mint s gs r opn lease g)) = Some c" "derives c d"
    "go_ok (fst (invoke (Some d) tool r' opn' h))"
  shows "r' = r \<and> opn' = opn \<and> ''tool:'' @ tool \<in> allowed_grants s r g \<and> \<not> go_ok (fst (invoke None tool r' opn' h))"
proof -
  from assms(3) have d: "cap_resource d = r'" "''tool:'' @ tool \<in> set (cap_grants d)" "cap_operation d = opn'"
    by (auto simp: invoke_ok)
  note del = delegation[OF assms(1,2)]
  with d(2) have "grant_implied gs (''tool:'' @ tool)" by (simp add: list_all_iff)
  then have "''tool:'' @ tool \<in> set gs" unfolding grant_implied_def read_level_tool option.case .
  with d del show ?thesis by (auto simp: invoke_ok)
qed

subsection \<open>The log\<close>

definition logged :: "guard \<Rightarrow> guard_outcome \<Rightarrow> guard \<Rightarrow> bool" where
  "logged g out h \<longleftrightarrow> length (gd_audit h) = length (gd_audit g) + (if go_audit out then 1 else 0)"

text \<open>C23: The log agrees with the answers: minting, attenuating, declassifying and calling a tool add
exactly one event when the outcome says that the decision was audited and none otherwise, and
no operation ever removes or changes an event.\<close>

theorem audit_agrees:
  "logged g (fst (mint s gs r opn lease g)) (snd (mint s gs r opn lease g))
   \<and> logged g (fst (attenuate c gso lo g)) (snd (attenuate c gso lo g))
   \<and> logged g (fst (declassify co v g)) (snd (declassify co v g))
   \<and> logged g (fst (invoke co tool r opn g)) (snd (invoke co tool r opn g))
   \<and> prefix (gd_audit g) (gd_audit (guard_step g a))"
proof (intro conjI)
  have "later g (guard_step g a) \<or> (\<exists>n. a = Tick n)"
    using later_step[of a g] by (cases a) (auto simp: forward_def)
  then show "prefix (gd_audit g) (gd_audit (guard_step g a))"
    by (auto simp: later_def tick_def)
qed (simp_all add: logged_def mint_def attenuate_def declassify_def invoke_def deny_invoke_def Let_def)

text \<open>Not every decision is audited: refusing to declassify or to attenuate on an invalid capability
leaves the guard, its log included, exactly as it was.\<close>

theorem invalid_capability_unaudited:
  assumes "\<not> verify_cap (Some c) g"
  shows "declassify (Some c) v g = (guard_answer False ''unauthorized'' False, g)
    \<and> attenuate c gs lease g = (guard_answer False ''invalid-parent'' False, g)"
  using assms by (simp add: declassify_def bound_to_def attenuate_def)

end
