(* ===== verification/GuardCases.thy ===== *)
theory GuardCases
  imports GuardProps Cases
begin

text \<open>
  \<^verbatim>\<open>docs/book/code/capability/capability_adversarial/cases.py\<close>: the eighteen cases of the capability
  benchmark, run against the reference guard. A case is a program over a guard; the assertion of
  its helper is the error \<^verbatim>\<open>AssertionError\<close>.
\<close>

subsection \<open>Tables\<close>

definition CAPABILITY_CORPUS_VERSION :: string where
  "CAPABILITY_CORPUS_VERSION = ''capability-adversarial-v1''"

definition GUARD_CAPABILITIES :: "string list" where
  "GUARD_CAPABILITIES = [''mint-capability'', ''attenuation-monotonic'', ''resource-instance-binding'',
     ''revocation'', ''lease-expiry'', ''reveal-gating'', ''declassify-gating'', ''deny-by-default-tool'',
     ''confused-deputy-resistance'', ''audit-on-decision'', ''wire-integrity'']"

definition GUARD_GATES :: "string list" where
  "GUARD_GATES = [''unauthorized_mint'', ''forged_capability_accepted'', ''permission_widened'',
     ''lease_extended'', ''cross_resource_reveal'', ''revoked_capability_honored'', ''label_leaked'',
     ''ambient_tool_call_executed'', ''confused_deputy_exploited'', ''injected_field_accepted'']"

definition GUARD_OP :: string where "GUARD_OP = ''did:key:operator''"

definition R2 :: string where "R2 = ''customer/2''"

definition R1 :: string where "R1 = ''customer/1''"

definition guard_seeded :: guard where
  "guard_seeded = grant_policy ''did:key:analyst'' R2 {''read:internal''}
     (grant_policy GUARD_OP R2 {''read:sensitive'', ''read:internal'', ''read:public'', ''write'', ''declassify'', ''tool:search''}
       new_guard)"

subsection \<open>Scenarios\<close>

definition mint_op :: "string list \<Rightarrow> string \<Rightarrow> int \<Rightarrow> (guard, capability) act" where
  "mint_op gs opn lease =
     and_then (pure_act (mint GUARD_OP gs R2 opn lease)) (\<lambda>out.
       case go_capability out of
         Some c \<Rightarrow> ret c
       | None \<Rightarrow> throw (PyError ''AssertionError'' (go_error out)))"

definition secret :: "string \<Rightarrow> string \<Rightarrow> string \<Rightarrow> secure_value" where
  "secret l t r = \<lparr>sv_label = l, sv_cleartext = t, sv_resource = r\<rparr>"

definition gs_mint_authorized :: "(guard, bool) act" where
  "gs_mint_authorized =
     and_then the_state (\<lambda>g0.
     and_then (pure_act (mint GUARD_OP [''read:sensitive''] R2 ''job-a'' 100)) (\<lambda>out.
     and_then the_state (\<lambda>g1.
       ret (go_ok out \<and> verify_cap (go_capability out) g1 \<and> go_audit out
         \<and> length (gd_audit g1) = length (gd_audit g0) + 1))))"

definition gs_mint_denied :: "(guard, bool) act" where
  "gs_mint_denied =
     and_then (pure_act (mint ''did:key:analyst'' [''write''] R2 ''job-a'' 100)) (\<lambda>out.
       ret (\<not> go_ok out \<and> go_capability out = None \<and> go_error out = ''policy-denied''))"

definition gs_forged :: "(guard, bool) act" where
  "gs_forged =
     and_then (mint_op [''read:sensitive''] ''job-a'' 100) (\<lambda>c.
       let forged = c\<lparr>cap_grants := [''read:sensitive'', ''write'', ''tool:search'']\<rparr>
       in and_then the_state (\<lambda>g.
          if verify_cap (Some forged) g then ret False
          else and_then (pure_act (invoke (Some forged) ''search'' R2 ''job-a'')) (\<lambda>out. ret (\<not> go_ok out))))"

definition gs_attenuate_narrows :: "(guard, bool) act" where
  "gs_attenuate_narrows =
     and_then (mint_op [''read:sensitive'', ''write'', ''tool:search''] ''job-a'' 100) (\<lambda>c.
     and_then (pure_act (attenuate c (Some [''read:internal'']) (Some 10))) (\<lambda>out.
     and_then the_state (\<lambda>g.
       ret (go_ok out \<and> verify_cap (go_capability out) g
         \<and> (case go_capability out of None \<Rightarrow> False
            | Some d \<Rightarrow> set (cap_grants d) = {''read:internal''} \<and> cap_expiry d \<le> cap_expiry c)))))"

definition gs_widen :: "(guard, bool) act" where
  "gs_widen =
     and_then (mint_op [''read:internal''] ''job-a'' 100) (\<lambda>c.
     and_then (pure_act (attenuate c (Some [''read:internal'', ''write'']) None)) (\<lambda>out.
       ret (\<not> go_ok out \<and> go_capability out = None \<and> go_error out = ''permission-widened'')))"

definition gs_extend :: "(guard, bool) act" where
  "gs_extend =
     and_then (mint_op [''read:internal''] ''job-a'' 10) (\<lambda>c.
     and_then (pure_act (attenuate c None (Some 1000))) (\<lambda>out.
       ret (\<not> go_ok out \<and> go_capability out = None \<and> go_error out = ''lease-extended'')))"

definition gs_instance_bound :: "(guard, bool) act" where
  "gs_instance_bound =
     and_then (mint_op [''read:internal''] ''job-a'' 100) (\<lambda>c.
     and_then (reveal (Some c) (secret ''internal'' ''the-secret'' R2)) (\<lambda>out.
       ret (go_ok out \<and> go_revealed out = Some ''the-secret'')))"

definition gs_cross_resource :: "(guard, bool) act" where
  "gs_cross_resource =
     and_then (mint_op [''read:internal''] ''job-a'' 100) (\<lambda>c.
     and_then (reveal (Some c) (secret ''internal'' ''other-customer-secret'' R1)) (\<lambda>out.
       ret (\<not> go_ok out \<and> go_revealed out = Some REDACTED)))"

text \<open>mint, reveal, end the authority, reveal again\<close>

definition gs_revocation :: "int \<Rightarrow> (capability \<Rightarrow> guard \<Rightarrow> guard) \<Rightarrow> (guard_outcome \<Rightarrow> bool) \<Rightarrow> (guard, bool) act" where
  "gs_revocation lease endit also =
     and_then (mint_op [''read:internal''] ''job-a'' lease) (\<lambda>c.
     let v = secret ''internal'' ''s'' R2
     in and_then (reveal (Some c) v) (\<lambda>before.
        and_then (pure_act (\<lambda>g. ((), endit c g))) (\<lambda>_.
        and_then (reveal (Some c) v) (\<lambda>after. ret (go_ok before \<and> \<not> go_ok after \<and> also after)))))"

definition gs_reveal_authorized :: "(guard, bool) act" where
  "gs_reveal_authorized =
     and_then (mint_op [''read:sensitive''] ''job-a'' 100) (\<lambda>c.
     and_then (reveal (Some c) (secret ''sensitive'' ''top-secret'' R2)) (\<lambda>out.
       ret (go_ok out \<and> go_revealed out = Some ''top-secret'')))"

definition gs_below_clearance :: "(guard, bool) act" where
  "gs_below_clearance =
     and_then (mint_op [''read:internal''] ''job-a'' 100) (\<lambda>c.
     and_then (reveal (Some c) (secret ''sensitive'' ''top-secret'' R2)) (\<lambda>out.
       ret (\<not> go_ok out \<and> go_revealed out = Some REDACTED \<and> go_error out = ''below-clearance'')))"

definition gs_declassify :: "(guard, bool) act" where
  "gs_declassify =
     and_then (mint_op [''read:sensitive''] ''job-a'' 100) (\<lambda>c.
     and_then (pure_act (declassify (Some c) (secret ''sensitive'' ''top-secret'' R2))) (\<lambda>out.
       ret (\<not> go_ok out \<and> go_error out = ''no-declassify-grant'')))"

definition gs_ambient :: "(guard, bool) act" where
  "gs_ambient =
     and_then (pure_act (invoke None ''search'' R2 ''job-a'')) (\<lambda>out.
       ret (\<not> go_ok out \<and> go_error out = ''ambient-denied''))"

definition gs_confused_deputy :: "(guard, bool) act" where
  "gs_confused_deputy =
     and_then (mint_op [''tool:search''] ''job-a'' 100) (\<lambda>c.
     and_then (pure_act (invoke (Some c) ''delete'' R2 ''job-b'')) (\<lambda>out.
       ret (\<not> go_ok out \<and> go_error out = ''confused-deputy'')))"

definition gs_audit :: "(guard, bool) act" where
  "gs_audit =
     and_then the_state (\<lambda>g0.
     and_then (pure_act (mint GUARD_OP [''read:internal''] R2 ''job-a'' 100)) (\<lambda>_.
     and_then (pure_act (mint ''did:key:analyst'' [''write''] R2 ''job-a'' 100)) (\<lambda>_.
     and_then the_state (\<lambda>g1. ret (length (gd_audit g1) = length (gd_audit g0) + 2)))))"

definition injected_request :: "(string, json) pydict" where
  "injected_request = [(''subject'', JStr GUARD_OP), (''grants'', JStrs [''read:internal'']), (''resource'', JStr R2),
     (''operation'', JStr ''job-a''), (''lease'', JInt 100), (''shadow_grant'', JStr ''write'')]"

definition gs_injected :: "(guard, bool) act" where
  "gs_injected g = (case request injected_request g of
       None \<Rightarrow> (Inr False, g)
     | Some (Inl e, h) \<Rightarrow> (Inl e, h)
     | Some (Inr out, h) \<Rightarrow> (Inr (\<not> go_ok out \<and> go_error out = ''unknown-fields''), h))"

definition guard_cases :: "guard suite_case list" where
  "guard_cases = [
     new_suite_case ''mint-authorized'' ''mint'' ''mint-capability''
       ''an authorized subject mints a capability, with audit'' gs_mint_authorized [],
     new_suite_case ''mint-denied-by-policy'' ''mint'' ''mint-capability''
       ''a policy-denied mint yields no capability'' gs_mint_denied ''unauthorized_mint'',
     new_suite_case ''forged-capability-rejected'' ''mint'' ''mint-capability''
       ''a capability with a tampered seal is refused'' gs_forged ''forged_capability_accepted'',
     new_suite_case ''attenuate-narrows'' ''attenuation'' ''attenuation-monotonic''
       ''attenuation drops grants and shortens the lease'' gs_attenuate_narrows [],
     new_suite_case ''widen-permission-rejected'' ''attenuation'' ''attenuation-monotonic''
       ''attenuation cannot widen a permission'' gs_widen ''permission_widened'',
     new_suite_case ''extend-lease-rejected'' ''attenuation'' ''attenuation-monotonic''
       ''attenuation cannot extend a lease'' gs_extend ''lease_extended'',
     new_suite_case ''resource-instance-bound'' ''binding'' ''resource-instance-binding''
       ''a capability reveals its bound resource instance'' gs_instance_bound [],
     new_suite_case ''cross-resource-rejected'' ''binding'' ''resource-instance-binding''
       ''a capability for one instance cannot act on another'' gs_cross_resource ''cross_resource_reveal'',
     new_suite_case ''revoke-by-id'' ''revocation'' ''revocation''
       ''a capability revoked by id stops authorizing''
       (gs_revocation 100 (\<lambda>c. revoke (cap_id c)) (\<lambda>out. go_revealed out = Some REDACTED)) ''revoked_capability_honored'',
     new_suite_case ''revoke-all-epoch'' ''revocation'' ''revocation''
       ''revoke_all invalidates outstanding capabilities mid-lease''
       (gs_revocation 1000 (\<lambda>c. revoke_all) (\<lambda>out. True)) ''revoked_capability_honored'',
     new_suite_case ''lease-expiry-enforced'' ''expiry'' ''lease-expiry''
       ''a capability past its lease is inactive''
       (gs_revocation 5 (\<lambda>c. tick 5) (\<lambda>out. True)) ''revoked_capability_honored'',
     new_suite_case ''reveal-authorized'' ''reveal'' ''reveal-gating''
       ''a matching read capability reveals the cleartext'' gs_reveal_authorized [],
     new_suite_case ''reveal-below-clearance-redacted'' ''reveal'' ''reveal-gating''
       ''a read below clearance is redacted, not disclosed'' gs_below_clearance ''label_leaked'',
     new_suite_case ''declassify-requires-grant'' ''declassify'' ''declassify-gating''
       ''lowering a label needs an explicit declassify grant'' gs_declassify ''label_leaked'',
     new_suite_case ''ambient-tool-call-denied'' ''tool'' ''deny-by-default-tool''
       ''a tool-call with no capability is refused'' gs_ambient ''ambient_tool_call_executed'',
     new_suite_case ''confused-deputy-rejected'' ''tool'' ''confused-deputy-resistance''
       ''authority for one operation cannot drive another'' gs_confused_deputy ''confused_deputy_exploited'',
     new_suite_case ''audit-on-every-decision'' ''audit'' ''audit-on-decision''
       ''both allow and deny leave a durable audit event'' gs_audit [],
     new_suite_case ''wire-injected-field-rejected'' ''wire'' ''wire-integrity''
       ''a request with a smuggled field is refused'' gs_injected ''injected_field_accepted'']"

definition run_guard_case :: "guard suite_case \<Rightarrow> bool result" where
  "run_guard_case c = run_suite_case guard_seeded c"

subsection \<open>The reference guard on its suite\<close>

lemmas guard_eval = and_then_def pure_act_def the_state_def ret_def mint_op_def secret_def Let_def
  mint_def attenuate_def reveal_def declassify_def invoke_def deny_invoke_def bound_to_def revoke_def revoke_all_def tick_def
  verify_cap_Some level_of_def LEVELS_def read_ceiling_def raise_best_def read_level_def grant_implied_def

lemma seeded_allowed:
  "allowed_grants s r guard_seeded = (if r = R2 then if s = GUARD_OP
      then {''read:sensitive'', ''read:internal'', ''read:public'', ''write'', ''declassify'', ''tool:search''}
      else if s = ''did:key:analyst'' then {''read:internal''} else {} else {})"
  by (simp add: allowed_grants_def subject_policy_def guard_seeded_def grant_policy_def new_guard_def GUARD_OP_def)

lemma seeded_fields [simp]:
  "gd_revoked guard_seeded = {}" "gd_min_epoch guard_seeded = 0" "gd_now guard_seeded = 0"
  "gd_n guard_seeded = 0" "gd_audit guard_seeded = []"
  by (simp_all add: guard_seeded_def grant_policy_def new_guard_def)

lemma guard_mint_cases:
  "fst (gs_mint_authorized guard_seeded) = Inr True" "fst (gs_mint_denied guard_seeded) = Inr True"
  by (simp_all add: gs_mint_authorized_def gs_mint_denied_def guard_eval seeded_allowed GUARD_OP_def)

lemma next_ids [simp]: "next_id (g\<lparr>gd_n := n\<rparr>) = ''cap-'' @ pad4 (n + 1)"
  by (simp add: next_id_def)

lemma guard_attenuation_cases:
  "fst (gs_attenuate_narrows guard_seeded) = Inr True" "fst (gs_widen guard_seeded) = Inr True"
  "fst (gs_extend guard_seeded) = Inr True"
  by (simp_all add: gs_attenuate_narrows_def gs_widen_def gs_extend_def guard_eval seeded_allowed GUARD_OP_def)

lemma guard_reveal_cases:
  "fst (gs_instance_bound guard_seeded) = Inr True" "fst (gs_cross_resource guard_seeded) = Inr True"
  "fst (gs_reveal_authorized guard_seeded) = Inr True" "fst (gs_below_clearance guard_seeded) = Inr True"
  "fst (gs_declassify guard_seeded) = Inr True"
  by (simp_all add: gs_instance_bound_def gs_cross_resource_def gs_reveal_authorized_def gs_below_clearance_def
      gs_declassify_def guard_eval seeded_allowed GUARD_OP_def R1_def R2_def)

lemma guard_revocation_cases:
  "fst (gs_revocation 100 (\<lambda>c. revoke (cap_id c)) (\<lambda>out. go_revealed out = Some REDACTED) guard_seeded) = Inr True"
  "fst (gs_revocation 1000 (\<lambda>c. revoke_all) (\<lambda>out. True) guard_seeded) = Inr True"
  "fst (gs_revocation 5 (\<lambda>c. tick 5) (\<lambda>out. True) guard_seeded) = Inr True"
  by (simp_all add: gs_revocation_def guard_eval seeded_allowed GUARD_OP_def)

lemma guard_tool_cases:
  "fst (gs_ambient guard_seeded) = Inr True" "fst (gs_confused_deputy guard_seeded) = Inr True"
  "fst (gs_audit guard_seeded) = Inr True"
  by (simp_all add: gs_ambient_def gs_confused_deputy_def gs_audit_def guard_eval seeded_allowed GUARD_OP_def)

lemma guard_wire_case: "fst (gs_injected guard_seeded) = Inr True"
  by (simp add: gs_injected_def injected_request_def request_def Let_def dict_keys_def REQUEST_FIELDS_def)

definition forged_widened :: capability where
  "forged_widened = \<lparr>cap_id = next_id guard_seeded, cap_subject = GUARD_OP,
     cap_grants = [''read:sensitive'', ''write'', ''tool:search''], cap_resource = R2, cap_operation = ''job-a'',
     cap_expiry = 100, cap_epoch = 0, cap_seal = []\<rparr>"

definition forged_original :: capability where
  "forged_original = forged_widened\<lparr>cap_grants := [''read:sensitive'']\<rparr>"

lemma guard_forged_case:
  "fst (gs_forged guard_seeded) = Inr (cap_mac ENGINE_KEY forged_widened \<noteq> cap_mac ENGINE_KEY forged_original)"
  by (simp add: gs_forged_def guard_eval seeded_allowed GUARD_OP_def genuine_seal forged_original_def forged_widened_def
     sealed_def cap_mac_def cap_body_def)

text \<open>The reference guard passes its suite: every one of the eighteen cases returns true on the seeded
guard, the forgery case exactly when the code of the engine tells the widened body from the
original one.\<close>

theorem guard_passes_all_cases:
  "map run_guard_case guard_cases = map (\<lambda>c. Inr (if sc_id c = ''forged-capability-rejected''
     then cap_mac ENGINE_KEY forged_widened \<noteq> cap_mac ENGINE_KEY forged_original else True)) guard_cases"
  by (simp add: guard_cases_def run_guard_case_def run_suite_case_def new_suite_case_def guard_mint_cases guard_forged_case
      guard_attenuation_cases guard_reveal_cases guard_revocation_cases guard_tool_cases guard_wire_case)

subsection \<open>Witnesses\<close>

text \<open>the first capability of the operator on the seeded guard, and the guard after the mint\<close>

definition demo_cap :: capability where
  "demo_cap = sealed ENGINE_KEY \<lparr>cap_id = next_id guard_seeded, cap_subject = GUARD_OP,
     cap_grants = [''read:sensitive'', ''tool:search''], cap_resource = R2, cap_operation = ''job-a'', cap_expiry = 100,
     cap_epoch = 0, cap_seal = []\<rparr>"

definition demo_guard :: guard where
  "demo_guard = snd (mint GUARD_OP [''tool:search'', ''read:sensitive''] R2 ''job-a'' 100 guard_seeded)"

lemma demo_mint: "go_capability (fst (mint GUARD_OP [''tool:search'', ''read:sensitive''] R2 ''job-a'' 100 guard_seeded)) = Some demo_cap"
  by (simp add: mint_def seeded_allowed demo_cap_def Let_def)

lemma demo_fields [simp]:
  "gd_revoked demo_guard = {}" "gd_min_epoch demo_guard = 0" "gd_now demo_guard = 0" "gd_n demo_guard = 1"
  by (simp_all add: demo_guard_def mint_def seeded_allowed Let_def)

lemma demo_valid: "verify_cap (Some demo_cap) demo_guard"
  by (simp add: verify_cap_Some demo_cap_def)

lemma demo_ids: "cap_id demo_cap = ''cap-0001''" "next_id demo_guard = ''cap-0002''"
  by (simp_all add: demo_cap_def next_id_def pad4_def nat_str.simps Let_def eval_nat_numeral) code_simp+

theorem delegation_within_policy_witness:
  "list_all (grant_implied [''tool:search'', ''read:sensitive'']) (cap_grants demo_cap)"
  using delegation_within_policy[OF demo_mint derives_refl] by blast

theorem dead_capability_stays_dead_witness:
  "\<not> verify_cap (Some demo_cap) (foldl guard_step (revoke (cap_id demo_cap) demo_guard)
     [Restart, Tick 3, GrantPolicy GUARD_OP R2 {''write''}, Mint GUARD_OP [''write''] R2 ''job-b'' 10])"
  by (rule dead_capability_stays_dead) (simp_all add: forward_def verify_cap_Some revoke_def)

theorem revoke_all_kills_delegations_witness:
  "\<not> verify_cap (Some demo_cap) (foldl guard_step (snd (mint GUARD_OP [''tool:search'', ''read:sensitive''] R2 ''job-a'' 100 guard_seeded))
     ([Tick 1] @ RevokeAll # [Restart]))"
  by (rule revoke_all_kills_delegations[OF demo_mint derives_refl]) (simp_all add: forward_def)

theorem copy_survives_revocation_witness:
  "\<exists>d. go_capability (fst (attenuate demo_cap None None demo_guard)) = Some d
    \<and> verify_cap (Some d) (revoke (cap_id demo_cap) (snd (attenuate demo_cap None None demo_guard)))"
  using copy_survives_revocation[OF demo_valid] by (auto simp: demo_ids)

lemma demo_reveal: "fst (reveal (Some demo_cap) (secret ''sensitive'' ''top-secret'' R2) demo_guard)
    = Inr ((guard_answer True [] True)\<lparr>go_revealed := Some ''top-secret''\<rparr>)"
proof -
  have "read_ceiling (cap_grants demo_cap) = 2" "cap_resource demo_cap = R2"
    by (simp_all add: demo_cap_def read_ceiling_def raise_best_def read_level_def LEVELS_def)
  moreover have "level_of ''sensitive'' = Inr 2" by (simp add: level_of_def LEVELS_def)
  ultimately show ?thesis
    using demo_valid by (simp add: reveal_def bound_to_def secret_def)
qed

theorem disclosure_traces_to_policy_witness:
  "set [''tool:search'', ''read:sensitive''] \<subseteq> allowed_grants GUARD_OP R2 guard_seeded"
  using disclosure_traces_to_policy[OF demo_mint derives_refl demo_reveal] by simp

theorem invocation_traces_to_policy_witness:
  "''tool:'' @ ''search'' \<in> allowed_grants GUARD_OP R2 guard_seeded"
proof -
  have "go_ok (fst (invoke (Some demo_cap) ''search'' R2 ''job-a'' demo_guard))"
    using demo_valid by (simp add: invoke_ok) (simp add: demo_cap_def)
  from invocation_traces_to_policy[OF demo_mint derives_refl this] show ?thesis by blast
qed

theorem invalid_capability_unaudited_witness:
  "attenuate demo_cap None None (revoke ''cap-0001'' demo_guard)
    = (guard_answer False ''invalid-parent'' False, revoke ''cap-0001'' demo_guard)"
proof -
  have "\<not> verify_cap (Some demo_cap) (revoke ''cap-0001'' demo_guard)"
    by (simp add: verify_cap_Some revoke_def demo_ids)
  from invalid_capability_unaudited[OF this] show ?thesis by blast
qed

end
