(* ===== verification/Catalog.thy ===== *)
theory Catalog
  imports Suite
begin

text \<open>
  \<^verbatim>\<open>docs/book/code/catalog-provenance/catalog_provenance/backend.py\<close>: the reference catalog, whose
  transactions advance a metadata pointer by compare-and-swap and leave receipts and evidence.
\<close>

subsection \<open>Digests\<close>

definition CATALOG_DOMAIN :: string where "CATALOG_DOMAIN = ''querygraph.catalog-provenance.v1''"

definition MAX_TEXT :: nat where "MAX_TEXT = 4096"

definition catalog_digest :: "plain list \<Rightarrow> string" where
  "catalog_digest parts = domain_digest CATALOG_DOMAIN parts"

definition policy_digest :: "string \<Rightarrow> string" where
  "policy_digest policy = ''sha256:'' @ sha256_hex (''policy'' @ [CHR 0x00] @ policy)"

subsection \<open>Receipts\<close>

record receipt =
  rc_table :: string
  rc_op :: string
  rc_previous_metadata :: string
  rc_new_metadata :: string
  rc_snapshot_id :: int
  rc_principal :: string
  rc_policy_hash :: string
  rc_idempotency_key :: string
  rc_request_hash :: string
  rc_response_hash :: string
  rc_prev_receipt :: string
  rc_receipt_hash :: string

definition receipt_body :: "receipt \<Rightarrow> plain list" where
  "receipt_body r = [PText ''receipt'', PText (rc_table r), PText (rc_op r), PText (rc_previous_metadata r),
     PText (rc_new_metadata r), PInt (rc_snapshot_id r), PText (rc_principal r), PText (rc_policy_hash r),
     PText (rc_idempotency_key r), PText (rc_request_hash r), PText (rc_response_hash r),
     PText (rc_prev_receipt r)]"

definition receipt_sealed :: "receipt \<Rightarrow> receipt" where
  "receipt_sealed r = r\<lparr>rc_receipt_hash := catalog_digest (receipt_body r)\<rparr>"

definition receipt_verifies :: "receipt \<Rightarrow> bool" where
  "receipt_verifies r \<longleftrightarrow> rc_receipt_hash (receipt_sealed r) = rc_receipt_hash r"

record scan_receipt =
  sn_table :: string
  sn_principal :: string
  sn_policy_hashes :: "string list"
  sn_snapshot_id :: int
  sn_receipt_hash :: string

definition scan_sealed :: "scan_receipt \<Rightarrow> scan_receipt" where
  "scan_sealed r = r\<lparr>sn_receipt_hash := catalog_digest [PText ''scan'', PText (sn_table r), PText (sn_principal r),
     PList (map PText (sn_policy_hashes r)), PInt (sn_snapshot_id r)]\<rparr>"

definition scan_verifies :: "scan_receipt \<Rightarrow> string list \<Rightarrow> bool" where
  "scan_verifies r expected \<longleftrightarrow> sn_policy_hashes r \<noteq> [] \<and> sn_policy_hashes r = expected
     \<and> sn_receipt_hash (scan_sealed r) = sn_receipt_hash r"

subsection \<open>Data\<close>

record catalog_outcome =
  co_ok :: bool
  co_error :: string
  co_receipt :: "receipt option"
  co_scan_receipt :: "scan_receipt option"
  co_audit :: bool
  co_outbox :: bool
  co_lineage :: bool

definition catalog_answer :: "bool \<Rightarrow> string \<Rightarrow> catalog_outcome" where
  "catalog_answer ok e = \<lparr>co_ok = ok, co_error = e, co_receipt = None, co_scan_receipt = None, co_audit = False,
     co_outbox = False, co_lineage = False\<rparr>"

record cat_table =
  ct_metadata :: string
  ct_snapshot_id :: int
  ct_head_receipt :: string
  ct_tombstoned :: bool

definition new_table :: "string \<Rightarrow> int \<Rightarrow> string \<Rightarrow> cat_table" where
  "new_table m n h = \<lparr>ct_metadata = m, ct_snapshot_id = n, ct_head_receipt = h, ct_tombstoned = False\<rparr>"

record catalog =
  cg_tables :: "(string, cat_table) pydict"
  cg_idempotency :: "(string, catalog_outcome) pydict"
  cg_audit :: "string list"
  cg_outbox :: "string list"
  cg_lineage :: "string list"
  cg_receipts :: "(string, receipt) pydict"

definition new_catalog :: catalog where
  "new_catalog = \<lparr>cg_tables = [], cg_idempotency = [], cg_audit = [], cg_outbox = [], cg_lineage = [], cg_receipts = []\<rparr>"

subsection \<open>Operations\<close>

definition bad_text :: "string list \<Rightarrow> bool" where
  "bad_text vs \<longleftrightarrow> list_ex (\<lambda>v. py_len v > MAX_TEXT) vs"

definition pointer :: "string \<Rightarrow> catalog \<Rightarrow> string" where
  "pointer t g = (case dict_get (cg_tables g) t of None \<Rightarrow> [] | Some e \<Rightarrow> ct_metadata e)"

definition live_table :: "string \<Rightarrow> catalog \<Rightarrow> cat_table option" where
  "live_table t g = (case dict_get (cg_tables g) t of None \<Rightarrow> None
     | Some e \<Rightarrow> if ct_tombstoned e then None else Some e)"

definition create :: "string \<Rightarrow> string \<Rightarrow> catalog \<Rightarrow> catalog_outcome \<times> catalog" where
  "create t who g =
     (catalog_answer True [],
      g\<lparr>cg_tables := dict_set t (new_table (catalog_digest [PText ''meta'', PText t, PInt 0]) 0 []) (cg_tables g)\<rparr>)"

text \<open>the receipt of an accepted commit on a table\<close>

definition commit_receipt :: "string \<Rightarrow> cat_table \<Rightarrow> string \<Rightarrow> string \<Rightarrow> string \<Rightarrow> string \<Rightarrow> string \<Rightarrow> receipt" where
  "commit_receipt t e update who policy nonce key =
     (let n = ct_snapshot_id e + 1;
          m = catalog_digest [PText ''meta'', PText t, PInt n, PText update]
      in receipt_sealed \<lparr>rc_table = t, rc_op = ''commit'', rc_previous_metadata = ct_metadata e, rc_new_metadata = m,
           rc_snapshot_id = n, rc_principal = who, rc_policy_hash = policy_digest policy, rc_idempotency_key = key,
           rc_request_hash = catalog_digest [PText ''request'', PText t, PText (ct_metadata e), PText update, PText nonce],
           rc_response_hash = catalog_digest [PText ''response'', PText t, PText m, PInt n],
           rc_prev_receipt = ct_head_receipt e, rc_receipt_hash = []\<rparr>)"

definition evidence :: "string \<Rightarrow> receipt \<Rightarrow> string" where
  "evidence kind r = catalog_digest [PText kind, PText (rc_receipt_hash r)]"

text \<open>the table and the evidence of an accepted transition, staged together\<close>

definition stage :: "string \<Rightarrow> cat_table \<Rightarrow> receipt \<Rightarrow> bool \<Rightarrow> catalog \<Rightarrow> catalog" where
  "stage t e r lineage g = g\<lparr>cg_tables := dict_set t e (cg_tables g),
     cg_receipts := dict_set (rc_receipt_hash r) r (cg_receipts g),
     cg_audit := cg_audit g @ [evidence ''audit'' r], cg_outbox := cg_outbox g @ [evidence ''outbox'' r],
     cg_lineage := cg_lineage g @ (if lineage then [evidence ''lineage'' r] else [])\<rparr>"

definition commit :: "string \<Rightarrow> string \<Rightarrow> string \<Rightarrow> string \<Rightarrow> string \<Rightarrow> string \<Rightarrow> string \<Rightarrow> catalog
    \<Rightarrow> catalog_outcome \<times> catalog" where
  "commit t expected update who policy nonce key g =
     (if bad_text [update, policy] then (catalog_answer False ''oversized'', g)
      else case (if key \<noteq> [] then dict_get (cg_idempotency g) key else None) of
        Some out \<Rightarrow> (out, g)
      | None \<Rightarrow>
          (case live_table t g of
             None \<Rightarrow> (catalog_answer False ''no-such-table'', g)
           | Some e \<Rightarrow>
               if expected \<noteq> ct_metadata e then (catalog_answer False ''stale-metadata'', g)
               else
                 let r = commit_receipt t e update who policy nonce key;
                     e' = e\<lparr>ct_metadata := rc_new_metadata r, ct_snapshot_id := rc_snapshot_id r,
                       ct_head_receipt := rc_receipt_hash r\<rparr>;
                     out = (catalog_answer True [])\<lparr>co_receipt := Some r, co_audit := True, co_outbox := True,
                       co_lineage := True\<rparr>;
                     g' = stage t e' r True g
                 in (out, if key \<noteq> [] then g'\<lparr>cg_idempotency := dict_set key out (cg_idempotency g')\<rparr> else g')))"

definition scan :: "string \<Rightarrow> string \<Rightarrow> string \<Rightarrow> catalog \<Rightarrow> catalog_outcome" where
  "scan t who policy g =
     (case live_table t g of
        None \<Rightarrow> catalog_answer False ''no-such-table''
      | Some e \<Rightarrow> (catalog_answer True [])\<lparr>co_scan_receipt := Some (scan_sealed \<lparr>sn_table = t, sn_principal = who,
          sn_policy_hashes = [policy_digest policy], sn_snapshot_id = ct_snapshot_id e, sn_receipt_hash = []\<rparr>)\<rparr>)"

definition tombstone_receipt :: "string \<Rightarrow> cat_table \<Rightarrow> string \<Rightarrow> string \<Rightarrow> string \<Rightarrow> receipt" where
  "tombstone_receipt t e who policy nonce =
     receipt_sealed \<lparr>rc_table = t, rc_op = ''tombstone'', rc_previous_metadata = ct_metadata e,
       rc_new_metadata = catalog_digest [PText ''meta'', PText t, PText ''tombstone''],
       rc_snapshot_id = ct_snapshot_id e, rc_principal = who, rc_policy_hash = policy_digest policy,
       rc_idempotency_key = [],
       rc_request_hash = catalog_digest [PText ''request'', PText t, PText ''drop'', PText nonce],
       rc_response_hash = catalog_digest [PText ''response'', PText ''dropped''],
       rc_prev_receipt = ct_head_receipt e, rc_receipt_hash = []\<rparr>"

definition tombstone :: "string \<Rightarrow> string \<Rightarrow> string \<Rightarrow> string \<Rightarrow> catalog \<Rightarrow> catalog_outcome \<times> catalog" where
  "tombstone t who policy nonce g =
     (case live_table t g of
        None \<Rightarrow> (catalog_answer False ''no-such-table'', g)
      | Some e \<Rightarrow>
          let r = tombstone_receipt t e who policy nonce
          in ((catalog_answer True [])\<lparr>co_receipt := Some r, co_audit := True, co_outbox := True\<rparr>,
              stage t (e\<lparr>ct_tombstoned := True, ct_head_receipt := rc_receipt_hash r\<rparr>) r False g))"

definition replay :: "receipt \<Rightarrow> catalog \<Rightarrow> bool" where
  "replay r g \<longleftrightarrow> receipt_verifies r \<and> dict_get (cg_receipts g) (rc_receipt_hash r) \<noteq> None"

definition restart_catalog :: "catalog \<Rightarrow> catalog" where
  "restart_catalog g = new_catalog\<lparr>cg_tables := cg_tables g, cg_idempotency := cg_idempotency g, cg_audit := cg_audit g,
     cg_outbox := cg_outbox g, cg_lineage := cg_lineage g, cg_receipts := cg_receipts g\<rparr>"

end
