(* ===== verification/CatalogProps.thy ===== *)
theory CatalogProps
  imports Catalog "HOL-Library.Sublist"
begin

text \<open>
  What the catalog guarantees over every sequence of operations: the receipts it keeps are genuine and
  chained, the trails of evidence agree with them, an idempotency record answers forever, and
  a receipt that replays is the recorded one unless the digest collides.
\<close>

datatype catalog_op =
    Create string string
  | Commit string string string string string string string
  | Tombstone string string string string
  | Restart

fun catalog_step :: "catalog \<Rightarrow> catalog_op \<Rightarrow> catalog" where
  "catalog_step g (Create t who) = snd (create t who g)"
| "catalog_step g (Commit t expected update who policy nonce key) =
     snd (commit t expected update who policy nonce key g)"
| "catalog_step g (Tombstone t who policy nonce) = snd (tombstone t who policy nonce g)"
| "catalog_step g Restart = restart_catalog g"

lemma restart_catalog_id [simp]: "restart_catalog g = g"
  by (cases g) (simp add: restart_catalog_def new_catalog_def)

lemma catalog_answer_fields [simp]:
  "co_ok (catalog_answer ok e) = ok" "co_error (catalog_answer ok e) = e" "co_receipt (catalog_answer ok e) = None"
  by (simp_all add: catalog_answer_def)

text \<open>An operation does nothing, resets a table, or stages one transition.\<close>

definition transition :: "string \<Rightarrow> cat_table \<Rightarrow> receipt \<Rightarrow> bool" where
  "transition t e r \<longleftrightarrow> (\<exists>update who policy nonce key. r = commit_receipt t e update who policy nonce key)
     \<or> (\<exists>who policy nonce. r = tombstone_receipt t e who policy nonce)"

definition moved :: "cat_table \<Rightarrow> receipt \<Rightarrow> cat_table" where
  "moved e r = (if rc_op r = ''commit''
     then e\<lparr>ct_metadata := rc_new_metadata r, ct_snapshot_id := rc_snapshot_id r, ct_head_receipt := rc_receipt_hash r\<rparr>
     else e\<lparr>ct_tombstoned := True, ct_head_receipt := rc_receipt_hash r\<rparr>)"

lemma receipt_ops [simp]:
  "rc_op (commit_receipt t e u w p n k) = ''commit''" "rc_op (tombstone_receipt t e w p n) = ''tombstone''"
  "rc_prev_receipt (commit_receipt t e u w p n k) = ct_head_receipt e"
  "rc_prev_receipt (tombstone_receipt t e w p n) = ct_head_receipt e"
  "rc_table (commit_receipt t e u w p n k) = t" "rc_table (tombstone_receipt t e w p n) = t"
  "rc_snapshot_id (commit_receipt t e u w p n k) = ct_snapshot_id e + 1"
  by (simp_all add: commit_receipt_def tombstone_receipt_def receipt_sealed_def Let_def)

lemma transition_intros [simp]:
  "transition t e (commit_receipt t e u w p n k)" "transition t e (tombstone_receipt t e w p n)"
  unfolding transition_def by blast+

lemma moved_simps:
  "moved e (commit_receipt t e u w p n k) = e\<lparr>ct_metadata := rc_new_metadata (commit_receipt t e u w p n k),
     ct_snapshot_id := rc_snapshot_id (commit_receipt t e u w p n k),
     ct_head_receipt := rc_receipt_hash (commit_receipt t e u w p n k)\<rparr>"
  "moved e (tombstone_receipt t e w p n) = e\<lparr>ct_tombstoned := True,
     ct_head_receipt := rc_receipt_hash (tombstone_receipt t e w p n)\<rparr>"
  unfolding moved_def by simp_all

lemma sealed_verifies: "receipt_verifies (receipt_sealed r)"
  by (simp add: receipt_verifies_def receipt_sealed_def receipt_body_def)

lemma transition_verifies: "transition t e r \<Longrightarrow> receipt_verifies r"
  by (auto simp: transition_def commit_receipt_def tombstone_receipt_def Let_def sealed_verifies)

lemma transition_prev: "transition t e r \<Longrightarrow> rc_prev_receipt r = ct_head_receipt e"
  by (auto simp: transition_def)

lemma commit_cases:
  obtains (oversized) "bad_text [u, p]" "commit t x u w p n k g = (catalog_answer False ''oversized'', g)"
    | (retry) out where "\<not> bad_text [u, p]" "k \<noteq> []" "dict_get (cg_idempotency g) k = Some out"
        "commit t x u w p n k g = (out, g)"
    | (missing) "live_table t g = None" "commit t x u w p n k g = (catalog_answer False ''no-such-table'', g)"
    | (stale) e where "live_table t g = Some e" "x \<noteq> ct_metadata e"
        "commit t x u w p n k g = (catalog_answer False ''stale-metadata'', g)"
    | (accepted) e r out where "\<not> bad_text [u, p]" "k \<noteq> [] \<longrightarrow> dict_get (cg_idempotency g) k = None"
        "live_table t g = Some e" "x = ct_metadata e" "r = commit_receipt t e u w p n k"
        "out = (catalog_answer True [])\<lparr>co_receipt := Some r, co_audit := True, co_outbox := True, co_lineage := True\<rparr>"
        "commit t x u w p n k g = (out, (stage t (moved e r) r True g)\<lparr>cg_idempotency :=
           (if k \<noteq> [] then dict_set k out (cg_idempotency g) else cg_idempotency g)\<rparr>)"
proof (cases "bad_text [u, p]")
  case True
  then show thesis by (intro oversized) (simp_all add: commit_def)
next
  case small: False
  show thesis
  proof (cases "if k \<noteq> [] then dict_get (cg_idempotency g) k else None")
    case (Some out)
    with small show thesis by (intro retry[of out]) (simp_all add: commit_def split: if_splits)
  next
    case fresh: None
    show thesis
    proof (cases "live_table t g")
      case None
      with small fresh show thesis by (intro missing) (simp_all add: commit_def)
    next
      case (Some e)
      show thesis
      proof (cases "x = ct_metadata e")
        case False
        with Some small fresh show thesis by (intro stale[of e]) (simp_all add: commit_def)
      next
        case True
        with Some small fresh show thesis
          by (intro accepted) (auto simp: commit_def moved_simps Let_def stage_def split: if_splits)
      qed
    qed
  qed
qed

lemma tombstone_cases:
  obtains (missing) "live_table t g = None" "tombstone t w p n g = (catalog_answer False ''no-such-table'', g)"
    | (dropped) e r where "live_table t g = Some e" "r = tombstone_receipt t e w p n"
        "tombstone t w p n g = ((catalog_answer True [])\<lparr>co_receipt := Some r, co_audit := True, co_outbox := True\<rparr>,
           stage t (moved e r) r False g)"
proof (cases "live_table t g")
  case None
  then show thesis by (intro missing) (simp_all add: tombstone_def)
next
  case (Some e)
  then show thesis by (intro dropped[OF Some refl]) (simp add: tombstone_def moved_simps Let_def)
qed

lemma live_table_Some: "live_table t g = Some e \<longleftrightarrow> dict_get (cg_tables g) t = Some e \<and> \<not> ct_tombstoned e"
  by (auto simp: live_table_def split: option.splits if_splits)

lemma step_cases:
  obtains (idle) "catalog_step g a = g"
    | (reset) t where "catalog_step g a = g\<lparr>cg_tables := dict_set t
         (new_table (catalog_digest [PText ''meta'', PText t, PInt 0]) 0 []) (cg_tables g)\<rparr>"
    | (transit) t e r idem where "live_table t g = Some e" "transition t e r"
        "catalog_step g a = (stage t (moved e r) r (rc_op r = ''commit'') g)\<lparr>cg_idempotency := idem\<rparr>"
        "\<forall>k out. dict_get (cg_idempotency g) k = Some out \<longrightarrow> k \<noteq> [] \<longrightarrow> dict_get idem k = Some out"
proof (cases a)
  case (Create t who)
  then show thesis by (intro reset) (simp add: create_def)
next
  case (Commit t x u w p n k)
  show thesis
  proof (cases rule: commit_cases[of u p t x w n k g])
    case (accepted e r out)
    then show thesis
      by (intro transit[of t e r "if k \<noteq> [] then dict_set k out (cg_idempotency g) else cg_idempotency g"])
        (auto simp: Commit)
  qed (simp_all add: Commit idle)
next
  case (Tombstone t w p n)
  show thesis
  proof (cases rule: tombstone_cases[of t g w p n])
    case (dropped e r)
    then show thesis
      by (intro transit[of t e r "cg_idempotency g"]) (auto simp: Tombstone stage_def)
  qed (simp add: Tombstone idle)
next
  case Restart
  then show thesis by (simp add: idle)
qed

text \<open>
  The interface of a system that keeps an invariant: what one operation keeps, every sequence of
  operations keeps.
\<close>

locale stepwise =
  fixes step :: "'s \<Rightarrow> 'o \<Rightarrow> 's" and inv :: "'s \<Rightarrow> bool"
  assumes step_keeps: "inv s \<Longrightarrow> inv (step s a)"
begin

lemma run_keeps: "inv s \<Longrightarrow> inv (foldl step s ops)"
  by (induction ops arbitrary: s) (auto intro: step_keeps)

end

subsection \<open>The invariant\<close>

definition recorded :: "catalog \<Rightarrow> string \<Rightarrow> bool" where
  "recorded g h \<longleftrightarrow> dict_get (cg_receipts g) h \<noteq> None"

definition receipts_ok :: "catalog \<Rightarrow> bool" where
  "receipts_ok g \<longleftrightarrow> (\<forall>h r. dict_get (cg_receipts g) h = Some r \<longrightarrow> rc_receipt_hash r = h \<and> receipt_verifies r
     \<and> (rc_prev_receipt r = [] \<or> recorded g (rc_prev_receipt r)))"

definition heads_ok :: "catalog \<Rightarrow> bool" where
  "heads_ok g \<longleftrightarrow> (\<forall>t e. dict_get (cg_tables g) t = Some e \<longrightarrow> ct_head_receipt e = [] \<or> recorded g (ct_head_receipt e))"

definition trails_ok :: "catalog \<Rightarrow> bool" where
  "trails_ok g \<longleftrightarrow> (\<exists>rs. list_all (\<lambda>r. receipt_verifies r \<and> recorded g (rc_receipt_hash r)) rs
     \<and> cg_audit g = map (evidence ''audit'') rs \<and> cg_outbox g = map (evidence ''outbox'') rs
     \<and> cg_lineage g = map (evidence ''lineage'') (filter (\<lambda>r. rc_op r = ''commit'') rs))"

definition catalog_ok :: "catalog \<Rightarrow> bool" where
  "catalog_ok g \<longleftrightarrow> receipts_ok g \<and> heads_ok g \<and> trails_ok g"

lemma recorded_stage [simp]: "recorded ((stage t e r l g)\<lparr>cg_idempotency := i\<rparr>) h \<longleftrightarrow> h = rc_receipt_hash r \<or> recorded g h"
  by (auto simp: recorded_def stage_def)

lemma stage_fields [simp]:
  "cg_tables (stage t e r l g) = dict_set t e (cg_tables g)"
  "cg_receipts (stage t e r l g) = dict_set (rc_receipt_hash r) r (cg_receipts g)"
  "cg_audit (stage t e r l g) = cg_audit g @ [evidence ''audit'' r]"
  "cg_outbox (stage t e r l g) = cg_outbox g @ [evidence ''outbox'' r]"
  "cg_lineage (stage t e r l g) = cg_lineage g @ (if l then [evidence ''lineage'' r] else [])"
  by (simp_all add: stage_def)

lemma moved_head [simp]: "ct_head_receipt (moved e r) = rc_receipt_hash r"
  by (simp add: moved_def)

lemma catalog_ok_reset:
  "catalog_ok g \<Longrightarrow> catalog_ok (g\<lparr>cg_tables := dict_set t (new_table m 0 []) (cg_tables g)\<rparr>)"
  by (auto simp: catalog_ok_def receipts_ok_def heads_ok_def trails_ok_def recorded_def new_table_def)

lemma catalog_ok_transit:
  assumes g: "catalog_ok g" and e: "live_table t g = Some e" and r: "transition t e r"
  shows "catalog_ok ((stage t (moved e r) r (rc_op r = ''commit'') g)\<lparr>cg_idempotency := i\<rparr>)" (is "catalog_ok ?h")
proof -
  have head: "ct_head_receipt e = [] \<or> recorded g (ct_head_receipt e)"
    using g e by (auto simp: catalog_ok_def heads_ok_def live_table_Some)
  have "receipts_ok ?h"
    using g head transition_verifies[OF r] transition_prev[OF r] by (auto simp: catalog_ok_def receipts_ok_def)
  moreover have "heads_ok ?h"
    using g by (auto simp: catalog_ok_def heads_ok_def)
  moreover have "trails_ok ?h"
  proof -
    from g obtain rs where rs: "list_all (\<lambda>r. receipt_verifies r \<and> recorded g (rc_receipt_hash r)) rs"
      "cg_audit g = map (evidence ''audit'') rs" "cg_outbox g = map (evidence ''outbox'') rs"
      "cg_lineage g = map (evidence ''lineage'') (filter (\<lambda>r. rc_op r = ''commit'') rs)"
      by (auto simp: catalog_ok_def trails_ok_def)
    with transition_verifies[OF r] show ?thesis
      unfolding trails_ok_def by (intro exI[of _ "rs @ [r]"]) (auto simp: list_all_iff)
  qed
  ultimately show ?thesis by (simp add: catalog_ok_def)
qed

interpretation catalog: stepwise catalog_step catalog_ok
proof
  fix g a
  assume "catalog_ok g"
  then show "catalog_ok (catalog_step g a)"
    by (cases rule: step_cases[of g a]) (auto intro: catalog_ok_reset catalog_ok_transit)
qed

lemma new_catalog_ok: "catalog_ok new_catalog"
  by (auto simp: catalog_ok_def receipts_ok_def heads_ok_def trails_ok_def new_catalog_def)

definition run_catalog :: "catalog_op list \<Rightarrow> catalog" where
  "run_catalog ops = foldl catalog_step new_catalog ops"

lemma run_catalog_ok: "catalog_ok (run_catalog ops)"
  unfolding run_catalog_def by (rule catalog.run_keeps[OF new_catalog_ok])

subsection \<open>The evidence of a history\<close>

text \<open>
  What happened to the tables, in order: a table was created, or a transition was answered with its
  receipt. A commit with the key of an earlier receipt is a retry and is no event; nor is a restart.
\<close>

type_synonym event = "string \<times> receipt option"

definition receipts_in :: "event list \<Rightarrow> receipt list" where
  "receipts_in es = concat (map (\<lambda>(t, x). case x of None \<Rightarrow> [] | Some r \<Rightarrow> [r]) es)"

fun events_of :: "event list \<Rightarrow> catalog \<Rightarrow> catalog_op \<Rightarrow> event list" where
  "events_of es g (Create t who) = [(t, None)]"
| "events_of es g (Commit t expected update who policy nonce key) =
     (if key \<noteq> [] \<and> key \<in> rc_idempotency_key ` set (receipts_in es) then []
      else case co_receipt (fst (commit t expected update who policy nonce key g)) of None \<Rightarrow> [] | Some r \<Rightarrow> [(t, Some r)])"
| "events_of es g (Tombstone t who policy nonce) =
     (case co_receipt (fst (tombstone t who policy nonce g)) of None \<Rightarrow> [] | Some r \<Rightarrow> [(t, Some r)])"
| "events_of es g Restart = []"

fun history :: "event list \<Rightarrow> catalog \<Rightarrow> catalog_op list \<Rightarrow> event list" where
  "history es g [] = es"
| "history es g (a # ops) = history (es @ events_of es g a) (catalog_step g a) ops"

text \<open>the head of a table after some events: empty when it was just created, else its last receipt\<close>

definition head_in :: "event list \<Rightarrow> string \<Rightarrow> string option" where
  "head_in es t = (case find (\<lambda>e. fst e = t) (rev es) of
       None \<Rightarrow> None
     | Some (_, None) \<Rightarrow> Some []
     | Some (_, Some r) \<Rightarrow> Some (rc_receipt_hash r))"

text \<open>
  The evidence a catalog must hold of a history: the three logs are the digests of its receipts, none
  left out and none added; the receipts kept are those of the history, under their own hashes; each is
  genuine, belongs to its table and names the head that the table had before; and the heads of the
  tables, no others, are those of the history.
\<close>

definition evidence_of :: "event list \<Rightarrow> catalog \<Rightarrow> bool" where
  "evidence_of es g \<longleftrightarrow>
     cg_audit g = map (\<lambda>r. catalog_digest [PText ''audit'', PText (rc_receipt_hash r)]) (receipts_in es)
     \<and> cg_outbox g = map (\<lambda>r. catalog_digest [PText ''outbox'', PText (rc_receipt_hash r)]) (receipts_in es)
     \<and> cg_lineage g = map (\<lambda>r. catalog_digest [PText ''lineage'', PText (rc_receipt_hash r)])
         (filter (\<lambda>r. rc_op r = ''commit'') (receipts_in es))
     \<and> (\<forall>r \<in> set (receipts_in es). dict_get (cg_receipts g) (rc_receipt_hash r) \<noteq> None)
     \<and> (\<forall>h r. dict_get (cg_receipts g) h = Some r \<longrightarrow> rc_receipt_hash r = h \<and> r \<in> set (receipts_in es))
     \<and> (\<forall>before t r later. es = before @ (t, Some r) # later \<longrightarrow>
          rc_receipt_hash r = catalog_digest (receipt_body r) \<and> rc_table r = t \<and> head_in before t = Some (rc_prev_receipt r))
     \<and> (\<forall>t. map_option ct_head_receipt (dict_get (cg_tables g) t) = head_in es t)"

text \<open>a key is answered exactly if a receipt of the history has it\<close>

definition keys_of :: "event list \<Rightarrow> catalog \<Rightarrow> bool" where
  "keys_of es g \<longleftrightarrow> (\<forall>k. k \<noteq> [] \<longrightarrow> (dict_get (cg_idempotency g) k \<noteq> None) = (k \<in> rc_idempotency_key ` set (receipts_in es)))"

lemma receipts_in_snoc [simp]:
  "receipts_in [] = []" "receipts_in (es @ [(t, None)]) = receipts_in es" "receipts_in (es @ [(t, Some r)]) = receipts_in es @ [r]"
  by (simp_all add: receipts_in_def)

lemma head_in_snoc [simp]:
  "head_in [] t = None" "head_in (es @ [(t', x)]) t = (if t = t' then Some (case x of None \<Rightarrow> [] | Some r \<Rightarrow> rc_receipt_hash r) else head_in es t)"
  by (simp_all add: head_in_def split: option.splits)

lemma split_snoc: "es @ [e] = before @ x # later \<longleftrightarrow> (later = [] \<and> before = es \<and> x = e)
    \<or> (\<exists>l. later = l @ [e] \<and> es = before @ x # l)"
  by (cases later rule: rev_cases) auto

lemma transition_fields:
  assumes "transition t e r"
  shows "rc_receipt_hash r = catalog_digest (receipt_body r)" "rc_table r = t" "rc_prev_receipt r = ct_head_receipt e"
proof -
  have "receipt_body (receipt_sealed r') = receipt_body r'" for r' by (simp add: receipt_sealed_def receipt_body_def)
  then have "rc_receipt_hash (receipt_sealed r') = catalog_digest (receipt_body (receipt_sealed r'))" for r'
    by (simp only:) (simp add: receipt_sealed_def)
  then show "rc_receipt_hash r = catalog_digest (receipt_body r)"
    using assms unfolding transition_def commit_receipt_def tombstone_receipt_def Let_def by auto
  show "rc_table r = t" "rc_prev_receipt r = ct_head_receipt e" using assms by (auto simp: transition_def)
qed

lemma evidence_created:
  assumes "evidence_of es g"
  shows "evidence_of (es @ [(t, None)]) (g\<lparr>cg_tables := dict_set t (new_table m 0 []) (cg_tables g)\<rparr>)"
  using assms unfolding evidence_of_def split_snoc by (simp add: new_table_def)

lemma evidence_transit:
  assumes g: "evidence_of es g" and e: "live_table t g = Some e" and r: "transition t e r"
  shows "evidence_of (es @ [(t, Some r)]) ((stage t (moved e r) r (rc_op r = ''commit'') g)\<lparr>cg_idempotency := i\<rparr>)"
proof -
  have "map_option ct_head_receipt (dict_get (cg_tables g) t) = head_in es t" using g by (simp add: evidence_of_def)
  then have "head_in es t = Some (rc_prev_receipt r)" using e transition_fields(3)[OF r] by (simp add: live_table_Some)
  with g transition_fields(1,2)[OF r] show ?thesis
    unfolding evidence_of_def split_snoc by (simp add: evidence_def)
qed

lemma history_step:
  assumes "evidence_of es g" "keys_of es g"
  shows "evidence_of (es @ events_of es g a) (catalog_step g a) \<and> keys_of (es @ events_of es g a) (catalog_step g a)"
proof (cases a)
  case (Create t who)
  with assms evidence_created[OF assms(1)] show ?thesis by (simp add: create_def keys_of_def)
next
  case (Commit t x u w p n k)
  show ?thesis
  proof (cases rule: commit_cases[of u p t x w n k g])
    case (retry out)
    then have "k \<in> rc_idempotency_key ` set (receipts_in es)" using assms(2) by (auto simp: keys_of_def)
    with retry assms show ?thesis by (simp add: Commit)
  next
    case (accepted e r out)
    then have new: "\<not> (k \<noteq> [] \<and> k \<in> rc_idempotency_key ` set (receipts_in es))" using assms(2) by (auto simp: keys_of_def)
    have k: "rc_idempotency_key r = k" "rc_op r = ''commit''"
      by (simp_all add: accepted(5)) (simp add: commit_receipt_def receipt_sealed_def Let_def)
    have ev: "events_of es g a = [(t, Some r)]" using new accepted(6,7) by (simp add: Commit)
    have step: "catalog_step g a = (stage t (moved e r) r True g)\<lparr>cg_idempotency :=
        (if k \<noteq> [] then dict_set k out (cg_idempotency g) else cg_idempotency g)\<rparr>" using accepted(7) by (simp add: Commit)
    have "transition t e r" using accepted(5) by simp
    from evidence_transit[OF assms(1) accepted(3) this] k(2) have "evidence_of (es @ events_of es g a) (catalog_step g a)"
      unfolding ev step by simp
    moreover have "keys_of (es @ events_of es g a) (catalog_step g a)"
      using assms(2) k(1) unfolding ev step by (auto simp: keys_of_def)
    ultimately show ?thesis ..
  qed (use assms in \<open>simp_all add: Commit\<close>)
next
  case (Tombstone t w p n)
  show ?thesis
  proof (cases rule: tombstone_cases[of t g w p n])
    case (dropped e r)
    have k: "rc_idempotency_key r = []" "rc_op r = ''tombstone''"
      by (simp_all add: dropped(2)) (simp add: tombstone_receipt_def receipt_sealed_def Let_def)
    have ev: "events_of es g a = [(t, Some r)]" using dropped(3) by (simp add: Tombstone)
    have step: "catalog_step g a = stage t (moved e r) r False g" using dropped(3) by (simp add: Tombstone)
    have "transition t e r" using dropped(2) by simp
    from evidence_transit[OF assms(1) dropped(1) this, of "cg_idempotency g"] k(2)
    have "evidence_of (es @ events_of es g a) (catalog_step g a)"
      unfolding ev step by (simp add: stage_def)
    moreover have "keys_of (es @ events_of es g a) (catalog_step g a)"
      using assms(2) k(1) unfolding ev step by (auto simp: keys_of_def stage_def)
    ultimately show ?thesis ..
  qed (use assms in \<open>simp add: Tombstone\<close>)
next
  case Restart
  with assms show ?thesis by simp
qed

lemma history_whole:
  assumes "evidence_of es g" "keys_of es g"
  shows "evidence_of (history es g ops) (foldl catalog_step g ops) \<and> keys_of (history es g ops) (foldl catalog_step g ops)"
  using assms
proof (induction ops arbitrary: es g)
  case (Cons a ops)
  from history_step[OF Cons.prems] Cons.IH show ?case by simp
qed simp

text \<open>C24: Whatever is done to a catalog, restarts included, its evidence is exactly that of its history, the
transitions that were answered with a receipt: the audit log and the outbox have one entry for each
of them and the lineage one for each commit, in order, none lost, added or forged; the receipts kept
are the receipts of the history, each under its own hash, genuine, of its table and chained to the
head that its table had before; and each table's head is the receipt of its last transition since
it was created, or empty if there was none.\<close>

theorem evidence_whole: "evidence_of (history [] new_catalog ops) (run_catalog ops)"
proof -
  have "evidence_of [] new_catalog" "keys_of [] new_catalog"
    by (simp_all add: evidence_of_def keys_of_def new_catalog_def)
  from history_whole[OF this, of ops] show ?thesis by (simp add: run_catalog_def)
qed

subsection \<open>Receipts\<close>

lemma verifies_body: "receipt_verifies r \<longleftrightarrow> rc_receipt_hash r = catalog_digest (receipt_body r)"
  by (auto simp: receipt_verifies_def receipt_sealed_def)

lemma receipt_body_inj:
  "receipt_body r = receipt_body r' \<Longrightarrow> rc_receipt_hash r = rc_receipt_hash r' \<Longrightarrow> (r :: receipt) = r'"
  by (cases r; cases r') (simp add: receipt_body_def)

text \<open>A receipt that replays is the receipt that the catalog recorded: any other would be a collision
of the digest, two different bodies with the same hash.\<close>

theorem replayed_receipt_is_recorded:
  assumes "replay r (run_catalog ops)"
  shows "\<exists>r'. dict_get (cg_receipts (run_catalog ops)) (rc_receipt_hash r) = Some r'
    \<and> (r = r' \<or> receipt_body r \<noteq> receipt_body r' \<and> catalog_digest (receipt_body r) = catalog_digest (receipt_body r'))"
proof -
  from assms obtain r' where r: "receipt_verifies r" "dict_get (cg_receipts (run_catalog ops)) (rc_receipt_hash r) = Some r'"
    by (auto simp: replay_def)
  with run_catalog_ok[of ops] have "rc_receipt_hash r' = rc_receipt_hash r" "receipt_verifies r'"
    by (auto simp: catalog_ok_def receipts_ok_def)
  with r show ?thesis using receipt_body_inj[of r r'] by (auto simp: verifies_body)
qed

lemma recorded_step: "recorded g h \<Longrightarrow> recorded (catalog_step g a) h"
  by (cases rule: step_cases[of g a]) (auto simp: recorded_def)

interpretation kept: stepwise catalog_step "\<lambda>g. recorded g h" for h
  by unfold_locales (rule recorded_step)

text \<open>C25: A proof does not expire: a receipt that replays keeps replaying after any further operations,
restarts, drops and new tables included.\<close>

theorem proof_durable:
  assumes "replay r g"
  shows "replay r (foldl catalog_step g ops)"
proof -
  have "recorded (foldl catalog_step g ops) (rc_receipt_hash r)"
    using assms by (intro kept.run_keeps) (simp add: replay_def recorded_def)
  with assms show ?thesis by (simp add: replay_def recorded_def)
qed

subsection \<open>Idempotency\<close>

lemma idempotency_step:
  "dict_get (cg_idempotency g) k = Some out \<Longrightarrow> k \<noteq> [] \<Longrightarrow> dict_get (cg_idempotency (catalog_step g a)) k = Some out"
  by (cases rule: step_cases[of g a]) auto

lemma idempotency_run:
  "dict_get (cg_idempotency g) k = Some out \<Longrightarrow> k \<noteq> [] \<Longrightarrow> dict_get (cg_idempotency (foldl catalog_step g ops)) k = Some out"
  by (induction ops arbitrary: g) (auto intro: idempotency_step)

lemma commit_records:
  assumes "commit t x u w p n k g = (out, h)" "co_ok out" "k \<noteq> []"
  shows "dict_get (cg_idempotency h) k = Some out"
  using assms by (cases rule: commit_cases[of u p t x w n k g]) auto

text \<open>C26: An idempotency key answers once and for all: after a commit with a key succeeded, every later
commit with that key that is not oversized, after any operations and restarts, returns the same
outcome and changes nothing, even when it names another table, another update or another
principal.\<close>

theorem idempotency_key_answers_forever:
  assumes "commit t x u w p n k g = (out, h)" "co_ok out" "k \<noteq> []" "\<not> bad_text [u', p']"
  shows "commit t' x' u' w' p' n' k (foldl catalog_step h ops) = (out, foldl catalog_step h ops)"
  using idempotency_run[OF commit_records[OF assms(1-3)] assms(3), of ops] assms(3,4) by (simp add: commit_def)

subsection \<open>Compare and swap\<close>

definition stored_ok :: "catalog \<Rightarrow> bool" where
  "stored_ok g \<longleftrightarrow> (\<forall>k out. dict_get (cg_idempotency g) k = Some out \<longrightarrow> co_ok out)"

lemma stored_ok_commit: "stored_ok g \<Longrightarrow> stored_ok (snd (commit t x u w p n k g))"
  by (cases rule: commit_cases[of u p t x w n k g]) (auto simp: stored_ok_def)

interpretation stored: stepwise catalog_step stored_ok
proof
  fix g a
  assume "stored_ok g"
  then show "stored_ok (catalog_step g a)"
  proof (cases a)
    case (Tombstone t w p n)
    then show ?thesis using \<open>stored_ok g\<close>
      by (cases rule: tombstone_cases[of t g w p n]) (auto simp: stored_ok_def stage_def)
  qed (use \<open>stored_ok g\<close> in \<open>auto simp: stored_ok_commit\<close>, auto simp: stored_ok_def create_def)
qed

lemma run_stored_ok: "stored_ok (run_catalog ops)"
  unfolding run_catalog_def by (rule stored.run_keeps) (simp add: stored_ok_def new_catalog_def)

text \<open>C27: No update is lost: on any reachable catalog a commit whose key is new succeeds exactly when its
texts are within bounds, the table is live and the asserted metadata is the current pointer;
and a commit that fails, whatever its key, leaves the catalog as it was, its evidence included.\<close>

theorem compare_and_swap:
  assumes "g = run_catalog ops" "k = [] \<or> dict_get (cg_idempotency g) k = None"
  shows "(co_ok (fst (commit t x u w p n k g)) \<longleftrightarrow>
      \<not> bad_text [u, p] \<and> live_table t g \<noteq> None \<and> x = pointer t g)
    \<and> (if co_ok (fst (commit t x u w p n k' g)) then True else snd (commit t x u w p n k' g) = g)"
proof
  show "co_ok (fst (commit t x u w p n k g)) \<longleftrightarrow> \<not> bad_text [u, p] \<and> live_table t g \<noteq> None \<and> x = pointer t g"
    using assms(2)
    by (cases rule: commit_cases[of u p t x w n k g]) (auto simp: pointer_def live_table_Some split: option.splits)
  have "stored_ok g" using run_stored_ok assms(1) by simp
  then show "if co_ok (fst (commit t x u w p n k' g)) then True else snd (commit t x u w p n k' g) = g"
    by (cases rule: commit_cases[of u p t x w n k' g]) (auto simp: stored_ok_def)
qed

text \<open>Creating a table that exists starts it over: whatever the history of the table, its drop
included, the next commit on it is accepted as the first one, with snapshot 1 and no
predecessor.\<close>

theorem create_discards_history:
  assumes "\<not> bad_text [u, p]" "k = [] \<or> dict_get (cg_idempotency g) k = None"
  shows "\<exists>r. co_receipt (fst (commit t (pointer t (snd (create t who g))) u w p n k (snd (create t who g)))) = Some r
    \<and> co_ok (fst (commit t (pointer t (snd (create t who g))) u w p n k (snd (create t who g))))
    \<and> rc_snapshot_id r = 1 \<and> rc_prev_receipt r = []"
proof -
  let ?g = "snd (create t who g)"
  obtain m where e: "live_table t ?g = Some (new_table m 0 [])" "pointer t ?g = m"
    by (simp add: create_def live_table_def pointer_def new_table_def)
  have k: "k = [] \<or> dict_get (cg_idempotency ?g) k = None" using assms(2) by (simp add: create_def)
  show ?thesis
    using assms(1) k e
    by (cases rule: commit_cases[of u p t "pointer t ?g" w n k ?g]) (auto simp: new_table_def)
qed

end
