(* ===== verification/CatalogCases.thy ===== *)
theory CatalogCases
  imports CatalogProps
begin

text \<open>
  \<^verbatim>\<open>docs/book/code/catalog-provenance/catalog_provenance/cases.py\<close>: the seventeen cases of the
  catalog benchmark, run against the reference catalog.
\<close>

subsection \<open>Tables\<close>

definition CATALOG_CORPUS_VERSION :: string where "CATALOG_CORPUS_VERSION = ''catalog-provenance-v1''"

definition CATALOG_CAPABILITIES :: "string list" where
  "CATALOG_CAPABILITIES = [''commit'', ''compare-and-swap'', ''idempotent-replay'', ''durable-audit'', ''atomic-outbox'',
     ''replayable-proof'', ''governed-scan-proof'', ''receipt-chain'', ''tombstone-proof'', ''hash-only-evidence'',
     ''lineage-evidence'']"

definition CATALOG_GATES :: "string list" where
  "CATALOG_GATES = [''lost_update_accepted'', ''duplicate_commit_applied'', ''evidence_lost'', ''forged_proof_accepted'',
     ''unauthorized_scan_disclosed'', ''plaintext_in_evidence'', ''non_deterministic_receipt'']"

definition SALES :: string where "SALES = ''sales.events''"

definition CATALOG_OPERATOR :: string where "CATALOG_OPERATOR = ''did:key:operator''"

definition POLICY :: string where "POLICY = ''read allowed for purpose analytics''"

definition SECRET :: string where "SECRET = ''s3://warehouse/secret-location/AKIAEXAMPLE''"

definition catalog_seeded :: catalog where
  "catalog_seeded = snd (create SALES CATALOG_OPERATOR new_catalog)"

subsection \<open>Scenarios\<close>

text \<open>a commit of the suite: the metadata it asserts, the update, the principal, the nonce and the key\<close>

definition sales_commit :: "string \<Rightarrow> string \<Rightarrow> string \<Rightarrow> string \<Rightarrow> string \<Rightarrow> (catalog, catalog_outcome) act" where
  "sales_commit x u w n k = pure_act (commit SALES x u w POLICY n k)"

definition head_commit :: "string \<Rightarrow> string \<Rightarrow> string \<Rightarrow> (catalog, catalog_outcome) act" where
  "head_commit u n k = and_then the_state (\<lambda>g. sales_commit (pointer SALES g) u CATALOG_OPERATOR n k)"

definition cs_commit_fresh :: "(catalog, bool) act" where
  "cs_commit_fresh =
     and_then the_state (\<lambda>g.
     and_then (head_commit ''add-snapshot'' ''n1'' ''job-1'') (\<lambda>out.
     and_then the_state (\<lambda>h.
       ret (co_ok out \<and> co_receipt out \<noteq> None \<and> pointer SALES h \<noteq> pointer SALES g))))"

text \<open>two writers on one head\<close>

definition two_commits :: "string \<times> string \<times> string \<times> string \<Rightarrow> string \<times> string \<times> string \<times> string
    \<Rightarrow> (catalog_outcome \<Rightarrow> catalog \<Rightarrow> catalog_outcome \<Rightarrow> catalog \<Rightarrow> bool) \<Rightarrow> (catalog, bool) act" where
  "two_commits a b verdict = (case a of (u, w, n, k) \<Rightarrow> case b of (u', w', n', k') \<Rightarrow>
     and_then the_state (\<lambda>g.
     and_then (sales_commit (pointer SALES g) u w n k) (\<lambda>first.
     and_then the_state (\<lambda>h.
     and_then (sales_commit (pointer SALES g) u' w' n' k') (\<lambda>second.
     and_then the_state (\<lambda>h'. ret (verdict first h second h')))))))"

definition cs_stale_rejected :: "(catalog, bool) act" where
  "cs_stale_rejected = two_commits (''u1'', CATALOG_OPERATOR, ''n1'', ''job-1'') (''u2'', CATALOG_OPERATOR, ''n2'', ''job-2'')
     (\<lambda>first h second h'. \<not> co_ok second \<and> co_error second = ''stale-metadata'')"

definition cs_concurrent :: "(catalog, bool) act" where
  "cs_concurrent = two_commits (''a'', ''did:key:w1'', ''na'', ''job-a'') (''b'', ''did:key:w2'', ''nb'', ''job-b'')
     (\<lambda>first h second h'. co_ok first \<and> \<not> co_ok second)"

definition cs_idempotent_retry :: "(catalog, bool) act" where
  "cs_idempotent_retry = two_commits (''u'', CATALOG_OPERATOR, ''n1'', ''job-k'') (''u'', CATALOG_OPERATOR, ''n2'', ''job-k'')
     (\<lambda>first h second h'. co_ok first \<and> co_ok second \<and> co_receipt first = co_receipt second
        \<and> pointer SALES h' = pointer SALES h)"

definition cs_outbox_absent :: "(catalog, bool) act" where
  "cs_outbox_absent = two_commits (''u1'', CATALOG_OPERATOR, ''n1'', ''job-1'') (''u2'', CATALOG_OPERATOR, ''n2'', ''job-2'')
     (\<lambda>first h second h'. \<not> co_ok second \<and> length (cg_outbox h') = length (cg_outbox h))"

text \<open>one commit at the head: its outcome, the catalog before and the catalog after\<close>

definition one_commit :: "string \<Rightarrow> (catalog \<Rightarrow> catalog_outcome \<Rightarrow> catalog \<Rightarrow> bool) \<Rightarrow> (catalog, bool) act" where
  "one_commit u verdict =
     and_then the_state (\<lambda>g.
     and_then (head_commit u ''n1'' ''job-1'') (\<lambda>out.
     and_then the_state (\<lambda>h. ret (verdict g out h))))"

definition cs_durable_audit :: "(catalog, bool) act" where
  "cs_durable_audit = one_commit ''u'' (\<lambda>g out h. co_ok out \<and> co_audit out
     \<and> length (cg_audit h) = length (cg_audit g) + 1)"

definition cs_outbox_present :: "(catalog, bool) act" where
  "cs_outbox_present = one_commit ''u'' (\<lambda>g out h. co_ok out \<and> co_outbox out
     \<and> length (cg_outbox h) = length (cg_outbox g) + 1)"

definition cs_lineage_emitted :: "(catalog, bool) act" where
  "cs_lineage_emitted = one_commit ''u'' (\<lambda>g out h. co_ok out \<and> co_lineage out
     \<and> length (cg_lineage h) = length (cg_lineage g) + 1)"

definition cs_replay_verifies :: "(catalog, bool) act" where
  "cs_replay_verifies = one_commit ''u'' (\<lambda>g out h. co_ok out
     \<and> (case co_receipt out of None \<Rightarrow> False | Some r \<Rightarrow> replay r h))"

definition cs_replay_forged :: "(catalog, bool) act" where
  "cs_replay_forged = one_commit ''u'' (\<lambda>g out h. co_ok out
     \<and> (case co_receipt out of None \<Rightarrow> False
        | Some r \<Rightarrow> let forged = r\<lparr>rc_response_hash := ''sha256:'' @ replicate 64 (CHR ''0'')\<rparr>
            in \<not> receipt_verifies forged \<and> \<not> replay forged h))"

definition cs_restart_reproducible :: "(catalog, bool) act" where
  "cs_restart_reproducible = one_commit ''u'' (\<lambda>g out h. co_ok out
     \<and> (case co_receipt out of None \<Rightarrow> False | Some r \<Rightarrow> replay r (restart_catalog h)))"

definition cs_scan_receipt :: "(catalog, bool) act" where
  "cs_scan_receipt = one_commit ''u'' (\<lambda>g out h.
     let s = scan SALES CATALOG_OPERATOR POLICY h
     in co_ok s \<and> (case co_scan_receipt s of None \<Rightarrow> False | Some r \<Rightarrow> scan_verifies r [policy_digest POLICY]))"

definition cs_scan_mismatch :: "(catalog, bool) act" where
  "cs_scan_mismatch =
     and_then the_state (\<lambda>g.
       let s = scan SALES CATALOG_OPERATOR POLICY g
       in ret (co_ok s \<and> (case co_scan_receipt s of None \<Rightarrow> False
            | Some r \<Rightarrow> \<not> scan_verifies r [policy_digest ''some other policy''])))"

definition cs_chain_linked :: "(catalog, bool) act" where
  "cs_chain_linked =
     and_then (head_commit ''u1'' ''n1'' ''job-1'') (\<lambda>first.
     and_then (head_commit ''u2'' ''n2'' ''job-2'') (\<lambda>second.
       ret (co_ok first \<and> co_ok second \<and> (case (co_receipt first, co_receipt second) of
          (Some r, Some r') \<Rightarrow> rc_prev_receipt r' = rc_receipt_hash r | _ \<Rightarrow> False))))"

definition cs_tombstone :: "(catalog, bool) act" where
  "cs_tombstone =
     and_then (head_commit ''u'' ''n1'' ''job-1'') (\<lambda>_.
     and_then (pure_act (tombstone SALES CATALOG_OPERATOR POLICY ''nd'')) (\<lambda>out.
       ret (co_ok out \<and> (case co_receipt out of None \<Rightarrow> False | Some r \<Rightarrow> rc_op r = ''tombstone''))))"

definition contains :: "string \<Rightarrow> string \<Rightarrow> bool" where
  "contains b s \<longleftrightarrow> sublist s b"

definition cs_hash_only :: "(catalog, bool) act" where
  "cs_hash_only = one_commit SECRET (\<lambda>g out h.
     let blobs = cg_audit h @ cg_outbox h @ cg_lineage h @ map rc_new_metadata (dict_values (cg_receipts h))
     in co_ok out \<and> list_all (\<lambda>b. \<not> contains b ''AKIA'' \<and> \<not> contains b ''secret-location'') blobs)"

definition cs_idempotent_restart :: "(catalog, bool) act" where
  "cs_idempotent_restart =
     and_then the_state (\<lambda>g.
     and_then (sales_commit (pointer SALES g) ''u'' CATALOG_OPERATOR ''n1'' ''job-k'') (\<lambda>first.
     and_then (pure_act (\<lambda>h. ((), restart_catalog h))) (\<lambda>_.
     and_then (sales_commit (pointer SALES g) ''u'' CATALOG_OPERATOR ''n2'' ''job-k'') (\<lambda>second.
       ret (co_ok first \<and> co_ok second \<and> co_receipt first = co_receipt second)))))"

definition catalog_cases :: "catalog suite_case list" where
  "catalog_cases = [
     new_suite_case ''commit-fresh'' ''commit'' ''commit''
       ''a fresh commit advances the pointer and yields a receipt'' cs_commit_fresh [],
     new_suite_case ''cas-stale-rejected'' ''concurrency'' ''compare-and-swap''
       ''a commit asserting stale metadata is rejected'' cs_stale_rejected ''lost_update_accepted'',
     new_suite_case ''cas-concurrent'' ''concurrency'' ''compare-and-swap''
       ''two writers on one head: exactly one wins'' cs_concurrent ''lost_update_accepted'',
     new_suite_case ''idempotent-retry'' ''idempotency'' ''idempotent-replay''
       ''a retried commit returns the stored receipt, no double-apply'' cs_idempotent_retry ''duplicate_commit_applied'',
     new_suite_case ''idempotent-across-restart'' ''idempotency'' ''idempotent-replay''
       ''idempotency survives a restart'' cs_idempotent_restart ''duplicate_commit_applied'',
     new_suite_case ''audit-durable'' ''audit'' ''durable-audit''
       ''an accepted commit yields a durable audit event'' cs_durable_audit ''evidence_lost'',
     new_suite_case ''outbox-atomic-present'' ''outbox'' ''atomic-outbox''
       ''an accepted commit stages an outbox event atomically'' cs_outbox_present ''evidence_lost'',
     new_suite_case ''outbox-absent-on-reject'' ''outbox'' ''atomic-outbox''
       ''a rejected commit emits no outbox event'' cs_outbox_absent ''evidence_lost'',
     new_suite_case ''replay-verifies'' ''proof'' ''replayable-proof''
       ''the commit receipt verifies offline'' cs_replay_verifies ''forged_proof_accepted'',
     new_suite_case ''replay-forged-rejected'' ''proof'' ''replayable-proof''
       ''a tampered receipt fails verification'' cs_replay_forged ''forged_proof_accepted'',
     new_suite_case ''governed-scan-receipt'' ''governed-read'' ''governed-scan-proof''
       ''a scan carries a policy-bound authorization receipt'' cs_scan_receipt ''unauthorized_scan_disclosed'',
     new_suite_case ''governed-scan-mismatch-rejected'' ''governed-read'' ''governed-scan-proof''
       ''a scan receipt does not verify against a different policy'' cs_scan_mismatch ''unauthorized_scan_disclosed'',
     new_suite_case ''receipt-chain-linked'' ''chain'' ''receipt-chain''
       ''a commit receipt links to its predecessor'' cs_chain_linked [],
     new_suite_case ''tombstone-covered'' ''tombstone'' ''tombstone-proof''
       ''a drop is covered by a tombstone receipt'' cs_tombstone [],
     new_suite_case ''hash-only-audit'' ''redaction'' ''hash-only-evidence''
       ''evidence carries digests, never raw secrets'' cs_hash_only ''plaintext_in_evidence'',
     new_suite_case ''lineage-emitted'' ''lineage'' ''lineage-evidence''
       ''an accepted commit emits a lineage event'' cs_lineage_emitted ''evidence_lost'',
     new_suite_case ''restart-reproducible'' ''proof'' ''replayable-proof''
       ''the receipt still verifies after a restart'' cs_restart_reproducible ''non_deterministic_receipt'']"

definition run_catalog_case :: "catalog suite_case \<Rightarrow> bool result" where
  "run_catalog_case c = run_suite_case catalog_seeded c"

subsection \<open>The reference catalog on its suite\<close>

text \<open>the metadata digests of the suite's table, before and after its first commit\<close>

definition sales_meta :: string where
  "sales_meta = catalog_digest [PText ''meta'', PText SALES, PInt 0]"

definition sales_meta1 :: "string \<Rightarrow> string" where
  "sales_meta1 u = catalog_digest [PText ''meta'', PText SALES, PInt 1, PText u]"

lemma seeded_tables [simp]:
  "cg_tables catalog_seeded = [(SALES, new_table sales_meta 0 [])]" "cg_idempotency catalog_seeded = []"
  "cg_receipts catalog_seeded = []" "cg_audit catalog_seeded = []" "cg_outbox catalog_seeded = []"
  "cg_lineage catalog_seeded = []"
  by (simp_all add: catalog_seeded_def create_def new_catalog_def sales_meta_def)

lemma pointer_seeded [simp]: "pointer SALES catalog_seeded = sales_meta"
  by (simp add: pointer_def new_table_def)

lemma commit_meta: "rc_new_metadata (commit_receipt SALES (new_table sales_meta 0 h) u w p n k) = sales_meta1 u"
  by (simp add: commit_receipt_def Let_def receipt_sealed_def sales_meta1_def new_table_def)

definition first_receipt :: "string \<Rightarrow> string \<Rightarrow> string \<Rightarrow> string \<Rightarrow> receipt" where
  "first_receipt u w n k = commit_receipt SALES (new_table sales_meta 0 []) u w POLICY n k"

definition first_outcome :: "string \<Rightarrow> string \<Rightarrow> string \<Rightarrow> string \<Rightarrow> catalog_outcome" where
  "first_outcome u w n k = (catalog_answer True [])\<lparr>co_receipt := Some (first_receipt u w n k), co_audit := True,
     co_outbox := True, co_lineage := True\<rparr>"

definition after_first :: "string \<Rightarrow> string \<Rightarrow> string \<Rightarrow> string \<Rightarrow> catalog" where
  "after_first u w n k = \<lparr>cg_tables = [(SALES, new_table (sales_meta1 u) 1 (rc_receipt_hash (first_receipt u w n k)))],
     cg_idempotency = [(k, first_outcome u w n k)], cg_audit = [evidence ''audit'' (first_receipt u w n k)],
     cg_outbox = [evidence ''outbox'' (first_receipt u w n k)], cg_lineage = [evidence ''lineage'' (first_receipt u w n k)],
     cg_receipts = [(rc_receipt_hash (first_receipt u w n k), first_receipt u w n k)]\<rparr>"

lemma first_outcome_fields [simp]:
  "co_ok (first_outcome u w n k)" "co_receipt (first_outcome u w n k) = Some (first_receipt u w n k)"
  "co_audit (first_outcome u w n k)" "co_outbox (first_outcome u w n k)" "co_lineage (first_outcome u w n k)"
  by (simp_all add: first_outcome_def)

lemma POLICY_bound: "py_len POLICY \<le> MAX_TEXT"
  by (simp add: POLICY_def MAX_TEXT_def py_len_def)

lemma first_commit:
  assumes "py_len u \<le> MAX_TEXT" "k \<noteq> []"
  shows "commit SALES sales_meta u w POLICY n k catalog_seeded = (first_outcome u w n k, after_first u w n k)"
proof -
  have "live_table SALES catalog_seeded = Some (new_table sales_meta 0 [])"
    by (simp add: live_table_def new_table_def)
  moreover have "ct_metadata (new_table sales_meta 0 []) = sales_meta" by (simp add: new_table_def)
  moreover have "rc_snapshot_id (first_receipt u w n k) = 1" by (simp add: first_receipt_def new_table_def)
  moreover have "rc_new_metadata (first_receipt u w n k) = sales_meta1 u" by (simp add: first_receipt_def commit_meta)
  moreover have "\<not> bad_text [u, POLICY]" using assms(1) POLICY_bound by (simp add: bad_text_def)
  ultimately show ?thesis
    using assms(2)
    by (simp add: commit_def Let_def first_outcome_def[symmetric] first_receipt_def[symmetric] after_first_def)
      (simp add: stage_def catalog_seeded_def create_def new_catalog_def new_table_def first_outcome_def)
qed

lemma after_first_table:
  "dict_get (cg_tables (after_first u w n k)) SALES
     = Some (new_table (sales_meta1 u) 1 (rc_receipt_hash (first_receipt u w n k)))"
  "dict_get (cg_idempotency (after_first u w n k)) k' = (if k' = k then Some (first_outcome u w n k) else None)"
  by (simp_all add: after_first_def)

lemma after_first_live:
  "live_table SALES (after_first u w n k) = Some (new_table (sales_meta1 u) 1 (rc_receipt_hash (first_receipt u w n k)))"
  by (simp add: live_table_def after_first_table) (simp add: new_table_def)

lemma retried_commit:
  "py_len u' \<le> MAX_TEXT \<Longrightarrow> k \<noteq> [] \<Longrightarrow>
    commit SALES x u' w' POLICY n' k (after_first u w n k) = (first_outcome u w n k, after_first u w n k)"
  using POLICY_bound by (simp add: commit_def bad_text_def after_first_table)

lemma second_commit:
  assumes "py_len u' \<le> MAX_TEXT" "k' \<noteq> k"
  shows "if sales_meta = sales_meta1 u then co_ok (fst (commit SALES sales_meta u' w' POLICY n' k' (after_first u w n k)))
    else commit SALES sales_meta u' w' POLICY n' k' (after_first u w n k)
      = (catalog_answer False ''stale-metadata'', after_first u w n k)"
  using assms POLICY_bound
  by (simp add: commit_def bad_text_def after_first_table after_first_live) (simp add: new_table_def Let_def)

lemmas catalog_eval = and_then_def pure_act_def the_state_def ret_def sales_commit_def head_commit_def first_commit
  MAX_TEXT_def py_len_def

lemma two_commits_stale:
  assumes "py_len u \<le> MAX_TEXT" "py_len u' \<le> MAX_TEXT" "k \<noteq> []" "k' \<noteq> k"
  shows "fst (two_commits (u, w, n, k) (u', w', n', k')
      (\<lambda>first h second h'. \<not> co_ok second \<and> co_error second = ''stale-metadata'') catalog_seeded)
      = Inr (sales_meta \<noteq> sales_meta1 u)"
    "fst (two_commits (u, w, n, k) (u', w', n', k')
      (\<lambda>first h second h'. co_ok first \<and> \<not> co_ok second) catalog_seeded) = Inr (sales_meta \<noteq> sales_meta1 u)"
    "fst (two_commits (u, w, n, k) (u', w', n', k')
      (\<lambda>first h second h'. \<not> co_ok second \<and> length (cg_outbox h') = length (cg_outbox h)) catalog_seeded)
      = Inr (sales_meta \<noteq> sales_meta1 u)"
  using second_commit[of u' k' k u w' n' w n] assms
  by (auto simp: two_commits_def and_then_def pure_act_def the_state_def ret_def sales_commit_def first_commit
      split: prod.splits if_splits)

lemma concurrency_cases:
  "fst (cs_stale_rejected catalog_seeded) = Inr (sales_meta \<noteq> sales_meta1 ''u1'')"
  "fst (cs_concurrent catalog_seeded) = Inr (sales_meta \<noteq> sales_meta1 ''a'')"
  "fst (cs_outbox_absent catalog_seeded) = Inr (sales_meta \<noteq> sales_meta1 ''u1'')"
  unfolding cs_stale_rejected_def cs_concurrent_def cs_outbox_absent_def
  by (rule two_commits_stale; simp add: py_len_def MAX_TEXT_def)+

lemma idempotency_cases:
  "fst (cs_idempotent_retry catalog_seeded) = Inr True" "fst (cs_idempotent_restart catalog_seeded) = Inr True"
  by (simp_all add: cs_idempotent_retry_def two_commits_def cs_idempotent_restart_def and_then_def pure_act_def the_state_def
      ret_def sales_commit_def first_commit retried_commit py_len_def MAX_TEXT_def)

lemma one_commit_run:
  "py_len u \<le> MAX_TEXT \<Longrightarrow> fst (one_commit u verdict catalog_seeded)
    = Inr (verdict catalog_seeded (first_outcome u CATALOG_OPERATOR ''n1'' ''job-1'') (after_first u CATALOG_OPERATOR ''n1'' ''job-1''))"
  by (simp add: one_commit_def and_then_def the_state_def ret_def head_commit_def sales_commit_def pure_act_def first_commit)

lemma first_replays: "replay (first_receipt u w n k) (after_first u w n k)"
  by (simp add: replay_def after_first_def first_receipt_def commit_receipt_def Let_def sealed_verifies)

lemma evidence_cases:
  "fst (cs_durable_audit catalog_seeded) = Inr True" "fst (cs_outbox_present catalog_seeded) = Inr True"
  "fst (cs_lineage_emitted catalog_seeded) = Inr True" "fst (cs_replay_verifies catalog_seeded) = Inr True"
  "fst (cs_restart_reproducible catalog_seeded) = Inr True"
  by (simp_all add: cs_durable_audit_def cs_outbox_present_def cs_lineage_emitted_def cs_replay_verifies_def
      cs_restart_reproducible_def one_commit_run py_len_def MAX_TEXT_def first_replays) (simp_all add: after_first_def)

definition tampered :: receipt where
  "tampered = (first_receipt ''u'' CATALOG_OPERATOR ''n1'' ''job-1'')\<lparr>rc_response_hash := ''sha256:'' @ replicate 64 (CHR ''0'')\<rparr>"

lemma forged_case:
  "fst (cs_replay_forged catalog_seeded) = Inr (\<not> receipt_verifies tampered)"
  by (simp add: cs_replay_forged_def one_commit_run py_len_def MAX_TEXT_def tampered_def Let_def replay_def) blast

lemma scan_cases:
  "fst (cs_scan_receipt catalog_seeded) = Inr True"
  "fst (cs_scan_mismatch catalog_seeded) = Inr (policy_digest POLICY \<noteq> policy_digest ''some other policy'')"
  by (simp_all add: cs_scan_receipt_def cs_scan_mismatch_def one_commit_run py_len_def MAX_TEXT_def scan_def
      after_first_live and_then_def the_state_def ret_def Let_def scan_verifies_def scan_sealed_def)
    (simp add: live_table_def new_table_def scan_verifies_def scan_sealed_def)

lemma fresh_case: "fst (cs_commit_fresh catalog_seeded) = Inr (sales_meta1 ''add-snapshot'' \<noteq> sales_meta)"
  by (simp add: cs_commit_fresh_def and_then_def the_state_def ret_def head_commit_def sales_commit_def pure_act_def
      first_commit py_len_def MAX_TEXT_def) (simp add: pointer_def after_first_table new_table_def)

lemma pointer_after: "pointer SALES (after_first u w n k) = sales_meta1 u"
  by (simp add: pointer_def after_first_table) (simp add: new_table_def)

lemma chain_case: "fst (cs_chain_linked catalog_seeded) = Inr True"
proof -
  let ?g = "after_first ''u1'' CATALOG_OPERATOR ''n1'' ''job-1''"
  obtain out h r where "commit SALES (sales_meta1 ''u1'') ''u2'' CATALOG_OPERATOR POLICY ''n2'' ''job-2'' ?g = (out, h)"
    "co_ok out" "co_receipt out = Some r"
    "rc_prev_receipt r = rc_receipt_hash (first_receipt ''u1'' CATALOG_OPERATOR ''n1'' ''job-1'')"
  proof (cases rule: commit_cases[of "''u2''" POLICY SALES "sales_meta1 ''u1''" CATALOG_OPERATOR "''n2''" "''job-2''" ?g])
    case oversized
    then show thesis using POLICY_bound by (simp add: bad_text_def py_len_def MAX_TEXT_def)
  next
    case (accepted e r out)
    let ?h = "rc_receipt_hash (first_receipt ''u1'' CATALOG_OPERATOR ''n1'' ''job-1'')"
    have e: "e = new_table (sales_meta1 ''u1'') 1 ?h" using accepted(3) unfolding after_first_live by (rule option.inject[THEN iffD1, symmetric])
    have "ct_head_receipt e = ?h" unfolding e by (simp add: new_table_def)
    with accepted show thesis by (intro that[of out _ r]) simp_all
  qed (auto simp: after_first_table after_first_live new_table_def)
  then show ?thesis
    by (simp add: cs_chain_linked_def and_then_def the_state_def ret_def head_commit_def sales_commit_def pure_act_def
        first_commit py_len_def MAX_TEXT_def pointer_after)
qed

lemma tombstone_case: "fst (cs_tombstone catalog_seeded) = Inr True"
  by (simp add: cs_tombstone_def and_then_def the_state_def ret_def head_commit_def sales_commit_def pure_act_def
      first_commit py_len_def MAX_TEXT_def tombstone_def after_first_live Let_def)

lemma digest_chars: "set (catalog_digest parts) \<subseteq> set (''sha256:'' @ hex_chars)"
  using sha256_hex_chars by (auto simp: catalog_digest_def domain_digest_def)

lemma digest_contains: "contains (catalog_digest parts) s \<Longrightarrow> set s \<subseteq> set (''sha256:'' @ hex_chars)"
  using digest_chars[of parts] set_mono_sublist[of s "catalog_digest parts"] by (auto simp: contains_def)

lemma digest_hides: "\<not> contains (catalog_digest parts) ''AKIA'' \<and> \<not> contains (catalog_digest parts) ''secret-location''"
  by (auto dest!: digest_contains simp: hex_chars_def)

lemma hash_only_case: "fst (cs_hash_only catalog_seeded) = Inr True"
proof -
  have m: "rc_new_metadata (first_receipt u w n k) = sales_meta1 u" for u w n k
    by (simp add: first_receipt_def commit_meta)
  have "py_len SECRET \<le> MAX_TEXT" by (simp add: SECRET_def py_len_def MAX_TEXT_def)
  then show ?thesis
    by (simp add: cs_hash_only_def one_commit_run Let_def)
      (simp add: after_first_def dict_values_def m evidence_def sales_meta1_def digest_hides)
qed

text \<open>what the suite expects of the digest: the pairs of values that a correct run tells apart\<close>

definition case_verdict :: "string \<Rightarrow> bool" where
  "case_verdict i =
     (if i = ''commit-fresh'' then sales_meta1 ''add-snapshot'' \<noteq> sales_meta
      else if i = ''cas-stale-rejected'' \<or> i = ''outbox-absent-on-reject'' then sales_meta \<noteq> sales_meta1 ''u1''
      else if i = ''cas-concurrent'' then sales_meta \<noteq> sales_meta1 ''a''
      else if i = ''replay-forged-rejected'' then \<not> receipt_verifies tampered
      else if i = ''governed-scan-mismatch-rejected'' then policy_digest POLICY \<noteq> policy_digest ''some other policy''
      else True)"

text \<open>The reference catalog passes its suite: every one of the seventeen cases returns true on the
seeded catalog, the six that tell two digests apart exactly when the digests differ.\<close>

theorem catalog_passes_all_cases:
  "map run_catalog_case catalog_cases = map (\<lambda>c. Inr (case_verdict (sc_id c))) catalog_cases"
  by (simp add: catalog_cases_def run_catalog_case_def run_suite_case_def new_suite_case_def fresh_case concurrency_cases
      idempotency_cases evidence_cases forged_case scan_cases chain_case tombstone_case hash_only_case case_verdict_def)

subsection \<open>Witnesses\<close>

definition sales_ops :: "catalog_op list" where
  "sales_ops = [Create SALES CATALOG_OPERATOR, Commit SALES sales_meta ''u'' CATALOG_OPERATOR POLICY ''n1'' ''job-1'']"

lemma sales_run: "run_catalog sales_ops = after_first ''u'' CATALOG_OPERATOR ''n1'' ''job-1''"
  using first_commit[of "''u''" "''job-1''" CATALOG_OPERATOR "''n1''"]
  by (simp add: run_catalog_def sales_ops_def catalog_seeded_def py_len_def MAX_TEXT_def)

theorem replayed_receipt_is_recorded_witness:
  "dict_get (cg_receipts (run_catalog sales_ops)) (rc_receipt_hash (first_receipt ''u'' CATALOG_OPERATOR ''n1'' ''job-1''))
     \<noteq> None"
  using replayed_receipt_is_recorded[of "first_receipt ''u'' CATALOG_OPERATOR ''n1'' ''job-1''" sales_ops]
  by (auto simp: sales_run first_replays)

theorem proof_durable_witness:
  "replay (first_receipt ''u'' CATALOG_OPERATOR ''n1'' ''job-1'')
     (foldl catalog_step (after_first ''u'' CATALOG_OPERATOR ''n1'' ''job-1'')
       [Tombstone SALES CATALOG_OPERATOR POLICY ''nd'', Restart, Create SALES CATALOG_OPERATOR])"
  by (rule proof_durable[OF first_replays])

theorem idempotency_key_answers_forever_witness:
  "commit ''other.table'' [] ''v'' ''did:key:w2'' POLICY ''n9'' ''job-1''
     (foldl catalog_step (after_first ''u'' CATALOG_OPERATOR ''n1'' ''job-1'') [Create ''other.table'' ''did:key:w2'', Restart])
   = (first_outcome ''u'' CATALOG_OPERATOR ''n1'' ''job-1'',
      foldl catalog_step (after_first ''u'' CATALOG_OPERATOR ''n1'' ''job-1'') [Create ''other.table'' ''did:key:w2'', Restart])"
  by (rule idempotency_key_answers_forever[OF first_commit])
    (use POLICY_bound in \<open>simp_all add: py_len_def MAX_TEXT_def bad_text_def\<close>)

theorem compare_and_swap_witness:
  "co_ok (fst (commit SALES (sales_meta1 ''u'') ''v'' CATALOG_OPERATOR POLICY ''n2'' ''job-2'' (run_catalog sales_ops)))"
  using compare_and_swap[of "run_catalog sales_ops" sales_ops "''job-2''" SALES "sales_meta1 ''u''" "''v''" CATALOG_OPERATOR
      POLICY "''n2''"] POLICY_bound
  by (simp add: sales_run after_first_table after_first_live pointer_after bad_text_def py_len_def MAX_TEXT_def)

theorem create_discards_history_witness:
  "\<exists>r. co_receipt (fst (commit SALES (pointer SALES (snd (create SALES ''did:key:w2'' (run_catalog sales_ops)))) ''v''
      ''did:key:w2'' POLICY ''n2'' [] (snd (create SALES ''did:key:w2'' (run_catalog sales_ops))))) = Some r
    \<and> rc_snapshot_id r = 1 \<and> rc_prev_receipt r = []"
  using create_discards_history[of "''v''" POLICY "[]" "run_catalog sales_ops" SALES "''did:key:w2''" "''did:key:w2''" "''n2''"]
    POLICY_bound
  by (auto simp: bad_text_def py_len_def MAX_TEXT_def)

end
