(* ===== verification/Suites.thy ===== *)
theory Suites
  imports GuardCases CatalogCases
begin

text \<open>
  The two benchmarks of the book as kinds of the common harness of theory \<open>Suite\<close>, and what the
  harness guarantees: a system is scored only on what it claims, the gates count the failures of
  supported cases, and a report passes exactly when the reference does.
\<close>

subsection \<open>The capability benchmark\<close>

definition GUARD_SYSTEMS :: "(string \<times> string) list" where
  "GUARD_SYSTEMS = [
     (''typesec'', ''CAPABILITY_ADVERSARIAL_TYPESEC_CMD''), (''ucan'', ''CAPABILITY_ADVERSARIAL_UCAN_CMD''),
     (''biscuit'', ''CAPABILITY_ADVERSARIAL_BISCUIT_CMD''), (''macaroon'', ''CAPABILITY_ADVERSARIAL_MACAROON_CMD''),
     (''jwt'', ''CAPABILITY_ADVERSARIAL_JWT_CMD''), (''opa'', ''CAPABILITY_ADVERSARIAL_OPA_CMD''),
     (''cedar'', ''CAPABILITY_ADVERSARIAL_CEDAR_CMD''), (''spicedb'', ''CAPABILITY_ADVERSARIAL_SPICEDB_CMD''),
     (''openfga'', ''CAPABILITY_ADVERSARIAL_OPENFGA_CMD'')]"

definition GUARD_KIND :: suite_kind where
  "GUARD_KIND = \<lparr>sk_benchmark = ''CAPABILITY-ADVERSARIAL-v1'', sk_version = CAPABILITY_CORPUS_VERSION,
     sk_domain = GUARD_DOMAIN, sk_protocol = ''capability-adversarial-adapter-v1'', sk_key = ''system'',
     sk_list_key = ''systems'', sk_capabilities = GUARD_CAPABILITIES, sk_gates = GUARD_GATES,
     sk_systems = GUARD_SYSTEMS, sk_timeout_variable = ''CAPABILITY_ADVERSARIAL_TIMEOUT_SECONDS'',
     sk_unknown = ''unknown systems: '',
     sk_unbounded = ''capability-adversarial report contains an unbounded string''\<rparr>"

definition guard_systems :: "py_prims \<Rightarrow> (string \<Rightarrow> string \<Rightarrow> int \<Rightarrow> string result) \<Rightarrow> string list
    \<Rightarrow> (string, string) pydict \<Rightarrow> (string, json) pydict list result" where
  "guard_systems p spawn selected env = suite_systems p GUARD_KIND spawn guard_seeded selected guard_cases env"

subsection \<open>The catalog benchmark\<close>

definition EXTERNAL_CATALOGS :: "(string \<times> string) list" where
  "EXTERNAL_CATALOGS = [
     (''lakecat'', ''CATALOG_PROVENANCE_LAKECAT_CMD''), (''polaris'', ''CATALOG_PROVENANCE_POLARIS_CMD''),
     (''gravitino'', ''CATALOG_PROVENANCE_GRAVITINO_CMD''), (''nessie'', ''CATALOG_PROVENANCE_NESSIE_CMD'')]"

definition CATALOG_KIND :: suite_kind where
  "CATALOG_KIND = \<lparr>sk_benchmark = ''CATALOG-PROVENANCE-v1'', sk_version = CATALOG_CORPUS_VERSION,
     sk_domain = CATALOG_DOMAIN, sk_protocol = ''catalog-provenance-adapter-v1'', sk_key = ''catalog'',
     sk_list_key = ''catalogs'', sk_capabilities = CATALOG_CAPABILITIES, sk_gates = CATALOG_GATES,
     sk_systems = EXTERNAL_CATALOGS, sk_timeout_variable = ''CATALOG_PROVENANCE_TIMEOUT_SECONDS'',
     sk_unknown = ''unknown catalogs: '',
     sk_unbounded = ''catalog-provenance report contains an unbounded string''\<rparr>"

definition catalog_manifest :: "catalog suite_case list \<Rightarrow> plain" where
  "catalog_manifest suite = suite_manifest CATALOG_KIND suite"

definition catalog_corpus_digest :: "plain \<Rightarrow> string" where
  "catalog_corpus_digest manifest = suite_corpus_digest CATALOG_KIND manifest"

definition catalog_hard_gates :: "suite_row list \<Rightarrow> (string, int) pydict result" where
  "catalog_hard_gates rows = suite_gates CATALOG_GATES rows"

definition catalog_summarize :: "suite_row list \<Rightarrow> (string, json) pydict" where
  "catalog_summarize rows = suite_summary rows"

definition catalog_status :: "string \<Rightarrow> (string, int) pydict \<Rightarrow> string" where
  "catalog_status s gates = suite_status s gates"

definition catalog_bounded :: "json \<Rightarrow> bool" where
  "catalog_bounded report = suite_walk report"

definition catalog_finish :: "string \<Rightarrow> string \<Rightarrow> string list \<Rightarrow> suite_row list \<Rightarrow> (string, json) pydict result" where
  "catalog_finish name version caps rows = suite_finish CATALOG_KIND name version caps rows"

definition run_reference_catalog :: "catalog suite_case list \<Rightarrow> (string, json) pydict result" where
  "run_reference_catalog suite = suite_reference CATALOG_KIND catalog_seeded suite"

definition catalog_request :: "py_prims \<Rightarrow> catalog suite_case list \<Rightarrow> string" where
  "catalog_request p suite = suite_request p CATALOG_KIND suite"

definition catalog_parse :: "py_prims \<Rightarrow> string \<Rightarrow> catalog suite_case list \<Rightarrow> (string \<times> string list \<times> suite_row list) result" where
  "catalog_parse p payload suite = suite_parse p CATALOG_KIND payload suite"

definition external_catalog :: "py_prims \<Rightarrow> (string \<Rightarrow> string \<Rightarrow> int \<Rightarrow> string result) \<Rightarrow> catalog suite_case list
    \<Rightarrow> (string, string) pydict \<Rightarrow> string \<times> string \<Rightarrow> (string, json) pydict result" where
  "external_catalog p spawn suite env x = suite_external p CATALOG_KIND spawn suite env x"

definition execute_catalogs :: "py_prims \<Rightarrow> (string \<Rightarrow> string \<Rightarrow> int \<Rightarrow> string result) \<Rightarrow> string list
    \<Rightarrow> catalog suite_case list \<Rightarrow> (string, string) pydict \<Rightarrow> (string, json) pydict list result" where
  "execute_catalogs p spawn selected suite env = suite_systems p CATALOG_KIND spawn catalog_seeded selected suite env"

definition catalog_report :: "(string, string) pydict \<Rightarrow> string \<Rightarrow> (string, json) pydict list \<Rightarrow> json result" where
  "catalog_report metadata manifest_digest catalogs = suite_report CATALOG_KIND metadata manifest_digest catalogs"

subsection \<open>Claims and scores\<close>

lemma suite_parse_row_id: "suite_parse_row caps row c = Inr r \<Longrightarrow> rw_case_id r = sc_id c"
  by (auto simp: suite_parse_row_def suite_row_of_def bind_result_Inr_iff Let_def split: if_splits)

lemma claimed_known: "set (claimed_capabilities k xs) \<subseteq> set (sk_capabilities k)"
  by (auto simp: claimed_capabilities_def split: json.splits if_splits)

text \<open>a row that claims no more than its system: unsupported and unscored unless the capability of its case
  is claimed\<close>

definition row_honest :: "string list \<Rightarrow> suite_row \<Rightarrow> bool" where
  "row_honest caps r \<longleftrightarrow> (if rw_capability r \<in> set caps then rw_correct r \<le> rw_supported r
     else \<not> rw_supported r \<and> \<not> rw_correct r)"

lemma suite_parse_row_honest: "suite_parse_row caps row c = Inr r \<Longrightarrow> row_honest caps r"
  by (auto simp: suite_parse_row_def suite_row_of_def bind_result_Inr_iff Let_def row_honest_def split: if_splits)

text \<open>An adapter cannot score on what its system does not claim: an accepted answer has one row per
case of the suite, in its order, claims only capabilities of the benchmark, and a case whose
capability is not claimed is unsupported and not correct, whatever the adapter reported.\<close>

theorem unclaimed_cases_unscored:
  assumes "suite_parse p k payload suite = Inr (version, caps, rows)"
  shows "map rw_case_id rows = map sc_id suite \<and> set caps \<subseteq> set (sk_capabilities k) \<and> list_all (row_honest caps) rows"
proof -
  from assms obtain by_id cs where rows:
      "map_result (\<lambda>c. suite_parse_row caps (the (dict_get by_id (JStr (sc_id c)))) c) suite = Inr rows"
      "caps = claimed_capabilities k cs"
    unfolding suite_parse_def bind_result_Inr_iff Let_def by (auto simp: bind_result_Inr_iff split: if_splits)
  have l: "list_all2 (\<lambda>c r. suite_parse_row caps (the (dict_get by_id (JStr (sc_id c)))) c = Inr r) suite rows"
    using rows(1) by (simp add: map_result_Inr_iff)
  have "list_all2 (\<lambda>c r. rw_case_id r = sc_id c) suite rows"
    using l by (rule list_all2_mono) (auto dest: suite_parse_row_id)
  then have "map rw_case_id rows = map sc_id suite" by (rule list_all2_maps)
  moreover have "list_all (row_honest caps) rows"
  proof -
    have "list_all2 (\<lambda>c r. row_honest caps r) suite rows"
      using l by (rule list_all2_mono) (auto dest: suite_parse_row_honest)
    then show ?thesis by (auto simp: list_all_length list_all2_conv_all_nth)
  qed
  ultimately show ?thesis using rows(2) claimed_known by auto
qed

subsection \<open>Gates\<close>

definition gate_trips :: "string \<Rightarrow> suite_row list \<Rightarrow> int" where
  "gate_trips n rows = int (length (filter (\<lambda>r. trips r \<and> rw_gate r = n) rows))"

lemma suite_gate_loop_counts:
  "suite_gate_loop rows gates = Inr out \<Longrightarrow> distinct (map fst gates)
    \<Longrightarrow> out = map (\<lambda>(n, v). (n, v + gate_trips n rows)) gates"
proof (induction rows arbitrary: gates out)
  case Nil
  then show ?case by (simp add: gate_trips_def case_prod_beta)
next
  case (Cons r rows)
  show ?case
  proof (cases "trips r")
    case False
    with Cons show ?thesis by (simp add: gate_trips_def)
  next
    case True
    with Cons.prems(1) obtain v where v: "dict_get gates (rw_gate r) = Some v"
      "suite_gate_loop rows (dict_set (rw_gate r) (v + 1) gates) = Inr out"
      by (auto split: option.splits)
    have upd: "dict_set (rw_gate r) (v + 1) gates = map (\<lambda>(n, w). (n, if n = rw_gate r then w + 1 else w)) gates"
      using v(1) Cons.prems(2) by (induction gates) (force split: if_splits intro!: map_idI[symmetric])+
    have "distinct (map fst (dict_set (rw_gate r) (v + 1) gates))"
      using Cons.prems(2) by (simp add: upd comp_def case_prod_beta)
    from Cons.IH[OF v(2) this] show ?thesis
      using True by (auto simp: upd gate_trips_def)
  qed
qed

text \<open>The gates count exactly the failures: each gate of the benchmark appears once, with the number of
supported cases that carry the gate and were answered wrongly; unsupported cases and cases
without a gate count nowhere.\<close>

theorem suite_gates_exact:
  assumes "distinct names" "suite_gates names rows = Inr gates"
  shows "gates = map (\<lambda>n. (n, gate_trips n rows)) names"
  using suite_gate_loop_counts[OF assms(2)[unfolded suite_gates_def]] assms(1)
  by (simp add: comp_def)

subsection \<open>Witnesses\<close>

definition quiet_prims :: py_prims where
  "quiet_prims = \<lparr>float_repr = (\<lambda>r. ''0.0''), float_parse = (\<lambda>s. raise_error ''ValueError'' s),
     json_error_text = (\<lambda>s. s)\<rparr>"

definition small_case :: "guard suite_case" where
  "small_case = new_suite_case ''a'' ''mint'' ''revocation'' ''d'' gs_ambient ''label_leaked''"

text \<open>the answer \<^verbatim>\<open>{"capabilities": ["wire"], "cases": [{"case_id": "a", "supported": true, "correct": true}]}\<close>\<close>

definition small_answer :: string where
  "small_answer = (let q = [CHR 0x22] in ''{'' @ q @ ''capabilities'' @ q @ '':['' @ q @ ''wire'' @ q @ ''],'' @ q @ ''cases'' @ q
     @ '':[{'' @ q @ ''case_id'' @ q @ '':'' @ q @ ''a'' @ q @ '','' @ q @ ''supported'' @ q @ '':true,'' @ q @ ''correct'' @ q
     @ '':true}]}'')"

lemma small_tree: "json_parse small_answer = Inr (JObj [(''capabilities'', JList [JStr ''wire'']),
    (''cases'', JList [JObj [(''case_id'', JStr ''a''), (''supported'', JBool True), (''correct'', JBool True)]])])"
  by code_simp

lemma small_parsed: "suite_parse quiet_prims GUARD_KIND small_answer [small_case]
    = Inr (''capability-adversarial-adapter-v1'', [], [suite_row_of small_case False False])"
  by (simp add: suite_parse_def json_loads_def small_tree get_default_def json_get_def json_item_def json_iter_def row_entry_def
      small_case_def new_suite_case_def dict_keys_def claimed_capabilities_def GUARD_KIND_def GUARD_CAPABILITIES_def
      suite_parse_row_def Let_def py_take_ascii is_ascii_def)

theorem unclaimed_cases_unscored_witness:
  "list_all (row_honest []) [suite_row_of small_case False False]"
  using unclaimed_cases_unscored[OF small_parsed] by blast

theorem suite_gates_exact_witness:
  "suite_gates [''label_leaked'', ''lease_extended''] [suite_row_of small_case True False, suite_row_of small_case False False]
   = Inr [(''label_leaked'', 1), (''lease_extended'', 0)]"
proof -
  obtain gates where g: "suite_gates [''label_leaked'', ''lease_extended'']
      [suite_row_of small_case True False, suite_row_of small_case False False] = Inr gates"
    by (simp add: suite_gates_def trips_def suite_row_of_def small_case_def new_suite_case_def)
  from suite_gates_exact[OF _ g] g show ?thesis
    by (simp add: gate_trips_def trips_def suite_row_of_def small_case_def new_suite_case_def)
qed

end
