(* ===== verification/Render.thy ===== *)
theory Render
  imports Report Corpora
begin

text \<open>
  \<^verbatim>\<open>render_results.py\<close>: the Markdown document of a report. The report is any JSON value, so every
  access may raise; a document is its lines, joined. Version 1 renders one ranked table, version 2
  one table for each track and then parses its own document to refuse a table that names systems
  of two tracks. In a sum of verdicts the non-finite floats count as no numbers.
\<close>

subsection \<open>Loops that may raise\<close>

lemma map_result_mem: "map_result f xs = Inr ys \<Longrightarrow> y \<in> set ys \<Longrightarrow> \<exists>x \<in> set xs. f x = Inr y"
  by (induction xs arbitrary: ys) (auto simp: bind_result_Inr_iff)

lemma map_result_image: "map_result f xs = Inr ys \<Longrightarrow> x \<in> set xs \<Longrightarrow> \<exists>y \<in> set ys. f x = Inr y"
  by (induction xs arbitrary: ys) (auto simp: bind_result_Inr_iff)

subsection \<open>Texts\<close>

definition CORRECT :: string where "CORRECT = [CHR 0xE2, CHR 0x9C, CHR 0x93]"

definition FAILED :: string where "FAILED = [CHR 0xE2, CHR 0x9C, CHR 0x97]"

definition UNSUPPORTED :: string where "UNSUPPORTED = [CHR 0xC2, CHR 0xB7]"

definition TRACK_TITLES :: "(string, string) pydict" where
  "TRACK_TITLES = [(MEMORY_STORE, ''Memory-store track''), (AGENT_MEMORY, ''Agent-memory track'')]"

definition TRACK_NOTES :: "(string, string) pydict" where
  "TRACK_NOTES = [
     (MEMORY_STORE, ''Storage, retrieval, deletion, temporal, and authorization APIs are called ''
       @ ''directly. Systems in this table are compared only with each other, never with ''
       @ ''the agent-memory track.''),
     (AGENT_MEMORY, ''Memory is reached through one shared agent loop '' @ em_dash
       @ '' same model, same prompts, same tool contract, same context budget for every ''
       @ ''backend; only the memory varies. Systems in this table are compared only with ''
       @ ''each other, never with the memory-store track.'')]"

definition INTRO_V1 :: string where
  "INTRO_V1 = ''Comparative systems run through their own OSS stacks with local models (Ollama) ''
     @ ''and local infrastructure. A cell is '' @ CORRECT
     @ '' when the system produced the correct outcome, '' @ FAILED
     @ '' when it did not (a finding about that system), and '' @ UNSUPPORTED
     @ '' when the system honestly declared the case unsupported '' @ em_dash
     @ '' never scored as a pass or a failure. Correctness is shown together with ''
     @ ''coverage; scores over different coverage are not directly comparable.''"

definition INTRO_V2 :: string where
  "INTRO_V2 = ''v2 separates systems by how their memory is reached and compares only within a ''
     @ ''track. The memory-store track calls each system'' @ [CHR 0x27]
     @ ''s storage API directly; the agent-memory track drives every backend through one ''
     @ ''shared, controlled agent loop. A cell is '' @ CORRECT
     @ '' when the system produced the correct outcome, '' @ FAILED
     @ '' when it did not (a finding about that system), and '' @ UNSUPPORTED
     @ '' when the case is unsupported '' @ em_dash
     @ '' declared by the system, or inexpressible in the shared tool contract for the ''
     @ ''whole track. Correctness is shown together with coverage; scores over different ''
     @ ''coverage are not directly comparable, and scores across tracks are never comparable.''"

definition bar :: "string list \<Rightarrow> string" where
  "bar cells = ''| '' @ join '' | '' cells @ '' |''"

definition code_text :: "string \<Rightarrow> string" where
  "code_text s = ''`'' @ s @ ''`''"

text \<open>\<^verbatim>\<open>f"{x:.0%}"\<close>\<close>

definition percent :: "rat \<Rightarrow> string" where
  "percent x = int_str (round_half_even (x * 100)) @ ''%''"

subsection \<open>Verdicts\<close>

definition is_supported :: "json \<Rightarrow> bool result" where
  "is_supported c = bind_result (get_default c ''supported'' (JBool True)) (\<lambda>s. Inr (truthy s))"

definition cell :: "json \<Rightarrow> string result" where
  "cell c = bind_result (is_supported c) (\<lambda>s.
     if \<not> s then Inr UNSUPPORTED
     else bind_result (json_item c ''correct'') (\<lambda>v. Inr (if truthy v then CORRECT else FAILED)))"

text \<open>\<^verbatim>\<open>[x for x in xs if f(x)]\<close>\<close>

fun filter_result :: "('a \<Rightarrow> bool result) \<Rightarrow> 'a list \<Rightarrow> 'a list result" where
  "filter_result f [] = Inr []"
| "filter_result f (x # xs) = bind_result (f x) (\<lambda>b.
     bind_result (filter_result f xs) (\<lambda>ys. Inr (if b then x # ys else ys)))"

definition entry_cases :: "json \<Rightarrow> json list result" where
  "entry_cases entry = bind_result (json_item entry ''cases'') json_iter"

text \<open>the sum of the verdicts so far: its value, and whether it is a float\<close>

definition add_verdict :: "rat \<times> bool \<Rightarrow> json \<Rightarrow> (rat \<times> bool) result" where
  "add_verdict acc v = (case v of
       JBool b \<Rightarrow> Inr (fst acc + (if b then 1 else 0), snd acc)
     | JInt i \<Rightarrow> Inr (fst acc + of_int i, snd acc)
     | JFloat r \<Rightarrow> Inr (fst acc + r, True)
     | _ \<Rightarrow> raise_error ''TypeError'' (''unsupported operand type(s) for +: ''
         @ repr_str (if snd acc then ''float'' else ''int'') @ '' and '' @ repr_str (type_name v)))"

fun sum_correct :: "rat \<times> bool \<Rightarrow> json list \<Rightarrow> (rat \<times> bool) result" where
  "sum_correct acc [] = Inr acc"
| "sum_correct acc (c # cs) = bind_result (json_item c ''correct'') (\<lambda>v.
     bind_result (add_verdict acc v) (\<lambda>acc'. sum_correct acc' cs))"

record score =
  sc_cases :: nat
  sc_supported :: nat
  sc_correct :: "rat \<times> bool"

definition entry_score :: "json \<Rightarrow> score result" where
  "entry_score entry =
     bind_result (entry_cases entry) (\<lambda>cs.
     bind_result (filter_result is_supported cs) (\<lambda>supported.
     bind_result (sum_correct (0, False) supported) (\<lambda>correct.
       Inr \<lparr>sc_cases = length cs, sc_supported = length supported, sc_correct = correct\<rparr>)))"

definition sc_accuracy :: "score \<Rightarrow> rat" where
  "sc_accuracy s = (if sc_supported s = 0 then 0 else fst (sc_correct s) / of_nat (sc_supported s))"

definition coverage_text :: "score \<Rightarrow> string" where
  "coverage_text s = nat_str (sc_supported s) @ ''/'' @ nat_str (sc_cases s)"

definition correctness_text :: "py_prims \<Rightarrow> score \<Rightarrow> string" where
  "correctness_text p s = percent (sc_accuracy s) @ '' (''
     @ (if snd (sc_correct s) then float_repr p (fst (sc_correct s)) else int_str \<lfloor>fst (sc_correct s)\<rfloor>)
     @ ''/'' @ nat_str (sc_supported s) @ '')''"

subsection \<open>Ranking\<close>

type_synonym rank = "nat \<times> rat \<times> int \<times> rat \<times> string"

definition rank_of :: "bool \<Rightarrow> string \<Rightarrow> score \<Rightarrow> rank" where
  "rank_of reference name s = (if reference then 0 else 1, - sc_accuracy s, - int (sc_supported s),
     - fst (sc_correct s), name)"

definition ranking_key_v1 :: "string \<Rightarrow> json \<Rightarrow> rank result" where
  "ranking_key_v1 name entry = bind_result (json_item entry ''status'') (\<lambda>status.
     if status \<noteq> JStr ''executed'' then Inr (2, 0, 0, 0, name)
     else bind_result (entry_score entry) (\<lambda>s. Inr (rank_of (name = ''marciana'') name s)))"

definition starts_with :: "string \<Rightarrow> string \<Rightarrow> bool" where
  "starts_with pre s \<longleftrightarrow> take (length pre) s = pre"

definition ranking_key_v2 :: "string \<Rightarrow> json \<Rightarrow> rank result" where
  "ranking_key_v2 name entry =
     bind_result (entry_score entry) (\<lambda>s. Inr (rank_of (starts_with ''marciana'' name) name s))"

text \<open>\<^verbatim>\<open>sorted(names, key=...)\<close>\<close>

definition rank_by :: "(string \<Rightarrow> json \<Rightarrow> rank result) \<Rightarrow> (string, json) pydict \<Rightarrow> string list result" where
  "rank_by key xs = bind_result (map_result (\<lambda>(n, e). bind_result (key n e) (\<lambda>k. Inr (k, n))) xs)
     (\<lambda>ps. Inr (map snd (sort_key fst ps)))"

subsection \<open>Blocks of lines\<close>

text \<open>a report's systems; \<^verbatim>\<open>sorted(x)\<close> and \<^verbatim>\<open>x[name]\<close> need a dictionary, or nothing in it\<close>

definition systems_of :: "json \<Rightarrow> (string, json) pydict result" where
  "systems_of v = (case v of JObj d \<Rightarrow> Inr d
     | _ \<Rightarrow> bind_result (json_iter v) (\<lambda>xs. if xs = [] then Inr []
         else raise_error ''TypeError'' (type_name v @ '' indices must be integers'')))"

definition head_lines :: "py_prims \<Rightarrow> string \<Rightarrow> string \<Rightarrow> json \<Rightarrow> string list result" where
  "head_lines p version intro report =
     bind_result (json_item report ''benchmark'') (\<lambda>benchmark.
     bind_result (json_item report ''corpus_digest'') (\<lambda>d.
     bind_result (json_item report ''status'') (\<lambda>status.
     bind_result (json_item report ''metadata'') (\<lambda>metadata.
     bind_result (get_default metadata ''profile'' (JStr [])) (\<lambda>profile.
     bind_result (get_default metadata ''provider'' (JStr [])) (\<lambda>provider.
       Inr [''# MARCIANA-ADVERSARIAL-'' @ version @ '' comparative results'', [],
         ''**Benchmark:** '' @ json_str p benchmark,
         ''**Corpus digest:** '' @ code_text (json_str p d),
         ''**Overall status:** '' @ json_str p status,
         ''**Profile:** '' @ json_str p profile @ '' on '' @ json_str p provider,
         [], intro]))))))"

text \<open>\<^verbatim>\<open>sep.join(x)\<close> of a value that should hold texts\<close>

fun join_texts :: "nat \<Rightarrow> json list \<Rightarrow> string list result" where
  "join_texts k [] = Inr []"
| "join_texts k (v # vs) = (case v of
       JStr s \<Rightarrow> bind_result (join_texts (Suc k) vs) (\<lambda>ss. Inr (s # ss))
     | _ \<Rightarrow> raise_error ''TypeError'' (''sequence item '' @ nat_str k @ '': expected str instance, ''
         @ type_name v @ '' found''))"

definition join_value :: "string \<Rightarrow> json \<Rightarrow> string result" where
  "join_value sep v = (case json_iter v of
       Inl e \<Rightarrow> raise_error ''TypeError'' ''can only join an iterable''
     | Inr xs \<Rightarrow> bind_result (join_texts 0 xs) (\<lambda>ss. Inr (join sep ss)))"

definition missing_text :: "py_prims \<Rightarrow> json \<Rightarrow> string result" where
  "missing_text p entry =
     bind_result (get_default entry ''missing_configuration'' (JList [])) (\<lambda>mc.
     bind_result (join_value '', '' mc) (\<lambda>s.
       if s \<noteq> [] then Inr s
       else bind_result (get_default entry ''error'' (JStr [])) (\<lambda>e. Inr (json_str p e))))"

definition gate_lines :: "py_prims \<Rightarrow> json \<Rightarrow> string list result" where
  "gate_lines p report = bind_result (json_item report ''hard_gates'') (\<lambda>gates. case gates of
       JObj d \<Rightarrow> Inr ([[], ''## Hard gates (Marciana reference)'', [], ''| Gate | Count |'', ''|------|-------|'']
         @ map (\<lambda>(gate, count). bar [code_text gate, json_str p count]) (sort_key fst d))
     | _ \<Rightarrow> raise_error ''AttributeError''
         (repr_str (type_name gates) @ '' object has no attribute '' @ repr_str ''items''))"

text \<open>\<^verbatim>\<open>{c["case_id"]: c for c in cases}\<close> and \<^verbatim>\<open>{c["case_id"]: c["category"] for c in cases}\<close>\<close>

definition case_map :: "json \<Rightarrow> (json, json) pydict result" where
  "case_map entry = bind_result (entry_cases entry) (\<lambda>cs.
     bind_result (map_result row_entry cs) (\<lambda>es. Inr (dict_of es [])))"

definition category_entry :: "json \<Rightarrow> (json \<times> json) result" where
  "category_entry c =
     bind_result (json_item c ''case_id'') (\<lambda>_.
     bind_result (json_item c ''category'') (\<lambda>v.
     bind_result (row_entry c) (\<lambda>e. Inr (fst e, v))))"

definition category_map :: "json \<Rightarrow> (json, json) pydict result" where
  "category_map entry = bind_result (entry_cases entry) (\<lambda>cs.
     bind_result (map_result category_entry cs) (\<lambda>es. Inr (dict_of es [])))"

text \<open>one row of the matrix: the case, its category and a cell for every system\<close>

definition matrix_cell :: "py_prims \<Rightarrow> json \<Rightarrow> (json, json) pydict \<Rightarrow> string result" where
  "matrix_cell p cid by_id = (case dict_get by_id cid of
       None \<Rightarrow> raise_error ''KeyError'' (json_repr p cid) | Some c \<Rightarrow> cell c)"

definition matrix_row :: "py_prims \<Rightarrow> (json, json) pydict list \<Rightarrow> (json, json) pydict \<Rightarrow> json \<Rightarrow> string result" where
  "matrix_row p maps categories cid =
     bind_result (map_result (matrix_cell p cid) maps) (\<lambda>cells.
       case (case dict_get categories cid of None \<Rightarrow> JStr [] | Some v \<Rightarrow> v) of
         JStr category \<Rightarrow> Inr (bar (code_text (json_str p cid) # category # cells))
       | v \<Rightarrow> raise_error ''TypeError'' (''sequence item 1: expected str instance, '' @ type_name v @ '' found''))"

definition matrix_header :: "string list \<Rightarrow> string list" where
  "matrix_header names = [bar ([''Case'', ''Category''] @ names),
     ''|------|----------|'' @ join ''|'' (map (\<lambda>_. ''---'') names) @ ''|'']"

text \<open>
  the rows for the systems of a table, which name their categories as the optional reference does;
  \<open>names\<close> is not empty
\<close>

definition matrix_rows :: "py_prims \<Rightarrow> (string, json) pydict \<Rightarrow> string list \<Rightarrow> string option \<Rightarrow> string list result" where
  "matrix_rows p systems names reference =
     (let entry = (\<lambda>n. the (dict_get systems n))
      in bind_result (entry_cases (entry (hd names))) (\<lambda>cs.
         bind_result (map_result (\<lambda>c. json_item c ''case_id'') cs) (\<lambda>case_ids.
         bind_result (map_result (\<lambda>n. case_map (entry n)) names) (\<lambda>maps.
         bind_result (case reference of None \<Rightarrow> Inr [] | Some r \<Rightarrow> category_map (entry r)) (\<lambda>categories.
           map_result (matrix_row p maps categories) case_ids)))))"

subsection \<open>Version 1\<close>

definition system_row_v1 :: "py_prims \<Rightarrow> string \<Rightarrow> json \<Rightarrow> string result" where
  "system_row_v1 p name entry =
     bind_result (json_item entry ''status'') (\<lambda>status.
       if status = JStr ''executed'' then
         bind_result (entry_score entry) (\<lambda>s.
         bind_result (get_default entry ''interface'' (JStr em_dash)) (\<lambda>interface.
         bind_result (json_item entry ''adapter_version'') (\<lambda>av.
           Inr (bar [name, ''executed'', json_str p interface, code_text (json_str p av),
             coverage_text s, correctness_text p s]))))
       else bind_result (missing_text p entry) (\<lambda>missing.
         Inr (bar [name, json_str p status, em_dash, em_dash, em_dash, missing])))"

definition legend :: "string \<Rightarrow> string" where
  "legend note = ''Legend: '' @ CORRECT @ '' correct '' @ UNSUPPORTED @ '' '' @ FAILED @ '' failed (finding) ''
     @ UNSUPPORTED @ '' '' @ UNSUPPORTED @ '' unsupported ('' @ note @ '').''"

definition render_v1 :: "py_prims \<Rightarrow> json \<Rightarrow> string result" where
  "render_v1 p report =
     bind_result (json_item report ''systems'') (\<lambda>sv.
     bind_result (systems_of sv) (\<lambda>systems.
     bind_result (rank_by ranking_key_v1 systems) (\<lambda>present.
     let entry = (\<lambda>n. the (dict_get systems n));
         executed = filter (\<lambda>n. json_item (entry n) ''status'' = Inr (JStr ''executed'')) present
     in bind_result (head_lines p ''v1'' INTRO_V1 report) (\<lambda>head.
        bind_result (map_result (\<lambda>n. system_row_v1 p n (entry n)) present) (\<lambda>rows.
        bind_result (gate_lines p report) (\<lambda>gates.
        bind_result (if executed = [] then Inr []
          else bind_result
            (matrix_rows p systems executed (if ''marciana'' \<in> set executed then Some ''marciana'' else None))
            (\<lambda>rs. Inr ([[], ''## Case matrix'', []] @ matrix_header executed @ rs @ [[], legend ''declared''])))
          (\<lambda>matrix.
          Inr (join [CHR 0x0A] (head
            @ [[], ''## Systems'', [],
               ''| System | Status | Interface | Adapter | Coverage | Correctness within coverage |'',
               ''|--------|--------|-----------|---------|----------|-----------------------------|'']
            @ rows @ gates @ matrix @ [[]])))))))))"

subsection \<open>Tracks and the check of the tables\<close>

definition track_of_value :: "json \<Rightarrow> string result" where
  "track_of_value v = (if \<not> hashable v
     then raise_error ''TypeError'' (''unhashable type: '' @ repr_str (type_name v))
     else Inr (case v of JStr s \<Rightarrow> track_for_interface s | _ \<Rightarrow> MEMORY_STORE))"

text \<open>\<^verbatim>\<open>entry.get("track", track_for_interface(entry.get("interface", "direct-api")))\<close>\<close>

definition entry_track :: "json \<Rightarrow> json result" where
  "entry_track entry =
     bind_result (get_default entry ''interface'' (JStr ''direct-api'')) (\<lambda>i.
     bind_result (track_of_value i) (\<lambda>t. get_default entry ''track'' (JStr t)))"

fun track_loop :: "(string \<times> json) list \<Rightarrow> (string \<times> json) list result" where
  "track_loop [] = Inr []"
| "track_loop ((n, e) # xs) = bind_result (json_get e ''status'') (\<lambda>status.
     if status = Some (JStr ''executed'')
     then bind_result (entry_track e) (\<lambda>t. bind_result (track_loop xs) (\<lambda>ts. Inr ((n, t) # ts)))
     else track_loop xs)"

definition system_tracks :: "json \<Rightarrow> (string, json) pydict result" where
  "system_tracks report = bind_result (json_item report ''systems'') (\<lambda>sv. case sv of
       JObj d \<Rightarrow> track_loop d
     | _ \<Rightarrow> raise_error ''AttributeError''
         (repr_str (type_name sv) @ '' object has no attribute '' @ repr_str ''items''))"

text \<open>\<^verbatim>\<open>s.strip(c)\<close> and \<^verbatim>\<open>s.split(c)\<close> for one ASCII character\<close>

definition strip_char :: "char \<Rightarrow> string \<Rightarrow> string" where
  "strip_char c s = rev (dropWhile (\<lambda>x. x = c) (rev (dropWhile (\<lambda>x. x = c) s)))"

fun split_on :: "char \<Rightarrow> string \<Rightarrow> string list" where
  "split_on c [] = [[]]"
| "split_on c (x # xs) = (if x = c then [] # split_on c xs
     else (case split_on c xs of [] \<Rightarrow> [[x]] | y # ys \<Rightarrow> (x # y) # ys))"

definition table_cells :: "string \<Rightarrow> string list" where
  "table_cells row = map (\<lambda>raw. strip_char (CHR ''`'') (py_strip raw))
     (split_on (CHR ''|'') (strip_char (CHR ''|'') (py_strip row)))"

text \<open>the tracks that the cells of some rows name\<close>

definition named_tracks :: "(string, json) pydict \<Rightarrow> string list \<Rightarrow> json list" where
  "named_tracks tracks rows =
     concat (map (\<lambda>row. concat (map (\<lambda>x. case dict_get tracks x of None \<Rightarrow> [] | Some t \<Rightarrow> [t]) (table_cells row))) rows)"

definition check_table :: "(string, json) pydict \<Rightarrow> string list \<Rightarrow> unit result" where
  "check_table tracks rows = bind_result (set_of_items (named_tracks tracks rows)) (\<lambda>seen.
     if card seen > 1 then
       (if \<forall>t \<in> seen. case t of JStr s \<Rightarrow> True | _ \<Rightarrow> False
        then raise_error ''ValueError'' (''rendered table mixes tracks: ''
          @ join '', '' (sorted_list_of_set ((\<lambda>t. case t of JStr s \<Rightarrow> s | _ \<Rightarrow> []) ` seen)))
        else raise_error ''TypeError'' ''instances of these types are not ordered'')
     else Inr ())"

definition is_table_line :: "string \<Rightarrow> bool" where
  "is_table_line line \<longleftrightarrow> starts_with ''|'' (py_lstrip line)"

fun table_loop :: "(string, json) pydict \<Rightarrow> string list \<Rightarrow> string list \<Rightarrow> unit result" where
  "table_loop tracks table [] = Inr ()"
| "table_loop tracks table (line # ls) =
     (if is_table_line line then table_loop tracks (table @ [line]) ls
      else if table \<noteq> [] then bind_result (check_table tracks table) (\<lambda>_. table_loop tracks [] ls)
      else table_loop tracks table ls)"

definition assert_no_cross_track_table :: "string \<Rightarrow> json \<Rightarrow> unit result" where
  "assert_no_cross_track_table markdown report =
     bind_result (system_tracks report) (\<lambda>tracks. table_loop tracks [] (splitlines markdown @ [[]]))"

subsection \<open>Version 2\<close>

text \<open>the first true \<^verbatim>\<open>harness\<close> of the members\<close>

fun first_harness :: "json list \<Rightarrow> json option result" where
  "first_harness [] = Inr None"
| "first_harness (e # es) = bind_result (json_get e ''harness'') (\<lambda>h.
     case h of None \<Rightarrow> first_harness es
     | Some v \<Rightarrow> if truthy v then Inr (Some v) else first_harness es)"

definition harness_line :: "py_prims \<Rightarrow> json \<Rightarrow> string result" where
  "harness_line p h = (case h of
       JObj d \<Rightarrow>
         bind_result (json_item h ''model'') (\<lambda>model.
         bind_result (json_item h ''seed'') (\<lambda>sd.
         bind_result (json_item h ''temperature'') (\<lambda>temperature.
         bind_result (json_item h ''num_ctx'') (\<lambda>num_ctx.
         bind_result (json_item h ''max_turns'') (\<lambda>max_turns.
         bind_result (json_item h ''prompt_digest'') (\<lambda>prompt_digest.
         bind_result (json_item h ''tool_contract'') (\<lambda>tool_contract.
           Inr (''**Shared harness:** model '' @ code_text (json_str p model)
             @ '' '' @ UNSUPPORTED @ '' seed '' @ json_str p sd
             @ '' '' @ UNSUPPORTED @ '' temperature '' @ json_str p temperature
             @ '' '' @ UNSUPPORTED @ '' num_ctx '' @ json_str p num_ctx
             @ '' '' @ UNSUPPORTED @ '' max turns '' @ json_str p max_turns
             @ '' '' @ UNSUPPORTED @ '' prompts '' @ code_text (json_str p prompt_digest)
             @ '' '' @ UNSUPPORTED @ '' tools '' @ code_text (json_str p tool_contract)))))))))
     | _ \<Rightarrow> raise_error ''TypeError''
         (''str.format() argument after ** must be a mapping, not '' @ type_name h))"

definition system_row_v2 :: "py_prims \<Rightarrow> string \<Rightarrow> json \<Rightarrow> string result" where
  "system_row_v2 p name entry =
     bind_result (entry_score entry) (\<lambda>s.
     bind_result (json_item entry ''adapter_version'') (\<lambda>av.
       Inr (bar [name, code_text (json_str p av), coverage_text s, correctness_text p s])))"

definition first_marciana :: "string list \<Rightarrow> string" where
  "first_marciana members = (case find (starts_with ''marciana'') members of Some n \<Rightarrow> n | None \<Rightarrow> hd members)"

definition track_section :: "py_prims \<Rightarrow> (string, json) pydict \<Rightarrow> (string, json) pydict \<Rightarrow> string
    \<Rightarrow> string list result" where
  "track_section p systems tracks track =
     (let entry = (\<lambda>n. the (dict_get systems n));
          title = the (dict_get TRACK_TITLES track)
      in bind_result (rank_by ranking_key_v2
           (map (\<lambda>(n, t). (n, entry n)) (filter (\<lambda>(n, t). t = JStr track) tracks))) (\<lambda>members.
         if members = [] then Inr []
         else
           bind_result (first_harness (map entry members)) (\<lambda>harness.
           bind_result (case harness of None \<Rightarrow> Inr []
             | Some h \<Rightarrow> bind_result (harness_line p h) (\<lambda>l. Inr [l, []])) (\<lambda>shared.
           bind_result (map_result (\<lambda>n. system_row_v2 p n (entry n)) members) (\<lambda>rows.
           bind_result (matrix_rows p systems members (Some (first_marciana members))) (\<lambda>matrix.
             Inr ([[], ''## '' @ title, [], the (dict_get TRACK_NOTES track), []] @ shared
               @ [''| System | Adapter | Coverage | Correctness within coverage |'',
                  ''|--------|---------|----------|-----------------------------|''] @ rows
               @ [[], ''### Case matrix '' @ em_dash @ '' '' @ py_lower title, []]
               @ matrix_header members @ matrix)))))))"

definition absent_row :: "py_prims \<Rightarrow> string \<Rightarrow> json \<Rightarrow> string result" where
  "absent_row p name entry =
     bind_result (missing_text p entry) (\<lambda>missing.
     bind_result (json_item entry ''status'') (\<lambda>status.
       Inr (bar [name, json_str p status, missing])))"

definition absent_lines :: "py_prims \<Rightarrow> (string, json) pydict \<Rightarrow> string list result" where
  "absent_lines p systems =
     bind_result (filter_result (\<lambda>(n, e). bind_result (json_get e ''status'')
       (\<lambda>status. Inr (status \<noteq> Some (JStr ''executed'')))) systems) (\<lambda>absent.
     if absent = [] then Inr []
     else bind_result (map_result (\<lambda>(n, e). absent_row p n e) (sort_key fst absent)) (\<lambda>rows.
       Inr ([[], ''## Not executed'', [], ''| System | Status | Detail |'', ''|--------|--------|--------|''] @ rows)))"

definition render_v2 :: "py_prims \<Rightarrow> json \<Rightarrow> string result" where
  "render_v2 p report =
     bind_result (json_item report ''systems'') (\<lambda>sv.
     bind_result (system_tracks report) (\<lambda>tracks.
     bind_result (systems_of sv) (\<lambda>systems.
     bind_result (head_lines p ''v2'' INTRO_V2 report) (\<lambda>head.
     bind_result (map_result (track_section p systems tracks) TRACKS) (\<lambda>sections.
     bind_result (gate_lines p report) (\<lambda>gates.
     bind_result (absent_lines p systems) (\<lambda>absent.
       let rendered = join [CHR 0x0A] (head @ concat sections @ gates @ absent
             @ [[], legend ''declared or track-inexpressible'', []])
       in bind_result (assert_no_cross_track_table rendered report) (\<lambda>_. Inr rendered))))))))"

subsection \<open>Rendering\<close>

text \<open>\<^verbatim>\<open>x.endswith(t)\<close> on a value that should be a text\<close>

definition value_ends_with :: "json \<Rightarrow> string \<Rightarrow> bool result" where
  "value_ends_with v t = (case v of JStr s \<Rightarrow> Inr (ends_with s t)
     | _ \<Rightarrow> raise_error ''AttributeError''
         (repr_str (type_name v) @ '' object has no attribute '' @ repr_str ''endswith''))"

definition render :: "py_prims \<Rightarrow> json \<Rightarrow> string result" where
  "render p report =
     bind_result (json_item report ''benchmark'') (\<lambda>benchmark.
     bind_result (value_ends_with benchmark ''-v1'') (\<lambda>v1.
       if v1 then render_v1 p report
       else bind_result (value_ends_with benchmark ''-v2'') (\<lambda>v2.
         if v2 then render_v2 p report
         else raise_error ''ValueError'' (''unknown benchmark version: '' @ json_str p benchmark))))"

text \<open>\<^verbatim>\<open>main\<close>, up to the writing of the document: its path and its text\<close>

definition render_main :: "py_prims \<Rightarrow> files \<Rightarrow> string list \<Rightarrow> (string \<times> string) result" where
  "render_main p fs args =
     bind_result (read_text fs (case args of [] \<Rightarrow> ''reports/marciana-adversarial-v1-comparative.json'' | a # _ \<Rightarrow> a)) (\<lambda>text.
     bind_result (json_loads p text) (\<lambda>report.
     bind_result (json_item report ''benchmark'') (\<lambda>benchmark.
     bind_result (value_ends_with benchmark ''-v2'') (\<lambda>v2.
       let default_out = (if v2 then ''docs/RESULTS-v2.md'' else ''docs/RESULTS.md'');
           out_path = (case args of _ # b # _ \<Rightarrow> b | _ \<Rightarrow> default_out)
       in bind_result (render p report) (\<lambda>doc. Inr (out_path, doc))))))"

end
