(* ===== verification/RenderProps.thy ===== *)
theory RenderProps
  imports Render "HOL-Library.Sublist"
begin

text \<open>
  What a rendered document guarantees: no table names systems of two tracks, a table ranks its
  systems, and a built report can be rendered unless its own texts trip the check of the tables.
\<close>

subsection \<open>Tables\<close>

definition one_track :: "(string, json) pydict \<Rightarrow> string list \<Rightarrow> bool" where
  "one_track tracks rows \<longleftrightarrow> (\<forall>t \<in> set (named_tracks tracks rows). \<forall>u \<in> set (named_tracks tracks rows). t = u)"

lemma one_track_sublist: "sublist xs ys \<Longrightarrow> one_track tr ys \<Longrightarrow> one_track tr xs"
proof -
  assume s: "sublist xs ys" and o: "one_track tr ys"
  from s have "set xs \<subseteq> set ys" by (rule set_mono_sublist)
  then have "set (named_tracks tr xs) \<subseteq> set (named_tracks tr ys)" by (auto simp: named_tracks_def)
  with o show "one_track tr xs" by (auto simp: one_track_def)
qed

lemma one_track_Nil [simp]: "one_track tr []"
  by (simp add: one_track_def named_tracks_def)

lemma named_trackI:
  "row \<in> set rows \<Longrightarrow> x \<in> set (table_cells row) \<Longrightarrow> dict_get tr x = Some t \<Longrightarrow> t \<in> set (named_tracks tr rows)"
  by (force simp: named_tracks_def)

lemma set_of_items_Inr: "set_of_items xs = Inr s \<Longrightarrow> s = set xs"
  by (auto simp: set_of_items_def split: list.splits)

lemma check_table_one_track: "check_table tr rows = Inr () \<Longrightarrow> one_track tr rows"
proof -
  assume "check_table tr rows = Inr ()"
  then have "card (set (named_tracks tr rows)) \<le> 1"
    by (auto simp: check_table_def bind_result_Inr_iff dest!: set_of_items_Inr split: if_splits)
  then show "one_track tr rows"
    by (auto simp: one_track_def card_le_Suc0_iff_eq)
qed

lemma sublist_split:
  assumes "sublist mid (a @ x # b)" "x \<notin> set mid"
  shows "sublist mid a \<or> sublist mid b"
proof -
  from assms(1) obtain p s where e: "a @ x # b = p @ mid @ s" by (auto simp: sublist_def)
  then consider us where "a = p @ us" "us @ x # b = mid @ s" | us where "p = a @ us" "x # b = us @ mid @ s"
    by (auto simp: append_eq_append_conv2)
  then show ?thesis
  proof cases
    case (1 us)
    then obtain vs where "us = mid @ vs \<or> (mid = us @ vs \<and> x # b = vs @ s)"
      by (auto simp: append_eq_append_conv2)
    then show ?thesis
    proof
      assume "us = mid @ vs"
      with 1 show ?thesis by (auto simp: sublist_def)
    next
      assume "mid = us @ vs \<and> x # b = vs @ s"
      with assms(2) have "vs = []" by (cases vs) auto
      with 1 \<open>mid = us @ vs \<and> x # b = vs @ s\<close> have "a = p @ mid @ []" by simp
      then show ?thesis unfolding sublist_def by blast
    qed
  next
    case (2 us)
    then show ?thesis
    proof (cases us)
      case Nil
      with 2 assms(2) have "mid = []" by (cases mid) auto
      then show ?thesis by simp
    next
      case (Cons u vs)
      with 2 show ?thesis by (auto simp: sublist_def)
    qed
  qed
qed

lemma table_loop_one_track:
  assumes "table_loop tr table ls = Inr ()" "list_all is_table_line table" "sublist mid (table @ ls)"
    "list_all is_table_line mid" "ls \<noteq> []" "\<not> is_table_line (last ls)"
  shows "one_track tr mid"
  using assms
proof (induction tr table ls rule: table_loop.induct)
  case (2 tr table line ls)
  show ?case
  proof (cases "is_table_line line")
    case True
    then have "ls \<noteq> []" using 2(9) by auto
    with 2 True show ?thesis by (auto simp: list_all_iff)
  next
    case False
    then have n: "line \<notin> set mid" using 2(7) by (auto simp: list_all_iff)
    have s: "sublist mid table \<or> sublist mid ls"
      using sublist_split[of mid table line ls] 2(6) n by blast
    have t: "one_track tr table"
      using 2(4) False by (cases "table = []") (auto simp: bind_result_Inr_iff dest: check_table_one_track)
    show ?thesis
    proof (cases "sublist mid table")
      case True
      then show ?thesis using t by (rule one_track_sublist)
    next
      case no: False
      with s have sl: "sublist mid ls" by blast
      with no have "ls \<noteq> []" by auto
      then have l: "\<not> is_table_line (last ls)" using 2(9) by simp
      show ?thesis
      proof (cases "table = []")
        case True
        with 2(4) False have "table_loop tr table ls = Inr ()" by simp
        from 2(3)[OF False _ this] True sl 2(7) \<open>ls \<noteq> []\<close> l show ?thesis by simp
      next
        case tne: False
        with 2(4) False have "table_loop tr [] ls = Inr ()" by (auto simp: bind_result_Inr_iff)
        from 2(2)[OF False tne this] sl 2(7) \<open>ls \<noteq> []\<close> l show ?thesis by simp
      qed
    qed
  qed
qed simp

lemma empty_not_table: "\<not> is_table_line []"
  by (simp add: is_table_line_def starts_with_def py_lstrip_def)

lemma table_of_document:
  assumes "render p report = Inr doc" "json_item report ''benchmark'' = Inr (JStr b)" "ends_with b ''-v2''"
    "sublist mid (splitlines doc)" "list_all is_table_line mid"
  shows "\<exists>tracks. system_tracks report = Inr tracks \<and> one_track tracks mid"
proof -
  have "\<not> ends_with b ''-v1''" using assms(3) by (auto simp: ends_with_def)
  with assms(1-3) have "assert_no_cross_track_table doc report = Inr ()"
    by (auto simp: render_def render_v2_def bind_result_Inr_iff value_ends_with_def Let_def)
  then obtain tr where tr: "system_tracks report = Inr tr" "table_loop tr [] (splitlines doc @ [[]]) = Inr ()"
    by (auto simp: assert_no_cross_track_table_def bind_result_Inr_iff)
  from assms(4) have "sublist mid (splitlines doc @ [[]])" by (metis append_assoc sublist_def)
  with table_loop_one_track[OF tr(2) _ _ assms(5)] empty_not_table have "one_track tr mid" by simp
  with tr(1) show ?thesis by blast
qed

text \<open>C28: No rendered table compares systems across tracks: in a document rendered for a report of
version 2, whatever the report holds, any adjacent lines that form a part of a table name executed
systems of one track only.\<close>

theorem rendered_tables_single_track:
  assumes "render p report = Inr doc" "json_item report ''benchmark'' = Inr (JStr b)" "ends_with b ''-v2''"
    "sublist mid (splitlines doc)" "list_all is_table_line mid"
  shows "\<exists>tracks. system_tracks report = Inr tracks \<and> one_track tracks mid"
  using assms by (rule table_of_document)

subsection \<open>Calls that return\<close>

definition returns :: "'a result \<Rightarrow> bool" where
  "returns r \<longleftrightarrow> (\<exists>x. r = Inr x)"

named_theorems returning \<open>calls that return\<close>

lemma returns_Inr [simp, returning]: "returns (Inr x)"
  by (simp add: returns_def)

lemma returns_Inl [simp]: "\<not> returns (Inl e)"
  by (simp add: returns_def)

lemma returns_bind [returning]: "returns r \<Longrightarrow> (\<And>x. r = Inr x \<Longrightarrow> returns (f x)) \<Longrightarrow> returns (bind_result r f)"
  by (auto simp: returns_def)

lemma returns_map [returning]: "(\<And>x. x \<in> set xs \<Longrightarrow> returns (f x)) \<Longrightarrow> returns (map_result f xs)"
  by (induction xs) (auto intro!: returns_bind)

lemma returns_filter [returning]: "(\<And>x. x \<in> set xs \<Longrightarrow> returns (f x)) \<Longrightarrow> returns (filter_result f xs)"
  by (induction xs) (auto intro!: returns_bind)

lemma filter_result_set: "filter_result f xs = Inr ys \<Longrightarrow> set ys \<subseteq> set xs"
  by (induction xs arbitrary: ys) (auto simp: bind_result_Inr_iff split: if_splits)

lemma filter_result_holds: "filter_result f xs = Inr ys \<Longrightarrow> y \<in> set ys \<Longrightarrow> f y = Inr True"
  by (induction xs arbitrary: ys) (auto simp: bind_result_Inr_iff split: if_splits)

lemma returns_if [returning]: "(b \<Longrightarrow> returns r) \<Longrightarrow> (\<not> b \<Longrightarrow> returns t) \<Longrightarrow> returns (if b then r else t)"
  by simp

subsection \<open>Ranking\<close>

lemma rank_by_cases:
  assumes "rank_by key xs = Inr ns"
  obtains ps where "ns = map snd ps" "sorted (map fst ps)" "mset ns = mset (map fst xs)"
    "\<And>k n. (k, n) \<in> set ps \<Longrightarrow> \<exists>e. (n, e) \<in> set xs \<and> key n e = Inr k"
proof -
  obtain qs where q: "map_result (\<lambda>(n, e). bind_result (key n e) (\<lambda>k. Inr (k, n))) xs = Inr qs"
      "ns = map snd (sort_key fst qs)"
    using assms by (auto simp: rank_by_def bind_result_Inr_iff)
  then have l: "list_all2 (\<lambda>x q. snd q = fst x \<and> key (fst x) (snd x) = Inr (fst q)) xs qs"
    by (auto simp: map_result_Inr_iff bind_result_Inr_iff elim!: list_all2_mono)
  have m: "map snd qs = map fst xs"
    by (rule list_all2_maps) (rule list_all2_mono[OF l], simp)
  have "mset (map snd (sort_key fst qs)) = mset (map snd qs)" by simp
  then have "mset ns = mset (map fst xs)" using q(2) m by simp
  moreover have "\<exists>e. (n, e) \<in> set xs \<and> key n e = Inr k" if "(k, n) \<in> set (sort_key fst qs)" for k n
  proof -
    from that obtain i where "i < length qs" "qs ! i = (k, n)" by (auto simp: in_set_conv_nth)
    with l have "xs ! i \<in> set xs" "fst (xs ! i) = n" "key n (snd (xs ! i)) = Inr k"
      by (auto simp: list_all2_conv_all_nth)
    then show ?thesis by (intro exI[of _ "snd (xs ! i)"]) (metis prod.collapse)
  qed
  ultimately show thesis using q(2) that[of "sort_key fst qs"] by simp
qed

definition has_run :: "(string, json) pydict \<Rightarrow> string \<Rightarrow> bool" where
  "has_run systems n \<longleftrightarrow> (\<exists>e. dict_get systems n = Some e \<and> json_item e ''status'' = Inr (JStr ''executed''))"

definition score_of :: "(string, json) pydict \<Rightarrow> string \<Rightarrow> score result" where
  "score_of systems n = entry_score (the (dict_get systems n))"

text \<open>the first system may stand above the second\<close>

definition ranks_above :: "(string, json) pydict \<Rightarrow> string \<Rightarrow> string \<Rightarrow> bool" where
  "ranks_above systems a b \<longleftrightarrow> (if \<not> has_run systems b then True
     else has_run systems a \<and> b \<noteq> ''marciana''
       \<and> (a = ''marciana'' \<or> (\<exists>s t. score_of systems a = Inr s \<and> score_of systems b = Inr t
            \<and> (sc_accuracy t < sc_accuracy s
               \<or> (sc_accuracy t = sc_accuracy s \<and> sc_supported t \<le> sc_supported s)))))"

lemma key_v1_cases:
  assumes "ranking_key_v1 n e = Inr k"
  shows "(if json_item e ''status'' = Inr (JStr ''executed'')
    then \<exists>s. entry_score e = Inr s \<and> k = rank_of (n = ''marciana'') n s else k = (2, 0, 0, 0, n))"
  using assms by (auto simp: ranking_key_v1_def bind_result_Inr_iff split: if_splits)

lemma key_above:
  assumes "ranking_key_v1 a ea = Inr ka" "ranking_key_v1 b eb = Inr kb" "ka \<le> kb" "a \<noteq> b"
    "dict_get systems a = Some ea" "dict_get systems b = Some eb"
  shows "ranks_above systems a b"
  using key_v1_cases[OF assms(1)] key_v1_cases[OF assms(2)] assms(3-6)
  by (auto simp: ranks_above_def has_run_def score_of_def rank_of_def less_eq_prod_def less_prod_def split: if_splits)

text \<open>The table of version 1 ranks its systems: it has every system of the report once, those
that ran before those that did not, the reference first, and no system below another that is less
accurate, or as accurate on fewer cases.\<close>

theorem systems_ranked:
  assumes "rank_by ranking_key_v1 systems = Inr present" "dict_ok systems"
  shows "mset present = mset (dict_keys systems) \<and> sorted_wrt (ranks_above systems) present"
proof -
  from assms(1) obtain ps where ps: "present = map snd ps" "sorted (map fst ps)" "mset present = mset (map fst systems)"
      "\<And>k n. (k, n) \<in> set ps \<Longrightarrow> \<exists>e. (n, e) \<in> set systems \<and> ranking_key_v1 n e = Inr k"
    by (rule rank_by_cases) blast
  have d: "distinct (map snd ps)"
    using ps(1,3) assms(2) by (metis dict_ok_def mset_eq_imp_distinct_iff)
  have "ranks_above systems (present ! i) (present ! j)" if ij: "i < j" "j < length present" for i j
  proof -
    obtain ka a kb b where e: "ps ! i = (ka, a)" "ps ! j = (kb, b)" by fastforce
    have len: "i < length ps" "j < length ps" using ij ps(1) by auto
    have "ka \<le> kb" using sorted_nth_mono[OF ps(2), of i j] ij len e by simp
    moreover have "a \<noteq> b" using nth_eq_iff_index_eq[OF d, of i j] ij len e by auto
    moreover obtain ea eb where "(a, ea) \<in> set systems" "ranking_key_v1 a ea = Inr ka"
        "(b, eb) \<in> set systems" "ranking_key_v1 b eb = Inr kb"
      using ps(4) e len nth_mem by metis
    ultimately show ?thesis
      using key_above assms(2) e ps(1) len by (simp add: in_dict_iff)
  qed
  then show ?thesis using ps(3) by (simp add: sorted_wrt_iff_nth_less dict_keys_def)
qed

subsection \<open>Built reports\<close>

definition fine_case :: "json \<Rightarrow> bool" where
  "fine_case c \<longleftrightarrow> (\<exists>d i t b s. c = JObj d \<and> dict_get d ''case_id'' = Some (JStr i)
     \<and> dict_get d ''category'' = Some (JStr t) \<and> dict_get d ''correct'' = Some (JBool b)
     \<and> dict_get d ''supported'' = Some (JBool s))"

definition has_cases :: "string list \<Rightarrow> (string, json) pydict \<Rightarrow> bool" where
  "has_cases cids d \<longleftrightarrow> (\<exists>cs. dict_get d ''cases'' = Some (JList cs) \<and> (\<forall>c \<in> set cs. fine_case c)
     \<and> map (\<lambda>c. json_item c ''case_id'') cs = map (\<lambda>i. Inr (JStr i)) cids)"

definition fine_harness :: "json option \<Rightarrow> bool" where
  "fine_harness h \<longleftrightarrow> (case h of None \<Rightarrow> True | Some v \<Rightarrow>
     \<exists>d. v = JObj d \<and> (\<forall>k \<in> set HARNESS_KEYS. dict_get d k \<noteq> None))"

definition fine_entry :: "string list \<Rightarrow> json \<Rightarrow> bool" where
  "fine_entry cids e \<longleftrightarrow> (\<exists>d st. e = JObj d \<and> dict_get d ''status'' = Some (JStr st)
     \<and> (if st = ''executed'' then has_cases cids d \<and> dict_get d ''adapter_version'' \<noteq> None
           \<and> (\<exists>i. dict_get d ''interface'' = Some (JStr i)) \<and> fine_harness (dict_get d ''harness'')
           \<and> (case dict_get d ''track'' of None \<Rightarrow> True | Some v \<Rightarrow> \<exists>t. v = JStr t)
        else (case dict_get d ''missing_configuration'' of None \<Rightarrow> True | Some v \<Rightarrow> \<exists>xs. v = JStrs xs)))"

definition runs :: "json \<Rightarrow> bool" where
  "runs e \<longleftrightarrow> json_item e ''status'' = Inr (JStr ''executed'')"

lemma fine_entry_runs:
  assumes "fine_entry cids e" "runs e"
  obtains d where "e = JObj d" "has_cases cids d" "dict_get d ''adapter_version'' \<noteq> None"
    "\<exists>i. dict_get d ''interface'' = Some (JStr i)" "fine_harness (dict_get d ''harness'')"
    "case dict_get d ''track'' of None \<Rightarrow> True | Some v \<Rightarrow> \<exists>t. v = JStr t"
  using assms by (auto simp: fine_entry_def runs_def json_item_def split: if_splits)

lemma fine_entry_status: "fine_entry cids e \<Longrightarrow> \<exists>st. json_item e ''status'' = Inr (JStr st) \<and> json_get e ''status'' = Inr (Some (JStr st))"
  by (auto simp: fine_entry_def json_item_def json_get_def)

lemma fine_case_supported: "fine_case c \<Longrightarrow> \<exists>b. is_supported c = Inr b"
  by (auto simp: fine_case_def is_supported_def get_default_def json_get_def)

lemma fine_case_cell: "fine_case c \<Longrightarrow> returns (cell c)"
  using fine_case_supported[of c]
  by (auto simp: cell_def fine_case_def json_item_def)

lemma fine_sum: "\<forall>c \<in> set cs. fine_case c \<Longrightarrow> \<exists>r. sum_correct (x, False) cs = Inr (r, False)"
proof (induction cs arbitrary: x)
  case (Cons c cs)
  then obtain b where "json_item c ''correct'' = Inr (JBool b)" by (auto simp: fine_case_def json_item_def)
  with Cons show ?case by (simp add: add_verdict_def)
qed simp

lemma fine_score:
  assumes "fine_entry cids e" "runs e"
  shows "\<exists>s. entry_score e = Inr s \<and> \<not> snd (sc_correct s)"
proof -
  from assms obtain d cs where e: "e = JObj d" "dict_get d ''cases'' = Some (JList cs)" "\<forall>c \<in> set cs. fine_case c"
    by (elim fine_entry_runs) (auto simp: has_cases_def)
  have "returns (filter_result is_supported cs)"
    using e(3) fine_case_supported by (intro returns_filter) (auto simp: returns_def)
  then obtain ys where y: "filter_result is_supported cs = Inr ys" by (auto simp: returns_def)
  then have "\<forall>c \<in> set ys. fine_case c" using e(3) filter_result_set by blast
  from fine_sum[OF this, of 0] y e(1,2) show ?thesis
    by (auto simp: entry_score_def entry_cases_def json_item_def json_iter_def)
qed

lemma rank_by_returns: "(\<And>n e. (n, e) \<in> set xs \<Longrightarrow> returns (key n e)) \<Longrightarrow> returns (rank_by key xs)"
  unfolding rank_by_def by (intro returning) (auto intro!: returns_bind)

lemma rank_by_names: "rank_by key xs = Inr ns \<Longrightarrow> set ns = fst ` set xs"
  by (metis rank_by_cases mset_eq_setD set_map)

lemma keys_return:
  assumes "fine_entry cids e"
  shows "returns (ranking_key_v1 n e)" "runs e \<Longrightarrow> returns (ranking_key_v2 n e)"
  using fine_entry_status[OF assms] fine_score[OF assms]
  by (auto simp: ranking_key_v1_def ranking_key_v2_def runs_def)

lemma join_texts_returns: "join_texts k (map JStr xs) = Inr xs"
  by (induction xs arbitrary: k) auto

lemma missing_returns:
  assumes "fine_entry cids e" "\<not> runs e"
  shows "returns (missing_text p e)"
proof -
  from assms obtain d st where e: "e = JObj d" "dict_get d ''status'' = Some (JStr st)" "st \<noteq> ''executed''"
    "case dict_get d ''missing_configuration'' of None \<Rightarrow> True | Some v \<Rightarrow> \<exists>xs. v = JStrs xs"
    by (auto simp: fine_entry_def runs_def json_item_def split: if_splits)
  then obtain xs where "get_default e ''missing_configuration'' (JList []) = Inr (JStrs xs)"
    by (cases "dict_get d ''missing_configuration''") (auto simp: get_default_def json_get_def)
  with join_texts_returns[of 0 xs] e(1) show ?thesis
    by (auto simp: missing_text_def join_value_def json_iter_def get_default_def json_get_def)
qed

lemma fine_default: "fine_entry cids e \<Longrightarrow> returns (get_default e k x)"
  by (auto simp: fine_entry_def get_default_def json_get_def)

lemma fine_version: "fine_entry cids e \<Longrightarrow> runs e \<Longrightarrow> returns (json_item e ''adapter_version'')"
  by (auto simp: json_item_def elim!: fine_entry_runs)

lemma returns_score: "fine_entry cids e \<Longrightarrow> runs e \<Longrightarrow> returns (entry_score e)"
  using fine_score[of cids e] by (auto simp: returns_def)

lemma returns_status: "fine_entry cids e \<Longrightarrow> returns (json_item e ''status'')"
  using fine_entry_status[of cids e] by (auto simp: returns_def)

lemmas fine_calls = fine_default fine_version returns_score returns_status missing_returns

lemma row_v1_returns: "fine_entry cids e \<Longrightarrow> returns (system_row_v1 p n e)"
  unfolding system_row_v1_def
  by (intro returning fine_calls[of cids e]) (auto simp: runs_def)

lemma row_v2_returns: "fine_entry cids e \<Longrightarrow> runs e \<Longrightarrow> returns (system_row_v2 p n e)"
  unfolding system_row_v2_def by (intro returning fine_calls[of cids e])

lemma absent_row_returns: "fine_entry cids e \<Longrightarrow> \<not> runs e \<Longrightarrow> returns (absent_row p n e)"
  unfolding absent_row_def by (intro returning fine_calls[of cids e])

text \<open>the dictionary of the rows of a system has a row for every case\<close>

lemma fine_cases:
  assumes "fine_entry cids e" "runs e"
  obtains cs where "entry_cases e = Inr cs" "\<forall>c \<in> set cs. fine_case c"
    "map (\<lambda>c. json_item c ''case_id'') cs = map (\<lambda>i. Inr (JStr i)) cids"
  using assms by (elim fine_entry_runs) (auto simp: has_cases_def entry_cases_def json_item_def json_iter_def)

lemma case_ids_fine:
  assumes "map (\<lambda>c. json_item c ''case_id'') cs = map (\<lambda>i. Inr (JStr i)) cids"
  shows "map_result (\<lambda>c. json_item c ''case_id'') cs = Inr (map JStr cids)"
  using assms by (induction cs arbitrary: cids) (auto simp: Cons_eq_map_conv)

lemma case_entries_fine:
  assumes "map (\<lambda>c. json_item c ''case_id'') cs = map (\<lambda>i. Inr (JStr i)) cids"
  shows "map_result row_entry cs = Inr (zip (map JStr cids) cs)"
  using assms by (induction cs arbitrary: cids) (auto simp: Cons_eq_map_conv row_entry_def)

lemma case_map_fine:
  assumes "fine_entry cids e" "runs e"
  shows "\<exists>m. case_map e = Inr m \<and> (\<forall>i \<in> set cids. \<exists>c. dict_get m (JStr i) = Some c \<and> fine_case c)"
proof -
  obtain cs where cs: "entry_cases e = Inr cs" "\<forall>c \<in> set cs. fine_case c"
    "map (\<lambda>c. json_item c ''case_id'') cs = map (\<lambda>i. Inr (JStr i)) cids"
    using assms by (rule fine_cases)
  let ?m = "dict_of (zip (map JStr cids) cs) []"
  have len: "length cs = length cids" using cs(3) by (metis length_map)
  have "\<exists>c. dict_get ?m (JStr i) = Some c \<and> fine_case c" if "i \<in> set cids" for i
  proof -
    have "fst ` set ?m = set (map fst (zip (map JStr cids) cs))" by (simp add: keys_dict_of)
    also have "\<dots> = JStr ` set cids" using len by (subst map_fst_zip) auto
    finally have "JStr i \<in> fst ` set ?m" using that by simp
    then obtain c where c: "dict_get ?m (JStr i) = Some c" by (metis map_of_eq_None_iff option.exhaust)
    then have "dict_get (rev (zip (map JStr cids) cs)) (JStr i) = Some c"
      by (simp add: dict_get_of map_add_def split: option.splits)
    then have "(JStr i, c) \<in> set (zip (map JStr cids) cs)" by (metis map_of_SomeD set_rev)
    with cs(2) c show ?thesis by (auto dest: set_zip_rightD)
  qed
  with cs show ?thesis by (simp add: case_map_def case_entries_fine)
qed

lemma category_map_fine:
  assumes "fine_entry cids e" "runs e"
  shows "\<exists>m. category_map e = Inr m \<and> (\<forall>k v. dict_get m k = Some v \<longrightarrow> (\<exists>t. v = JStr t))"
proof -
  obtain cs where cs: "entry_cases e = Inr cs" "\<forall>c \<in> set cs. fine_case c"
    using assms by (rule fine_cases)
  have "returns (map_result category_entry cs)"
    by (rule returns_map)
      (use cs(2) in \<open>fastforce simp: fine_case_def category_entry_def row_entry_def json_item_def\<close>)
  then obtain es where es: "map_result category_entry cs = Inr es" by (auto simp: returns_def)
  have "\<exists>t. v = JStr t" if "(k, v) \<in> set es" for k v
  proof -
    obtain c where "c \<in> set cs" "category_entry c = Inr (k, v)"
      using map_result_mem[OF es \<open>(k, v) \<in> set es\<close>] by blast
    with cs(2) show ?thesis
      by (fastforce simp: category_entry_def fine_case_def json_item_def bind_result_Inr_iff)
  qed
  then have "\<exists>t. v = JStr t" if "dict_get (dict_of es []) k = Some v" for k v
    using that by (auto simp: dict_get_of map_add_def split: option.splits dest!: map_of_SomeD)
  with cs(1) es show ?thesis by (simp add: category_map_def)
qed

lemma matrix_returns:
  assumes "\<And>n. n \<in> set names \<Longrightarrow> \<exists>e. dict_get systems n = Some e \<and> fine_entry cids e \<and> runs e"
    "names \<noteq> []" "\<And>r. reference = Some r \<Longrightarrow> r \<in> set names"
  shows "returns (matrix_rows p systems names reference)"
proof -
  let ?e = "\<lambda>n. the (dict_get systems n)"
  have f: "fine_entry cids (?e n)" "runs (?e n)" if "n \<in> set names" for n using assms(1)[OF that] by auto
  have "hd names \<in> set names" using assms(2) by simp
  from fine_cases[OF f[OF this]] obtain cs where cs0: "entry_cases (?e (hd names)) = Inr cs"
    "map (\<lambda>c. json_item c ''case_id'') cs = map (\<lambda>i. Inr (JStr i)) cids" by blast
  note cs = cs0(1) case_ids_fine[OF cs0(2)]
  have "returns (map_result (\<lambda>n. case_map (?e n)) names)"
    using case_map_fine[OF f] by (intro returns_map) (force simp: returns_def)
  then obtain maps where maps: "map_result (\<lambda>n. case_map (?e n)) names = Inr maps" by (auto simp: returns_def)
  have m: "\<exists>c. dict_get m (JStr i) = Some c \<and> fine_case c" if "m \<in> set maps" "i \<in> set cids" for m i
  proof -
    obtain n where "n \<in> set names" "case_map (?e n) = Inr m"
      using map_result_mem[OF maps \<open>m \<in> set maps\<close>] by blast
    with case_map_fine[OF f] that(2) show ?thesis by fastforce
  qed
  have "\<exists>cats. (case reference of None \<Rightarrow> Inr [] | Some r \<Rightarrow> category_map (?e r)) = Inr cats
      \<and> (\<forall>k v. dict_get cats k = Some v \<longrightarrow> (\<exists>t. v = JStr t))"
  proof (cases reference)
    case (Some r)
    from category_map_fine[OF f[OF assms(3)[OF Some]]] Some show ?thesis by simp
  qed simp
  then obtain cats where cats: "(case reference of None \<Rightarrow> Inr [] | Some r \<Rightarrow> category_map (?e r)) = Inr cats"
    "\<forall>k v. dict_get cats k = Some v \<longrightarrow> (\<exists>t. v = JStr t)" by blast
  have "returns (matrix_row p maps cats (JStr i))" if "i \<in> set cids" for i
  proof -
    have "returns (map_result (matrix_cell p (JStr i)) maps)"
      using m[OF _ that] by (intro returns_map) (fastforce simp: matrix_cell_def intro: fine_case_cell)
    then show ?thesis
      using cats(2) unfolding matrix_row_def
      by (intro returns_bind) (auto split: option.split json.split)
  qed
  then show ?thesis
    using cs maps cats(1) by (auto simp: matrix_rows_def intro!: returns_map)
qed

text \<open>a report whose parts have the types \<^verbatim>\<open>build_report\<close> gives them\<close>

definition fine_report :: "string list \<Rightarrow> (string, json) pydict \<Rightarrow> json \<Rightarrow> bool" where
  "fine_report cids systems report \<longleftrightarrow> json_item report ''systems'' = Inr (JObj systems) \<and> dict_ok systems
     \<and> (\<forall>n e. dict_get systems n = Some e \<longrightarrow> fine_entry cids e)
     \<and> returns (json_item report ''benchmark'') \<and> returns (json_item report ''corpus_digest'')
     \<and> returns (json_item report ''status'') \<and> (\<exists>d. json_item report ''metadata'' = Inr (JObj d))
     \<and> (\<exists>d. json_item report ''hard_gates'' = Inr (JObj d))"

lemma fine_report_lines:
  assumes "fine_report cids systems report"
  shows "returns (head_lines p v intro report)" "returns (gate_lines p report)"
  using assms unfolding fine_report_def head_lines_def gate_lines_def
  by (auto intro!: returns_bind simp: get_default_def json_get_def)

lemma render_v1_returns:
  assumes "fine_report cids systems report"
  shows "returns (render_v1 p report)"
proof -
  let ?e = "\<lambda>n. the (dict_get systems n)"
  have f: "fine_entry cids e" if "(n, e) \<in> set systems" for n e
    using assms that by (auto simp: fine_report_def in_dict_iff)
  have "returns (rank_by ranking_key_v1 systems)"
    by (rule rank_by_returns) (use f in \<open>auto intro: keys_return\<close>)
  then obtain present where pr: "rank_by ranking_key_v1 systems = Inr present" by (auto simp: returns_def)
  have e: "\<exists>e. dict_get systems n = Some e \<and> fine_entry cids e" if "n \<in> set present" for n
    using rank_by_names[OF pr] that assms by (auto simp: fine_report_def in_dict_iff)
  let ?ex = "filter (\<lambda>n. json_item (?e n) ''status'' = Inr (JStr ''executed'')) present"
  have "returns (matrix_rows p systems ?ex (if ''marciana'' \<in> set ?ex then Some ''marciana'' else None))"
    if "?ex \<noteq> []"
  proof (rule matrix_returns[where cids = cids])
    fix n assume "n \<in> set ?ex"
    with e[of n] show "\<exists>e. dict_get systems n = Some e \<and> fine_entry cids e \<and> runs e" by (auto simp: runs_def)
  qed (use that in \<open>auto split: if_splits\<close>)
  moreover have "returns (map_result (\<lambda>n. system_row_v1 p n (?e n)) present)"
    using e by (intro returns_map) (force intro: row_v1_returns)
  ultimately show ?thesis
    using assms fine_report_lines[OF assms] pr
    by (auto simp: render_v1_def fine_report_def systems_of_def Let_def intro!: returns_bind)
qed

definition mixes_tracks :: "'a result \<Rightarrow> bool" where
  "mixes_tracks r \<longleftrightarrow> (\<exists>t. r = raise_error ''ValueError'' (''rendered table mixes tracks: '' @ t))"

text \<open>the error of the check, which needs systems of two tracks\<close>

definition two_tracks :: "(string, json) pydict \<Rightarrow> bool" where
  "two_tracks tr \<longleftrightarrow> (\<exists>x \<in> set tr. \<exists>y \<in> set tr. snd x \<noteq> snd y)"

lemma check_table_outcome:
  assumes "\<forall>p \<in> set tr. \<exists>s. snd p = JStr s"
  shows "returns (check_table tr rows) \<or> mixes_tracks (check_table tr rows) \<and> two_tracks tr"
proof -
  have mem: "\<exists>p \<in> set tr. snd p = t" if "t \<in> set (named_tracks tr rows)" for t
  proof -
    from that obtain n where "dict_get tr n = Some t" by (auto simp: named_tracks_def split: option.splits)
    then show ?thesis by (force dest: map_of_SomeD)
  qed
  then have "\<exists>s. t = JStr s" if "t \<in> set (named_tracks tr rows)" for t
    using that assms by metis
  then have a: "\<forall>t \<in> set (named_tracks tr rows). case t of JStr s \<Rightarrow> True | _ \<Rightarrow> False" "filter (\<lambda>v. \<not> hashable v) (named_tracks tr rows) = []"
    by (fastforce simp: filter_empty_conv hashable_def)+
  have "two_tracks tr" if "card (set (named_tracks tr rows)) > 1"
  proof -
    from that obtain t u where "t \<in> set (named_tracks tr rows)" "u \<in> set (named_tracks tr rows)" "t \<noteq> u"
      by (metis One_nat_def card_le_Suc0_iff_eq finite_set not_le)
    with mem show ?thesis unfolding two_tracks_def by metis
  qed
  with a show ?thesis
    by (simp add: check_table_def set_of_items_def mixes_tracks_def)
qed

lemma table_loop_outcome:
  assumes "\<forall>p \<in> set tr. \<exists>s. snd p = JStr s"
  shows "returns (table_loop tr table ls) \<or> mixes_tracks (table_loop tr table ls) \<and> two_tracks tr"
  using assms
proof (induction tr table ls rule: table_loop.induct)
  case (2 tr table line ls)
  then show ?case
    using check_table_outcome[OF 2(4), of table] by (auto simp: returns_def mixes_tracks_def)
qed simp

lemma entry_track_fine:
  assumes "fine_entry cids e" "runs e"
  shows "\<exists>s. entry_track e = Inr (JStr s)"
proof -
  obtain d i where "e = JObj d" "dict_get d ''interface'' = Some (JStr i)"
    "case dict_get d ''track'' of None \<Rightarrow> True | Some v \<Rightarrow> \<exists>t. v = JStr t"
    using fine_entry_runs[OF assms] by blast
  then show ?thesis
    by (auto simp: entry_track_def get_default_def json_get_def track_of_value_def hashable_def split: option.splits)
qed

lemma track_loop_step:
  assumes "fine_entry cids e" "track_loop xs = Inr ts"
  shows "if runs e then \<exists>s. track_loop ((n, e) # xs) = Inr ((n, JStr s) # ts) else track_loop ((n, e) # xs) = Inr ts"
  using fine_entry_status[OF assms(1)] entry_track_fine[OF assms(1)] assms(2) by (auto simp: runs_def)

lemma track_loop_fine:
  assumes "\<forall>(n, e) \<in> set xs. fine_entry cids e"
  shows "\<exists>ts. track_loop xs = Inr ts \<and> (\<forall>p \<in> set ts. (\<exists>s. snd p = JStr s) \<and> (\<exists>e. (fst p, e) \<in> set xs \<and> runs e))"
  using assms
proof (induction xs)
  case (Cons x xs)
  obtain n e where x: "x = (n, e)" by fastforce
  from Cons obtain ts where ts: "track_loop xs = Inr ts"
    "\<forall>p \<in> set ts. (\<exists>s. snd p = JStr s) \<and> (\<exists>e. (fst p, e) \<in> set xs \<and> runs e)" by auto
  then have up: "\<forall>p \<in> set ts. (\<exists>s. snd p = JStr s) \<and> (\<exists>e. (fst p, e) \<in> set (x # xs) \<and> runs e)" by auto
  have "fine_entry cids e" using Cons.prems x by simp
  from track_loop_step[OF this ts(1), of n] x up show ?case by (cases "runs e") auto
qed simp

lemma harness_returns: "fine_harness (Some h) \<Longrightarrow> returns (harness_line p h)"
  by (auto simp: fine_harness_def harness_line_def HARNESS_KEYS_def json_item_def split: option.split)

lemma first_harness_fine:
  assumes "\<And>e. e \<in> set es \<Longrightarrow> \<exists>d. e = JObj d \<and> fine_harness (dict_get d ''harness'')"
  shows "\<exists>h. first_harness es = Inr h \<and> fine_harness h"
  using assms
proof (induction es)
  case (Cons e es)
  then obtain d where "e = JObj d" "fine_harness (dict_get d ''harness'')" by auto
  with Cons show ?case by (auto simp: json_get_def split: option.splits)
qed (simp add: fine_harness_def)

lemma first_marciana_in: "members \<noteq> [] \<Longrightarrow> first_marciana members \<in> set members"
  by (auto simp: first_marciana_def find_Some_iff split: option.split)

lemma track_section_returns:
  assumes "\<And>n t. (n, t) \<in> set tracks \<Longrightarrow> \<exists>e. dict_get systems n = Some e \<and> fine_entry cids e \<and> runs e"
  shows "returns (track_section p systems tracks track)"
proof -
  let ?e = "\<lambda>n. the (dict_get systems n)"
  let ?in = "map (\<lambda>(n, t). (n, ?e n)) (filter (\<lambda>(n, t). t = JStr track) tracks)"
  have "returns (rank_by ranking_key_v2 ?in)"
    by (rule rank_by_returns) (use assms in \<open>force intro: keys_return\<close>)
  then obtain ms where ms: "rank_by ranking_key_v2 ?in = Inr ms" by (auto simp: returns_def)
  have e: "\<exists>e. dict_get systems n = Some e \<and> fine_entry cids e \<and> runs e" if "n \<in> set ms" for n
    using rank_by_names[OF ms] that assms by force
  obtain h where h: "first_harness (map ?e ms) = Inr h" "fine_harness h"
    using first_harness_fine[of "map ?e ms"] e by (metis (no_types, lifting) fine_entry_runs imageE image_set option.sel)
  have "returns (case h of None \<Rightarrow> Inr [] | Some h \<Rightarrow> bind_result (harness_line p h) (\<lambda>l. Inr [l, []]))"
    using h(2) by (auto intro!: returns_bind harness_returns split: option.split)
  moreover have "returns (map_result (\<lambda>n. system_row_v2 p n (?e n)) ms)"
    using e by (intro returns_map) (force intro: row_v2_returns)
  moreover have "returns (matrix_rows p systems ms (Some (first_marciana ms)))" if "ms \<noteq> []"
    using e that first_marciana_in by (intro matrix_returns) auto
  ultimately show ?thesis
    using ms h(1) by (auto simp: track_section_def Let_def intro!: returns_bind)
qed

lemma absent_returns:
  assumes "\<And>n e. (n, e) \<in> set systems \<Longrightarrow> fine_entry cids e"
  shows "returns (absent_lines p systems)"
proof -
  let ?f = "\<lambda>(n :: string, e). bind_result (json_get e ''status'') (\<lambda>status. Inr (status \<noteq> Some (JStr ''executed'')))"
  have "returns (filter_result ?f systems)"
    by (rule returns_filter) (use assms fine_entry_status in \<open>force simp: returns_def\<close>)
  then obtain xs where xs: "filter_result ?f systems = Inr xs" by (auto simp: returns_def)
  have "fine_entry cids e \<and> \<not> runs e" if "(n, e) \<in> set xs" for n e
    using filter_result_holds[OF xs that] filter_result_set[OF xs] that assms fine_entry_status[of cids e]
    by (fastforce simp: runs_def)
  then have "returns (map_result (\<lambda>(n, e). absent_row p n e) (sort_key fst xs))"
    by (intro returns_map) (auto intro: absent_row_returns)
  with xs show ?thesis by (auto simp: absent_lines_def intro!: returns_bind)
qed

lemma render_v2_outcome:
  assumes "fine_report cids systems report"
  shows "returns (render_v2 p report) \<or> mixes_tracks (render_v2 p report)
    \<and> (\<exists>tr. system_tracks report = Inr tr \<and> two_tracks tr)"
proof -
  have f: "fine_entry cids e" if "(n, e) \<in> set systems" for n e
    using assms that by (auto simp: fine_report_def in_dict_iff)
  obtain tr where tr: "track_loop systems = Inr tr"
    "\<forall>p \<in> set tr. (\<exists>s. snd p = JStr s) \<and> (\<exists>e. (fst p, e) \<in> set systems \<and> runs e)"
    using track_loop_fine[of systems cids] f by blast
  have st: "system_tracks report = Inr tr"
    using tr(1) assms by (simp add: system_tracks_def fine_report_def)
  have "returns (track_section p systems tr t)" for t
    by (rule track_section_returns[where cids = cids]) (use tr(2) f assms in \<open>fastforce simp: fine_report_def in_dict_iff\<close>)
  then have "returns (map_result (track_section p systems tr) TRACKS)" by (intro returns_map)
  then obtain secs where secs: "map_result (track_section p systems tr) TRACKS = Inr secs" by (auto simp: returns_def)
  obtain head gates absent where l: "head_lines p ''v2'' INTRO_V2 report = Inr head" "gate_lines p report = Inr gates"
      "absent_lines p systems = Inr absent"
    using fine_report_lines[OF assms] absent_returns[of systems cids p] f unfolding returns_def by blast
  let ?doc = "join [CHR 0x0A] (head @ concat secs @ gates @ absent @ [[], legend ''declared or track-inexpressible'', []])"
  have "render_v2 p report = bind_result (table_loop tr [] (splitlines ?doc @ [[]])) (\<lambda>_. Inr ?doc)"
    using assms st secs l
    by (simp add: render_v2_def fine_report_def systems_of_def assert_no_cross_track_table_def Let_def)
  moreover have "returns (table_loop tr [] (splitlines ?doc @ [[]]))
      \<or> mixes_tracks (table_loop tr [] (splitlines ?doc @ [[]])) \<and> two_tracks tr"
    by (rule table_loop_outcome) (use tr(2) in auto)
  ultimately show ?thesis using st by (auto simp: returns_def mixes_tracks_def)
qed

text \<open>the entries of a built report\<close>

definition report_ok :: "string list \<Rightarrow> system_report \<Rightarrow> bool" where
  "report_ok cids r \<longleftrightarrow> (if sr_status r = ''executed'' then map oc_case_id (sr_outcomes r) = cids
     \<and> (case sr_harness r of None \<Rightarrow> True | Some h \<Rightarrow> h = [] \<or> harness_ok h) else True)"

lemma fine_case_outcome: "fine_case (JObj (outcome_dict c))"
  by (simp add: fine_case_def outcome_dict_def)

lemma case_id_outcome: "json_item (JObj (outcome_dict c)) ''case_id'' = Inr (JStr (oc_case_id c))"
  by (simp add: json_item_def outcome_dict_def)

lemma harness_ok_keys: "harness_ok h \<Longrightarrow> k \<in> set HARNESS_KEYS \<Longrightarrow> dict_get h k \<noteq> None"
  by (metis harness_ok_def list.set_map map_of_eq_None_iff)

lemma has_cases_outcomes:
  "dict_get d ''cases'' = Some (JList (map (\<lambda>c. JObj (outcome_dict c)) outs)) \<Longrightarrow> map oc_case_id outs = cids
    \<Longrightarrow> has_cases cids d"
  using fine_case_outcome case_id_outcome by (auto simp: has_cases_def comp_def)

lemma report_dict_get:
  "dict_get (report_dict r) ''status'' = Some (JStr (sr_status r))"
  "dict_get (report_dict r) ''adapter_version'' = Some (JStr (sr_adapter_version r))"
  "dict_get (report_dict r) ''track'' = None"
  "dict_get (report_dict r) ''missing_configuration'' = (if sr_missing_configuration r = [] then None
     else Some (JStrs (sr_missing_configuration r)))"
  by (auto simp: report_dict_def map_add_def split: option.split)

lemma report_dict_executed:
  assumes "sr_status r = ''executed''"
  shows "dict_get (report_dict r) ''interface'' = Some (JStr (sr_interface r))"
    "dict_get (report_dict r) ''cases'' = Some (JList (map (\<lambda>c. JObj (outcome_dict c)) (sr_outcomes r)))"
    "dict_get (report_dict r) ''harness'' = (case sr_harness r of None \<Rightarrow> None | Some h \<Rightarrow> if h = [] then None else Some (JObj h))"
  using assms by (auto simp: report_dict_def map_add_def split: option.split)

lemma fine_entry_report:
  assumes "report_ok cids r"
  shows "fine_entry cids (JObj (report_dict r))"
proof (cases "sr_status r = ''executed''")
  case True
  have "fine_harness (dict_get (report_dict r) ''harness'')"
    using assms True harness_ok_keys
    by (auto simp: report_dict_executed report_ok_def fine_harness_def split: option.splits)
  with assms True show ?thesis
    using has_cases_outcomes[OF report_dict_executed(2)[OF True], of cids]
    by (simp add: fine_entry_def report_dict_get report_dict_executed report_ok_def)
qed (auto simp: fine_entry_def report_dict_get)

lemma fine_entry_stamped:
  assumes "fine_entry cids (JObj e)"
  shows "fine_entry cids (JObj (stamp_track e))"
  using assms by (auto simp: fine_entry_def stamp_track_def has_cases_def entry_executed_def split: if_splits)

lemma system_entries_fine:
  assumes "\<forall>r \<in> set systems. report_ok cids r" "dict_get (system_entries systems) n = Some e"
  shows "fine_entry cids (JObj e)"
proof -
  have "(n, e) \<in> set (map (\<lambda>r. (sr_system r, report_dict r)) systems)"
    using assms(2) by (auto simp: system_entries_def dict_get_of map_add_def dest: map_of_SomeD split: option.splits)
  with assms(1) show ?thesis by (auto intro: fine_entry_report)
qed

lemma built_report_fine:
  assumes "build_report metadata d systems m f rs corpora b = Inr report"
    "\<forall>r \<in> set systems. report_ok cids r"
  shows "json_item report ''benchmark'' = Inr (JStr b) \<and> (\<exists>es. fine_report cids es report)"
proof -
  let ?es = "if b = BENCHMARK_V2 then map (\<lambda>(n, e). (n, stamp_track e)) (system_entries systems) else system_entries systems"
  let ?js = "map (\<lambda>(n, e). (n, JObj e)) ?es"
  have ok: "dict_ok (system_entries systems)" by (simp add: system_entries_def)
  then have "dict_ok ?es" using dict_ok_map_values[of "\<lambda>_. stamp_track" "system_entries systems"] by simp
  then have jk: "dict_ok ?js" using dict_ok_map_values[of "\<lambda>_. JObj" ?es] by simp
  have "fine_entry cids e" if "dict_get ?js n = Some e" for n e
    using that dict_get_map_values[of "\<lambda>_. JObj" ?es n] dict_get_map_values[of "\<lambda>_. stamp_track" "system_entries systems" n]
      system_entries_fine[OF assms(2), of n] fine_entry_stamped
    by (auto split: if_splits)
  moreover have "json_item report ''systems'' = Inr (JObj ?js)" "json_item report ''benchmark'' = Inr (JStr b)"
      "returns (json_item report ''corpus_digest'')" "returns (json_item report ''status'')"
      "\<exists>d. json_item report ''metadata'' = Inr (JObj d)" "\<exists>d. json_item report ''hard_gates'' = Inr (JObj d)"
    using assms(1) by (auto simp: build_report_def Let_def bind_result_Inr_iff json_item_def)
  ultimately show ?thesis using jk unfolding fine_report_def by auto
qed

text \<open>C29: Every built report of version 1 can be rendered, and a report of version 2 is refused only by the
check of its own tables: when the executed systems of a run answered the same cases and attested
their harness as the parser demands, rendering the report that was built for them raises nothing,
except that version 2 may raise the error that a table mixes tracks, when systems of both tracks ran.\<close>

theorem built_report_renders:
  assumes "build_report metadata d systems m f rs corpora b = Inr report" "b \<in> {BENCHMARK, BENCHMARK_V2}"
    "\<forall>r \<in> set systems. report_ok cids r"
  shows "if b = BENCHMARK then returns (render p report)
    else returns (render p report) \<or> mixes_tracks (render p report)
      \<and> (\<exists>tr. system_tracks report = Inr tr \<and> two_tracks tr)"
proof -
  obtain es where "json_item report ''benchmark'' = Inr (JStr b)" "fine_report cids es report"
    using built_report_fine[OF assms(1,3)] by blast
  moreover have "ends_with BENCHMARK ''-v1''" "\<not> ends_with BENCHMARK_V2 ''-v1''" "ends_with BENCHMARK_V2 ''-v2''"
    by (simp_all add: ends_with_def BENCHMARK_def BENCHMARK_V2_def)
  ultimately show ?thesis
    using assms(2) render_v1_returns[of cids es report p] render_v2_outcome[of cids es report p]
    by (auto simp: render_def value_ends_with_def)
qed

lemma built_report_renders_witness:
  "\<exists>report. build_report [] ''d'' [new_report ''mem0'' ''v'' ''unavailable''] 0 0 0 [] BENCHMARK = Inr report
     \<and> (\<forall>p. returns (render p report))"
proof -
  have "case build_report [] ''d'' [new_report ''mem0'' ''v'' ''unavailable''] 0 0 0 [] BENCHMARK of
      Inl e \<Rightarrow> False | Inr r \<Rightarrow> True" by code_simp
  then obtain report where r: "build_report [] ''d'' [new_report ''mem0'' ''v'' ''unavailable''] 0 0 0 [] BENCHMARK = Inr report"
    by (auto split: sum.splits)
  have "returns (render p report)" for p
    using built_report_renders[OF r, of "[]" p] by (simp add: report_ok_def new_report_def)
  with r show ?thesis by blast
qed

definition two_ran :: "(string, json) pydict" where
  "two_ran = [
     (''mem0'', JObj [(''status'', JStr ''executed''), (''cases'', JList [])]),
     (''marciana'', JObj [(''status'', JStr ''executed''), (''cases'', JList [])])]"

lemma systems_ranked_witness:
  "rank_by ranking_key_v1 two_ran = Inr [''marciana'', ''mem0'']
    \<and> sorted_wrt (ranks_above two_ran) [''marciana'', ''mem0'']"
proof -
  have r: "rank_by ranking_key_v1 two_ran = Inr [''marciana'', ''mem0'']" by code_simp
  moreover have "dict_ok two_ran" by (simp add: two_ran_def dict_ok_def)
  ultimately show ?thesis using systems_ranked[OF r] by blast
qed

end
