(* ===== verification/RenderTables.thy ===== *)
theory RenderTables
  imports RenderProps
begin

text \<open>
  The lines and the cells of a rendered document, as the check of the tables reads them back, and
  what follows: a text of an external system can make a report unrenderable.
\<close>

subsection \<open>Characters and lines\<close>

lemma chunks_Cons: "\<not> is_cont c \<Longrightarrow> starts_clean s \<Longrightarrow> chunks (c # s) = [c] # chunks s"
  using chunks_append[of s "[c]"] by simp

definition one_line :: "string \<Rightarrow> bool" where
  "one_line s \<longleftrightarrow> starts_clean s \<and> list_all (\<lambda>ch. \<not> is_line_break ch) (chunks s)"

lemma newline_break: "is_line_break [CHR 0x0A]"
  by code_simp

lemma return_break: "is_line_break [CHR 0x0D]"
  by code_simp

lemma split_chunks_line:
  assumes "list_all (\<lambda>ch. \<not> is_line_break ch) cs"
  shows "split_chunks l (cs @ [CHR 0x0A] # rest) = (l @ concat cs) # split_chunks [] rest"
  using assms return_break newline_break by (induction cs arbitrary: l) auto

lemma split_chunks_later:
  assumes "\<And>l. x \<in> set (split_chunks l ([CHR 0x0A] # rest))" "x \<in> set (split_chunks [] rest)"
  shows "x \<in> set (split_chunks l (cs @ [CHR 0x0A] # rest))"
proof (induction cs arbitrary: l rule: length_induct)
  case (1 cs)
  let ?t = "[CHR 0x0A] # rest"
  have IH: "x \<in> set (split_chunks l (ys @ ?t))" if "length ys < length cs" for ys l using 1 that by blast
  show ?case
  proof (cases cs)
    case Nil
    then show ?thesis using assms(1) by simp
  next
    case (Cons c cs')
    show ?thesis
    proof (cases "c = [CHR 0x0D] \<and> hd (cs' @ ?t) = [CHR 0x0A]")
      case True
      then have e: "split_chunks l (cs @ ?t) = l # split_chunks [] (tl (cs' @ ?t))"
        by (simp only: Cons append_Cons split_chunks.simps) simp
      show ?thesis
      proof (cases cs')
        case Nil
        with e assms(2) show ?thesis by simp
      next
        case (Cons d ds)
        then have "tl (cs' @ ?t) = ds @ ?t" "length ds < length cs" using \<open>cs = c # cs'\<close> by simp_all
        with e IH[of ds] show ?thesis by (simp del: split_chunks.simps)
      qed
    next
      case False
      then have "split_chunks l (cs @ ?t)
          = (if is_line_break c then l # split_chunks [] (cs' @ ?t) else split_chunks (l @ c) (cs' @ ?t))"
        by (simp only: Cons append_Cons split_chunks.simps) auto
      with IH[of cs'] Cons show ?thesis by (simp del: split_chunks.simps)
    qed
  qed
qed

lemma splitlines_line:
  assumes "one_line x" "starts_clean b"
  shows "x \<in> set (splitlines (a @ [CHR 0x0A] @ x @ [CHR 0x0A] @ b))"
proof -
  have n: "starts_clean ([CHR 0x0A] @ t)" for t by (simp add: starts_clean_def)
  have x: "starts_clean (x @ [CHR 0x0A] @ b)" using assms(1) by (cases x) (auto simp: one_line_def starts_clean_def)
  have c: "chunks (a @ [CHR 0x0A] @ x @ [CHR 0x0A] @ b) = chunks a @ [CHR 0x0A] # chunks x @ [CHR 0x0A] # chunks b"
    using chunks_append[OF n, of a] chunks_append[OF x, of "[CHR 0x0A]"] chunks_append[OF n, of x b]
      chunks_append[OF assms(2), of "[CHR 0x0A]"] by simp
  have s: "split_chunks [] (chunks x @ [CHR 0x0A] # chunks b) = x # split_chunks [] (chunks b)"
    using split_chunks_line[of "chunks x" "[]" "chunks b"] assms(1) by (simp add: one_line_def)
  have nl: "x \<in> set (split_chunks l ([CHR 0x0A] # chunks x @ [CHR 0x0A] # chunks b))" for l
    using s newline_break by simp
  show ?thesis
    unfolding splitlines_def c by (rule split_chunks_later) (use nl s in auto)
qed

subsection \<open>Cells\<close>

lemma split_on_ne: "split_on c s \<noteq> []"
  by (induction s) (auto split: list.splits)

lemma split_on_append: "split_on c (a @ c # b) = split_on c a @ split_on c b"
  by (induction a) (auto simp: split_on_ne split: list.splits)

lemma split_on_none: "c \<notin> set s \<Longrightarrow> split_on c s = [s]"
  by (induction s) auto

lemma split_on_join:
  "xs \<noteq> [] \<Longrightarrow> split_on (CHR ''|'') ('' '' @ join '' | '' xs @ '' '')
    = concat (map (\<lambda>x. split_on (CHR ''|'') ('' '' @ x @ '' '')) xs)"
proof (induction "'' | ''" xs rule: join.induct)
  case (3 x y xs)
  have "'' '' @ join '' | '' (x # y # xs) @ '' '' = ('' '' @ x @ '' '') @ CHR ''|'' # ('' '' @ join '' | '' (y # xs) @ '' '')"
    by simp
  with 3 show ?case by (simp only: split_on_append) simp
qed simp_all

lemma strip_char_ends:
  assumes "c \<noteq> d"
  shows "strip_char c ([c] @ ([d] @ s @ [d]) @ [c]) = [d] @ s @ [d]"
  using assms by (simp add: strip_char_def)

lemma bar_alt: "bar xs = [CHR ''|''] @ ([CHR '' ''] @ join '' | '' xs @ [CHR '' '']) @ [CHR ''|'']"
  by (simp add: bar_def)

lemma bar_chunks:
  obtains cs where "chunks (bar xs) = [CHR ''|''] # cs @ [[CHR ''|'']]"
proof -
  let ?m = "[CHR '' ''] @ join '' | '' xs @ [CHR '' '']"
  have "chunks (bar xs) = chunks [CHR ''|''] @ chunks (?m @ [CHR ''|''])"
    unfolding bar_alt by (rule chunks_append) (simp add: starts_clean_def)
  also have "chunks (?m @ [CHR ''|'']) = chunks ?m @ chunks [CHR ''|'']"
    by (rule chunks_append) (simp add: starts_clean_def)
  finally show thesis using that[of "chunks ?m"] by simp
qed

lemma bar_not_space: "\<not> is_space [CHR ''|'']"
  by code_simp

lemma strip_bar: "py_strip (bar xs) = bar xs" "py_lstrip (bar xs) = bar xs"
proof -
  obtain cs where c: "chunks (bar xs) = [CHR ''|''] # cs @ [[CHR ''|'']]" by (rule bar_chunks)
  have "concat (chunks (bar xs)) = bar xs" by simp
  then show "py_strip (bar xs) = bar xs" "py_lstrip (bar xs) = bar xs"
    unfolding c by (simp_all add: py_strip_def py_lstrip_def c bar_not_space)
qed

lemma bar_is_table_line: "is_table_line (bar xs)"
  unfolding is_table_line_def strip_bar by (simp add: starts_with_def bar_def)

lemma table_cells_bar:
  "xs \<noteq> [] \<Longrightarrow> table_cells (bar xs)
    = map (\<lambda>raw. strip_char (CHR ''`'') (py_strip raw)) (concat (map (\<lambda>x. split_on (CHR ''|'') ('' '' @ x @ '' '')) xs))"
  unfolding table_cells_def strip_bar unfolding bar_alt
  by (subst strip_char_ends) (simp_all add: split_on_join flip: append_Cons)

lemma table_cell_of:
  "x \<in> set xs \<Longrightarrow> raw \<in> set (split_on (CHR ''|'') ('' '' @ x @ '' ''))
    \<Longrightarrow> strip_char (CHR ''`'') (py_strip raw) \<in> set (table_cells (bar xs))"
  by (subst table_cells_bar) auto

subsection \<open>Plain texts\<close>

text \<open>a text in ASCII without blanks, bars and back quotes\<close>

definition plain_char :: "char \<Rightarrow> bool" where
  "plain_char c \<longleftrightarrow> \<not> digit7 c \<and> \<not> is_space [c] \<and> \<not> is_line_break [c] \<and> c \<noteq> CHR ''|'' \<and> c \<noteq> CHR ''`''"

definition plain_text :: "string \<Rightarrow> bool" where
  "plain_text s \<longleftrightarrow> s \<noteq> [] \<and> (\<forall>c \<in> set s. plain_char c)"

lemma plain_hd_last: "plain_text s \<Longrightarrow> plain_char (hd s) \<and> plain_char (last s)"
  by (auto simp: plain_text_def)

lemma single_space: "is_space [c] \<longleftrightarrow> c \<in> {CHR 0x09, CHR 0x0A, CHR 0x0B, CHR 0x0C, CHR 0x0D, CHR 0x1C, CHR 0x1D, CHR 0x1E, CHR 0x1F, CHR 0x20}"
proof -
  have "list_all (\<lambda>s. length s = 1 \<longrightarrow> s \<in> set (map (\<lambda>c. [c]) [CHR 0x09, CHR 0x0A, CHR 0x0B, CHR 0x0C, CHR 0x0D, CHR 0x1C, CHR 0x1D, CHR 0x1E, CHR 0x1F, CHR 0x20])) space_chunks"
    by code_simp
  moreover have "list_all (\<lambda>c. is_space [c]) [CHR 0x09, CHR 0x0A, CHR 0x0B, CHR 0x0C, CHR 0x0D, CHR 0x1C, CHR 0x1D, CHR 0x1E, CHR 0x1F, CHR 0x20]"
    by code_simp
  ultimately show ?thesis unfolding list_all_iff is_space_def by auto
qed

lemma single_break: "is_line_break [c] \<longleftrightarrow> c \<in> {CHR 0x0A, CHR 0x0B, CHR 0x0C, CHR 0x0D, CHR 0x1C, CHR 0x1D, CHR 0x1E}"
proof -
  have "map (\<lambda>n. [char_of (n::nat)]) [10, 11, 12, 13, 28, 29, 30] = map (\<lambda>c. [c]) [CHR 0x0A, CHR 0x0B, CHR 0x0C, CHR 0x0D, CHR 0x1C, CHR 0x1D, CHR 0x1E]"
    by code_simp
  then show ?thesis unfolding is_line_break_def by auto
qed

lemma blank_space: "is_space [CHR '' '']"
  by code_simp

lemma py_strip_core:
  assumes "is_ascii s" "s \<noteq> []" "\<not> is_space [hd s]" "\<not> is_space [last s]"
  shows "py_strip ([CHR '' ''] @ s @ [CHR '' '']) = s"
proof -
  have a: "is_ascii ([CHR '' ''] @ s @ [CHR '' ''])" using assms(1) by (auto simp: is_ascii_def)
  have "dropWhile is_space (map (\<lambda>c. [c]) ([CHR '' ''] @ s @ [CHR '' ''])) = map (\<lambda>c. [c]) (s @ [CHR '' ''])"
    using assms(2,3) by (cases s) (auto simp: blank_space)
  moreover have "dropWhile is_space (rev (map (\<lambda>c. [c]) (s @ [CHR '' '']))) = rev (map (\<lambda>c. [c]) s)"
    using assms(2,4) by (cases s rule: rev_cases) (auto simp: blank_space)
  ultimately show ?thesis unfolding py_strip_def chunks_ascii[OF a] by (simp add: concat_map_singleton)
qed

lemma strip_char_id: "s \<noteq> [] \<Longrightarrow> hd s \<noteq> c \<Longrightarrow> last s \<noteq> c \<Longrightarrow> strip_char c s = s"
proof -
  assume s: "s \<noteq> []" "hd s \<noteq> c" "last s \<noteq> c"
  have "dropWhile (\<lambda>x. x = c) s = s" using s(1,2) by (cases s) auto
  moreover have "dropWhile (\<lambda>x. x = c) (rev s) = rev s" using s(1,3) by (cases s rule: rev_cases) auto
  ultimately show "strip_char c s = s" by (simp add: strip_char_def)
qed

lemma plain_facts:
  assumes "plain_text s"
  shows "is_ascii s" "s \<noteq> []" "\<not> is_space [hd s]" "\<not> is_space [last s]" "CHR ''|'' \<notin> set s"
    "hd s \<noteq> CHR ''`''" "last s \<noteq> CHR ''`''"
  using assms plain_hd_last[OF assms] by (auto simp: plain_text_def plain_char_def is_ascii_def)

lemma plain_cell:
  assumes "plain_text n" "n \<in> set xs"
  shows "n \<in> set (table_cells (bar xs))"
proof -
  have "split_on (CHR ''|'') ('' '' @ n @ '' '') = ['' '' @ n @ '' '']"
    using plain_facts(5)[OF assms(1)] by (intro split_on_none) auto
  then have "strip_char (CHR ''`'') (py_strip ('' '' @ n @ '' '')) \<in> set (table_cells (bar xs))"
    using table_cell_of[OF assms(2)] by simp
  then show ?thesis
    using py_strip_core[OF plain_facts(1-4)[OF assms(1)]] strip_char_id[OF plain_facts(2,6,7)[OF assms(1)]] by simp
qed

text \<open>the text after a bar in a cell is a cell of its own\<close>

lemma second_cell:
  assumes "plain_text m" "CHR ''|'' \<notin> set v" "code_text (v @ '' | '' @ m) \<in> set xs"
  shows "m \<in> set (table_cells (bar xs))"
proof -
  have "'' '' @ code_text (v @ '' | '' @ m) @ '' '' = ('' `'' @ v @ '' '') @ CHR ''|'' # ('' '' @ (m @ ''`'') @ '' '')"
    by (simp add: code_text_def)
  moreover have "split_on (CHR ''|'') ('' '' @ (m @ ''`'') @ '' '') = ['' '' @ (m @ ''`'') @ '' '']"
    using plain_facts(5)[OF assms(1)] by (intro split_on_none) auto
  ultimately have "'' '' @ (m @ ''`'') @ '' '' \<in> set (split_on (CHR ''|'') ('' '' @ code_text (v @ '' | '' @ m) @ '' ''))"
    by (simp only: split_on_append) simp
  from table_cell_of[OF assms(3) this]
  have "strip_char (CHR ''`'') (py_strip ('' '' @ (m @ ''`'') @ '' '')) \<in> set (table_cells (bar xs))" .
  moreover have "py_strip ('' '' @ (m @ ''`'') @ '' '') = m @ ''`''"
  proof (rule py_strip_core)
    show "is_ascii (m @ ''`'')" using plain_facts(1)[OF assms(1)] by (auto simp: is_ascii_def)
    show "\<not> is_space [hd (m @ ''`'')]" using plain_facts(2,3)[OF assms(1)] by simp
    have "\<not> is_space [CHR ''`'']" by code_simp
    then show "\<not> is_space [last (m @ ''`'')]" by simp
  qed simp
  moreover have "strip_char (CHR ''`'') (m @ ''`'') = m"
    using strip_char_id[OF plain_facts(2,6,7)[OF assms(1)]] plain_facts(2,6)[OF assms(1)]
    by (cases m) (auto simp: strip_char_def)
  ultimately show ?thesis by simp
qed

subsection \<open>Rows are lines\<close>

definition line_char :: "char \<Rightarrow> bool" where
  "line_char c \<longleftrightarrow> \<not> digit7 c \<and> \<not> is_line_break [c]"

lemma one_lineI:
  assumes "\<forall>c \<in> set s. line_char c"
  shows "one_line s"
proof -
  have a: "is_ascii s" using assms by (auto simp: is_ascii_def line_char_def)
  have "starts_clean s" using assms by (cases s) (auto simp: starts_clean_def line_char_def is_cont_def)
  then show ?thesis
    unfolding one_line_def chunks_ascii[OF a] using assms by (auto simp: line_char_def list_all_iff)
qed

lemma plain_line: "plain_char c \<Longrightarrow> line_char c"
  by (auto simp: plain_char_def line_char_def)

lemma digits_line: "k < 10 \<Longrightarrow> line_char (char_of (48 + k :: nat))"
proof -
  have "list_all (\<lambda>k. line_char (char_of (48 + k :: nat))) [0..<10]" by code_simp
  moreover assume "k < 10"
  then have "k \<in> set [0..<10]" by simp
  ultimately show "line_char (char_of (48 + k :: nat))" unfolding list_all_iff by (rule bspec)
qed

lemma nat_str_line: "c \<in> set (nat_str n) \<Longrightarrow> line_char c"
proof (induction n rule: nat_str.induct)
  case (1 n)
  have e: "nat_str n = (if n < 10 then [char_of (48 + n)] else nat_str (n div 10) @ [char_of (48 + n mod 10)])"
    by (rule nat_str.simps)
  show ?case
  proof (cases "n < 10")
    case True
    then have "nat_str n = [char_of (48 + n)]" by (simp only: e if_True)
    with 1(2) have "c = char_of (48 + n)" by (simp only: list.set insert_iff empty_iff simp_thms)
    with digits_line[OF True] show ?thesis by simp
  next
    case False
    then have "nat_str n = nat_str (n div 10) @ [char_of (48 + n mod 10)]" by (simp only: e if_False)
    with 1(2) have "c \<in> set (nat_str (n div 10)) \<or> c = char_of (48 + n mod 10)"
      by (simp only: set_append list.set Un_iff insert_iff empty_iff simp_thms)
    with 1(1)[OF False] digits_line[of "n mod 10"] show ?thesis by auto
  qed
qed

lemma punctuation_line: "\<forall>c \<in> set ''|`-/%() ''. line_char c"
proof -
  have "list_all line_char ''|`-/%() ''" by code_simp
  then show ?thesis by (simp only: list_all_iff)
qed

lemma line_chars [simp]:
  "line_char (CHR ''|'')" "line_char (CHR ''`'')" "line_char (CHR ''-'')" "line_char (CHR ''/'')"
  "line_char (CHR ''%'')" "line_char (CHR ''('')" "line_char (CHR '')'')" "line_char (CHR '' '')"
  by (rule punctuation_line[THEN bspec], simp)+

lemma nat_str_lines [simp]: "\<forall>c \<in> set (nat_str n). line_char c"
  using nat_str_line by blast

lemma int_str_lines [simp]: "\<forall>c \<in> set (int_str i). line_char c"
  by (simp add: int_str_def)

lemma score_texts_line:
  assumes "\<not> snd (sc_correct s)"
  shows "\<forall>c \<in> set (coverage_text s). line_char c" "\<forall>c \<in> set (correctness_text p s). line_char c"
  using assms by (simp_all add: coverage_text_def correctness_text_def percent_def ball_Un)

lemma join_lines:
  assumes "\<forall>x \<in> set xs. \<forall>c \<in> set x. line_char c"
  shows "\<forall>c \<in> set (join '' | '' xs). line_char c"
  using assms by (induction "'' | ''" xs rule: join.induct) (simp_all add: ball_Un)

lemma bar_line:
  assumes "\<forall>x \<in> set xs. \<forall>c \<in> set x. line_char c"
  shows "one_line (bar xs)"
  using join_lines[OF assms] by (intro one_lineI) (simp add: bar_def ball_Un)

subsection \<open>A text that makes a report unrenderable\<close>

lemma join_append: "xs \<noteq> [] \<Longrightarrow> ys \<noteq> [] \<Longrightarrow> join sep (xs @ ys) = join sep xs @ sep @ join sep ys"
proof (induction xs)
  case (Cons x xs)
  then show ?case by (cases xs; cases ys) auto
qed simp

lemma starts_clean_lines:
  assumes "r = [] \<or> \<not> is_cont (hd r)"
  shows "starts_clean (join [CHR 0x0A] (r # rs))"
  using assms by (cases rs; cases r) (auto simp: starts_clean_def)

lemma line_of_document:
  assumes "one_line x" "as \<noteq> []" "r = [] \<or> \<not> is_cont (hd r)"
  shows "x \<in> set (splitlines (join [CHR 0x0A] (as @ x # r # rs)))"
proof -
  have "join [CHR 0x0A] (as @ x # r # rs) = join [CHR 0x0A] as @ [CHR 0x0A] @ x @ [CHR 0x0A] @ join [CHR 0x0A] (r # rs)"
    using join_append[OF assms(2), of "x # r # rs" "[CHR 0x0A]"] by simp
  with splitlines_line[OF assms(1) starts_clean_lines[OF assms(3)]] show ?thesis by simp
qed

lemma row_v2_bar: "system_row_v2 p n e = Inr row \<Longrightarrow> \<exists>xs. row = bar xs"
  by (auto simp: system_row_v2_def bind_result_Inr_iff)

lemma section_row:
  assumes "track_section p systems tracks t = Inr sec" "dict_get tracks n = Some (JStr t)"
  obtains row rs r as where "system_row_v2 p n (the (dict_get systems n)) = Inr row"
    "sec = as @ row # r # rs" "r = [] \<or> \<not> is_cont (hd r)"
proof -
  let ?e = "\<lambda>n. the (dict_get systems n)"
  obtain ms where ms: "rank_by ranking_key_v2 (map (\<lambda>(n, t). (n, ?e n)) (filter (\<lambda>(n, u). u = JStr t) tracks)) = Inr ms"
    using assms(1) by (auto simp: track_section_def Let_def bind_result_Inr_iff)
  have n: "n \<in> set ms"
    using map_of_SomeD[OF assms(2)] by (force simp: rank_by_names[OF ms])
  obtain pre rows post where sec: "sec = pre @ rows @ [] # post"
    and rows: "map_result (\<lambda>n. system_row_v2 p n (?e n)) ms = Inr rows"
  proof -
    from assms(1) ms n obtain h sh rows mx where
      "map_result (\<lambda>n. system_row_v2 p n (?e n)) ms = Inr rows"
      "sec = [[], ''## '' @ the (dict_get TRACK_TITLES t), [], the (dict_get TRACK_NOTES t), []] @ sh
         @ [''| System | Adapter | Coverage | Correctness within coverage |'',
            ''|--------|---------|----------|-----------------------------|''] @ rows
         @ [[], ''### Case matrix '' @ em_dash @ '' '' @ py_lower (the (dict_get TRACK_TITLES t)), []] @ matrix_header ms @ mx"
      by (auto simp: track_section_def Let_def bind_result_Inr_iff split: if_splits)
    then show thesis
      using that[of "[[], ''## '' @ the (dict_get TRACK_TITLES t), [], the (dict_get TRACK_NOTES t), []] @ sh
         @ [''| System | Adapter | Coverage | Correctness within coverage |'',
            ''|--------|---------|----------|-----------------------------|'']" rows] by simp
  qed
  from map_result_image[OF rows n] obtain row where row: "row \<in> set rows" "system_row_v2 p n (?e n) = Inr row"
    by blast
  then obtain r1 r2 where r: "rows = r1 @ row # r2" by (auto simp: in_set_conv_decomp)
  show thesis
  proof (cases r2)
    case Nil
    then show thesis using that[of row "pre @ r1" "[]" post] row(2) sec r by simp
  next
    case (Cons y ys)
    have "y \<in> set rows" using r Cons by simp
    from map_result_mem[OF rows this] obtain xs where "y = bar xs" using row_v2_bar by blast
    then have "\<not> is_cont (hd y)" by (simp add: bar_def)
    then show thesis using that[of row "pre @ r1" y "ys @ [] # post"] row(2) sec r Cons by simp
  qed
qed

lemma head_lines_ne: "head_lines p v intro report = Inr head \<Longrightarrow> head \<noteq> []"
  by (auto simp: head_lines_def bind_result_Inr_iff)

lemma render_v2_parts:
  assumes "render_v2 p report = Inr doc" "json_item report ''systems'' = Inr (JObj systems)"
    "system_tracks report = Inr tracks"
  obtains head secs tail where "map_result (track_section p systems tracks) TRACKS = Inr secs"
      "doc = join [CHR 0x0A] (head @ concat secs @ tail)" "head \<noteq> []"
proof -
  obtain head secs gates absent where "head_lines p ''v2'' INTRO_V2 report = Inr head"
    "map_result (track_section p systems tracks) TRACKS = Inr secs"
    "doc = join [CHR 0x0A] (head @ concat secs @ gates @ absent @ [[], legend ''declared or track-inexpressible'', []])"
    using assms by (clarsimp simp: render_v2_def systems_of_def Let_def bind_result_Inr_iff)
  then show thesis using that[of secs head] head_lines_ne by blast
qed

lemma system_row_in_document:
  assumes "render_v2 p report = Inr doc" "json_item report ''systems'' = Inr (JObj systems)"
    "system_tracks report = Inr tracks" "dict_get tracks n = Some (JStr t)" "t \<in> set TRACKS"
  obtains row where "system_row_v2 p n (the (dict_get systems n)) = Inr row" "one_line row \<longrightarrow> row \<in> set (splitlines doc)"
proof -
  obtain head secs tail where d: "map_result (track_section p systems tracks) TRACKS = Inr secs"
      "doc = join [CHR 0x0A] (head @ concat secs @ tail)" "head \<noteq> []"
    using assms(1-3) by (rule render_v2_parts)
  from map_result_image[OF d(1) assms(5)] obtain sec where sec: "sec \<in> set secs" "track_section p systems tracks t = Inr sec"
    by blast
  obtain row rs r as where r: "system_row_v2 p n (the (dict_get systems n)) = Inr row"
    "sec = as @ row # r # rs" "r = [] \<or> \<not> is_cont (hd r)" by (rule section_row[OF sec(2) assms(4)])
  from sec(1) obtain s1 s2 where "secs = s1 @ sec # s2" by (auto simp: in_set_conv_decomp)
  with d(2) r(2) have "doc = join [CHR 0x0A] ((head @ concat s1 @ as) @ row # r # (rs @ concat s2 @ tail))" by simp
  with line_of_document[of row "head @ concat s1 @ as" r] d(3) r(1,3) that show thesis by simp
qed

text \<open>C30: One system's version text can make the whole report unrenderable: in a report of version 2, if the
adapter version that an executed system declares contains a bar followed by the name of a system of the
other track, no document is rendered at all. The names and the version are plain texts.\<close>

theorem version_text_blocks_document:
  assumes "json_item report ''benchmark'' = Inr (JStr b)" "ends_with b ''-v2''"
    "json_item report ''systems'' = Inr (JObj systems)" "system_tracks report = Inr tracks"
    "dict_get tracks n = Some (JStr t)" "t \<in> set TRACKS" "dict_get tracks m = Some u" "u \<noteq> JStr t"
    "dict_get systems n = Some e" "json_item e ''adapter_version'' = Inr (JStr (v @ '' | '' @ m))"
    "entry_score e = Inr s" "\<not> snd (sc_correct s)" "plain_text n" "plain_text m" "plain_text v"
  shows "\<not> returns (render p report)"
proof
  assume "returns (render p report)"
  then obtain doc where doc: "render p report = Inr doc" by (auto simp: returns_def)
  have "\<not> ends_with b ''-v1''" using assms(2) by (auto simp: ends_with_def)
  with doc assms(1,2) have d2: "render_v2 p report = Inr doc" by (simp add: render_def value_ends_with_def)
  from system_row_in_document[OF d2 assms(3-6)] obtain row where row:
    "system_row_v2 p n e = Inr row" "one_line row \<longrightarrow> row \<in> set (splitlines doc)" using assms(9) by auto
  let ?xs = "[n, code_text (v @ '' | '' @ m), coverage_text s, correctness_text p s]"
  have rb: "row = bar ?xs" using row(1) assms(10,11) by (simp add: system_row_v2_def)
  have "\<forall>x \<in> set ?xs. \<forall>c \<in> set x. line_char c"
    using assms(13-15) score_texts_line[OF assms(12)] plain_line
    by (simp add: code_text_def ball_Un plain_text_def)
  then have "row \<in> set (splitlines doc)" using row(2) bar_line rb by blast
  then have "sublist [row] (splitlines doc)" by (metis in_set_conv_decomp sublist_appendI append_Cons append_Nil)
  moreover have "list_all is_table_line [row]" using rb bar_is_table_line by simp
  ultimately have "one_track tracks [row]"
    using table_of_document[OF doc assms(1,2)] assms(4) by auto
  moreover have "CHR ''|'' \<notin> set v" using assms(15) by (auto simp: plain_text_def plain_char_def)
  then have "n \<in> set (table_cells row)" "m \<in> set (table_cells row)"
    using plain_cell[OF assms(13), of ?xs] second_cell[OF assms(14), of v ?xs] rb by auto
  then have "JStr t \<in> set (named_tracks tracks [row])" "u \<in> set (named_tracks tracks [row])"
    using named_trackI[of row "[row]"] assms(5,7) by auto
  ultimately show False using assms(8) unfolding one_track_def by blast
qed

text \<open>two runs: one system, and two systems of which one names the other in its version\<close>

definition entry_of :: "string \<Rightarrow> string \<Rightarrow> json" where
  "entry_of interface v = JObj [(''status'', JStr ''executed''), (''interface'', JStr interface),
     (''adapter_version'', JStr v), (''cases'', JList [])]"

definition report_of :: "(string, json) pydict \<Rightarrow> json" where
  "report_of systems = JObj [(''benchmark'', JStr BENCHMARK_V2), (''corpus_digest'', JStr ''d''), (''status'', JStr ''pass''),
     (''metadata'', JObj []), (''hard_gates'', JObj []), (''systems'', JObj systems)]"

lemma report_of_fields:
  "json_item (report_of systems) ''benchmark'' = Inr (JStr BENCHMARK_V2)"
  "json_item (report_of systems) ''systems'' = Inr (JObj systems)" "ends_with BENCHMARK_V2 ''-v2''"
  by (simp_all add: report_of_def json_item_def ends_with_def BENCHMARK_V2_def)

definition lone :: "(string, json) pydict" where
  "lone = [(''mem0'', entry_of ''direct-api'' ''1'')]"

lemma lone_tracks: "system_tracks (report_of lone) = Inr [(''mem0'', JStr MEMORY_STORE)]"
  by code_simp

lemma plain_mem0: "plain_text ''mem0''" "plain_text ''1''" "plain_text ''marciana''"
  by (simp_all add: plain_text_def plain_char_def single_space single_break)

lemma entry_of_facts:
  "entry_score (entry_of i v) = Inr \<lparr>sc_cases = 0, sc_supported = 0, sc_correct = (0, False)\<rparr>"
  "json_item (entry_of i v) ''adapter_version'' = Inr (JStr v)" "fine_entry [] (entry_of i v)"
  by (simp_all add: entry_of_def entry_score_def entry_cases_def json_item_def json_iter_def fine_entry_def
      has_cases_def fine_harness_def)

lemma report_of_renders:
  assumes "system_tracks (report_of systems) = Inr tracks" "\<not> two_tracks tracks" "dict_ok systems"
    "\<forall>e \<in> snd ` set systems. fine_entry [] e"
  obtains doc where "render p (report_of systems) = Inr doc" "render_v2 p (report_of systems) = Inr doc"
proof -
  have "fine_report [] systems (report_of systems)"
    using assms(3,4) by (force simp: fine_report_def report_of_def json_item_def dest: map_of_SomeD)
  from render_v2_outcome[OF this, of p] assms(1,2) obtain doc where "render_v2 p (report_of systems) = Inr doc"
    by (auto simp: returns_def)
  moreover have "\<not> ends_with BENCHMARK_V2 ''-v1''" by (simp add: ends_with_def BENCHMARK_V2_def)
  ultimately show thesis
    using that report_of_fields by (simp add: render_def value_ends_with_def)
qed

lemma rendered_tables_single_track_witness:
  "\<forall>p. \<exists>doc row. render p (report_of lone) = Inr doc \<and> row \<in> set (splitlines doc) \<and> is_table_line row
     \<and> ''mem0'' \<in> set (table_cells row) \<and> one_track [(''mem0'', JStr MEMORY_STORE)] [row]"
proof
  fix p
  have "\<not> two_tracks [(''mem0'', JStr MEMORY_STORE)]" "dict_ok lone" "\<forall>e \<in> snd ` set lone. fine_entry [] e"
    by (simp_all add: two_tracks_def lone_def dict_ok_def entry_of_facts)
  from report_of_renders[OF lone_tracks this] obtain doc where doc: "render p (report_of lone) = Inr doc"
    "render_v2 p (report_of lone) = Inr doc" by blast
  have "dict_get [(''mem0'', JStr MEMORY_STORE)] ''mem0'' = Some (JStr MEMORY_STORE)" "MEMORY_STORE \<in> set TRACKS"
    by (simp_all add: TRACKS_def)
  from system_row_in_document[OF doc(2) report_of_fields(2) lone_tracks this] obtain row where row:
    "system_row_v2 p ''mem0'' (entry_of ''direct-api'' ''1'') = Inr row" "one_line row \<longrightarrow> row \<in> set (splitlines doc)"
    by (auto simp: lone_def)
  let ?s = "\<lparr>sc_cases = 0, sc_supported = 0, sc_correct = (0, False)\<rparr>"
  let ?xs = "[''mem0'', code_text ''1'', coverage_text ?s, correctness_text p ?s]"
  have rb: "row = bar ?xs" using row(1) by (simp add: system_row_v2_def entry_of_facts)
  have "\<forall>x \<in> set ?xs. \<forall>c \<in> set x. line_char c"
    using plain_mem0 score_texts_line[where s = ?s] plain_line by (simp add: code_text_def ball_Un plain_text_def)
  then have m: "row \<in> set (splitlines doc)" using row(2) bar_line rb by blast
  then have "sublist [row] (splitlines doc)" by (metis in_set_conv_decomp sublist_appendI append_Cons append_Nil)
  with rendered_tables_single_track[OF doc(1) report_of_fields(1) report_of_fields(3), of "[row]"] lone_tracks rb bar_is_table_line
  have "one_track [(''mem0'', JStr MEMORY_STORE)] [row]" by simp
  with doc(1) m rb bar_is_table_line plain_cell[OF plain_mem0(1), of ?xs]
  show "\<exists>doc row. render p (report_of lone) = Inr doc \<and> row \<in> set (splitlines doc) \<and> is_table_line row
     \<and> ''mem0'' \<in> set (table_cells row) \<and> one_track [(''mem0'', JStr MEMORY_STORE)] [row]" by fastforce
qed

definition quoting :: "(string, json) pydict" where
  "quoting = [(''mem0'', entry_of ''direct-api'' ''1 | marciana''), (''marciana'', entry_of ''agent-loop'' ''1'')]"

lemma quoting_tracks:
  "system_tracks (report_of quoting) = Inr [(''mem0'', JStr MEMORY_STORE), (''marciana'', JStr AGENT_MEMORY)]"
  by code_simp

lemma version_text_blocks_document_witness: "\<forall>p. \<not> returns (render p (report_of quoting))"
proof
  fix p
  show "\<not> returns (render p (report_of quoting))"
    by (rule version_text_blocks_document[where n = "''mem0''" and m = "''marciana''" and v = "''1''" and b = BENCHMARK_V2
          and systems = quoting and tracks = "[(''mem0'', JStr MEMORY_STORE), (''marciana'', JStr AGENT_MEMORY)]"
          and t = MEMORY_STORE and u = "JStr AGENT_MEMORY" and e = "entry_of ''direct-api'' ''1 | marciana''"
          and s = "\<lparr>sc_cases = 0, sc_supported = 0, sc_correct = (0, False)\<rparr>"])
      (use plain_mem0 track_neq quoting_tracks in \<open>simp_all add: report_of_fields entry_of_facts TRACKS_def, simp_all add: quoting_def\<close>)
qed

end
