(* ===== verification/JsonRound.thy ===== *)
theory JsonRound
  imports Json
begin

text \<open>
  Reading back what was printed: a grammar of the texts of a value, the parser accepts every text of
  the grammar, and the printers write texts of it. Strings must be encodings of characters other than
  surrogates; the text of a float is a parameter of the program, so that it reads back is a hypothesis.
\<close>

subsection \<open>Characters\<close>

text \<open>a character: the encoding of its code point, which is no surrogate\<close>

definition scalar :: "string \<Rightarrow> bool" where
  "scalar ch \<longleftrightarrow> (let n = code_point ch in n < 1114112 \<and> \<not> (55296 \<le> n \<and> n < 57344) \<and> utf8 n = ch)"

definition valid_text :: "string \<Rightarrow> bool" where
  "valid_text s \<longleftrightarrow> list_all scalar (chunks s)"

lemma hex_val_lower: "d < 16 \<Longrightarrow> hex_val (hex_lower d) = Some d"
proof -
  have "\<forall>d \<in> set [0..<16]. hex_val (hex_lower d) = Some d" by code_simp
  moreover assume "d < 16"
  then have "d \<in> set [0..<16]" by simp
  ultimately show ?thesis by (rule bspec)
qed

lemma hex4_sum: "n < 65536 \<Longrightarrow> 4096 * (n div 4096 mod 16) + 256 * (n div 256 mod 16) + 16 * (n div 16 mod 16) + n mod 16 = (n :: nat)"
proof -
  assume "n < 65536"
  then have "n div 4096 mod 16 = n div 4096" by simp
  moreover have "n mod 4096 = 256 * (n div 256 mod 16) + n mod 256"
    using mod_mult2_eq[of n 256 16] by simp
  moreover have "n mod 256 = 16 * (n div 16 mod 16) + n mod 16"
    using mod_mult2_eq[of n 16 16] by simp
  moreover have "n = 4096 * (n div 4096) + n mod 4096" by simp
  ultimately show ?thesis by linarith
qed

lemma take_hex4: "n < 65536 \<Longrightarrow> take_hex4 (hex4 n @ r) = Some (n, r)"
  using hex4_sum[of n] by (simp add: hex_val_lower)

lemma take_escape_simple:
  "take_escape (CHR 0x22 # r) = Some ([CHR 0x22], r)" "take_escape (CHR 0x5C # r) = Some ([CHR 0x5C], r)"
  "take_escape (CHR ''n'' # r) = Some ([CHR 0x0A], r)" "take_escape (CHR ''r'' # r) = Some ([CHR 0x0D], r)"
  "take_escape (CHR ''t'' # r) = Some ([CHR 0x09], r)" "take_escape (CHR ''f'' # r) = Some ([CHR 0x0C], r)"
  "take_escape (CHR ''b'' # r) = Some ([CHR 0x08], r)"
  by (simp_all add: take_escape_def)

lemma take_escape_u:
  assumes "n < 65536" "\<not> (55296 \<le> n \<and> n < 56320)"
  shows "take_escape (CHR ''u'' # hex4 n @ r) = Some (utf8 n, r)"
  using assms by (auto simp: take_escape_def take_hex4 simp del: hex4.simps)

lemma take_escape_pair:
  assumes "65536 \<le> n" "n < 1114112"
  shows "take_escape (CHR ''u'' # hex4 (55296 + (n - 65536) div 1024) @ [CHR 0x5C, CHR ''u'']
    @ hex4 (56320 + (n - 65536) mod 1024) @ r) = Some (utf8 n, r)"
proof -
  let ?q = "(n - 65536) div 1024" and ?m = "(n - 65536) mod 1024"
  have b: "?q < 1024" "?m < 1024" using assms by (auto simp: less_mult_imp_div_less)
  have "n - 65536 = ?q * 1024 + ?m" by simp
  then have s: "65536 + ?q * 1024 + ?m = n" using assms(1) by linarith
  have h: "take_hex4 (hex4 (55296 + ?q) @ t) = Some (55296 + ?q, t)" "take_hex4 (hex4 (56320 + ?m) @ t) = Some (56320 + ?m, t)" for t
    using b by (intro take_hex4; linarith)+
  show ?thesis
    using b s by (simp add: take_escape_def h del: hex4.simps)
qed

text \<open>one step of the scanner reads one printed character\<close>

lemma take_chars_escape:
  "take_escape r = Some (x, t) \<Longrightarrow> take_chars (Suc n) (CHR 0x5C # r) = map_option (\<lambda>(y, u). (x @ y, u)) (take_chars n t)"
  by simp

lemma take_chars_plain:
  "c \<noteq> CHR 0x22 \<Longrightarrow> c \<noteq> CHR 0x5C \<Longrightarrow> \<not> c < CHR '' '' \<Longrightarrow>
    take_chars (Suc n) (c # r) = map_option (\<lambda>(y, u). (c # y, u)) (take_chars n r)"
  by simp

lemma utf8_small: "n < 128 \<Longrightarrow> utf8 n = [char_of n]"
  by (simp add: utf8_def)

lemma utf8_escaped:
  "utf8 34 = [CHR 0x22]" "utf8 92 = [CHR 0x5C]" "utf8 10 = [CHR 0x0A]" "utf8 13 = [CHR 0x0D]"
  "utf8 9 = [CHR 0x09]" "utf8 12 = [CHR 0x0C]" "utf8 8 = [CHR 0x08]"
  by code_simp+

lemma take_chars_chunk:
  assumes "scalar ch"
  shows "take_chars (Suc n) (escape_chunk ch @ r) = map_option (\<lambda>(y, u). (ch @ y, u)) (take_chars n r)"
proof -
  define k where "k = code_point ch"
  have k: "k < 1114112" "\<not> (55296 \<le> k \<and> k < 57344)" "utf8 k = ch"
    using assms by (auto simp: scalar_def k_def Let_def)
  consider "k = 34" | "k = 92" | "k = 10" | "k = 13" | "k = 9" | "k = 12" | "k = 8"
    | (plain) "k \<notin> {34, 92}" "32 \<le> k" "k \<le> 126" | (small) "k \<notin> {34, 92, 10, 13, 9, 12, 8}" "\<not> (32 \<le> k \<and> k \<le> 126)" "k < 65536"
    | (big) "65536 \<le> k"
    by fastforce
  then show ?thesis
  proof cases
    case plain
    have ch: "ch = [char_of k]" using k(3) plain utf8_small[of k] by simp
    have "escape_chunk ch = ch" using plain by (simp add: escape_chunk_def flip: k_def)
    moreover have "char_of k \<noteq> CHR 0x22" "char_of k \<noteq> CHR 0x5C" "\<not> char_of k < CHR '' ''"
    proof -
      have o: "of_char (char_of k) = k" using plain by simp
      have "of_char (CHR 0x22) = (34 :: nat)" "of_char (CHR 0x5C) = (92 :: nat)" "of_char (CHR '' '') = (32 :: nat)" by simp_all
      then show "char_of k \<noteq> CHR 0x22" "char_of k \<noteq> CHR 0x5C" "\<not> char_of k < CHR '' ''"
        using plain o by (auto simp: less_char_def simp del: of_char_of)
    qed
    ultimately show ?thesis using take_chars_plain[of "char_of k" n r] ch by simp
  next
    case small
    then have "escape_chunk ch = CHR 0x5C # CHR ''u'' # hex4 k"
      by (auto simp: escape_chunk_def simp del: hex4.simps simp flip: k_def)
    moreover have "take_escape (CHR ''u'' # hex4 k @ r) = Some (ch, r)"
      using take_escape_u[of k r] small k by auto
    ultimately show ?thesis using take_chars_escape by (simp del: take_chars.simps hex4.simps)
  next
    case big
    then have "escape_chunk ch = CHR 0x5C # CHR ''u'' # hex4 (55296 + (k - 65536) div 1024) @ [CHR 0x5C, CHR ''u'']
        @ hex4 (56320 + (k - 65536) mod 1024)"
      by (simp add: escape_chunk_def del: hex4.simps flip: k_def)
    with take_escape_pair[OF big k(1), of r] k(3) take_chars_escape
    show ?thesis by (simp del: take_chars.simps hex4.simps)
  qed (use k(3) in \<open>auto simp: escape_chunk_def utf8_escaped take_escape_simple simp flip: k_def\<close>)
qed

lemma take_chars_quoted:
  assumes "list_all scalar cs" "length cs < n"
  shows "take_chars n (concat (map escape_chunk cs) @ CHR 0x22 # r) = Some (concat cs, r)"
  using assms
proof (induction cs arbitrary: n)
  case Nil
  then show ?case by (cases n) auto
next
  case (Cons ch cs)
  then obtain m where n: "n = Suc m" "length cs < m" by (cases n) auto
  have "take_chars (Suc m) (escape_chunk ch @ concat (map escape_chunk cs) @ CHR 0x22 # r)
      = map_option (\<lambda>(y, u). (ch @ y, u)) (take_chars m (concat (map escape_chunk cs) @ CHR 0x22 # r))"
    by (rule take_chars_chunk) (use Cons in simp)
  with Cons n show ?case by simp
qed

lemma escape_chunk_ne: "scalar ch \<Longrightarrow> escape_chunk ch \<noteq> []"
  by (auto simp: scalar_def escape_chunk_def Let_def utf8_def split: if_splits)

lemma length_escapes: "list_all scalar cs \<Longrightarrow> length cs \<le> length (concat (map escape_chunk cs))"
proof (induction cs)
  case (Cons ch cs)
  then have "length (escape_chunk ch) \<ge> 1" using escape_chunk_ne[of ch] by (cases "escape_chunk ch") auto
  with Cons show ?case by simp
qed simp

lemma take_quote:
  assumes "valid_text s"
  shows "take_chars (Suc (length (tl (json_quote s @ r)))) (tl (json_quote s @ r)) = Some (s, r)"
proof -
  have v: "list_all scalar (chunks s)" using assms by (simp add: valid_text_def)
  have "tl (json_quote s @ r) = concat (map escape_chunk (chunks s)) @ CHR 0x22 # r" by (simp add: json_quote_def)
  moreover have "length (chunks s) < Suc (length (concat (map escape_chunk (chunks s)) @ CHR 0x22 # r))"
    using length_escapes[OF v] by simp
  ultimately show ?thesis using take_chars_quoted[OF v] by (simp del: take_chars.simps)
qed

subsection \<open>Numbers\<close>

lemma digit_facts:
  "k < 10 \<Longrightarrow> is_digit (char_of (48 + k :: nat)) \<and> digit_val (char_of (48 + k)) = k"
proof -
  have "\<forall>k \<in> set [0..<10]. is_digit (char_of (48 + k :: nat)) \<and> digit_val (char_of (48 + k)) = k" by code_simp
  moreover assume "k < 10"
  then have "k \<in> set [0..<10]" by simp
  ultimately show ?thesis by (rule bspec)
qed

lemma nat_str_low: "n < 10 \<Longrightarrow> nat_str n = [char_of (48 + n)]"
  by (subst nat_str.simps) (simp only: if_True)

lemma nat_str_high: "\<not> n < 10 \<Longrightarrow> nat_str n = nat_str (n div 10) @ [char_of (48 + n mod 10)]"
  by (subst nat_str.simps) (simp only: if_False)

lemma nat_str_shape: "list_all is_digit (nat_str n) \<and> digits_val (nat_str n) = n \<and> nat_str n \<noteq> []
    \<and> (n \<noteq> 0 \<longrightarrow> hd (nat_str n) \<noteq> CHR ''0'')"
proof (induction n rule: nat_str.induct)
  case (1 n)
  show ?case
  proof (cases "n < 10")
    case True
    have "char_of (48 + n) \<noteq> CHR ''0''" if "n \<noteq> 0"
    proof
      assume "char_of (48 + n) = CHR ''0''"
      then have "digit_val (char_of (48 + n)) = digit_val (CHR ''0'')" by (simp only:)
      with digit_facts[OF True] that show False by (simp add: digit_val_def)
    qed
    then show ?thesis
      using digit_facts[OF True] by (simp add: nat_str_low[OF True] digits_val_def del: char_of_def)
  next
    case False
    then have "n div 10 \<noteq> 0" by simp
    then show ?thesis
      using 1[OF False] digit_facts[of "n mod 10"]
      by (simp add: nat_str_high[OF False] digits_val_snoc del: char_of_def)
  qed
qed

lemma hd_nat_str: "n \<noteq> 0 \<Longrightarrow> take 1 (nat_str n) \<noteq> ''0''" "is_digit (hd (nat_str n))" "nat_str n \<noteq> []"
  using nat_str_shape[of n] by (cases "nat_str n"; simp)+

lemma nat_str_0: "nat_str 0 = ''0''"
  by code_simp

text \<open>what may follow a value: the end, a blank or a delimiter\<close>

definition follows :: "string \<Rightarrow> bool" where
  "follows r \<longleftrightarrow> r = [] \<or> hd r \<in> {CHR '','', CHR '']'', CHR ''}'', CHR '' '', CHR 0x09, CHR 0x0A, CHR 0x0D}"

lemma follow_chars:
  "follows r \<Longrightarrow> r = [] \<or> (\<not> is_digit (hd r) \<and> hd r \<noteq> CHR ''.'' \<and> hd r \<noteq> CHR ''e'' \<and> hd r \<noteq> CHR ''E'')"
proof -
  have "list_all (\<lambda>c. \<not> is_digit c) [CHR '','', CHR '']'', CHR ''}'', CHR '' '', CHR 0x09, CHR 0x0A, CHR 0x0D]"
    by code_simp
  then show "follows r \<Longrightarrow> r = [] \<or> (\<not> is_digit (hd r) \<and> hd r \<noteq> CHR ''.'' \<and> hd r \<noteq> CHR ''e'' \<and> hd r \<noteq> CHR ''E'')"
    by (auto simp: follows_def)
qed

lemma take_nat:
  assumes "follows r"
  shows "takeWhile is_digit (nat_str n @ r) = nat_str n"
proof -
  have "takeWhile is_digit r = []" using follow_chars[OF assms] by (cases r) auto
  moreover have "\<forall>c \<in> set (nat_str n). is_digit c" using nat_str_shape[of n] by (simp add: list_all_iff)
  ultimately show ?thesis by (simp add: takeWhile_append)
qed

lemma take_integer_nat:
  assumes "follows r"
  shows "take_integer (nat_str n @ r) = (False, nat_str n, r)" "take_integer (CHR ''-'' # nat_str n @ r) = (True, nat_str n, r)"
proof -
  obtain c cs where c: "nat_str n = c # cs" "is_digit c" using hd_nat_str[of n] by (cases "nat_str n") auto
  have "\<not> is_digit (CHR ''-'')" by code_simp
  with c(2) have m: "c \<noteq> CHR ''-''" by auto
  have z: "(if take 1 (nat_str n @ r) = ''0'' then ''0'' else takeWhile is_digit (nat_str n @ r)) = nat_str n"
  proof (cases "n = 0")
    case True
    then show ?thesis by (simp add: nat_str_0)
  next
    case False
    have "take 1 (nat_str n @ r) = take 1 (nat_str n)" using c by simp
    with hd_nat_str(1)[OF False] show ?thesis unfolding take_nat[OF assms] by (simp only: if_False)
  qed
  show "take_integer (nat_str n @ r) = (False, nat_str n, r)"
    using z m c by (auto simp: take_integer_def Let_def)
  show "take_integer (CHR ''-'' # nat_str n @ r) = (True, nat_str n, r)"
    using z by (simp add: take_integer_def)
qed

lemma no_fraction: "follows r \<Longrightarrow> take_fraction r = ([], r) \<and> take_exponent r = (None, r)"
  using follow_chars[of r] by (cases r; cases "tl r") (auto simp: take_fraction_def take_exponent_def)

lemma take_number_int:
  assumes "follows r" "length (nat_str (nat \<bar>i\<bar>)) \<le> MAX_INT_DIGITS"
  shows "take_number (int_str i @ r) = Inr (JInt i, r)"
proof (cases "i < 0")
  case True
  then have e: "int_str i @ r = CHR ''-'' # nat_str (nat (- i)) @ r" by (simp add: int_str_def)
  have "length (nat_str (nat (- i))) \<le> MAX_INT_DIGITS" using assms(2) True by simp
  then show ?thesis
    using True nat_str_shape[of "nat (- i)"] no_fraction[OF assms(1)]
    by (simp add: take_number_def take_integer_nat[OF assms(1)] e)
next
  case False
  then have "length (nat_str (nat i)) \<le> MAX_INT_DIGITS" using assms(2) by simp
  with False show ?thesis
    using nat_str_shape[of "nat i"] no_fraction[OF assms(1)]
    by (simp add: int_str_def take_number_def take_integer_nat[OF assms(1)])
qed

lemma take_constant_other:
  assumes "s \<noteq> []" "is_digit (hd s) \<or> (hd s = CHR ''-'' \<and> tl s \<noteq> [] \<and> is_digit (hd (tl s)))"
  shows "take_constant s = None"
proof -
  have n: "\<not> is_digit (CHR ''n'')" "\<not> is_digit (CHR ''t'')" "\<not> is_digit (CHR ''f'')" "\<not> is_digit (CHR ''N'')"
    "\<not> is_digit (CHR ''I'')" "\<not> is_digit (CHR ''-'')" by code_simp+
  from assms obtain c t where s: "s = c # t" by (cases s) auto
  then consider "is_digit c" | d u where "c = CHR ''-''" "t = d # u" "is_digit d"
    using assms(2) by (cases t) auto
  then show ?thesis
  proof cases
    case 1
    with n s show ?thesis by (auto simp: take_constant_def json_constants_def)
  next
    case 2
    with n s show ?thesis by (auto simp: take_constant_def json_constants_def)
  qed
qed

lemma take_constant_int: "take_constant (int_str i @ r) = None"
  by (rule take_constant_other) (use hd_nat_str in \<open>auto simp: int_str_def\<close>)

subsection \<open>A grammar of documents\<close>

definition blank :: "string \<Rightarrow> bool" where
  "blank w \<longleftrightarrow> list_all json_space w"

text \<open>a text of a float that reads back as it, whatever follows\<close>

definition float_text :: "rat \<Rightarrow> string \<Rightarrow> bool" where
  "float_text q t \<longleftrightarrow> t \<noteq> [] \<and> (is_digit (hd t) \<or> (hd t = CHR ''-'' \<and> tl t \<noteq> [] \<and> is_digit (hd (tl t))))
     \<and> (\<forall>r. follows r \<longrightarrow> take_number (t @ r) = Inr (JFloat q, r))"

text \<open>the texts of a value, of the items of a list up to its bracket, of the members of an object\<close>

inductive json_text :: "json \<Rightarrow> string \<Rightarrow> bool"
  and items_text :: "json list \<Rightarrow> string \<Rightarrow> bool"
  and members_text :: "(string \<times> json) list \<Rightarrow> string \<Rightarrow> bool" where
  text_null: "json_text JNull ''null''"
| text_true: "json_text (JBool True) ''true''"
| text_false: "json_text (JBool False) ''false''"
| text_int: "length (nat_str (nat \<bar>i\<bar>)) \<le> MAX_INT_DIGITS \<Longrightarrow> json_text (JInt i) (int_str i)"
| text_float: "float_text q t \<Longrightarrow> json_text (JFloat q) t"
| text_str: "valid_text s \<Longrightarrow> json_text (JStr s) (json_quote s)"
| text_nil: "json_text (JList []) ''[]''"
| text_list: "blank w \<Longrightarrow> items_text xs t \<Longrightarrow> json_text (JList xs) (CHR ''['' # w @ t)"
| text_empty: "json_text (JObj []) ''{}''"
| text_obj: "blank w \<Longrightarrow> members_text ms t \<Longrightarrow> dict_ok ms \<Longrightarrow> json_text (JObj ms) (CHR ''{'' # w @ t)"
| items_last: "json_text v t \<Longrightarrow> blank w \<Longrightarrow> items_text [v] (t @ w @ '']'')"
| items_more: "json_text v t \<Longrightarrow> blank w \<Longrightarrow> items_text vs u \<Longrightarrow> items_text (v # vs) (t @ CHR '','' # w @ u)"
| members_last: "valid_text k \<Longrightarrow> json_text v t \<Longrightarrow> blank w' \<Longrightarrow> blank w
    \<Longrightarrow> members_text [(k, v)] (json_quote k @ CHR '':'' # w' @ t @ w @ ''}'')"
| members_more: "valid_text k \<Longrightarrow> json_text v t \<Longrightarrow> blank w' \<Longrightarrow> blank w \<Longrightarrow> members_text ms u
    \<Longrightarrow> members_text ((k, v) # ms) (json_quote k @ CHR '':'' # w' @ t @ CHR '','' # w @ u)"

inductive_cases json_text_str: "json_text (JStr s) t"

lemma skip_blank: "blank w \<Longrightarrow> skip_space (w @ s) = skip_space s"
  by (induction w) (auto simp: blank_def skip_space_def)

lemma skip_none: "s = [] \<or> \<not> json_space (hd s) \<Longrightarrow> skip_space s = s"
  by (cases s) (auto simp: skip_space_def)

text \<open>a text starts with none of the blanks and brackets\<close>

definition starts_value :: "string \<Rightarrow> bool" where
  "starts_value t \<longleftrightarrow> t \<noteq> [] \<and> \<not> json_space (hd t) \<and> hd t \<noteq> CHR '']'' \<and> hd t \<noteq> CHR ''}''"

lemma value_starts [simp]:
  "starts_value (CHR ''n'' # t)" "starts_value (CHR ''t'' # t)" "starts_value (CHR ''f'' # t)"
  "starts_value (CHR 0x22 # t)" "starts_value (CHR ''['' # t)" "starts_value (CHR ''{'' # t)" "starts_value (CHR ''-'' # t)"
  by (simp_all add: starts_value_def json_space_def)

lemma digit_starts: "t \<noteq> [] \<Longrightarrow> is_digit (hd t) \<Longrightarrow> starts_value t"
proof -
  have "list_all (\<lambda>c. \<not> is_digit c) [CHR '' '', CHR 0x09, CHR 0x0A, CHR 0x0D, CHR '']'', CHR ''}'']" by code_simp
  then show "t \<noteq> [] \<Longrightarrow> is_digit (hd t) \<Longrightarrow> starts_value t"
    by (auto simp: starts_value_def json_space_def)
qed

lemma starts_append: "starts_value t \<Longrightarrow> starts_value (t @ r)"
  by (cases t) (auto simp: starts_value_def)

lemma starts_skip: "starts_value t \<Longrightarrow> skip_space t = t"
  by (rule skip_none) (auto simp: starts_value_def)

lemma quote_starts: "starts_value (json_quote s @ r)"
  by (simp add: json_quote_def)

lemma text_starts:
  "json_text v t \<Longrightarrow> starts_value t" "items_text vs u \<Longrightarrow> starts_value u" "members_text ms x \<Longrightarrow> starts_value x"
proof (induction rule: json_text_items_text_members_text.inducts)
  case (text_int i)
  then show ?case using digit_starts hd_nat_str by (auto simp: int_str_def)
next
  case (text_float q t)
  then show ?case using digit_starts by (cases t) (auto simp: float_text_def)
qed (simp_all add: starts_append quote_starts quote_starts[where r = "[]", simplified])

subsection \<open>The parser accepts the grammar\<close>

lemma update_fresh: "k \<notin> fst ` set d \<Longrightarrow> dict_set k v d = d @ [(k, v)]"
  by (induction d) auto

lemma dict_of_distinct: "distinct (map fst (d @ xs)) \<Longrightarrow> dict_of xs d = d @ xs"
proof (induction xs d rule: dict_of.induct)
  case (2 k v xs d)
  then have "dict_set k v d = d @ [(k, v)]" by (intro update_fresh) auto
  with 2 show ?case by simp
qed simp


lemma take_constant_words:
  "take_constant (''null'' @ r) = Some (JNull, r)" "take_constant (''true'' @ r) = Some (JBool True, r)"
  "take_constant (''false'' @ r) = Some (JBool False, r)"
  by (simp_all add: take_constant_def json_constants_def)

lemma follows_blank: "blank w \<Longrightarrow> c \<in> {CHR '','', CHR '']'', CHR ''}''} \<Longrightarrow> follows (w @ c # r)"
  by (cases w) (auto simp: blank_def follows_def json_space_def)

lemma take_value_number:
  assumes "t \<noteq> []" "is_digit (hd t) \<or> (hd t = CHR ''-'' \<and> tl t \<noteq> [] \<and> is_digit (hd (tl t)))"
  shows "take_value (Suc n) t = take_number t"
proof -
  have "list_all (\<lambda>c. \<not> is_digit c) [CHR 0x22, CHR ''['', CHR ''{'']" by code_simp
  then have "hd t \<noteq> CHR 0x22" "hd t \<noteq> CHR ''[''" "hd t \<noteq> CHR ''{''" using assms(2) by auto
  with assms(1) take_constant_other[OF assms] show ?thesis by (cases t) simp_all
qed

lemma digit_append:
  "t \<noteq> [] \<Longrightarrow> is_digit (hd t) \<or> (hd t = CHR ''-'' \<and> tl t \<noteq> [] \<and> is_digit (hd (tl t)))
    \<Longrightarrow> t @ r \<noteq> [] \<and> (is_digit (hd (t @ r)) \<or> (hd (t @ r) = CHR ''-'' \<and> tl (t @ r) \<noteq> [] \<and> is_digit (hd (tl (t @ r)))))"
  by (cases t) auto

lemma int_str_shape: "int_str i \<noteq> [] \<and> (is_digit (hd (int_str i)) \<or>
    (hd (int_str i) = CHR ''-'' \<and> tl (int_str i) \<noteq> [] \<and> is_digit (hd (tl (int_str i)))))"
  using hd_nat_str by (auto simp: int_str_def)

lemma take_value_quote:
  assumes "valid_text s"
  shows "take_value (Suc n) (json_quote s @ r) = Inr (JStr s, r)"
  using take_quote[OF assms, of r] by (simp add: json_quote_def del: take_chars.simps)

lemma take_value_list:
  assumes "starts_value t" "take_items n t = Inr (xs, r)" "blank w"
  shows "take_value (Suc n) (CHR ''['' # w @ t) = Inr (JList xs, r)"
proof -
  have "skip_space (w @ t) = t" using assms by (simp add: skip_blank starts_skip)
  moreover have "take 1 t \<noteq> '']''" using assms(1) by (cases t) (auto simp: starts_value_def)
  ultimately show ?thesis using assms(2) by simp
qed

lemma take_value_obj:
  assumes "starts_value t" "take_members n t = Inr (ms, r)" "blank w" "dict_ok ms"
  shows "take_value (Suc n) (CHR ''{'' # w @ t) = Inr (JObj ms, r)"
proof -
  have "skip_space (w @ t) = t" using assms by (simp add: skip_blank starts_skip)
  moreover have "take 1 t \<noteq> ''}''" using assms(1) by (cases t) (auto simp: starts_value_def)
  moreover have "dict_of ms [] = ms"
    using dict_of_distinct[of "[]" ms] assms(4) by (simp add: dict_ok_def)
  ultimately show ?thesis using assms(2) by simp
qed

lemma take_items_last:
  assumes "take_value n (t @ w @ CHR '']'' # r) = Inr (v, w @ CHR '']'' # r)" "blank w"
  shows "take_items (Suc n) (t @ w @ CHR '']'' # r) = Inr ([v], r)"
proof -
  have "skip_space (w @ CHR '']'' # r) = CHR '']'' # r"
    using assms(2) by (simp add: skip_blank skip_none json_space_def)
  with assms(1) show ?thesis by simp
qed

lemma take_items_more:
  assumes "take_value n (t @ CHR '','' # w @ u) = Inr (v, CHR '','' # w @ u)" "blank w" "starts_value u"
    "take_items n u = Inr (vs, r)"
  shows "take_items (Suc n) (t @ CHR '','' # w @ u) = Inr (v # vs, r)"
proof -
  have "skip_space (CHR '','' # w @ u) = CHR '','' # w @ u" by (simp add: skip_none json_space_def)
  moreover have "skip_space (w @ u) = u" using assms(2,3) by (simp add: skip_blank starts_skip)
  ultimately show ?thesis using assms(1,4) by simp
qed

lemma take_members_key:
  assumes "valid_text k" "blank w'" "starts_value t"
    "take_value n t = Inr (v, s)"
  shows "take_members (Suc n) (json_quote k @ CHR '':'' # w' @ t) =
    (case skip_space s of
       c # r \<Rightarrow> if c = CHR ''}'' then Inr ([(k, v)], r)
         else if c = CHR '','' then
           (case take_members n (skip_space r) of Inl e \<Rightarrow> Inl e | Inr (ms, u) \<Rightarrow> Inr ((k, v) # ms, u))
         else Inl Malformed
     | [] \<Rightarrow> Inl Malformed)"
proof -
  obtain q where q: "json_quote k @ CHR '':'' # w' @ t = CHR 0x22 # q"
    "q = tl (json_quote k @ CHR '':'' # w' @ t)" by (simp add: json_quote_def)
  have "take_chars (Suc (length q)) q = Some (k, CHR '':'' # w' @ t)"
    unfolding q(2) by (rule take_quote[OF assms(1)])
  moreover have "skip_space (CHR '':'' # w' @ t) = CHR '':'' # w' @ t" by (simp add: skip_none json_space_def)
  moreover have "skip_space (w' @ t) = t" using assms(2,3) by (simp add: skip_blank starts_skip)
  ultimately show ?thesis unfolding q(1) using assms(4) by (simp del: take_chars.simps)
qed

lemma parse_text:
  "json_text v t \<Longrightarrow> follows r \<Longrightarrow> 2 * length (t @ r) < n \<Longrightarrow> take_value n (t @ r) = Inr (v, r)"
  "items_text vs u \<Longrightarrow> 2 * length (u @ r) + 1 < n \<Longrightarrow> take_items n (u @ r) = Inr (vs, r)"
  "members_text ms x \<Longrightarrow> 2 * length (x @ r) + 1 < n \<Longrightarrow> take_members n (x @ r) = Inr (ms, r)"
proof (induction arbitrary: n r and n r and n r rule: json_text_items_text_members_text.inducts)
  case text_null
  then show ?case using take_constant_words(1)[of r] by (cases n) auto
next
  case text_true
  then show ?case using take_constant_words(2)[of r] by (cases n) auto
next
  case text_false
  then show ?case using take_constant_words(3)[of r] by (cases n) auto
next
  case (text_int i)
  then obtain m where "n = Suc m" by (cases n) auto
  moreover have "take_value (Suc m) (int_str i @ r) = take_number (int_str i @ r)"
    using digit_append[of "int_str i" r] int_str_shape[of i] by (intro take_value_number) auto
  ultimately show ?case using take_number_int[OF text_int(2,1)] by simp
next
  case (text_float q t)
  then obtain m where "n = Suc m" by (cases n) auto
  moreover have "take_value (Suc m) (t @ r) = take_number (t @ r)"
    using digit_append[of t r] text_float(1) by (intro take_value_number) (auto simp: float_text_def)
  ultimately show ?case using text_float(1,2) by (simp add: float_text_def)
next
  case (text_str s)
  then show ?case using take_value_quote[OF text_str(1)] by (cases n) auto
next
  case text_nil
  then show ?case by (cases n) (auto simp: skip_none json_space_def)
next
  case (text_list w xs t)
  then obtain m where m: "n = Suc m" by (cases n) auto
  have "take_items m (t @ r) = Inr (xs, r)" by (rule text_list.IH) (use text_list.prems m in simp)
  then show ?case
    using take_value_list[OF starts_append[OF text_starts(2)[OF text_list.hyps(2)], of r]] text_list.hyps(1) m by simp
next
  case text_empty
  then show ?case by (cases n) (auto simp: skip_none json_space_def)
next
  case (text_obj w ms t)
  then obtain m where m: "n = Suc m" by (cases n) auto
  have "take_members m (t @ r) = Inr (ms, r)" by (rule text_obj.IH) (use text_obj.prems m in simp)
  then show ?case
    using take_value_obj[OF starts_append[OF text_starts(3)[OF text_obj.hyps(2)], of r]] text_obj.hyps(1,3) m by simp
next
  case (items_last v t w)
  then obtain m where m: "n = Suc m" by (cases n) auto
  have "take_value m (t @ (w @ CHR '']'' # r)) = Inr (v, w @ CHR '']'' # r)"
    by (rule items_last.IH) (use items_last m in \<open>auto intro: follows_blank\<close>)
  from take_items_last[OF this items_last.hyps(2)] show ?case using m by simp
next
  case (items_more v t w vs u)
  then obtain m where m: "n = Suc m" by (cases n) auto
  have v: "take_value m (t @ (CHR '','' # w @ u @ r)) = Inr (v, CHR '','' # w @ u @ r)"
    by (rule items_more.IH(1)) (use items_more.prems m in \<open>auto simp: follows_def\<close>)
  have "take_items m (u @ r) = Inr (vs, r)" by (rule items_more.IH(2)) (use items_more.prems m in simp)
  from take_items_more[OF _ items_more.hyps(2) starts_append[OF text_starts(2)[OF items_more.hyps(3)]] this] v
  show ?case using m by simp
next
  case (members_last k v t w' w)
  then obtain m where m: "n = Suc m" by (cases n) auto
  have v: "take_value m (t @ (w @ CHR ''}'' # r)) = Inr (v, w @ CHR ''}'' # r)"
    by (rule members_last.IH) (use members_last m in \<open>auto intro: follows_blank simp: json_quote_def\<close>)
  have "skip_space (w @ CHR ''}'' # r) = CHR ''}'' # r"
    using members_last.hyps(4) by (simp add: skip_blank skip_none json_space_def)
  with take_members_key[OF members_last.hyps(1,3) starts_append[OF text_starts(1)[OF members_last.hyps(2)]] v] m
  show ?case by (simp del: take_members.simps)
next
  case (members_more k v t w' w ms u)
  then obtain m where m: "n = Suc m" by (cases n) auto
  have v: "take_value m (t @ (CHR '','' # w @ u @ r)) = Inr (v, CHR '','' # w @ u @ r)"
    by (rule members_more.IH(1)) (use members_more.prems m in \<open>auto simp: follows_def json_quote_def\<close>)
  have u: "take_members m (u @ r) = Inr (ms, r)"
    by (rule members_more.IH(2)) (use members_more.prems m in \<open>auto simp: json_quote_def\<close>)
  have "skip_space (CHR '','' # w @ u @ r) = CHR '','' # w @ u @ r" by (simp add: skip_none json_space_def)
  moreover have "skip_space (w @ u @ r) = u @ r"
    using members_more.hyps(4) starts_skip[OF starts_append[OF text_starts(3)[OF members_more.hyps(5)]]] by (simp add: skip_blank)
  ultimately show ?case
    using take_members_key[OF members_more.hyps(1,3) starts_append[OF text_starts(1)[OF members_more.hyps(2)]] v] u m
    by (simp del: take_members.simps)
qed

lemma parse_grammar:
  assumes "json_text v t" "blank w"
  shows "json_parse (t @ w) = Inr v"
proof -
  have "follows w" using assms(2) by (cases w) (auto simp: blank_def follows_def json_space_def)
  moreover have "skip_space (t @ w) = t @ w" using starts_skip[OF starts_append[OF text_starts(1)[OF assms(1)]]] .
  moreover have "skip_space w = []" using skip_blank[OF assms(2), of "[]"] by (simp add: skip_space_def)
  ultimately show ?thesis using parse_text(1)[OF assms(1), of w "2 * length (t @ w) + 2"] by (simp add: json_parse_def)
qed

subsection \<open>The printers\<close>

text \<open>\<^verbatim>\<open>json.dumps(v, indent=2, sort_keys=True)\<close> at depth \<open>n\<close>\<close>

definition new_line :: "nat \<Rightarrow> string" where
  "new_line n = CHR 0x0A # replicate (2 * n) CHR '' ''"

fun json_pretty :: "py_prims \<Rightarrow> nat \<Rightarrow> json \<Rightarrow> string" where
  "json_pretty p n (JList xs) = (if xs = [] then ''[]''
     else ''['' @ new_line (Suc n) @ join (CHR '','' # new_line (Suc n)) (map (json_pretty p (Suc n)) xs) @ new_line n @ '']'')"
| "json_pretty p n (JObj d) = (if d = [] then ''{}''
     else let items = map (\<lambda>(k, v). (k, json_pretty p (Suc n) v)) d
       in ''{'' @ new_line (Suc n) @ join (CHR '','' # new_line (Suc n)) (map (\<lambda>(k, t). json_quote k @ '': '' @ t) (sort_key fst items))
          @ new_line n @ ''}'')"
| "json_pretty p n v = json_dumps p True v"

text \<open>the value with its dictionaries in the order of the printer\<close>

fun canon :: "bool \<Rightarrow> json \<Rightarrow> json" where
  "canon so (JList xs) = JList (map (canon so) xs)"
| "canon so (JObj d) = (let items = map (\<lambda>(k, v). (k, canon so v)) d in JObj (if so then sort_key fst items else items))"
| "canon so v = v"

text \<open>what can be printed and read back\<close>

fun printable :: "py_prims \<Rightarrow> json \<Rightarrow> bool" where
  "printable p (JInt i) = (length (nat_str (nat \<bar>i\<bar>)) \<le> MAX_INT_DIGITS)"
| "printable p (JFloat q) = float_text q (float_repr p q)"
| "printable p (JSpecial s) = False"
| "printable p (JStr s) = valid_text s"
| "printable p (JList xs) = (\<forall>x \<in> set xs. printable p x)"
| "printable p (JObj d) = (dict_ok d \<and> (\<forall>e \<in> set d. valid_text (fst e) \<and> printable p (snd e)))"
| "printable p v = True"

lemma insort_map_snd:
  "insort_key fst (k, f v) (map (\<lambda>(k, v). (k, f v)) xs) = map (\<lambda>(k, v). (k, f v)) (insort_key fst (k, v) xs)"
  by (induction xs) auto

lemma sort_map_snd:
  "sort_key fst (map (\<lambda>(k, v). (k, f v)) xs) = map (\<lambda>(k, v). (k, f v)) (sort_key fst xs)"
  by (induction xs) (auto simp: insort_map_snd)

lemma items_join:
  assumes "list_all2 json_text vs ts" "vs \<noteq> []" "blank w" "blank z"
  shows "items_text vs (join (CHR '','' # w) ts @ z @ '']'')"
  using assms
proof (induction vs ts rule: list_all2_induct)
  case (Cons v vs t ts)
  show ?case
  proof (cases vs)
    case Nil
    with Cons show ?thesis by (auto intro: items_last)
  next
    case (Cons v' vs')
    with Cons.hyps obtain t' ts' where ts: "ts = t' # ts'" by (cases ts) auto
    have "items_text vs (join (CHR '','' # w) ts @ z @ '']'')" using Cons.IH Cons Cons.prems by simp
    from items_more[OF Cons.hyps(1) Cons.prems(2) this] show ?thesis by (simp add: ts)
  qed
qed simp

definition member_text :: "string \<times> string \<Rightarrow> string" where
  "member_text e = json_quote (fst e) @ '': '' @ snd e"

lemma members_join:
  assumes "list_all2 (\<lambda>e d. fst d = fst e \<and> valid_text (fst e) \<and> json_text (snd e) (snd d)) ms ds" "ms \<noteq> []" "blank w" "blank z"
  shows "members_text ms (join (CHR '','' # w) (map member_text ds) @ z @ ''}'')"
  using assms
proof (induction ms ds rule: list_all2_induct)
  case (Cons e ms d ds)
  obtain k v where e: "e = (k, v)" by fastforce
  then have d: "member_text d = json_quote k @ CHR '':'' # '' '' @ snd d" "valid_text k" "json_text v (snd d)"
    using Cons.hyps by (auto simp: member_text_def)
  have b: "blank '' ''" by (simp add: blank_def json_space_def)
  show ?case
  proof (cases ms)
    case Nil
    with Cons.hyps have "ds = []" by simp
    with members_last[OF d(2,3) b Cons.prems(3)] Nil e d(1) show ?thesis by simp
  next
    case (Cons e' ms')
    with Cons.hyps obtain d' ds' where ds: "ds = d' # ds'" by (cases ds) auto
    have "members_text ms (join (CHR '','' # w) (map member_text ds) @ z @ ''}'')" using Cons.IH Cons Cons.prems by simp
    from members_more[OF d(2,3) b Cons.prems(2) this] e d(1) show ?thesis by (simp add: ds)
  qed
qed simp

text \<open>the texts of a list and of an object, for any printer of the parts\<close>

lemma list_layout:
  assumes "\<And>x. x \<in> set xs \<Longrightarrow> json_text (c x) (f x)" "xs \<noteq> []" "blank a" "blank w" "blank z"
  shows "json_text (JList (map c xs)) (''['' @ a @ join (CHR '','' # w) (map f xs) @ z @ '']'')"
proof -
  have "list_all2 json_text (map c xs) (map f xs)" using assms(1) by (auto simp: list_all2_conv_all_nth)
  from text_list[OF assms(3) items_join[OF this _ assms(4,5)]] assms(2) show ?thesis by simp
qed

lemma object_layout:
  assumes "\<And>e. e \<in> set d \<Longrightarrow> valid_text (fst e) \<and> json_text (c (snd e)) (f (snd e))" "d \<noteq> []" "dict_ok d"
    "blank a" "blank w" "blank z"
  shows "json_text (JObj (map (\<lambda>(k, v). (k, c v)) d))
    (''{'' @ a @ join (CHR '','' # w) (map (\<lambda>(k, t). json_quote k @ '': '' @ t) (map (\<lambda>(k, v). (k, f v)) d)) @ z @ ''}'')"
proof -
  let ?ms = "map (\<lambda>(k, v). (k, c v)) d" and ?ds = "map (\<lambda>(k, v). (k, f v)) d"
  have "list_all2 (\<lambda>e d. fst d = fst e \<and> valid_text (fst e) \<and> json_text (snd e) (snd d)) ?ms ?ds"
    using assms(1) by (auto simp: list_all2_conv_all_nth case_prod_beta)
  from members_join[OF this _ assms(5,6)] assms(2)
  have "members_text ?ms (join (CHR '','' # w) (map member_text ?ds) @ z @ ''}'')" by simp
  moreover have "map member_text ?ds = map (\<lambda>(k, t). json_quote k @ '': '' @ t) ?ds"
    by (simp add: member_text_def case_prod_beta)
  ultimately have m: "members_text ?ms (join (CHR '','' # w) (map (\<lambda>(k, t). json_quote k @ '': '' @ t) ?ds) @ z @ ''}'')"
    by (simp only:)
  have "dict_ok ?ms" using assms(3) dict_ok_map_values[of "\<lambda>_. c" d] by simp
  from text_obj[OF assms(4) m this] show ?thesis by (simp only: append_Cons append_Nil)
qed

lemma sorted_facts: "d \<noteq> [] \<Longrightarrow> sort_key fst d \<noteq> []" "dict_ok d \<Longrightarrow> dict_ok (sort_key fst d)"
  by (metis length_0_conv length_sort, simp add: dict_ok_def)

lemma blank_facts: "blank []" "blank '' ''" "blank (new_line n)"
  by (simp_all add: blank_def new_line_def json_space_def list_all_iff)

lemma dumps_text: "printable p v \<Longrightarrow> json_text (canon so v) (json_dumps p so v)"
proof (induction v)
  case (JBool b)
  then show ?case by (cases b) (auto intro: json_text_items_text_members_text.intros)
next
  case (JList xs)
  then show ?case
    using list_layout[of xs "canon so" "json_dumps p so" "[]" "'' ''" "[]"]
    by (cases "xs = []") (auto intro: text_nil simp: blank_facts)
next
  case (JObj d)
  have ih: "valid_text (fst e) \<and> json_text (canon so (snd e)) (json_dumps p so (snd e))" if "e \<in> set d" for e
    using JObj that by (cases e) (fastforce intro: snds.intros)
  show ?case
  proof (cases "d = []")
    case True
    then show ?thesis by (auto intro: text_empty)
  next
    case False
    let ?d = "if so then sort_key fst d else d"
    have "json_text (JObj (map (\<lambda>(k, v). (k, canon so v)) ?d))
      (''{'' @ [] @ join (CHR '','' # '' '') (map (\<lambda>(k, t). json_quote k @ '': '' @ t) (map (\<lambda>(k, v). (k, json_dumps p so v)) ?d)) @ [] @ ''}'')"
    proof (rule object_layout)
      show "?d \<noteq> []" using False sorted_facts(1) by auto
      show "dict_ok ?d" using JObj.prems sorted_facts(2) by auto
      show "valid_text (fst e) \<and> json_text (canon so (snd e)) (json_dumps p so (snd e))" if "e \<in> set ?d" for e
        using ih[of e] that by (cases so) auto
    qed (simp_all add: blank_facts)
    then show ?thesis by (auto simp: sort_map_snd Let_def)
  qed
qed (auto intro: json_text_items_text_members_text.intros)

lemma pretty_text: "printable p v \<Longrightarrow> json_text (canon True v) (json_pretty p n v)"
proof (induction v arbitrary: n)
  case (JList xs)
  then show ?case
    using list_layout[of xs "canon True" "json_pretty p (Suc n)" "new_line (Suc n)" "new_line (Suc n)" "new_line n"]
    by (cases "xs = []") (auto intro: text_nil simp: blank_facts)
next
  case (JObj d)
  have ih: "valid_text (fst e) \<and> json_text (canon True (snd e)) (json_pretty p (Suc n) (snd e))" if "e \<in> set d" for e
    using JObj that by (cases e) (fastforce intro: snds.intros)
  show ?case
  proof (cases "d = []")
    case True
    then show ?thesis by (auto intro: text_empty)
  next
    case False
    have "json_text (JObj (map (\<lambda>(k, v). (k, canon True v)) (sort_key fst d)))
      (''{'' @ new_line (Suc n) @ join (CHR '','' # new_line (Suc n))
        (map (\<lambda>(k, t). json_quote k @ '': '' @ t) (map (\<lambda>(k, v). (k, json_pretty p (Suc n) v)) (sort_key fst d))) @ new_line n @ ''}'')"
      by (rule object_layout) (use ih False JObj.prems sorted_facts in \<open>auto simp: blank_facts\<close>)
    with False show ?thesis by (simp add: sort_map_snd Let_def)
  qed
next
  case (JBool b)
  then show ?case by (cases b) (auto intro: json_text_items_text_members_text.intros)
qed (auto intro: json_text_items_text_members_text.intros)

lemma loads_dumps: "printable p v \<Longrightarrow> blank w \<Longrightarrow> json_loads p (json_dumps p so v @ w) = Inr (canon so v)"
  using parse_grammar[OF dumps_text[of p v so], of w] by (simp add: json_loads_def)

lemma loads_pretty: "printable p v \<Longrightarrow> blank w \<Longrightarrow> json_loads p (json_pretty p n v @ w) = Inr (canon True v)"
  using parse_grammar[OF pretty_text[of p v n], of w] by (simp add: json_loads_def)

end
