(* ===== verification/RunBench.thy ===== *)
theory RunBench
  imports JsonRound Render
begin

text \<open>
  \<^verbatim>\<open>run_benchmark.py\<close> and \<^verbatim>\<open>assemble_comparative.py\<close>: the two programs that run the benchmark. What a
  program does to its surroundings is a value: the files it writes, the lines it prints and its
  exit code; an uncaught exception is \<open>Inl\<close>, \<^verbatim>\<open>SystemExit\<close> with a message included. The command
  line arrives parsed, as \<^verbatim>\<open>argparse\<close> returns it; paths are relative to the repository; \<open>clock\<close> gives the
  elapsed times of each run of the reference.
\<close>

subsection \<open>Equality of values\<close>

text \<open>\<^verbatim>\<open>x == y\<close>: numbers by value, dictionaries whatever their order\<close>

fun num_value :: "json \<Rightarrow> rat option" where
  "num_value (JBool b) = Some (if b then 1 else 0)"
| "num_value (JInt i) = Some (of_int i)"
| "num_value (JFloat r) = Some r"
| "num_value v = None"

function (sequential) py_eq :: "json \<Rightarrow> json \<Rightarrow> bool" where
  "py_eq JNull JNull = True"
| "py_eq (JStr s) (JStr t) = (s = t)"
| "py_eq (JSpecial s) (JSpecial t) = (s = t \<and> s \<noteq> ''NaN'')"
| "py_eq (JList xs) (JList ys) = (length xs = length ys \<and> (\<forall>p \<in> set (zip xs ys). py_eq (fst p) (snd p)))"
| "py_eq (JObj d) (JObj e) = (length d = length e
     \<and> (\<forall>p \<in> set d. case dict_get e (fst p) of None \<Rightarrow> False | Some y \<Rightarrow> py_eq (snd p) y))"
| "py_eq v w = (num_value v \<noteq> None \<and> num_value v = num_value w)"
  by pat_completeness auto
termination
proof (relation "measure (\<lambda>q. size (fst q))")
  fix xs ys :: "json list" and p
  assume "p \<in> set (zip xs ys)"
  then have "fst p \<in> set xs" by (metis in_set_zip nth_mem)
  then show "((fst p, snd p), JList xs, JList ys) \<in> measure (\<lambda>q. size (fst q))"
    using size_list_estimation'[of "fst p" xs "size (fst p)" size] by simp
next
  fix d e :: "(string \<times> json) list" and p y
  assume "p \<in> set d"
  moreover obtain k v where "p = (k, v)" by fastforce
  ultimately show "((snd p, y), JObj d, JObj e) \<in> measure (\<lambda>q. size (fst q))"
    using size_list_estimation'[of p d "size v" "size_prod (\<lambda>_. 0) size"] by simp
qed simp

text \<open>dictionaries only sorted differently are equal\<close>

lemma canon_size: "length (map (\<lambda>(k, v). (k, canon so v)) d) = length d"
  by simp

lemma num_value_canon [simp]: "num_value (canon so v) = num_value v"
  by (cases v) (auto simp: Let_def)

fun ordered_value :: "json \<Rightarrow> bool" where
  "ordered_value (JSpecial s) = False"
| "ordered_value (JList xs) = (\<forall>x \<in> set xs. ordered_value x)"
| "ordered_value (JObj d) = (dict_ok d \<and> (\<forall>e \<in> set d. ordered_value (snd e)))"
| "ordered_value v = True"

lemma printable_ordered: "printable p v \<Longrightarrow> ordered_value v"
  by (induction v) (auto intro: snds.intros)

lemma canon_eq: "ordered_value v \<Longrightarrow> py_eq (canon so v) v"
proof (induction v)
  case (JList xs)
  then show ?case by (auto simp: zip_map1 set_zip)
next
  case (JObj d)
  let ?m = "map (\<lambda>(k, v). (k, canon so v)) d"
  let ?c = "if so then sort_key fst ?m else ?m"
  have "case dict_get d (fst q) of None \<Rightarrow> False | Some y \<Rightarrow> py_eq (snd q) y" if q: "q \<in> set ?c" for q
  proof -
    from q have "q \<in> set ?m" by (cases so) auto
    then obtain k v where kv: "(k, v) \<in> set d" "q = (k, canon so v)" by auto
    then have "py_eq (canon so v) v" using JObj by (fastforce intro: snds.intros)
    with kv JObj.prems show ?thesis by (simp add: in_dict_iff)
  qed
  then show ?case by (cases so) (auto simp: Let_def)
qed (auto simp: Let_def)

subsection \<open>The pinned corpus\<close>

record 'r version =
  vr_number :: int
  vr_benchmark :: string
  vr_suite :: "'r bench_case list"
  vr_runner :: "'r bench_case \<Rightarrow> (bool \<times> decision) result"
  vr_manifest :: "'r bench_case list \<Rightarrow> (string, json) pydict"
  vr_corpus :: string
  vr_json :: string
  vr_profile :: string

definition VERSION_1 :: "(backend \<Rightarrow> decision) version" where
  "VERSION_1 = \<lparr>vr_number = 1, vr_benchmark = BENCHMARK, vr_suite = cases_v1, vr_runner = (\<lambda>c. Inr (run_case c)),
     vr_manifest = corpus_manifest, vr_corpus = ''fixtures/marciana-adversarial-v1'',
     vr_json = ''reports/marciana-adversarial-v1.json'', vr_profile = ''adversarial-v1''\<rparr>"

definition VERSION_2 :: "(auth_backend \<Rightarrow> decision result) version" where
  "VERSION_2 = \<lparr>vr_number = 2, vr_benchmark = BENCHMARK_V2, vr_suite = cases_v2, vr_runner = run_case_v2,
     vr_manifest = corpus_manifest_v2, vr_corpus = ''fixtures/marciana-adversarial-v2'',
     vr_json = ''reports/marciana-adversarial-v2.json'', vr_profile = ''adversarial-v2''\<rparr>"

definition manifest_path :: "string \<Rightarrow> string" where
  "manifest_path dir = dir @ ''/manifest.json''"

definition pin_payload :: "string \<Rightarrow> (string, json) pydict \<Rightarrow> json" where
  "pin_payload d manifest = JObj [(''digest'', JStr d), (''manifest'', JObj manifest)]"

text \<open>the digest, and the text written to the path\<close>

definition pin_corpus :: "py_prims \<Rightarrow> 'r version \<Rightarrow> string \<Rightarrow> string \<times> string \<times> string" where
  "pin_corpus p v dir =
     (let manifest = vr_manifest v (vr_suite v); d = corpus_digest p manifest
      in (d, manifest_path dir, json_pretty p 0 (pin_payload d manifest) @ [CHR 0x0A]))"

definition verify_corpus :: "py_prims \<Rightarrow> files \<Rightarrow> 'r version \<Rightarrow> string \<Rightarrow> string result" where
  "verify_corpus p fs v dir =
     (let manifest = vr_manifest v (vr_suite v); d = corpus_digest p manifest
      in bind_result (read_text fs (manifest_path dir)) (\<lambda>text.
         bind_result (json_loads p text) (\<lambda>pinned.
           if \<not> py_eq pinned (pin_payload d manifest)
           then raise_error ''SystemExit'' (''adversarial corpus does not match its versioned manifest; regenerate ''
             @ manifest_path dir)
           else Inr d)))"

text \<open>the two averages in microseconds, from the nanoseconds of the two loops\<close>

definition measure_lifecycle_us :: "rat \<Rightarrow> rat \<Rightarrow> int \<Rightarrow> rat \<times> rat" where
  "measure_lifecycle_us formation restarts repeats =
     (formation / 1000 / of_int repeats, restarts / 1000 / of_int repeats)"

subsection \<open>The program\<close>

record run_args =
  ra_benchmark :: string
  ra_systems :: string
  ra_corpus :: "string option"
  ra_repeats :: int
  ra_model :: string
  ra_provider :: string
  ra_embedding :: string
  ra_prompt :: string
  ra_profile :: "string option"
  ra_revision :: string
  ra_json :: "string option"
  ra_pin :: bool

text \<open>the surroundings of a run\<close>

record surroundings =
  su_prims :: py_prims
  su_files :: files
  su_environ :: "(string, string) pydict"
  su_platform :: string
  su_spawn :: "string \<Rightarrow> string \<Rightarrow> int \<Rightarrow> string result"
  su_clock :: "nat \<Rightarrow> nat \<Rightarrow> rat"
  su_formation :: rat
  su_restarts :: rat

record run_output =
  ro_files :: "(string \<times> string) list"
  ro_printed :: "string list"
  ro_exit :: int

definition or_default_text :: "string option \<Rightarrow> string \<Rightarrow> string" where
  "or_default_text x d = (case x of None \<Rightarrow> d | Some s \<Rightarrow> if s = [] then d else s)"

definition all_systems :: "int \<Rightarrow> string list" where
  "all_systems number = ''marciana'' # map fst (external_systems number)"

definition selection :: "int \<Rightarrow> run_args \<Rightarrow> string list" where
  "selection number args = (if ra_systems args = ''all'' then all_systems number else split_on (CHR '','') (ra_systems args))"

definition run_metadata :: "surroundings \<Rightarrow> run_args \<Rightarrow> string \<Rightarrow> benchmark_metadata" where
  "run_metadata su args profile = \<lparr>md_model = ra_model args, md_provider = ra_provider args,
     md_embedding = ra_embedding args, md_prompt = ra_prompt args, md_profile = profile,
     md_hardware = su_platform su, md_revision = ra_revision args\<rparr>"

text \<open>receipt determinism: two runs of the reference\<close>

definition reference_mismatches :: "(nat \<Rightarrow> nat \<Rightarrow> rat) \<Rightarrow> 'r bench_case list
    \<Rightarrow> ('r bench_case \<Rightarrow> (bool \<times> decision) result) \<Rightarrow> int result" where
  "reference_mismatches clock suite runner =
     bind_result (execute_marciana (clock 1) suite 1 runner) (\<lambda>one.
     bind_result (execute_marciana (clock 2) suite 1 runner) (\<lambda>two.
     bind_result (receipt_mismatches (sr_outcomes one) (sr_outcomes two)) (\<lambda>n. Inr (int n))))"

text \<open>\<^verbatim>\<open>sorted(x.items())\<close>\<close>

definition sorted_items :: "json \<Rightarrow> (string \<times> json) list result" where
  "sorted_items v = (case v of JObj d \<Rightarrow> Inr (sort_key fst d)
     | _ \<Rightarrow> raise_error ''AttributeError'' (repr_str (type_name v) @ '' object has no attribute '' @ repr_str ''items''))"

definition summary_lines :: "py_prims \<Rightarrow> json \<Rightarrow> string \<Rightarrow> string list result" where
  "summary_lines p report path =
     bind_result (bind_result (json_item report ''hard_gates'') sorted_items) (\<lambda>gates.
     bind_result (bind_result (json_item report ''systems'') sorted_items) (\<lambda>systems.
     bind_result (map_result (\<lambda>(n, e). bind_result (json_item e ''status'') (\<lambda>s. Inr (n @ ''='' @ json_str p s))) systems) (\<lambda>statuses.
     bind_result (json_item report ''benchmark'') (\<lambda>benchmark.
     bind_result (json_item report ''status'') (\<lambda>status.
       Inr [json_str p benchmark @ '': '' @ json_str p status,
         ''systems: '' @ join '', '' statuses,
         ''hard gates: '' @ join '', '' (map (\<lambda>(n, c). n @ ''='' @ json_str p c) gates),
         ''report: '' @ path])))))"

definition run_report :: "surroundings \<Rightarrow> 'r version \<Rightarrow> run_args \<Rightarrow> string \<Rightarrow> json result" where
  "run_report su v args corpus_dir =
     (let selected = selection (vr_number v) args; suite = vr_suite v; p = su_prims su
      in bind_result (make_metadata (run_metadata su args (or_default_text (ra_profile args) (vr_profile v)))) (\<lambda>md.
         bind_result (verify_corpus p (su_files su) v corpus_dir) (\<lambda>d.
         bind_result (execute_systems p (su_clock su 0) (su_spawn su) selected suite (ra_repeats args) (su_environ su)
           (vr_number v) (vr_runner v)) (\<lambda>systems.
         bind_result (if ''marciana'' \<in> set selected then reference_mismatches (su_clock su) suite (vr_runner v) else Inr 0) (\<lambda>m.
           case measure_lifecycle_us (su_formation su) (su_restarts su) (ra_repeats args) of (f, r) \<Rightarrow>
             build_report (metadata_dict md) d systems m f r (inventory p (su_files su) (su_environ su)) (vr_benchmark v))))))"

definition run_version :: "surroundings \<Rightarrow> 'r version \<Rightarrow> run_args \<Rightarrow> run_output result" where
  "run_version su v args =
     (let corpus_dir = (case ra_corpus args of None \<Rightarrow> vr_corpus v | Some d \<Rightarrow> d);
          json_path = (case ra_json args of None \<Rightarrow> vr_json v | Some f \<Rightarrow> f);
          p = su_prims su
      in if ra_repeats args < 1 then raise_error ''SystemExit'' ''--repeats must be positive''
         else if ra_pin args then
           (case pin_corpus p v corpus_dir of (d, path, text) \<Rightarrow>
              Inr \<lparr>ro_files = [(path, text)], ro_printed = [''pinned corpus digest: '' @ d], ro_exit = 0\<rparr>)
         else bind_result (run_report su v args corpus_dir) (\<lambda>report.
           bind_result (summary_lines p report json_path) (\<lambda>printed.
           bind_result (json_item report ''status'') (\<lambda>status.
             Inr \<lparr>ro_files = [(json_path, json_pretty p 0 report @ [CHR 0x0A])], ro_printed = printed,
               ro_exit = (if status \<noteq> JStr ''pass'' then 1 else 0)\<rparr>))))"

definition run_main :: "surroundings \<Rightarrow> run_args \<Rightarrow> run_output result" where
  "run_main su args = (if ra_benchmark args = ''v1'' then run_version su VERSION_1 args else run_version su VERSION_2 args)"

subsection \<open>Assembling saved outputs\<close>

text \<open>\<open>exists\<close> tells which paths exist\<close>

definition load_system :: "py_prims \<Rightarrow> files \<Rightarrow> (string \<Rightarrow> bool) \<Rightarrow> string \<Rightarrow> 'r bench_case list \<Rightarrow> system_report result" where
  "load_system p fs exists system suite =
     (let path = ''outputs/'' @ system @ ''.json''
      in if \<not> exists path then
           (case dict_get EXTERNAL_SYSTEMS system of
              None \<Rightarrow> raise_error ''KeyError'' (repr_str system)
            | Some variable \<Rightarrow> Inr ((new_report system ''adapter'' ''unavailable'')\<lparr>sr_missing_configuration := [variable]\<rparr>))
         else case bind_result (read_text fs path) (\<lambda>text. parse_external_outcomes p text suite 1) of
           Inl e \<Rightarrow> Inr ((new_report system ''adapter'' ''error'')\<lparr>sr_error := py_take 256 (error_text e)\<rparr>)
         | Inr (av, interface, harness, outs) \<Rightarrow> Inr ((new_report system av ''executed'')
             \<lparr>sr_interface := interface, sr_outcomes := outs, sr_harness := harness\<rparr>))"

definition assembled_metadata :: "surroundings \<Rightarrow> benchmark_metadata" where
  "assembled_metadata su = \<lparr>md_model = ''reference-smoke-v1'', md_provider = ''local-ollama'',
     md_embedding = ''nomic-embed-text'', md_prompt = ''none'', md_profile = ''adversarial-v1-comparative'',
     md_hardware = su_platform su, md_revision = ''working-tree''\<rparr>"

text \<open>the latency of the first outcome; the reference's clock readings are finite\<close>

definition first_latency :: "case_outcome list \<Rightarrow> rat" where
  "first_latency outs = (case outs of [] \<Rightarrow> 0 | c # _ \<Rightarrow> (case oc_latency_us c of Finite r \<Rightarrow> r | Special s \<Rightarrow> 0))"

definition assemble_report :: "surroundings \<Rightarrow> (string \<Rightarrow> bool) \<Rightarrow> (system_report list \<times> json) result" where
  "assemble_report su exists =
     (let p = su_prims su; suite = cases_v1; runner = (\<lambda>c. Inr (run_case c))
      in bind_result (execute_marciana (su_clock su 0) suite 20 runner) (\<lambda>marciana.
         bind_result (reference_mismatches (su_clock su) suite runner) (\<lambda>m.
         bind_result (map_result (\<lambda>(n, _). load_system p (su_files su) exists n suite) EXTERNAL_SYSTEMS) (\<lambda>rest.
         let systems = marciana # rest
         in bind_result (make_metadata (assembled_metadata su)) (\<lambda>md.
            bind_result (build_report (metadata_dict md) (corpus_digest p (corpus_manifest suite)) systems m
              (first_latency (sr_outcomes marciana)) 0 [] BENCHMARK) (\<lambda>report. Inr (systems, report)))))))"

text \<open>\<^verbatim>\<open>main\<close>; its one argument is the path of the report\<close>

definition assemble_main :: "surroundings \<Rightarrow> (string \<Rightarrow> bool) \<Rightarrow> string list \<Rightarrow> run_output result" where
  "assemble_main su exists args =
     bind_result (assemble_report su exists) (\<lambda>(systems, report).
     bind_result (json_item report ''status'') (\<lambda>status.
       let out = (case args of [] \<Rightarrow> ''reports/marciana-adversarial-v1-comparative.json'' | a # _ \<Rightarrow> a);
           executed = map sr_system (filter (\<lambda>s. sr_status s = ''executed'') systems)
       in Inr \<lparr>ro_files = [(out, json_pretty (su_prims su) 0 report @ [CHR 0x0A])],
            ro_printed = [''assembled '' @ out @ '': status='' @ json_str (su_prims su) status @ '', executed=''
              @ json_repr (su_prims su) (JStrs executed)], ro_exit = 0\<rparr>))"

end
