(* ===== verification/RunProps.thy ===== *)
theory RunProps
  imports RunBench ReportProps
begin

text \<open>
  What the benchmark program guarantees: a pinned corpus verifies, and the exit code of a run depends
  on nothing but the selection of the reference.
\<close>

subsection \<open>Texts that can be printed\<close>

lemma scalar_ascii: "\<not> digit7 c \<Longrightarrow> scalar [c]"
proof -
  assume a: "\<not> digit7 c"
  have "of_char c < (128 :: nat)"
    using a by (cases c) (simp add: of_char_def)
  then show "scalar [c]" by (simp add: scalar_def utf8_small)
qed

lemma valid_ascii: "is_ascii s \<Longrightarrow> valid_text s"
  by (auto simp: valid_text_def chunks_ascii is_ascii_def list_all_iff intro: scalar_ascii)

text \<open>a value without numbers whose texts are in ASCII\<close>

fun ascii_value :: "json \<Rightarrow> bool" where
  "ascii_value (JStr s) = is_ascii s"
| "ascii_value (JList xs) = (\<forall>x \<in> set xs. ascii_value x)"
| "ascii_value (JObj d) = (dict_ok d \<and> (\<forall>e \<in> set d. is_ascii (fst e) \<and> ascii_value (snd e)))"
| "ascii_value JNull = True"
| "ascii_value (JBool b) = True"
| "ascii_value _ = False"

lemma ascii_printable: "ascii_value v \<Longrightarrow> printable p v"
  by (induction v) (auto intro: valid_ascii snds.intros)

lemma digest_ascii: "is_ascii (digest s)"
proof -
  have "is_ascii (sha256_hex s)" using sha256_hex_chars hex_chars_ascii by blast
  then show ?thesis by (auto simp: digest_def is_ascii_def)
qed

lemma manifest_1_ascii: "ascii_value (JObj (corpus_manifest cases_v1))"
  by code_simp

lemma valid_dash:
  assumes "is_ascii a" "is_ascii (c # b)"
  shows "valid_text (a @ em_dash @ c # b)"
proof -
  have "\<not> is_cont c" using assms(2) by (auto simp: is_ascii_def is_cont_def)
  then have "chunks (em_dash @ c # b) = em_dash # chunks (c # b)" by (simp add: em_dash_def is_cont_def)
  moreover have "chunks (a @ em_dash @ c # b) = map (\<lambda>c. [c]) a @ chunks (em_dash @ c # b)"
    using chunks_append[of "em_dash @ c # b" a] chunks_ascii[OF assms(1)] by (simp add: em_dash_def is_cont_def starts_clean_def)
  moreover have "scalar em_dash" by (simp add: scalar_def utf8_def Let_def em_dash_def char_of_eq_iff take_bit_eq_mod)
  moreover have "list_all scalar (map (\<lambda>c. [c]) a)" "list_all scalar (chunks (c # b))"
    using assms chunks_ascii[OF assms(2)] by (auto simp: is_ascii_def list_all_iff intro: scalar_ascii)
  ultimately show ?thesis by (simp add: valid_text_def)
qed

lemma attributes_valid: "valid_text (''tenant, space, purpose, clearance, can_mutate '' @ em_dash
    @ '' registry-held, never caller-asserted'')"
  by (rule valid_dash) (simp_all add: is_ascii_def)

lemma corpus_2_printable: "printable p (JObj (corpus_manifest_v2 cases_v2))"
proof -
  have "ascii_value (JObj (corpus_manifest cases_v2))" by code_simp
  then have c: "printable p (manifest_cases cases_v2)"
    using ascii_printable[of "JObj (corpus_manifest cases_v2)" p] by (simp add: corpus_manifest_def)
  have "list_all (\<lambda>x. is_ascii (idr_did x)) PRINCIPALS" "list_all is_ascii (sorted_list_of_set EXPRESSIBLE_CASES)"
    by code_simp+
  with c attributes_valid show ?thesis
    by (simp add: corpus_manifest_v2_def dict_ok_def list_all_iff valid_ascii is_ascii_def BENCHMARK_V2_def CORPUS_VERSION_V2_def)
qed

lemma manifest_1_printable: "printable p (JObj (vr_manifest VERSION_1 (vr_suite VERSION_1)))"
  using ascii_printable[OF manifest_1_ascii] by (simp add: VERSION_1_def del: printable.simps)

lemma manifest_2_printable: "printable p (JObj (vr_manifest VERSION_2 (vr_suite VERSION_2)))"
  using corpus_2_printable by (simp add: VERSION_2_def del: printable.simps)

subsection \<open>The pinned corpus\<close>

lemma payload_printable:
  assumes "printable p (JObj m)"
  shows "printable p (pin_payload (corpus_digest p m) m)"
  using assms valid_ascii[OF digest_ascii]
  by (simp add: pin_payload_def corpus_digest_def dict_ok_def valid_ascii is_ascii_def)

lemma verify_pinned:
  assumes "printable p (JObj (vr_manifest v (vr_suite v)))" "pin_corpus p v dir = (d, path, text)"
    "read_text fs path = Inr text"
  shows "verify_corpus p fs v dir = Inr d"
proof -
  let ?m = "vr_manifest v (vr_suite v)"
  let ?pl = "pin_payload (corpus_digest p ?m) ?m"
  have pl: "printable p ?pl" using assms(1) by (rule payload_printable)
  have "path = manifest_path dir" "d = corpus_digest p ?m" "text = json_pretty p 0 ?pl @ [CHR 0x0A]"
    using assms(2) by (auto simp: pin_corpus_def Let_def)
  moreover have "json_loads p (json_pretty p 0 ?pl @ [CHR 0x0A]) = Inr (canon True ?pl)"
    by (rule loads_pretty[OF pl]) (simp add: blank_def json_space_def)
  moreover have "py_eq (canon True ?pl) ?pl" using canon_eq printable_ordered[OF pl] by blast
  ultimately show ?thesis using assms(3) by (simp add: verify_corpus_def Let_def)
qed

text \<open>C31: A corpus that was pinned verifies: when the manifest file holds what pinning a version of the
benchmark wrote, verification reads it back and accepts it with the same digest, for both versions and
in any directory.\<close>

theorem pinned_corpus_verifies:
  assumes "read_text fs (manifest_path dir) = Inr (snd (snd (pin_corpus p VERSION_1 dir)))"
    "read_text fs (manifest_path dir') = Inr (snd (snd (pin_corpus p VERSION_2 dir')))"
  shows "verify_corpus p fs VERSION_1 dir = Inr (fst (pin_corpus p VERSION_1 dir))
    \<and> verify_corpus p fs VERSION_2 dir' = Inr (fst (pin_corpus p VERSION_2 dir'))"
  using verify_pinned[OF manifest_1_printable _ assms(1)] verify_pinned[OF manifest_2_printable _ assms(2)]
  by (simp add: pin_corpus_def Let_def)

subsection \<open>The exit code\<close>

text \<open>a version whose reference passes its suite\<close>

definition reference_ok :: "'r version \<Rightarrow> bool" where
  "reference_ok v \<longleftrightarrow> (\<forall>c \<in> set (vr_suite v). \<exists>d. vr_runner v c = Inr (True, d))"

lemma reference_ok_1: "reference_ok VERSION_1"
  using cases_v1_judged by (auto simp: reference_ok_def VERSION_1_def run_case_def Let_def list_all_iff)

lemma reference_ok_2: "reference_ok VERSION_2"
proof -
  have "\<exists>d. run_case_v2 c = Inr (True, d)" if "c \<in> set cases_v2" for c
  proof -
    have "map_sum id fst (run_case_v2 c) = Inr True" using cases_v2_judged that by (simp add: list_all_iff)
    then show ?thesis by (cases "run_case_v2 c") auto
  qed
  then show ?thesis by (auto simp: reference_ok_def VERSION_2_def)
qed

lemma reference_report:
  assumes "reference_ok v" "0 < repeats" "execute_marciana elapsed (vr_suite v) repeats (vr_runner v) = Inr r"
  shows "\<forall>c \<in> set (sr_outcomes r). oc_correct c"
proof -
  define f where "f c = (case vr_runner v c of Inr x \<Rightarrow> x | Inl e \<Rightarrow> (False, refused []))" for c
  have run: "vr_runner v c = Inr (f c)" "fst (f c)" if "c \<in> set (vr_suite v)" for c
    using assms(1) that by (auto simp: reference_ok_def f_def)
  obtain r' where r': "execute_marciana elapsed (vr_suite v) repeats (vr_runner v) = Inr r'"
    "list_all2 (outcome_matches f) (vr_suite v) (sr_outcomes r')"
    using execute_marciana_total[OF assms(2), of "vr_suite v" "vr_runner v" f elapsed] run(1) by blast
  then have "r' = r" using assms(3) by simp
  moreover have "list_all (\<lambda>c. fst (f c)) (vr_suite v)" using run(2) by (simp add: list_all_iff)
  ultimately show ?thesis using matches_all_correct(1)[OF r'(2)] by simp
qed

lemma reference_never_differs:
  assumes "reference_ok v" "reference_mismatches clock (vr_suite v) (vr_runner v) = Inr m"
  shows "m = 0"
proof -
  define f where "f c = (case vr_runner v c of Inr x \<Rightarrow> x | Inl e \<Rightarrow> (False, refused []))" for c
  have run: "vr_runner v c = Inr (f c)" if "c \<in> set (vr_suite v)" for c
    using assms(1) that by (auto simp: reference_ok_def f_def)
  obtain a b where e: "execute_marciana (clock 1) (vr_suite v) 1 (vr_runner v) = Inr a"
    "execute_marciana (clock 2) (vr_suite v) 1 (vr_runner v) = Inr b"
    and l: "list_all2 (outcome_matches f) (vr_suite v) (sr_outcomes a)" "list_all2 (outcome_matches f) (vr_suite v) (sr_outcomes b)"
    using execute_marciana_total[of 1 "vr_suite v" "vr_runner v" f "clock 1"]
      execute_marciana_total[of 1 "vr_suite v" "vr_runner v" f "clock 2"] run by auto
  from assms(2) show ?thesis by (simp add: reference_mismatches_def e[unfolded One_nat_def] matches_no_mismatch[OF l])
qed

lemma externals_not_marciana: "''marciana'' \<notin> fst ` set (external_systems n)"
  by (simp add: external_systems_def EXTERNAL_SYSTEMS_def EXTERNAL_SYSTEMS_V2_def)

lemma executed_reference:
  assumes "execute_systems p elapsed spawn selected suite repeats env n runner = Inr systems"
  shows "if ''marciana'' \<in> set selected
    then \<exists>r. find_marciana systems = Some r \<and> sr_status r = ''executed'' \<and> execute_marciana elapsed suite repeats runner = Inr r
    else find_marciana systems = None"
proof -
  obtain first rest where fr: "systems = first @ rest"
    "(if ''marciana'' \<in> set selected then map_result (\<lambda>_. execute_marciana elapsed suite repeats runner) [()] else Inr []) = Inr first"
    "map_result (\<lambda>(name, variable). execute_external p spawn name variable suite repeats env n)
      (filter (\<lambda>(name, variable). name \<in> set selected) (external_systems n)) = Inr rest"
    using assms by (auto simp: execute_systems_def Let_def bind_result_Inr_iff split: if_splits)
  have "sr_system r \<noteq> ''marciana''" if mem: "r \<in> set rest" for r
  proof -
    obtain name variable where e: "(name, variable) \<in> set (external_systems n)" "execute_external p spawn name variable suite repeats env n = Inr r"
      using map_result_mem[OF fr(3) mem] by fastforce
    then have "name \<in> fst ` set (external_systems n)" by (metis fst_conv image_eqI)
    with execute_external_system[OF e(2)] externals_not_marciana[of n] show ?thesis by metis
  qed
  then have rest: "find_marciana rest = None" by (auto simp: find_marciana_def find_None_iff)
  show ?thesis
  proof (cases "''marciana'' \<in> set selected")
    case True
    with fr(2) obtain r where r: "first = [r]" "execute_marciana elapsed suite repeats runner = Inr r"
      by (auto simp: bind_result_Inr_iff)
    with execute_marciana_system[OF r(2)] fr(1) True show ?thesis by (simp add: find_marciana_def)
  next
    case False
    with fr rest show ?thesis by simp
  qed
qed

lemma report_status_of_run:
  assumes "run_report su v args dir = Inr report" "reference_ok v" "1 \<le> ra_repeats args"
  shows "\<exists>s. json_item report ''status'' = Inr (JStr s) \<and> (s = ''pass'' \<longleftrightarrow> ''marciana'' \<in> set (selection (vr_number v) args))"
proof -
  let ?sel = "selection (vr_number v) args"
  obtain f r where life: "measure_lifecycle_us (su_formation su) (su_restarts su) (ra_repeats args) = (f, r)" by fastforce
  obtain md d systems m where
    sys: "execute_systems (su_prims su) (su_clock su 0) (su_spawn su) ?sel (vr_suite v) (ra_repeats args) (su_environ su)
      (vr_number v) (vr_runner v) = Inr systems"
    and m: "(if ''marciana'' \<in> set ?sel then reference_mismatches (su_clock su) (vr_suite v) (vr_runner v) else Inr 0) = Inr m"
    and b: "build_report (metadata_dict md) d systems m f r (inventory (su_prims su) (su_files su) (su_environ su)) (vr_benchmark v) = Inr report"
    using assms(1) by (simp only: run_report_def Let_def bind_result_Inr_iff life prod.case) blast
  have m0: "m = 0" using m reference_never_differs[OF assms(2)] by (auto split: if_splits)
  obtain dd where dd: "report = JObj dd"
    "dict_get dd ''status'' = Some (JStr (overall_status (hard_gates (reference_outcomes systems) m) systems))"
    using build_report_status[OF b] by blast
  have "overall_status (hard_gates (reference_outcomes systems) m) systems = ''pass'' \<longleftrightarrow> ''marciana'' \<in> set ?sel"
  proof (cases "''marciana'' \<in> set ?sel")
    case True
    then obtain r where r: "find_marciana systems = Some r" "sr_status r = ''executed''"
      "execute_marciana (su_clock su 0) (vr_suite v) (ra_repeats args) (vr_runner v) = Inr r"
      using executed_reference[OF sys] by auto
    have "\<forall>c \<in> set (reference_outcomes systems). oc_correct c"
      using reference_report[OF assms(2) _ r(3)] assms(3) r(1,2) by (simp add: reference_outcomes_def)
    with r True m0 show ?thesis by (simp add: overall_pass_iff)
  next
    case False
    then have "find_marciana systems = None" using executed_reference[OF sys] by simp
    with False m0 show ?thesis by (simp add: overall_pass_iff)
  qed
  with dd show ?thesis by (simp add: json_item_def)
qed

lemma run_version_exit:
  assumes "run_version su v args = Inr out" "\<not> ra_pin args" "reference_ok v"
  shows "ro_exit out = 0 \<longleftrightarrow> ''marciana'' \<in> set (selection (vr_number v) args)"
proof -
  obtain dir report status where r: "run_report su v args dir = Inr report" "json_item report ''status'' = Inr status"
    "ro_exit out = (if status \<noteq> JStr ''pass'' then 1 else 0)" "1 \<le> ra_repeats args"
    using assms(1,2) by (auto simp: run_version_def Let_def bind_result_Inr_iff split: if_splits)
  with report_status_of_run[OF r(1) assms(3) r(4)] show ?thesis by auto
qed

text \<open>C32: The exit code says whether the reference ran, and nothing else: a run of either version that ends
without an exception exits with 0 exactly when the reference was among the selected systems. No answer,
failure or timing of an external system changes it, nor does any setting of the environment.\<close>

theorem exit_code_exact:
  assumes "run_main su args = Inr out" "\<not> ra_pin args"
  shows "ro_exit out = 0 \<longleftrightarrow> ''marciana'' \<in> set (selection (if ra_benchmark args = ''v1'' then 1 else 2) args)"
  using assms run_version_exit[of su VERSION_1 args out] run_version_exit[of su VERSION_2 args out] reference_ok_1 reference_ok_2
  by (auto simp: run_main_def VERSION_1_def VERSION_2_def split: if_splits)

subsection \<open>A run on paper\<close>

text \<open>a repository whose two manifests were just pinned, and a run of one system that is not configured\<close>

definition pinned_files :: files where
  "pinned_files = \<lparr>read_text = (\<lambda>f.
       if f = manifest_path (vr_corpus VERSION_1) then Inr (snd (snd (pin_corpus sample_prims VERSION_1 (vr_corpus VERSION_1))))
       else if f = manifest_path (vr_corpus VERSION_2) then Inr (snd (snd (pin_corpus sample_prims VERSION_2 (vr_corpus VERSION_2))))
       else raise_error ''FileNotFoundError'' f),
     read_bytes = (\<lambda>f. raise_error ''FileNotFoundError'' f), has_pyarrow = False,
     read_table = (\<lambda>f. raise_error ''FileNotFoundError'' f), literal_eval = (\<lambda>s. raise_error ''ValueError'' s)\<rparr>"

definition quiet_surroundings :: surroundings where
  "quiet_surroundings = \<lparr>su_prims = sample_prims, su_files = pinned_files, su_environ = [], su_platform = ''Linux'',
     su_spawn = (\<lambda>c i t. raise_error ''OSError'' c), su_clock = (\<lambda>_ _. 0), su_formation = 0, su_restarts = 0\<rparr>"

definition one_system :: run_args where
  "one_system = \<lparr>ra_benchmark = ''v1'', ra_systems = ''mem0'', ra_corpus = None, ra_repeats = 1, ra_model = ''m'',
     ra_provider = ''local'', ra_embedding = ''e'', ra_prompt = ''none'', ra_profile = None, ra_revision = ''r'',
     ra_json = None, ra_pin = False\<rparr>"

lemma pinned_texts:
  "read_text pinned_files (manifest_path (vr_corpus VERSION_1)) = Inr (snd (snd (pin_corpus sample_prims VERSION_1 (vr_corpus VERSION_1))))"
  "read_text pinned_files (manifest_path (vr_corpus VERSION_2)) = Inr (snd (snd (pin_corpus sample_prims VERSION_2 (vr_corpus VERSION_2))))"
  by (simp_all add: pinned_files_def manifest_path_def VERSION_1_def VERSION_2_def)

lemma pinned_corpus_verifies_witness:
  "verify_corpus sample_prims pinned_files VERSION_1 (vr_corpus VERSION_1)
      = Inr (fst (pin_corpus sample_prims VERSION_1 (vr_corpus VERSION_1)))
   \<and> verify_corpus sample_prims pinned_files VERSION_2 (vr_corpus VERSION_2)
      = Inr (fst (pin_corpus sample_prims VERSION_2 (vr_corpus VERSION_2)))"
  by (rule pinned_corpus_verifies) (rule pinned_texts)+

lemma digest_bounded: "text_bounded (corpus_digest p m)"
proof -
  have "CHR 0x0A \<notin> set (sha256_hex s)" for s
    using sha256_hex_chars[of s] by (auto simp: hex_chars_def)
  moreover have "py_len (digest s) \<le> 256" for s
  proof -
    have "py_len (digest s) \<le> length (digest s)" unfolding py_len_def by (rule length_filter_le)
    also have "\<dots> \<le> 256" by (simp add: digest_def)
    finally show ?thesis .
  qed
  ultimately show ?thesis by (simp add: text_bounded_def corpus_digest_def MAX_REPORT_TEXT_def not_less) (simp add: digest_def)
qed

definition absent_system :: system_report where
  "absent_system = (new_report ''mem0'' ADAPTER_PROTOCOL ''unavailable'')\<lparr>sr_missing_configuration := [''MARCIANA_ADVERSARIAL_MEM0_CMD'']\<rparr>"

lemma quiet_systems:
  "execute_systems sample_prims el sp [''mem0''] suite n [] 1 runner = Inr [absent_system]"
  by (simp add: execute_systems_def external_systems_def EXTERNAL_SYSTEMS_def execute_external_def environ_get_def absent_system_def
    py_strip_def Let_def)

definition quiet_report :: "(string, string) pydict \<Rightarrow> string \<Rightarrow> (string, json) pydict \<Rightarrow> json" where
  "quiet_report md dg corpora = JObj [
     (''benchmark'', JStr BENCHMARK), (''corpus_digest'', JStr dg),
     (''status'', JStr (overall_status (hard_gates [] 0) [absent_system])),
     (''metadata'', JObj (map (\<lambda>(k, v). (k, JStr v)) md)),
     (''hard_gates'', JObj (map (\<lambda>(k, v). (k, JInt v)) (hard_gates [] 0))),
     (''systems'', JObj (map (\<lambda>(n, e). (n, JObj e)) (system_entries [absent_system]))),
     (''cases'', JList []), (''quality'', JObj []), (''performance'', JObj []), (''public_corpora'', JObj corpora)]"

lemma quiet_fields:
  "su_prims quiet_surroundings = sample_prims" "su_files quiet_surroundings = pinned_files"
  "su_environ quiet_surroundings = []" "su_formation quiet_surroundings = 0" "su_restarts quiet_surroundings = 0"
  "ra_repeats one_system = 1" "ra_profile one_system = None" "ra_corpus one_system = None" "ra_json one_system = None"
  "ra_pin one_system = False" "ra_benchmark one_system = ''v1''" "selection 1 one_system = [''mem0'']"
  "vr_number VERSION_1 = 1" "vr_benchmark VERSION_1 = BENCHMARK" "vr_profile VERSION_1 = ''adversarial-v1''"
  by (simp_all add: quiet_surroundings_def one_system_def VERSION_1_def selection_def)

lemma short_bounded: "length s \<le> 256 \<Longrightarrow> CHR 0x0A \<notin> set s \<Longrightarrow> text_bounded s"
  using le_trans[OF length_filter_le[of "\<lambda>c. \<not> is_cont c" s]] by (auto simp: text_bounded_def py_len_def MAX_REPORT_TEXT_def not_less)

lemma quiet_corpora: "walk (JObj (inventory p fs []))"
  by (simp add: inventory_def PUBLIC_CORPORA_def corpus_status_def source_fields_def py_strip_def short_bounded
    LOCOMO_SOURCE_def LONGMEMEVAL_SOURCE_def BEAM_SOURCE_def DMR_SOURCE_def LETTA_EVALS_SOURCE_def new_pin_def)

lemma quiet_frame: "walk (quiet_report [] [] [])"
  by code_simp

lemma quiet_metadata:
  "make_metadata (run_metadata quiet_surroundings one_system ''adversarial-v1'')
     = Inr (run_metadata quiet_surroundings one_system ''adversarial-v1'')"
  "walk (JObj (map (\<lambda>(k, v). (k, JStr v)) (metadata_dict (run_metadata quiet_surroundings one_system ''adversarial-v1''))))"
  by (simp_all add: make_metadata_def metadata_values_def metadata_dict_def run_metadata_def quiet_surroundings_def one_system_def
    short_bounded py_len_def is_cont_def MAX_METADATA_TEXT_def)

lemma quiet_built:
  assumes "walk (JObj (map (\<lambda>(k, v). (k, JStr v)) md))" "walk (JObj corpora)" "text_bounded dg"
  shows "build_report md dg [absent_system] 0 f r corpora BENCHMARK = Inr (quiet_report md dg corpora)"
proof -
  have o: "reference_outcomes [absent_system] = []"
    by (simp add: reference_outcomes_def find_marciana_def absent_system_def new_report_def)
  have w: "walk (quiet_report md dg corpora)" using quiet_frame assms by (simp add: quiet_report_def)
  show ?thesis using w unfolding quiet_report_def
    by (simp only: build_report_def o assert_bounded_def Let_def BENCHMARK_def BENCHMARK_V2_def) simp
qed

lemma quiet_summary:
  "case summary_lines sample_prims (quiet_report md dg corpora) path of Inl e \<Rightarrow> False | Inr ls \<Rightarrow> True"
  by (simp add: summary_lines_def quiet_report_def json_item_def sorted_items_def system_entries_def absent_system_def
    new_report_def report_dict_def)

lemma exit_code_exact_witness:
  "\<exists>out. run_main quiet_surroundings one_system = Inr out \<and> \<not> ra_pin one_system \<and> ro_exit out \<noteq> 0
     \<and> ''marciana'' \<notin> set (selection 1 one_system)"
proof -
  let ?md = "metadata_dict (run_metadata quiet_surroundings one_system ''adversarial-v1'')"
  let ?c = "inventory sample_prims pinned_files []"
  define dg where "dg = fst (pin_corpus sample_prims VERSION_1 (vr_corpus VERSION_1))"
  have dg: "verify_corpus sample_prims pinned_files VERSION_1 (vr_corpus VERSION_1) = Inr dg" "text_bounded dg"
    using verify_pinned[OF manifest_1_printable _ pinned_texts(1)] digest_bounded by (auto simp: dg_def pin_corpus_def Let_def)
  have rep: "run_report quiet_surroundings VERSION_1 one_system (vr_corpus VERSION_1) = Inr (quiet_report ?md dg ?c)"
    using quiet_built[OF quiet_metadata(2) quiet_corpora dg(2), of 0 0 sample_prims pinned_files]
    by (simp add: run_report_def Let_def quiet_fields or_default_text_def quiet_metadata(1) dg(1) quiet_systems measure_lifecycle_us_def)
  obtain ls where ls: "summary_lines sample_prims (quiet_report ?md dg ?c) (vr_json VERSION_1) = Inr ls"
    using quiet_summary[of ?md dg ?c "vr_json VERSION_1"] by (auto split: sum.splits)
  obtain status where st: "json_item (quiet_report ?md dg ?c) ''status'' = Inr status"
    by (simp add: quiet_report_def json_item_def)
  obtain out where out: "run_main quiet_surroundings one_system = Inr out"
    by (simp add: run_main_def run_version_def Let_def quiet_fields rep ls st)
  have "\<not> ra_pin one_system" by (simp add: quiet_fields)
  then show ?thesis using exit_code_exact[OF out] out by (auto simp: quiet_fields)
qed

end
