(* ===== verification/SuiteRun.thy ===== *)
theory SuiteRun
  imports RunBench Suite
begin

text \<open>
  What the programs of the book's two benchmarks share around the suite: \<^verbatim>\<open>run_benchmark.py\<close>, which runs
  the systems and writes the report, \<^verbatim>\<open>render_results.py\<close>, which prints it as Markdown, and the loop of
  the adapters in Python, \<^verbatim>\<open>capability/adapters/common.py\<close>. As in theory \<open>Suite\<close> the names in which the
  two programs differ are fields of the kind or arguments; files, lines and exit code are values, as in
  theory \<open>RunBench\<close>.
\<close>

subsection \<open>The pinned corpus\<close>

fun plain_json :: "plain \<Rightarrow> json" where
  "plain_json (PText s) = JStr s"
| "plain_json (PInt i) = JInt i"
| "plain_json (PList xs) = JList (map plain_json xs)"
| "plain_json (PDict d) = JObj (map (\<lambda>(k, v). (k, plain_json v)) d)"

definition suite_payload :: "suite_kind \<Rightarrow> 's suite_case list \<Rightarrow> json" where
  "suite_payload k suite = (let manifest = suite_manifest k suite
     in JObj [(''digest'', JStr (suite_corpus_digest k manifest)), (''manifest'', plain_json manifest)])"

definition suite_pin :: "py_prims \<Rightarrow> suite_kind \<Rightarrow> 's suite_case list \<Rightarrow> string \<Rightarrow> string \<times> string \<times> string" where
  "suite_pin p k suite dir = (suite_corpus_digest k (suite_manifest k suite), manifest_path dir,
     json_pretty p 0 (suite_payload k suite) @ [CHR 0x0A])"

definition suite_verify :: "py_prims \<Rightarrow> files \<Rightarrow> suite_kind \<Rightarrow> 's suite_case list \<Rightarrow> string \<Rightarrow> string result" where
  "suite_verify p fs k suite dir =
     bind_result (read_text fs (manifest_path dir)) (\<lambda>text.
     bind_result (json_loads p text) (\<lambda>pinned.
       if \<not> py_eq pinned (suite_payload k suite)
       then raise_error ''SystemExit'' ''corpus does not match its versioned manifest; regenerate with --pin-corpus''
       else Inr (suite_corpus_digest k (suite_manifest k suite))))"

subsection \<open>The program\<close>

record suite_args =
  sa_systems :: string
  sa_corpus :: string
  sa_json :: string
  sa_pin :: bool

definition suite_all :: "suite_kind \<Rightarrow> string list" where
  "suite_all k = ''reference'' # map fst (sk_systems k)"

definition suite_selection :: "suite_kind \<Rightarrow> suite_args \<Rightarrow> string list" where
  "suite_selection k args = (if sa_systems args = ''all'' then suite_all k else split_on (CHR '','') (sa_systems args))"

definition is_executed :: "(string, json) pydict \<Rightarrow> bool" where
  "is_executed e \<longleftrightarrow> dict_get e ''status'' = Some (JStr ''executed'')"

text \<open>an executed system gets its result\<close>

definition with_result :: "(string, json) pydict \<Rightarrow> (string, json) pydict" where
  "with_result e = (if is_executed e
     then dict_set ''result'' (JStr (if gates_tripped e then ''fail'' else ''pass'')) e else e)"

text \<open>\<^verbatim>\<open>f"{s:n}"\<close>\<close>

definition pad_right :: "nat \<Rightarrow> string \<Rightarrow> string" where
  "pad_right n s = s @ replicate (n - py_len s) (CHR '' '')"

text \<open>\<^verbatim>\<open>sum(x.values())\<close> of counts\<close>

fun sum_counts :: "int \<Rightarrow> json list \<Rightarrow> int result" where
  "sum_counts n [] = Inr n"
| "sum_counts n (v # vs) = (case v of JInt i \<Rightarrow> sum_counts (n + i) vs
     | JBool b \<Rightarrow> sum_counts (n + (if b then 1 else 0)) vs
     | _ \<Rightarrow> raise_error ''TypeError'' (''unsupported operand type(s) for +: '' @ repr_str ''int'' @ '' and ''
         @ repr_str (type_name v)))"

definition gate_count :: "json \<Rightarrow> int result" where
  "gate_count e = bind_result (json_item e ''hard_gates'') (\<lambda>g. case g of
       JObj d \<Rightarrow> sum_counts 0 (dict_values d)
     | _ \<Rightarrow> raise_error ''AttributeError'' (repr_str (type_name g) @ '' object has no attribute '' @ repr_str ''values''))"

definition suite_line :: "py_prims \<Rightarrow> suite_kind \<Rightarrow> (string, json) pydict \<Rightarrow> string result" where
  "suite_line p k entry =
     (let e = JObj entry
      in if is_executed entry then
           bind_result (json_item e ''summary'') (\<lambda>s.
           bind_result (gate_count e) (\<lambda>gates.
           bind_result (json_item e (sk_key k)) (\<lambda>name.
           bind_result (get_default e ''result'' (JStr ''?'')) (\<lambda>r.
           bind_result (json_item s ''supported'') (\<lambda>supported.
           bind_result (json_item s ''correct'') (\<lambda>correct.
           bind_result (json_item s ''unsupported'') (\<lambda>unsupported.
             Inr (''  '' @ pad_right 10 (json_str p name) @ '' '' @ pad_right 5 (json_str p r) @ '' | supported ''
               @ json_str p supported @ '', correct '' @ json_str p correct @ '', unsupported '' @ json_str p unsupported
               @ '' | gate violations '' @ int_str gates))))))))
         else bind_result (missing_text p e) (\<lambda>detail.
           bind_result (json_item e (sk_key k)) (\<lambda>name.
           bind_result (json_item e ''status'') (\<lambda>status.
             Inr (''  '' @ pad_right 10 (json_str p name) @ '' '' @ json_str p status @ '' | '' @ detail)))))"

text \<open>the entries and the report; the object of the reference is an argument\<close>

definition suite_run :: "surroundings \<Rightarrow> suite_kind \<Rightarrow> 's \<Rightarrow> 's suite_case list \<Rightarrow> suite_args
    \<Rightarrow> ((string, json) pydict list \<times> json) result" where
  "suite_run su k start suite args =
     (let p = su_prims su
      in bind_result (suite_verify p (su_files su) k suite (sa_corpus args)) (\<lambda>d.
         bind_result (suite_systems p k (su_spawn su) start (suite_selection k args) suite (su_environ su)) (\<lambda>systems.
         let entries = map with_result systems
         in bind_result (suite_report k [(''harness'', su_platform su), (''corpus'', sk_version k)] d entries) (\<lambda>report.
            Inr (entries, report)))))"

definition suite_main :: "surroundings \<Rightarrow> suite_kind \<Rightarrow> 's \<Rightarrow> 's suite_case list \<Rightarrow> suite_args \<Rightarrow> run_output result" where
  "suite_main su k start suite args =
     (let p = su_prims su
      in if sa_pin args then (case suite_pin p k suite (sa_corpus args) of (d, path, text) \<Rightarrow>
           Inr \<lparr>ro_files = [(path, text)], ro_printed = [''pinned corpus digest: '' @ d], ro_exit = 0\<rparr>)
         else bind_result (suite_run su k start suite args) (\<lambda>(entries, report).
           bind_result (json_item report ''benchmark'') (\<lambda>benchmark.
           bind_result (json_item report ''status'') (\<lambda>status.
           bind_result (map_result (suite_line p k) entries) (\<lambda>ls.
             Inr \<lparr>ro_files = [(sa_json args, json_pretty p 0 report @ [CHR 0x0A])],
               ro_printed = (json_str p benchmark @ '': '' @ json_str p status) # ls @ [''report: '' @ sa_json args],
               ro_exit = (if status \<noteq> JStr ''pass'' then 1 else 0)\<rparr>)))))"

subsection \<open>The document\<close>

text \<open>\<^verbatim>\<open>order.index(name) if name in order else 99\<close>\<close>

fun position :: "string list \<Rightarrow> json \<Rightarrow> nat option" where
  "position [] v = None"
| "position (x # xs) v = (if v = JStr x then Some 0 else map_option Suc (position xs v))"

definition order_key :: "suite_kind \<Rightarrow> string list \<Rightarrow> json \<Rightarrow> nat result" where
  "order_key k order e = bind_result (json_item e (sk_key k)) (\<lambda>n.
     Inr (case position order n of None \<Rightarrow> 99 | Some i \<Rightarrow> i))"

definition suite_present :: "suite_kind \<Rightarrow> string list \<Rightarrow> json list \<Rightarrow> json list result" where
  "suite_present k order systems =
     bind_result (map_result (\<lambda>e. bind_result (order_key k order e) (\<lambda>i. Inr (i, e))) systems) (\<lambda>ps.
       Inr (map snd (sort_key fst ps)))"

definition executed_entry :: "json \<Rightarrow> bool result" where
  "executed_entry e = bind_result (json_get e ''status'') (\<lambda>s. Inr (s = Some (JStr ''executed'')))"

definition suite_table_row :: "py_prims \<Rightarrow> suite_kind \<Rightarrow> json \<Rightarrow> string result" where
  "suite_table_row p k e =
     bind_result (executed_entry e) (\<lambda>x.
       if x then
         bind_result (json_item e ''summary'') (\<lambda>s.
         bind_result (gate_count e) (\<lambda>gv.
         bind_result (json_item e (sk_key k)) (\<lambda>name.
         bind_result (get_default e ''result'' (JStr ''executed'')) (\<lambda>r.
         bind_result (json_item s ''supported'') (\<lambda>supported.
         bind_result (json_item s ''correct'') (\<lambda>correct.
         bind_result (json_item s ''unsupported'') (\<lambda>unsupported.
           Inr (bar [json_str p name, json_str p r, json_str p supported, json_str p correct, json_str p unsupported,
             int_str gv]))))))))
       else bind_result (missing_text p e) (\<lambda>detail.
         bind_result (json_item e (sk_key k)) (\<lambda>name.
         bind_result (json_item e ''status'') (\<lambda>status.
           Inr (bar [json_str p name, json_str p status, em_dash, em_dash, em_dash, detail])))))"

text \<open>the name of an executed system as a table cell; the cells are joined, so it must be a text\<close>

definition name_cells :: "suite_kind \<Rightarrow> json list \<Rightarrow> string list result" where
  "name_cells k executed = bind_result (map_result (\<lambda>e. json_item e (sk_key k)) executed) (join_texts 0)"

definition suite_cell :: "json \<Rightarrow> string result" where
  "suite_cell r = bind_result (json_item r ''supported'') (\<lambda>s.
     if \<not> truthy s then Inr UNSUPPORTED
     else bind_result (json_item r ''correct'') (\<lambda>c. Inr (if truthy c then CORRECT else FAILED)))"

text \<open>\<^verbatim>\<open>{c[key]: {row["case_id"]: row for row in c["cases"]} for c in executed}\<close>; the names are texts by then\<close>

definition rows_by_name :: "suite_kind \<Rightarrow> json \<Rightarrow> (json \<times> (json, json) pydict) result" where
  "rows_by_name k e = bind_result (json_item e (sk_key k)) (\<lambda>n. bind_result (case_map e) (\<lambda>m. Inr (n, m)))"

definition suite_matrix_row :: "(json, (json, json) pydict) pydict \<Rightarrow> string list \<Rightarrow> 's suite_case \<Rightarrow> string result" where
  "suite_matrix_row by names c =
     bind_result (map_result (\<lambda>n. case dict_get (the (dict_get by (JStr n))) (JStr (sc_id c)) of
         None \<Rightarrow> raise_error ''KeyError'' (repr_str (sc_id c)) | Some r \<Rightarrow> suite_cell r) names) (\<lambda>cells.
       Inr (bar (code_text (sc_id c) # sc_capability c # cells)))"

definition suite_matrix :: "suite_kind \<Rightarrow> 's suite_case list \<Rightarrow> json list \<Rightarrow> string list result" where
  "suite_matrix k suite executed =
     (if executed = [] then Inr []
      else bind_result (name_cells k executed) (\<lambda>names.
           bind_result (map_result (rows_by_name k) executed) (\<lambda>by.
           bind_result (map_result (suite_matrix_row (dict_of by []) names) suite) (\<lambda>rows.
             Inr ([[], ''## Case matrix'', [], bar ([''Case'', ''Capability''] @ names),
                 ''|------|-----------|'' @ join ''|'' (map (\<lambda>_. ''---'') names) @ ''|''] @ rows
               @ [[], ''Legend: '' @ CORRECT @ '' correct '' @ UNSUPPORTED @ '' '' @ FAILED @ '' failed (finding) ''
                  @ UNSUPPORTED @ '' '' @ UNSUPPORTED @ '' not claimed.''])))))"

text \<open>the words in which the two documents differ\<close>

record suite_words =
  wd_intro :: string
  wd_section :: string
  wd_order :: "string list"

definition suite_render :: "py_prims \<Rightarrow> suite_kind \<Rightarrow> suite_words \<Rightarrow> 's suite_case list \<Rightarrow> json \<Rightarrow> string result" where
  "suite_render p k w suite report =
     bind_result (bind_result (json_item report (sk_list_key k)) json_iter) (\<lambda>systems.
     bind_result (suite_present k (wd_order w) systems) (\<lambda>present.
     bind_result (filter_result executed_entry present) (\<lambda>executed.
     bind_result (json_item report ''benchmark'') (\<lambda>benchmark.
     bind_result (json_item report ''corpus_digest'') (\<lambda>d.
     bind_result (json_item report ''status'') (\<lambda>status.
     bind_result (map_result (suite_table_row p k) present) (\<lambda>rows.
     bind_result (suite_matrix k suite executed) (\<lambda>matrix.
       Inr (join [CHR 0x0A] ([''# '' @ sk_benchmark k @ '' results'', [],
           ''**Benchmark:** '' @ json_str p benchmark @ ''  '',
           ''**Corpus digest:** '' @ code_text (json_str p d) @ ''  '',
           ''**Overall status:** '' @ json_str p status, [], wd_intro w, [], ''## '' @ wd_section w @ ''s'', [],
           bar [wd_section w, ''Status'', ''Supported'', ''Correct'', ''Unsupported'', ''Gate violations''],
           ''|'' @ replicate (py_len (wd_section w) + 2) (CHR ''-'') @ ''|--------|:---------:|:-------:|:-----------:|:---------------:|'']
         @ rows @ matrix @ [[]]))))))))))"

definition suite_render_main :: "py_prims \<Rightarrow> suite_kind \<Rightarrow> suite_words \<Rightarrow> 's suite_case list \<Rightarrow> string \<Rightarrow> files \<Rightarrow> string list
    \<Rightarrow> (string \<times> string) result" where
  "suite_render_main p k w suite report_file fs args =
     bind_result (read_text fs (case args of [] \<Rightarrow> report_file | a # _ \<Rightarrow> a)) (\<lambda>text.
     bind_result (json_loads p text) (\<lambda>report.
     bind_result (suite_render p k w suite report) (\<lambda>doc.
       Inr (case args of _ # b # _ \<Rightarrow> b | _ \<Rightarrow> ''out/RESULTS.md'', doc))))"

subsection \<open>The loop of an adapter\<close>

text \<open>
  A case of the request and its row: a probe runs only for a claimed capability, and a failure of the
  probe is an incorrect row. \<open>ask\<close>, its function \<^verbatim>\<open>run_case\<close>, is the adapter's own, on the state of its library.
\<close>

definition the_default :: "'a \<Rightarrow> 'a option \<Rightarrow> 'a" where
  "the_default d x = (case x of None \<Rightarrow> d | Some y \<Rightarrow> y)"

definition claims :: "string list \<Rightarrow> json option \<Rightarrow> bool" where
  "claims caps v \<longleftrightarrow> (case v of Some (JStr s) \<Rightarrow> s \<in> set caps | _ \<Rightarrow> False)"

definition probe :: "(json \<Rightarrow> ('s, bool) act) \<Rightarrow> json \<Rightarrow> ('s, bool) act" where
  "probe ask cid = catch (ask cid) (\<lambda>_. ret False)"

definition common_row :: "string list \<Rightarrow> (json \<Rightarrow> ('s, bool) act) \<Rightarrow> json \<Rightarrow> ('s, json) act" where
  "common_row caps ask c =
     and_then (lift_result (json_item c ''case_id'')) (\<lambda>cid.
     and_then (lift_result (json_get c ''capability'')) (\<lambda>cap.
       if \<not> hashable (the_default JNull cap)
       then lift_result (raise_error ''TypeError'' (''unhashable type: '' @ repr_str (type_name (the_default JNull cap))))
       else and_then (if claims caps cap then probe ask cid else ret False) (\<lambda>correct.
         ret (JObj [(''case_id'', cid), (''supported'', JBool (claims caps cap)), (''correct'', JBool correct)]))))"

definition common_output :: "string \<Rightarrow> string list \<Rightarrow> json list \<Rightarrow> json" where
  "common_output version caps rows = JObj [(''adapter_version'', JStr version),
     (''capabilities'', JStrs (sort (remdups caps))), (''cases'', JList rows)]"

definition common_run :: "py_prims \<Rightarrow> string \<Rightarrow> string list \<Rightarrow> (json \<Rightarrow> ('s, bool) act) \<Rightarrow> string \<Rightarrow> ('s, string) act" where
  "common_run p version caps ask stdin =
     and_then (lift_result (json_loads p stdin)) (\<lambda>request.
     and_then (lift_result (bind_result (json_item request ''cases'') json_iter)) (\<lambda>cases.
     and_then (map_act (common_row caps ask) cases) (\<lambda>rows.
       ret (json_dumps p False (common_output version caps rows)))))"

end
