(* ===== verification/BookPrograms.thy ===== *)
theory BookPrograms
  imports SuiteRun Suites
begin

text \<open>
  The programs of the book's two benchmarks as instances of theory \<open>SuiteRun\<close>: \<^verbatim>\<open>run_benchmark.py\<close> and
  \<^verbatim>\<open>render_results.py\<close> of \<^verbatim>\<open>docs/book/code/capability\<close> and of \<^verbatim>\<open>docs/book/code/catalog-provenance\<close>, each on
  its own suite, with the words of its own document.
\<close>

subsection \<open>The capability benchmark\<close>

definition CAPABILITY_WORDS :: suite_words where
  "CAPABILITY_WORDS = \<lparr>
     wd_intro = ''Each system is scored only on the capabilities it declares. A cell is '' @ CORRECT
       @ '' when the system produced the correct authorization outcome, '' @ FAILED @ '' when ''
       @ ''it did not (a finding), and '' @ UNSUPPORTED @ '' when the system honestly does not claim ''
       @ ''that capability '' @ em_dash @ '' never scored as a pass or a failure.'',
     wd_section = ''System'',
     wd_order = [''reference'', ''typesec'', ''ucan'', ''biscuit'', ''macaroon'', ''jwt'', ''opa'', ''cedar'', ''spicedb'', ''openfga'']\<rparr>"

definition capability_main :: "surroundings \<Rightarrow> suite_args \<Rightarrow> run_output result" where
  "capability_main su args = suite_main su GUARD_KIND guard_seeded guard_cases args"

definition capability_render :: "py_prims \<Rightarrow> json \<Rightarrow> string result" where
  "capability_render p report = suite_render p GUARD_KIND CAPABILITY_WORDS guard_cases report"

definition capability_render_main :: "py_prims \<Rightarrow> files \<Rightarrow> string list \<Rightarrow> (string \<times> string) result" where
  "capability_render_main p fs args =
     suite_render_main p GUARD_KIND CAPABILITY_WORDS guard_cases ''reports/capability-adversarial-v1.json'' fs args"

subsection \<open>The catalog benchmark\<close>

definition CATALOG_WORDS :: suite_words where
  "CATALOG_WORDS = \<lparr>
     wd_intro = ''Each catalog is scored only on the capabilities it declares. A cell is '' @ CORRECT
       @ '' when the catalog produced the correct provable-transaction outcome, '' @ FAILED
       @ '' when it did not (a finding), and '' @ UNSUPPORTED @ '' when the catalog ''
       @ ''honestly does not claim that capability '' @ em_dash @ '' never scored as a pass or a failure.'',
     wd_section = ''Catalog'',
     wd_order = [''reference'', ''lakecat'', ''nessie'', ''gravitino'', ''polaris'']\<rparr>"

definition catalog_pin :: "py_prims \<Rightarrow> string \<Rightarrow> string \<times> string \<times> string" where
  "catalog_pin p dir = suite_pin p CATALOG_KIND catalog_cases dir"

definition catalog_verify :: "py_prims \<Rightarrow> files \<Rightarrow> string \<Rightarrow> string result" where
  "catalog_verify p fs dir = suite_verify p fs CATALOG_KIND catalog_cases dir"

definition catalog_main :: "surroundings \<Rightarrow> suite_args \<Rightarrow> run_output result" where
  "catalog_main su args = suite_main su CATALOG_KIND catalog_seeded catalog_cases args"

definition catalog_render :: "py_prims \<Rightarrow> json \<Rightarrow> string result" where
  "catalog_render p report = suite_render p CATALOG_KIND CATALOG_WORDS catalog_cases report"

definition catalog_render_main :: "py_prims \<Rightarrow> files \<Rightarrow> string list \<Rightarrow> (string \<times> string) result" where
  "catalog_render_main p fs args =
     suite_render_main p CATALOG_KIND CATALOG_WORDS catalog_cases ''reports/catalog-provenance-v1.json'' fs args"

end
