(* ===== verification/CatalogDriver.thy ===== *)
theory CatalogDriver
  imports SuiteRun CatalogCases
begin

text \<open>
  \<^verbatim>\<open>docs/book/code/catalog-provenance/adapters\<close>: \<^verbatim>\<open>protocol.py\<close>, the driver that replays the cases of the
  catalog benchmark against a real catalog, and the adapters \<^verbatim>\<open>iceberg_rest.py\<close>, \<^verbatim>\<open>lakecat/adapter.py\<close> and
  \<^verbatim>\<open>rest_adapter.py\<close>. A catalog is a record of calls on a state of its own, every one of which may raise;
  answers are dictionaries, and a receipt is a dictionary or nothing. The client libraries of the
  adapters are parameters.
\<close>

subsection \<open>Catalogs\<close>

record 's catalog_system =
  cy_name :: string
  cy_version :: string
  cy_capabilities :: "string list"
  cy_reset :: "('s, unit) act"
  cy_create :: "string \<Rightarrow> ('s, unit) act"
  cy_pointer :: "string \<Rightarrow> ('s, string) act"
  cy_commit :: "string \<Rightarrow> string \<Rightarrow> string \<Rightarrow> string \<Rightarrow> ('s, (string, json) pydict) act"
  cy_audit_count :: "('s, int) act"
  cy_outbox_count :: "('s, int) act"
  cy_lineage_count :: "('s, int) act"
  cy_replay :: "json \<Rightarrow> ('s, bool) act"
  cy_scan :: "string \<Rightarrow> string \<Rightarrow> ('s, (string, json) pydict) act"
  cy_scan_verifies :: "json \<Rightarrow> string \<Rightarrow> ('s, bool) act"
  cy_tombstone :: "string \<Rightarrow> ('s, (string, json) pydict) act"
  cy_evidence_blobs :: "('s, string list) act"
  cy_restart :: "('s, unit) act"

definition unsupported_call :: "string \<Rightarrow> ('s, 'a) act" where
  "unsupported_call what = throw (PyError ''Unsupported'' what)"

definition not_implemented :: "('s, 'a) act" where
  "not_implemented = throw (PyError ''NotImplementedError'' [])"

text \<open>the base class: the commit path is to be written, the governed surfaces decline\<close>

definition base_system :: "'s catalog_system" where
  "base_system = \<lparr>cy_name = ''unnamed'', cy_version = ''unversioned'', cy_capabilities = [],
     cy_reset = not_implemented, cy_create = (\<lambda>t. not_implemented), cy_pointer = (\<lambda>t. not_implemented),
     cy_commit = (\<lambda>t e u k. not_implemented),
     cy_audit_count = unsupported_call ''durable audit'', cy_outbox_count = unsupported_call ''atomic outbox'',
     cy_lineage_count = unsupported_call ''lineage evidence'', cy_replay = (\<lambda>r. unsupported_call ''replayable proof''),
     cy_scan = (\<lambda>t p. unsupported_call ''governed scan proof''),
     cy_scan_verifies = (\<lambda>r p. unsupported_call ''governed scan proof''),
     cy_tombstone = (\<lambda>t. unsupported_call ''tombstone proof''),
     cy_evidence_blobs = unsupported_call ''hash-only evidence'', cy_restart = unsupported_call ''restart''\<rparr>"

subsection \<open>Scenarios\<close>

definition out_ok :: "(string, json) pydict \<Rightarrow> bool" where
  "out_ok out \<longleftrightarrow> truthy (the_default JNull (dict_get out ''ok''))"

definition receipt_field :: "(string, json) pydict \<Rightarrow> json" where
  "receipt_field out = the_default JNull (dict_get out ''receipt'')"

definition fresh_commit :: "'s catalog_system \<Rightarrow> string \<Rightarrow> ('s, (string, json) pydict) act" where
  "fresh_commit sys u = and_then (cy_pointer sys SALES) (\<lambda>h. cy_commit sys SALES h u [])"

text \<open>\<^verbatim>\<open>bool(out.get("ok")) and ...\<close>\<close>

definition if_ok :: "(string, json) pydict \<Rightarrow> ('s, bool) act \<Rightarrow> ('s, bool) act" where
  "if_ok out m = (if out_ok out then m else ret False)"

definition ds_commit_fresh :: "'s catalog_system \<Rightarrow> ('s, bool) act" where
  "ds_commit_fresh sys =
     and_then (cy_pointer sys SALES) (\<lambda>before.
     and_then (fresh_commit sys ''u'') (\<lambda>out.
       if_ok out (and_then (cy_pointer sys SALES) (\<lambda>after. ret (after \<noteq> before)))))"

text \<open>two commits that assert the same head\<close>

definition two_writers :: "'s catalog_system \<Rightarrow> ((string, json) pydict \<Rightarrow> (string, json) pydict \<Rightarrow> bool) \<Rightarrow> ('s, bool) act" where
  "two_writers sys verdict =
     and_then (cy_pointer sys SALES) (\<lambda>head.
     and_then (cy_commit sys SALES head ''a'' []) (\<lambda>a.
     and_then (cy_commit sys SALES head ''b'' []) (\<lambda>b. ret (verdict a b))))"

definition ds_stale_rejected :: "'s catalog_system \<Rightarrow> ('s, bool) act" where
  "ds_stale_rejected sys = two_writers sys (\<lambda>first stale. out_ok first \<and> \<not> out_ok stale)"

definition ds_concurrent :: "'s catalog_system \<Rightarrow> ('s, bool) act" where
  "ds_concurrent sys = two_writers sys (\<lambda>a b. out_ok a \<noteq> out_ok b)"

definition same_receipts :: "(string, json) pydict \<Rightarrow> (string, json) pydict \<Rightarrow> bool" where
  "same_receipts a b \<longleftrightarrow> out_ok a \<and> out_ok b \<and> py_eq (receipt_field a) (receipt_field b)"

definition ds_idempotent_retry :: "'s catalog_system \<Rightarrow> ('s, bool) act" where
  "ds_idempotent_retry sys =
     and_then (cy_pointer sys SALES) (\<lambda>head.
     and_then (cy_commit sys SALES head ''u'' ''job-k'') (\<lambda>first.
     and_then (cy_pointer sys SALES) (\<lambda>after.
     and_then (cy_commit sys SALES head ''u'' ''job-k'') (\<lambda>second.
       if same_receipts first second then and_then (cy_pointer sys SALES) (\<lambda>last. ret (last = after)) else ret False))))"

definition ds_idempotent_restart :: "'s catalog_system \<Rightarrow> ('s, bool) act" where
  "ds_idempotent_restart sys =
     and_then (cy_pointer sys SALES) (\<lambda>head.
     and_then (cy_commit sys SALES head ''u'' ''job-k'') (\<lambda>first.
     and_then (cy_restart sys) (\<lambda>_.
     and_then (cy_commit sys SALES head ''u'' ''job-k'') (\<lambda>second. ret (same_receipts first second)))))"

text \<open>a count that an accepted commit must raise by one\<close>

definition counted :: "'s catalog_system \<Rightarrow> ('s, int) act \<Rightarrow> ('s, bool) act" where
  "counted sys reading =
     and_then reading (\<lambda>n.
     and_then (fresh_commit sys ''u'') (\<lambda>out. if_ok out (and_then reading (\<lambda>m. ret (m = n + 1)))))"

definition ds_outbox_absent :: "'s catalog_system \<Rightarrow> ('s, bool) act" where
  "ds_outbox_absent sys =
     and_then (cy_pointer sys SALES) (\<lambda>head.
     and_then (cy_commit sys SALES head ''a'' []) (\<lambda>_.
     and_then (cy_outbox_count sys) (\<lambda>n.
     and_then (cy_commit sys SALES head ''b'' []) (\<lambda>_.
     and_then (cy_outbox_count sys) (\<lambda>m. ret (m = n))))))"

definition item_of :: "(string, json) pydict \<Rightarrow> string \<Rightarrow> ('s, json) act" where
  "item_of out k = lift_result (json_item (JObj out) k)"

definition ds_replay_verifies :: "'s catalog_system \<Rightarrow> ('s, bool) act" where
  "ds_replay_verifies sys = and_then (fresh_commit sys ''u'') (\<lambda>out.
     if_ok out (and_then (item_of out ''receipt'') (cy_replay sys)))"

text \<open>\<^verbatim>\<open>dict(x)\<close> of a receipt\<close>

definition dict_copy :: "json \<Rightarrow> (string, json) pydict result" where
  "dict_copy v = (case v of JObj d \<Rightarrow> Inr d
     | _ \<Rightarrow> raise_error ''TypeError'' (repr_str (type_name v) @ '' object is not iterable''))"

definition ds_replay_forged :: "'s catalog_system \<Rightarrow> ('s, bool) act" where
  "ds_replay_forged sys = and_then (fresh_commit sys ''u'') (\<lambda>out.
     and_then (item_of out ''receipt'') (\<lambda>r.
     and_then (lift_result (dict_copy r)) (\<lambda>d.
       if_ok out (and_then (cy_replay sys (JObj (dict_set ''response_hash''
           (JStr (''sha256:'' @ replicate 64 (CHR ''0''))) d))) (\<lambda>ok. ret (\<not> ok))))))"

definition ds_scan_receipt :: "'s catalog_system \<Rightarrow> ('s, bool) act" where
  "ds_scan_receipt sys =
     and_then (fresh_commit sys ''u'') (\<lambda>_.
     and_then (cy_scan sys SALES POLICY) (\<lambda>out.
       if_ok out (and_then (item_of out ''scan_receipt'') (\<lambda>r. cy_scan_verifies sys r POLICY))))"

definition ds_scan_mismatch :: "'s catalog_system \<Rightarrow> ('s, bool) act" where
  "ds_scan_mismatch sys =
     and_then (cy_scan sys SALES POLICY) (\<lambda>out.
       if_ok out (and_then (item_of out ''scan_receipt'') (\<lambda>r.
         and_then (cy_scan_verifies sys r ''other policy'') (\<lambda>ok. ret (\<not> ok)))))"

text \<open>\<^verbatim>\<open>out["receipt"].get(k)\<close>\<close>

definition receipt_get :: "(string, json) pydict \<Rightarrow> string \<Rightarrow> ('s, json) act" where
  "receipt_get out k = lift_result (bind_result (json_item (JObj out) ''receipt'') (\<lambda>r.
     bind_result (json_get r k) (\<lambda>v. Inr (the_default JNull v))))"

definition ds_chain_linked :: "'s catalog_system \<Rightarrow> ('s, bool) act" where
  "ds_chain_linked sys =
     and_then (fresh_commit sys ''u1'') (\<lambda>a.
     and_then (fresh_commit sys ''u2'') (\<lambda>b.
       if_ok a (if_ok b (and_then (receipt_get b ''prev_receipt'') (\<lambda>prev.
         and_then (receipt_get a ''receipt_hash'') (\<lambda>hash. ret (py_eq prev hash)))))))"

definition ds_tombstone :: "'s catalog_system \<Rightarrow> ('s, bool) act" where
  "ds_tombstone sys =
     and_then (fresh_commit sys ''u'') (\<lambda>_.
     and_then (cy_tombstone sys SALES) (\<lambda>out.
       if_ok out (and_then (lift_result (json_get (the_default (JObj []) (dict_get out ''receipt'')) ''op'')) (\<lambda>op.
         ret (op = Some (JStr ''tombstone''))))))"

definition ds_hash_only :: "'s catalog_system \<Rightarrow> ('s, bool) act" where
  "ds_hash_only sys =
     and_then (fresh_commit sys SECRET) (\<lambda>_.
     and_then (cy_evidence_blobs sys) (\<lambda>bs.
       ret (list_all (\<lambda>b. \<not> contains b ''AKIA'' \<and> \<not> contains b ''secret-location'') bs)))"

definition ds_restart_reproducible :: "'s catalog_system \<Rightarrow> ('s, bool) act" where
  "ds_restart_reproducible sys =
     and_then (fresh_commit sys ''u'') (\<lambda>out.
     and_then (cy_restart sys) (\<lambda>_. if_ok out (and_then (item_of out ''receipt'') (cy_replay sys))))"

definition catalog_scenarios :: "'s catalog_system \<Rightarrow> (string, ('s, bool) act) pydict" where
  "catalog_scenarios sys = [
     (''commit-fresh'', ds_commit_fresh sys), (''cas-stale-rejected'', ds_stale_rejected sys),
     (''cas-concurrent'', ds_concurrent sys), (''idempotent-retry'', ds_idempotent_retry sys),
     (''idempotent-across-restart'', ds_idempotent_restart sys), (''audit-durable'', counted sys (cy_audit_count sys)),
     (''outbox-atomic-present'', counted sys (cy_outbox_count sys)), (''outbox-absent-on-reject'', ds_outbox_absent sys),
     (''replay-verifies'', ds_replay_verifies sys), (''replay-forged-rejected'', ds_replay_forged sys),
     (''governed-scan-receipt'', ds_scan_receipt sys), (''governed-scan-mismatch-rejected'', ds_scan_mismatch sys),
     (''receipt-chain-linked'', ds_chain_linked sys), (''tombstone-covered'', ds_tombstone sys),
     (''hash-only-audit'', ds_hash_only sys), (''lineage-emitted'', counted sys (cy_lineage_count sys)),
     (''restart-reproducible'', ds_restart_reproducible sys)]"

subsection \<open>The driver\<close>

definition scenario_for :: "'s catalog_system \<Rightarrow> json \<Rightarrow> ('s, bool) act" where
  "scenario_for sys cid = (case cid of
       JStr i \<Rightarrow> (case dict_get (catalog_scenarios sys) i of
           None \<Rightarrow> throw (PyError ''KeyError'' (repr_str i)) | Some m \<Rightarrow> m)
     | _ \<Rightarrow> throw (PyError (if hashable cid then ''KeyError'' else ''TypeError'') []))"

definition prepare_table :: "'s catalog_system \<Rightarrow> ('s, unit) act" where
  "prepare_table sys = and_then (cy_reset sys) (\<lambda>_. cy_create sys SALES)"

text \<open>a claimed case: whether it is supported, and whether it is correct\<close>

definition drive_case :: "'s catalog_system \<Rightarrow> json \<Rightarrow> ('s, bool \<times> bool) act" where
  "drive_case sys cid = catch
     (and_then (prepare_table sys) (\<lambda>_. and_then (scenario_for sys cid) (\<lambda>correct. ret (True, correct))))
     (\<lambda>e. ret (error_type e \<noteq> ''Unsupported'', False))"

definition drive_row :: "json \<Rightarrow> bool \<times> bool \<Rightarrow> json" where
  "drive_row cid x = JObj [(''case_id'', cid), (''supported'', JBool (fst x)), (''correct'', JBool (snd x))]"

definition catalog_row :: "'s catalog_system \<Rightarrow> json \<Rightarrow> ('s, json) act" where
  "catalog_row sys c =
     and_then (lift_result (json_item c ''case_id'')) (\<lambda>cid.
     and_then (lift_result (json_item c ''capability'')) (\<lambda>cap.
       if \<not> hashable cap then lift_result (raise_error ''TypeError'' (''unhashable type: '' @ repr_str (type_name cap)))
       else and_then (if claims (cy_capabilities sys) (Some cap) then drive_case sys cid else ret (False, False)) (\<lambda>x.
         ret (drive_row cid x))))"

definition preflight :: "'s catalog_system \<Rightarrow> ('s, unit) act" where
  "preflight sys = catch (and_then (prepare_table sys) (\<lambda>_. and_then (ds_commit_fresh sys) (\<lambda>_. ret ())))
     (\<lambda>e. throw (PyError ''SystemExit'' (''preflight commit failed: '' @ error_text e)))"

definition drive_output :: "'s catalog_system \<Rightarrow> json list \<Rightarrow> json" where
  "drive_output sys rows = common_output (cy_name sys @ ''-'' @ cy_version sys) (cy_capabilities sys) rows"

definition catalog_drive :: "py_prims \<Rightarrow> 's catalog_system \<Rightarrow> string \<Rightarrow> ('s, string) act" where
  "catalog_drive p sys stdin =
     and_then (lift_result (json_loads p stdin)) (\<lambda>request.
     and_then (preflight sys) (\<lambda>_.
     and_then (lift_result (bind_result (json_item request ''cases'') json_iter)) (\<lambda>cases.
     and_then (map_act (catalog_row sys) cases) (\<lambda>rows.
       ret (json_dumps p False (drive_output sys rows) @ [CHR 0x0A])))))"

end
