(* ===== verification/CatalogAdapters.thy ===== *)
theory CatalogAdapters
  imports CatalogDriver
begin

text \<open>
  The catalogs of \<^verbatim>\<open>docs/book/code/catalog-provenance/adapters\<close>: \<^verbatim>\<open>iceberg_rest.py\<close> over a client library
  of Iceberg REST catalogs, \<^verbatim>\<open>lakecat/adapter.py\<close>, which adds keyed commits over HTTP, and the selection
  of \<^verbatim>\<open>rest_adapter.py\<close>. The client is the record \<open>rest_client\<close>: handles of tables are values, so that an
  append through a copied handle leaves the handle it was copied from as it was.
\<close>

subsection \<open>The client library\<close>

record ('s, 'h) rest_client =
  ic_connect :: "(string, json) pydict \<Rightarrow> ('s, unit) act"
  ic_create_namespace :: "string \<Rightarrow> ('s, unit) act"
  ic_create_table :: "string \<Rightarrow> string option \<Rightarrow> ('s, unit) act"
  ic_load :: "string \<Rightarrow> ('s, 'h) act"
  ic_snapshot :: "'h \<Rightarrow> string option"
  ic_append :: "'h \<Rightarrow> ('s, unit) act"
  ic_hex :: "('s, string) act"

text \<open>the object: its client, its table and the handles witnessed for each asserted pointer\<close>

record ('s, 'h) rest_state =
  rs_client :: 's
  rs_table :: string
  rs_witness :: "(string, 'h) pydict"

record rest_config =
  rf_name :: string
  rf_version :: string
  rf_uri :: string
  rf_warehouse :: string
  rf_props :: "(string, json) pydict"
  rf_location :: string

definition on_client :: "('s, 'a) act \<Rightarrow> (('s, 'h) rest_state, 'a) act" where
  "on_client m = on_part rs_client (\<lambda>c s. s\<lparr>rs_client := c\<rparr>) m"

subsection \<open>Stock Iceberg REST catalogs\<close>

definition NAMESPACE :: string where "NAMESPACE = ''provenance''"

definition env_or :: "(string, string) pydict \<Rightarrow> string \<Rightarrow> string \<Rightarrow> string" where
  "env_or env k d = (case dict_get env k of None \<Rightarrow> d | Some v \<Rightarrow> v)"

definition catalog_props :: "(string, string) pydict \<Rightarrow> rest_config \<Rightarrow> (string, json) pydict" where
  "catalog_props env f =
     (let base = [(''uri'', JStr (rf_uri f)),
          (''s3.endpoint'', JStr (env_or env ''AWS_ENDPOINT'' ''http://minio:9000'')),
          (''s3.access-key-id'', JStr (env_or env ''AWS_ACCESS_KEY_ID'' ''admin'')),
          (''s3.secret-access-key'', JStr (env_or env ''AWS_SECRET_ACCESS_KEY'' ''password'')),
          (''s3.region'', JStr (env_or env ''AWS_REGION'' ''us-east-1'')),
          (''s3.path-style-access'', JStr ''true'')];
        props = dict_of (rf_props f) base;
        props = (if rf_warehouse f \<noteq> [] then dict_set ''warehouse'' (JStr (rf_warehouse f)) props else props)
      in if dict_get (rf_props f) ''token'' = None
         then dict_set ''auth'' (JObj [(''type'', JStr ''noop'')]) props else props)"

text \<open>\<^verbatim>\<open>reset\<close>: a new client, the namespace if it can be created, a fresh table name and no witnesses\<close>

definition rest_reset :: "('s, 'h) rest_client \<Rightarrow> (string, string) pydict \<Rightarrow> rest_config \<Rightarrow> (('s, 'h) rest_state, unit) act" where
  "rest_reset cl env f =
     and_then (on_client (ic_connect cl (catalog_props env f))) (\<lambda>_.
     and_then (catch (on_client (ic_create_namespace cl NAMESPACE)) (\<lambda>e. ret ())) (\<lambda>_.
     and_then (on_client (ic_hex cl)) (\<lambda>hex.
     \<lambda>s. (Inr (), s\<lparr>rs_table := NAMESPACE @ ''.t_'' @ py_take 10 hex, rs_witness := []\<rparr>))))"

text \<open>\<^verbatim>\<open>t.replace('.', '/')\<close> and \<^verbatim>\<open>t.rstrip('/')\<close>\<close>

definition slashes :: "string \<Rightarrow> string" where
  "slashes t = map (\<lambda>c. if c = CHR ''.'' then CHR ''/'' else c) t"

definition rstrip_slash :: "string \<Rightarrow> string" where
  "rstrip_slash t = rev (dropWhile (\<lambda>c. c = CHR ''/'') (rev t))"

definition rest_create :: "('s, 'h) rest_client \<Rightarrow> rest_config \<Rightarrow> string \<Rightarrow> (('s, 'h) rest_state, unit) act" where
  "rest_create cl f t s = on_client (ic_create_table cl (rs_table s)
     (if rf_location f \<noteq> [] then Some (rstrip_slash (rf_location f) @ ''/'' @ slashes t) else None)) s"

definition rest_load :: "('s, 'h) rest_client \<Rightarrow> (('s, 'h) rest_state, 'h) act" where
  "rest_load cl s = on_client (ic_load cl (rs_table s)) s"

definition rest_pointer :: "('s, 'h) rest_client \<Rightarrow> string \<Rightarrow> (('s, 'h) rest_state, string) act" where
  "rest_pointer cl t = and_then (rest_load cl) (\<lambda>h.
     ret (case ic_snapshot cl h of None \<Rightarrow> ''none'' | Some i \<Rightarrow> i))"

text \<open>the handle of the first sight of a pointer\<close>

definition witness :: "('s, 'h) rest_client \<Rightarrow> string \<Rightarrow> (('s, 'h) rest_state, 'h) act" where
  "witness cl expected s = (case dict_get (rs_witness s) expected of
       Some h \<Rightarrow> (Inr h, s)
     | None \<Rightarrow> and_then (rest_load cl) (\<lambda>h s. (Inr h, s\<lparr>rs_witness := dict_set expected h (rs_witness s)\<rparr>)) s)"

definition plain_answer :: "bool \<Rightarrow> (string, json) pydict" where
  "plain_answer ok = [(''ok'', JBool ok), (''receipt'', JNull)]"

definition is_conflict :: "py_error \<Rightarrow> bool" where
  "is_conflict e \<longleftrightarrow> error_type e = ''CommitFailedException''"

definition rest_commit :: "('s, 'h) rest_client \<Rightarrow> string \<Rightarrow> string \<Rightarrow> string \<Rightarrow> string
    \<Rightarrow> (('s, 'h) rest_state, (string, json) pydict) act" where
  "rest_commit cl t expected update key =
     and_then (witness cl expected) (\<lambda>h.
       catch (and_then (on_client (ic_append cl h)) (\<lambda>_. ret (plain_answer True)))
         (\<lambda>e. if is_conflict e then ret (plain_answer False) else throw e))"

definition rest_system :: "('s, 'h) rest_client \<Rightarrow> (string, string) pydict \<Rightarrow> rest_config
    \<Rightarrow> ('s, 'h) rest_state catalog_system" where
  "rest_system cl env f = base_system\<lparr>cy_name := rf_name f, cy_version := rf_version f,
     cy_capabilities := [''commit'', ''compare-and-swap''], cy_reset := rest_reset cl env f,
     cy_create := rest_create cl f, cy_pointer := rest_pointer cl, cy_commit := rest_commit cl\<rparr>"

definition rest_catalogs :: "(string, string) pydict \<Rightarrow> (string, rest_config) pydict" where
  "rest_catalogs env = [
     (''nessie'', \<lparr>rf_name = ''nessie'', rf_version = ''0.107.5'',
        rf_uri = env_or env ''NESSIE_URI'' ''http://nessie:19120/iceberg/main'',
        rf_warehouse = env_or env ''NESSIE_WAREHOUSE'' ''s3://warehouse/nessie'', rf_props = [],
        rf_location = env_or env ''NESSIE_WAREHOUSE'' ''s3://warehouse/nessie''\<rparr>),
     (''gravitino'', \<lparr>rf_name = ''gravitino'', rf_version = ''oss'',
        rf_uri = env_or env ''GRAVITINO_URI'' ''http://gravitino:9001/iceberg'',
        rf_warehouse = env_or env ''GRAVITINO_WAREHOUSE'' [], rf_props = [], rf_location = []\<rparr>),
     (''polaris'', \<lparr>rf_name = ''polaris'', rf_version = ''1.5.0'',
        rf_uri = env_or env ''POLARIS_URI'' ''http://polaris:8181/api/catalog'',
        rf_warehouse = env_or env ''POLARIS_WAREHOUSE'' (env_or env ''POLARIS_PREFIX'' ''bench''),
        rf_props = (if environ_get env ''POLARIS_TOKEN'' \<noteq> [] then [(''token'', JStr (environ_get env ''POLARIS_TOKEN''))] else []),
        rf_location = []\<rparr>)]"

definition rest_main :: "py_prims \<Rightarrow> ('s, 'h) rest_client \<Rightarrow> (string, string) pydict \<Rightarrow> string list \<Rightarrow> string
    \<Rightarrow> (('s, 'h) rest_state, string) act" where
  "rest_main p cl env args stdin =
     (let name = (case args of [] \<Rightarrow> environ_get env ''CATALOG_PROVENANCE_CATALOG'' | a # _ \<Rightarrow> a)
      in case dict_get (rest_catalogs env) name of
           None \<Rightarrow> throw (PyError ''SystemExit'' (''usage: rest_adapter.py <''
             @ join ''|'' (dict_keys (rest_catalogs env)) @ ''>''))
         | Some f \<Rightarrow> catalog_drive p (rest_system cl env f) stdin)"

subsection \<open>LakeCat\<close>

text \<open>its HTTP calls: the table as JSON, and a keyed update of it\<close>

record 's http_client =
  ht_get :: "string \<Rightarrow> ('s, json) act"
  ht_post :: "string \<Rightarrow> string \<Rightarrow> string \<Rightarrow> ('s, json) act"

definition lakecat_config :: "(string, string) pydict \<Rightarrow> rest_config" where
  "lakecat_config env = \<lparr>rf_name = ''lakecat'', rf_version = env_or env ''LAKECAT_VERSION'' ''0.3.0'',
     rf_uri = env_or env ''LAKECAT_URI'' ''http://lakecat:8181/catalog'',
     rf_warehouse = env_or env ''LAKECAT_WAREHOUSE'' ''s3://warehouse/lakecat'', rf_props = [], rf_location = []\<rparr>"

definition table_path :: "(string, string) pydict \<Rightarrow> string \<Rightarrow> string" where
  "table_path env t = rstrip_slash (rf_uri (lakecat_config env)) @ ''/v1/namespaces/''
     @ takeWhile (\<lambda>c. c \<noteq> CHR ''.'') t @ ''/tables/'' @ tl (dropWhile (\<lambda>c. c \<noteq> CHR ''.'') t)"

definition keyed_body :: "py_prims \<Rightarrow> json \<Rightarrow> string \<Rightarrow> string" where
  "keyed_body p uuid update = json_dumps p False (JObj [
     (''requirements'', JList [JObj [(''type'', JStr ''assert-table-uuid''), (''uuid'', uuid)]]),
     (''updates'', JList [JObj [(''action'', JStr ''set-properties''), (''updates'', JObj [(''bench-seq'', JStr update)])]])])"

definition lakecat_commit :: "py_prims \<Rightarrow> ('s, 'h) rest_client \<Rightarrow> 's http_client \<Rightarrow> (string, string) pydict \<Rightarrow> string \<Rightarrow> string
    \<Rightarrow> string \<Rightarrow> string \<Rightarrow> (('s, 'h) rest_state, (string, json) pydict) act" where
  "lakecat_commit p cl ht env t expected update key s =
     (if key = [] then rest_commit cl t expected update key s
      else let path = table_path env (rs_table s)
        in and_then (on_client (ht_get ht path)) (\<lambda>loaded.
           and_then (lift_result (bind_result (json_item loaded ''metadata'') (\<lambda>m. json_item m ''table-uuid''))) (\<lambda>uuid.
           and_then (on_client (ht_post ht path (keyed_body p uuid update) key)) (\<lambda>res.
           and_then (lift_result (json_get res ''metadata-location'')) (\<lambda>loc.
             ret [(''ok'', JBool True), (''receipt'', JObj [(''metadata_location'', the_default JNull loc),
               (''receipt_hash'', the_default JNull loc), (''prev_receipt'', JStr [])])])))) s)"

definition lakecat_system :: "py_prims \<Rightarrow> ('s, 'h) rest_client \<Rightarrow> 's http_client \<Rightarrow> (string, string) pydict
    \<Rightarrow> ('s, 'h) rest_state catalog_system" where
  "lakecat_system p cl ht env = (rest_system cl env (lakecat_config env))\<lparr>
     cy_capabilities := [''commit'', ''compare-and-swap'', ''idempotent-replay''],
     cy_commit := lakecat_commit p cl ht env\<rparr>"

end
