(* ===== verification/CapabilityAdapters.thy ===== *)
theory CapabilityAdapters
  imports SuiteRun GuardCases
begin

text \<open>
  The adapters of the capability benchmark that are written in Python: \<^verbatim>\<open>jwt_adapter.py\<close>,
  \<^verbatim>\<open>macaroon_adapter.py\<close>, \<^verbatim>\<open>opa/opa_adapter.py\<close>, \<^verbatim>\<open>spicedb/spicedb_adapter.py\<close> and
  \<^verbatim>\<open>openfga/openfga_adapter.py\<close> of \<^verbatim>\<open>docs/book/code/capability/adapters\<close>, each the function \<^verbatim>\<open>run_case\<close> that
  the loop \<^verbatim>\<open>common.run\<close> of theory \<open>SuiteRun\<close> drives. The libraries and services they ask are parameters: a
  record of calls on a state of their own, which may raise; a clock reading is such a call.
\<close>

text \<open>a probe for each case that has one; every other case is answered with \<^verbatim>\<open>False\<close>\<close>

definition by_case :: "(string, ('s, bool) act) pydict \<Rightarrow> json \<Rightarrow> ('s, bool) act" where
  "by_case probes cid = (case cid of
       JStr i \<Rightarrow> (case dict_get probes i of None \<Rightarrow> ret False | Some m \<Rightarrow> m)
     | _ \<Rightarrow> ret False)"

definition negated :: "('s, bool) act \<Rightarrow> ('s, bool) act" where
  "negated m = and_then m (\<lambda>b. ret (\<not> b))"

text \<open>\<^verbatim>\<open>a and b\<close>\<close>

definition both :: "('s, bool) act \<Rightarrow> ('s, bool) act \<Rightarrow> ('s, bool) act" where
  "both m n = and_then m (\<lambda>b. if b then n else ret False)"

subsection \<open>Decision engines\<close>

definition DECISION_CAPABILITIES :: "string list" where
  "DECISION_CAPABILITIES = [''resource-instance-binding'', ''deny-by-default-tool'', ''confused-deputy-resistance'']"

text \<open>OPA: \<open>evaluate\<close> runs the engine on the policy with an input and gives what it printed\<close>

definition opa_input :: "py_prims \<Rightarrow> string \<Rightarrow> string \<Rightarrow> string \<Rightarrow> string" where
  "opa_input p who action resource = json_dumps p False (JObj [(''principal'', JStr who),
     (''action'', JStr action), (''resource'', JStr resource)])"

definition opa_allow :: "py_prims \<Rightarrow> (string \<Rightarrow> ('s, string) act) \<Rightarrow> string \<Rightarrow> string \<Rightarrow> string \<Rightarrow> ('s, bool) act" where
  "opa_allow p evaluate who action resource =
     and_then (evaluate (opa_input p who action resource)) (\<lambda>out. ret (py_strip out = ''true''))"

definition opa_case :: "py_prims \<Rightarrow> (string \<Rightarrow> ('s, string) act) \<Rightarrow> json \<Rightarrow> ('s, bool) act" where
  "opa_case p evaluate = (let allow = opa_allow p evaluate in by_case [
     (''resource-instance-bound'', allow ''agent:operator'' ''read'' ''customer/2''),
     (''cross-resource-rejected'', negated (allow ''agent:operator'' ''read'' ''customer/1'')),
     (''ambient-tool-call-denied'', negated (allow ''agent:analyst'' ''execute'' ''tool:x'')),
     (''confused-deputy-rejected'', both (allow ''agent:operator'' ''search'' ''tool:x'')
        (negated (allow ''agent:operator'' ''delete'' ''tool:x'')))])"

text \<open>\<^verbatim>\<open>opa/policy.rego\<close>\<close>

definition rego_allow :: "string \<Rightarrow> string \<Rightarrow> string \<Rightarrow> bool" where
  "rego_allow who action resource \<longleftrightarrow>
     who = ''agent:operator'' \<and> action = ''read'' \<and> resource = ''customer/2''
     \<or> who = ''agent:operator'' \<and> action = ''search'' \<and> resource = ''tool:x''"

text \<open>SpiceDB: \<open>post\<close> sends a body to a path and gives the answer\<close>

definition user_object :: "string \<Rightarrow> json" where
  "user_object u = JObj [(''object'', JObj [(''objectType'', JStr ''user''), (''objectId'', JStr u)])]"

definition object_of :: "string \<Rightarrow> string \<Rightarrow> json" where
  "object_of t i = JObj [(''objectType'', JStr t), (''objectId'', JStr i)]"

definition spicedb_rel :: "string \<Rightarrow> string \<Rightarrow> string \<Rightarrow> string \<Rightarrow> json" where
  "spicedb_rel t i relation u = JObj [(''operation'', JStr ''OPERATION_TOUCH''), (''relationship'', JObj [
     (''resource'', object_of t i), (''relation'', JStr relation), (''subject'', user_object u)])]"

definition SPICEDB_SCHEMA :: string where
  "SPICEDB_SCHEMA = (let nl = [CHR 0x0A] in ''definition user {}'' @ nl
     @ ''definition document {'' @ nl @ ''  relation reader: user'' @ nl @ ''  permission read = reader'' @ nl @ ''}'' @ nl
     @ ''definition tool {'' @ nl @ ''  relation searcher: user'' @ nl @ ''  relation deleter: user'' @ nl
     @ ''  permission search = searcher'' @ nl @ ''  permission delete = deleter'' @ nl @ ''}'')"

definition spicedb_setup :: "(string \<Rightarrow> json \<Rightarrow> ('s, json) act) \<Rightarrow> ('s, unit) act" where
  "spicedb_setup post =
     and_then (post ''/v1/schema/write'' (JObj [(''schema'', JStr SPICEDB_SCHEMA)])) (\<lambda>_.
     and_then (post ''/v1/relationships/write'' (JObj [(''updates'', JList [
        spicedb_rel ''document'' ''customer2'' ''reader'' ''operator'', spicedb_rel ''tool'' ''x'' ''searcher'' ''operator''])]))
     (\<lambda>_. ret ()))"

definition spicedb_check :: "(string \<Rightarrow> json \<Rightarrow> ('s, json) act) \<Rightarrow> string \<Rightarrow> string \<Rightarrow> string \<Rightarrow> string \<Rightarrow> ('s, bool) act" where
  "spicedb_check post t i permission u =
     and_then (post ''/v1/permissions/check'' (JObj [(''resource'', object_of t i), (''permission'', JStr permission),
        (''subject'', user_object u), (''consistency'', JObj [(''fullyConsistent'', JBool True)])])) (\<lambda>out.
     and_then (lift_result (json_get out ''permissionship'')) (\<lambda>v.
       ret (v = Some (JStr ''PERMISSIONSHIP_HAS_PERMISSION''))))"

definition spicedb_case :: "(string \<Rightarrow> json \<Rightarrow> ('s, json) act) \<Rightarrow> json \<Rightarrow> ('s, bool) act" where
  "spicedb_case post = (let check = spicedb_check post in by_case [
     (''resource-instance-bound'', check ''document'' ''customer2'' ''read'' ''operator''),
     (''cross-resource-rejected'', negated (check ''document'' ''customer1'' ''read'' ''operator'')),
     (''ambient-tool-call-denied'', negated (check ''tool'' ''x'' ''search'' ''analyst'')),
     (''confused-deputy-rejected'', both (check ''tool'' ''x'' ''search'' ''operator'')
        (negated (check ''tool'' ''x'' ''delete'' ''operator'')))])"

text \<open>OpenFGA\<close>

definition fga_type :: "string \<Rightarrow> string list \<Rightarrow> json" where
  "fga_type t rs = JObj [(''type'', JStr t),
     (''relations'', JObj (map (\<lambda>r. (r, JObj [(''this'', JObj [])])) rs)),
     (''metadata'', JObj [(''relations'', JObj (map (\<lambda>r. (r, JObj [(''directly_related_user_types'',
        JList [JObj [(''type'', JStr ''user'')]])])) rs))])]"

definition FGA_MODEL :: json where
  "FGA_MODEL = JObj [(''schema_version'', JStr ''1.1''), (''type_definitions'', JList [JObj [(''type'', JStr ''user'')],
     fga_type ''document'' [''reader'', ''writer''], fga_type ''tool'' [''searcher'', ''deleter'']])]"

definition fga_tuple :: "string \<Rightarrow> string \<Rightarrow> string \<Rightarrow> json" where
  "fga_tuple u relation obj = JObj [(''user'', JStr u), (''relation'', JStr relation), (''object'', JStr obj)]"

definition FGA_TUPLES :: "json list" where
  "FGA_TUPLES = [fga_tuple ''user:operator'' ''reader'' ''document:customer2'',
     fga_tuple ''user:operator'' ''searcher'' ''tool:x'']"

text \<open>the store and the model's id as they print\<close>

definition fga_setup :: "py_prims \<Rightarrow> (string \<Rightarrow> json \<Rightarrow> ('s, json) act) \<Rightarrow> ('s, json \<times> json) act" where
  "fga_setup p post =
     and_then (and_then (post ''/stores'' (JObj [(''name'', JStr ''cap-adv'')])) (\<lambda>a. lift_result (json_item a ''id''))) (\<lambda>store.
     and_then (and_then (post (''/stores/'' @ json_str p store @ ''/authorization-models'') FGA_MODEL)
       (\<lambda>a. lift_result (json_item a ''authorization_model_id''))) (\<lambda>model.
     and_then (post (''/stores/'' @ json_str p store @ ''/write'') (JObj [
        (''writes'', JObj [(''tuple_keys'', JList FGA_TUPLES)]), (''authorization_model_id'', model)])) (\<lambda>_.
       ret (store, model))))"

definition fga_check :: "py_prims \<Rightarrow> (string \<Rightarrow> json \<Rightarrow> ('s, json) act) \<Rightarrow> json \<times> json \<Rightarrow> string \<Rightarrow> string \<Rightarrow> string
    \<Rightarrow> ('s, bool) act" where
  "fga_check p post setting u relation obj = (case setting of (store, model) \<Rightarrow>
     and_then (post (''/stores/'' @ json_str p store @ ''/check'') (JObj [(''tuple_key'', fga_tuple u relation obj),
        (''authorization_model_id'', model)])) (\<lambda>out.
     and_then (lift_result (get_default out ''allowed'' (JBool False))) (\<lambda>v. ret (truthy v))))"

definition fga_case :: "py_prims \<Rightarrow> (string \<Rightarrow> json \<Rightarrow> ('s, json) act) \<Rightarrow> json \<times> json \<Rightarrow> json \<Rightarrow> ('s, bool) act" where
  "fga_case p post setting = (let check = fga_check p post setting in by_case [
     (''resource-instance-bound'', check ''user:operator'' ''reader'' ''document:customer2''),
     (''cross-resource-rejected'', negated (check ''user:operator'' ''reader'' ''document:customer1'')),
     (''ambient-tool-call-denied'', negated (check ''user:analyst'' ''searcher'' ''tool:x'')),
     (''confused-deputy-rejected'', both (check ''user:operator'' ''searcher'' ''tool:x'')
        (negated (check ''user:operator'' ''deleter'' ''tool:x'')))])"

subsection \<open>Macaroons\<close>

text \<open>
  the library \<^verbatim>\<open>pymacaroons\<close>: verification gets the predicate of the verifier, which may raise, and the key
\<close>

record 'm macaroon_lib =
  ml_new :: "string \<Rightarrow> string \<Rightarrow> string \<Rightarrow> 'm"
  ml_add :: "string \<Rightarrow> 'm \<Rightarrow> 'm"
  ml_serialize :: "'m \<Rightarrow> string"
  ml_deserialize :: "string \<Rightarrow> 'm result"
  ml_rename_last :: "string \<Rightarrow> 'm \<Rightarrow> 'm result"
  ml_verify :: "'m \<Rightarrow> (string \<Rightarrow> bool result) \<Rightarrow> string \<Rightarrow> bool result"

definition MACAROON_KEY :: string where "MACAROON_KEY = ''capability-adversarial/macaroon-root-key''"

definition MACAROON_LOC :: string where "MACAROON_LOC = ''capability-adversarial''"

definition MACAROON_CAPABILITIES :: "string list" where
  "MACAROON_CAPABILITIES = [''attenuation-monotonic'', ''resource-instance-binding'', ''lease-expiry'']"

definition resource_caveat :: "string \<Rightarrow> string" where
  "resource_caveat r = ''resource = '' @ r"

definition time_caveat :: "py_prims \<Rightarrow> rat \<Rightarrow> string" where
  "time_caveat p t = ''time < '' @ float_repr p t"

definition macaroon_mint :: "'m macaroon_lib \<Rightarrow> string \<Rightarrow> 'm" where
  "macaroon_mint lib r = ml_add lib (resource_caveat r) (ml_new lib MACAROON_LOC ''cap'' MACAROON_KEY)"

text \<open>the first part of \<^verbatim>\<open>caveat.split("time < ", 1)\<close> is empty; the verifier tries the exact caveat first\<close>

definition satisfied :: "py_prims \<Rightarrow> string \<Rightarrow> rat \<Rightarrow> string \<Rightarrow> bool result" where
  "satisfied p r now caveat =
     (if caveat = resource_caveat r then Inr True
      else if starts_with ''time < '' caveat
        then bind_result (float_parse p (drop 7 caveat)) (\<lambda>t. Inr (case t of Finite x \<Rightarrow> now < x | Special s \<Rightarrow> s = ''Infinity''))
      else Inr False)"

definition macaroon_verify :: "py_prims \<Rightarrow> 'm macaroon_lib \<Rightarrow> 'm \<Rightarrow> string \<Rightarrow> rat \<Rightarrow> bool" where
  "macaroon_verify p lib m r now = (case ml_verify lib m (satisfied p r now) MACAROON_KEY of Inr b \<Rightarrow> b | Inl e \<Rightarrow> False)"

definition macaroon_case :: "py_prims \<Rightarrow> 'm macaroon_lib \<Rightarrow> ('s, rat) act \<Rightarrow> json \<Rightarrow> ('s, bool) act" where
  "macaroon_case p lib clock =
     (let m = macaroon_mint lib ''customer/2'';
          bounded = (\<lambda>n. and_then clock (\<lambda>t. ret (ml_add lib (time_caveat p (t + n)) m)))
      in by_case [
     (''attenuate-narrows'', and_then (bounded 10) (\<lambda>narrowed. and_then clock (\<lambda>now.
        ret (macaroon_verify p lib narrowed ''customer/2'' now)))),
     (''widen-permission-rejected'',
        and_then (lift_result (bind_result (ml_deserialize lib (ml_serialize lib (ml_add lib ''op = read'' m)))
          (ml_rename_last lib ''op = admin''))) (\<lambda>tampered. and_then clock (\<lambda>now.
        ret (\<not> macaroon_verify p lib tampered ''customer/2'' now)))),
     (''extend-lease-rejected'', and_then (bounded 5) (\<lambda>short. and_then clock (\<lambda>t. and_then clock (\<lambda>t'.
        ret (\<not> macaroon_verify p lib (ml_add lib (time_caveat p (t + 10000)) short) ''customer/2'' (t' + 6)))))),
     (''resource-instance-bound'', and_then clock (\<lambda>now. ret (macaroon_verify p lib m ''customer/2'' now))),
     (''cross-resource-rejected'', and_then clock (\<lambda>now. ret (\<not> macaroon_verify p lib m ''customer/1'' now))),
     (''lease-expiry-enforced'', and_then (bounded 1) (\<lambda>leased. and_then clock (\<lambda>now. and_then clock (\<lambda>later.
        ret (macaroon_verify p lib leased ''customer/2'' now \<and> \<not> macaroon_verify p lib leased ''customer/2'' (later + 2))))))])"

subsection \<open>JSON Web Tokens\<close>

text \<open>the library \<^verbatim>\<open>PyJWT\<close> and the clock; a token's times are seconds, \<open>jl_invalid\<close> tells its class of invalid tokens\<close>

record token_claims =
  tk_sub :: string
  tk_aud :: string
  tk_iat :: rat
  tk_exp :: rat

record 's jwt_lib =
  jl_encode :: "token_claims \<Rightarrow> string \<Rightarrow> string \<Rightarrow> ('s, string) act"
  jl_decode :: "string \<Rightarrow> string \<Rightarrow> string list \<Rightarrow> string \<Rightarrow> ('s, json) act"
  jl_now :: "('s, rat) act"
  jl_invalid :: "py_error \<Rightarrow> bool"

definition JWT_SECRET :: string where "JWT_SECRET = ''capability-adversarial/jwt-issuer-key''"

definition JWT_ALG :: string where "JWT_ALG = ''HS256''"

definition ISSUER_POLICY :: "(string \<times> string) list" where
  "ISSUER_POLICY = [(''agent:operator'', ''customer/2''), (''agent:analyst'', ''customer/2'')]"

definition JWT_CAPABILITIES :: "string list" where
  "JWT_CAPABILITIES = [''mint-capability'', ''lease-expiry'', ''resource-instance-binding'']"

definition signed :: "'s jwt_lib \<Rightarrow> string \<Rightarrow> string \<Rightarrow> rat \<Rightarrow> rat \<Rightarrow> ('s, string) act" where
  "signed lib subject resource iat expiry = jl_encode lib \<lparr>tk_sub = subject, tk_aud = resource, tk_iat = iat, tk_exp = expiry\<rparr>
     JWT_SECRET JWT_ALG"

definition jwt_issue :: "'s jwt_lib \<Rightarrow> string \<Rightarrow> string \<Rightarrow> ('s, string option) act" where
  "jwt_issue lib subject resource =
     (if (subject, resource) \<notin> set ISSUER_POLICY then ret None
      else and_then (jl_now lib) (\<lambda>now. and_then (signed lib subject resource now (now + 300)) (\<lambda>t. ret (Some t))))"

definition decoded :: "'s jwt_lib \<Rightarrow> string option \<Rightarrow> string \<Rightarrow> ('s, json) act" where
  "decoded lib token audience = (case token of
       None \<Rightarrow> throw (PyError ''DecodeError'' ''Invalid token type'')
     | Some t \<Rightarrow> jl_decode lib t JWT_SECRET [JWT_ALG] audience)"

text \<open>a call that is expected to raise one of some exceptions\<close>

definition must_refuse :: "(py_error \<Rightarrow> bool) \<Rightarrow> ('s, 'a) act \<Rightarrow> ('s, bool) act" where
  "must_refuse expected m = catch (and_then m (\<lambda>_. ret False)) (\<lambda>e. if expected e then ret True else throw e)"

text \<open>\<^verbatim>\<open>base64.urlsafe_b64encode\<close> without its padding\<close>

definition b64_char :: "nat \<Rightarrow> char" where
  "b64_char n = ''ABCDEFGHIJKLMNOPQRSTUVWXYZabcdefghijklmnopqrstuvwxyz0123456789-_'' ! n"

fun b64url :: "string \<Rightarrow> string" where
  "b64url [] = []"
| "b64url [a] = (let n = 16 * of_char a in map b64_char [n div 64, n mod 64])"
| "b64url [a, b] = (let n = 4 * (256 * of_char a + of_char b) in map b64_char [n div 4096, n div 64 mod 64, n mod 64])"
| "b64url (a # b # c # r) = (let n = 65536 * of_char a + 256 * of_char b + of_char c
     in map b64_char [n div 262144, n div 4096 mod 64, n div 64 mod 64, n mod 64] @ b64url r)"

definition forged_payload :: string where
  "forged_payload = (let q = [CHR 0x22] in b64url (''{'' @ q @ ''sub'' @ q @ '':'' @ q @ ''agent:root'' @ q @ '','' @ q @ ''aud'' @ q
     @ '':'' @ q @ ''customer/2'' @ q @ ''}''))"

text \<open>the payload replaced under the old signature\<close>

definition tampered_token :: "string option \<Rightarrow> string result" where
  "tampered_token token = (case token of
       None \<Rightarrow> raise_error ''AttributeError'' []
     | Some t \<Rightarrow> (case split_on (CHR ''.'') t of
         [h, b, sig] \<Rightarrow> Inr (h @ ''.'' @ forged_payload @ ''.'' @ sig)
       | _ \<Rightarrow> raise_error ''ValueError'' ''wrong number of values to unpack''))"

definition claim_is :: "string \<Rightarrow> string \<Rightarrow> json \<Rightarrow> ('s, bool) act" where
  "claim_is k v c = and_then (lift_result (json_item c k)) (\<lambda>x. ret (x = JStr v))"

definition jwt_case :: "'s jwt_lib \<Rightarrow> json \<Rightarrow> ('s, bool) act" where
  "jwt_case lib =
     (let operator = jwt_issue lib ''agent:operator'' ''customer/2'' in by_case [
     (''mint-authorized'', and_then operator (\<lambda>t. and_then (decoded lib t ''customer/2'') (claim_is ''sub'' ''agent:operator''))),
     (''mint-denied-by-policy'', and_then (jwt_issue lib ''agent:intruder'' ''customer/2'') (\<lambda>t. ret (t = None))),
     (''forged-capability-rejected'', and_then operator (\<lambda>t. and_then (lift_result (tampered_token t)) (\<lambda>forged.
        must_refuse (jl_invalid lib) (decoded lib (Some forged) ''customer/2'')))),
     (''lease-expiry-enforced'', and_then (jl_now lib) (\<lambda>now.
        and_then (signed lib ''agent:operator'' ''customer/2'' (now - 10) (now - 1)) (\<lambda>t.
        must_refuse (\<lambda>e. error_type e = ''ExpiredSignatureError'') (decoded lib (Some t) ''customer/2'')))),
     (''resource-instance-bound'', and_then operator (\<lambda>t. and_then (decoded lib t ''customer/2'') (claim_is ''aud'' ''customer/2''))),
     (''cross-resource-rejected'', and_then operator (\<lambda>t.
        must_refuse (\<lambda>e. error_type e = ''InvalidAudienceError'') (decoded lib t ''customer/1'')))])"

subsection \<open>The adapters\<close>

definition jwt_adapter :: "py_prims \<Rightarrow> 's jwt_lib \<Rightarrow> string \<Rightarrow> ('s, string) act" where
  "jwt_adapter p lib = common_run p ''pyjwt'' JWT_CAPABILITIES (jwt_case lib)"

definition macaroon_adapter :: "py_prims \<Rightarrow> 'm macaroon_lib \<Rightarrow> ('s, rat) act \<Rightarrow> string \<Rightarrow> ('s, string) act" where
  "macaroon_adapter p lib clock = common_run p ''pymacaroons'' MACAROON_CAPABILITIES (macaroon_case p lib clock)"

definition opa_adapter :: "py_prims \<Rightarrow> (string \<Rightarrow> ('s, string) act) \<Rightarrow> string \<Rightarrow> ('s, string) act" where
  "opa_adapter p evaluate = common_run p ''opa-1.19'' DECISION_CAPABILITIES (opa_case p evaluate)"

definition spicedb_adapter :: "py_prims \<Rightarrow> (string \<Rightarrow> json \<Rightarrow> ('s, json) act) \<Rightarrow> string \<Rightarrow> ('s, string) act" where
  "spicedb_adapter p post stdin = and_then (spicedb_setup post) (\<lambda>_.
     common_run p ''spicedb'' DECISION_CAPABILITIES (spicedb_case post) stdin)"

definition openfga_adapter :: "py_prims \<Rightarrow> (string \<Rightarrow> json \<Rightarrow> ('s, json) act) \<Rightarrow> string \<Rightarrow> ('s, string) act" where
  "openfga_adapter p post stdin = and_then (fga_setup p post) (\<lambda>setting.
     common_run p ''openfga'' DECISION_CAPABILITIES (fga_case p post setting) stdin)"

end
