(* ===== verification/SuiteRunProps.thy ===== *)
theory SuiteRunProps
  imports RunProps RenderTables Suites CatalogAdapters CapabilityAdapters
begin

text \<open>
  What the programs around the two suites guarantee: the rows of an adapter arrive in the report as it
  produced them, through two texts and two parsers, and the exit code of a run is the reference's.
\<close>

subsection \<open>Dictionaries that were printed and read\<close>

lemma dict_get_sorted: "dict_ok d \<Longrightarrow> dict_get (sort_key fst d) k = dict_get d k"
  by (metis (no_types, lifting) in_dict_iff not_None_eq set_sort sorted_facts(2))

lemma dict_get_values: "dict_get (map (\<lambda>(k, v). (k, f v)) d) k = map_option f (dict_get d k)"
  by (induction d) auto

lemma dict_ok_values: "dict_ok (map (\<lambda>(k, v). (k, f v)) d) = dict_ok d"
  by (simp add: dict_ok_def comp_def case_prod_beta)

lemma canon_get: "dict_ok d \<Longrightarrow> json_get (canon so (JObj d)) k = Inr (map_option (canon so) (dict_get d k))"
  by (simp add: json_get_def Let_def dict_get_sorted dict_ok_values dict_get_values)

lemma canon_item: "dict_ok d \<Longrightarrow> dict_get d k = Some v \<Longrightarrow> json_item (canon so (JObj d)) k = Inr (canon so v)"
  by (simp add: json_item_def Let_def dict_get_sorted dict_ok_values dict_get_values)

lemma canon_text: "canon so (JStr s) = JStr s"
  by simp

lemma canon_unsorted: "canon False v = v"
  by (induction v) (auto simp: Let_def intro!: map_idI intro: snds.intros)

subsection \<open>Suites that can be sent\<close>

definition case_texts :: "'s suite_case \<Rightarrow> string list" where
  "case_texts c = [sc_id c, sc_capability c, sc_category c, sc_gate c, sc_description c]"

definition suite_ok :: "suite_kind \<Rightarrow> 's suite_case list \<Rightarrow> bool" where
  "suite_ok k suite \<longleftrightarrow> distinct (map sc_id suite) \<and> list_all valid_text (sk_protocol k # sk_capabilities k)
     \<and> list_all (\<lambda>c. list_all valid_text (case_texts c)) suite"

definition case_fields :: "'s suite_case \<Rightarrow> (string, json) pydict" where
  "case_fields c = [(''case_id'', JStr (sc_id c)), (''capability'', JStr (sc_capability c)),
     (''category'', JStr (sc_category c)), (''gate'', JStr (sc_gate c)), (''description'', JStr (sc_description c))]"

definition case_json :: "'s suite_case \<Rightarrow> json" where
  "case_json c = JObj (case_fields c)"

lemma case_fields_get: "dict_ok (case_fields c)" "dict_get (case_fields c) ''case_id'' = Some (JStr (sc_id c))"
  "dict_get (case_fields c) ''capability'' = Some (JStr (sc_capability c))"
  by (simp_all add: case_fields_def dict_ok_def)

lemma ascii_words: "valid_text ''case_id''" "valid_text ''capability''" "valid_text ''category''" "valid_text ''gate''"
  "valid_text ''description''" "valid_text ''protocol''" "valid_text ''cases''" "valid_text ''adapter_version''"
  "valid_text ''capabilities''" "valid_text ''supported''" "valid_text ''correct''"
  by (simp_all add: valid_ascii is_ascii_def)

lemma request_read:
  assumes "suite_ok k suite"
  shows "\<exists>v. json_loads p (suite_request p k suite) = Inr v
    \<and> bind_result (json_item v ''cases'') json_iter = Inr (map (\<lambda>c. canon True (case_json c)) suite)"
proof -
  let ?d = "[(''protocol'', JStr (sk_protocol k)), (''cases'', JList (map case_json suite))]"
  have "printable p (JObj ?d)"
    using assms by (auto simp: suite_ok_def case_json_def case_fields_def case_texts_def dict_ok_def list_all_iff ascii_words)
  from loads_dumps[OF this, of "[]" True] have "json_loads p (suite_request p k suite) = Inr (canon True (JObj ?d))"
    by (simp add: suite_request_def case_json_def[abs_def] case_fields_def[abs_def] blank_def del: canon.simps)
  moreover have "json_item (canon True (JObj ?d)) ''cases'' = Inr (canon True (JList (map case_json suite)))"
    by (rule canon_item) (simp_all add: dict_ok_def)
  ultimately show ?thesis by (auto simp: json_iter_def comp_def)
qed

lemma case_read:
  "json_item (canon so (case_json c)) ''case_id'' = Inr (JStr (sc_id c))"
  "json_item (canon so (case_json c)) ''capability'' = Inr (JStr (sc_capability c))"
  "json_get (canon so (case_json c)) ''capability'' = Inr (Some (JStr (sc_capability c)))"
  by (simp_all only: case_json_def canon_item[OF case_fields_get(1,2)] canon_item[OF case_fields_get(1,3)]
    canon_get[OF case_fields_get(1)] case_fields_get option.map canon_text)

subsection \<open>Answers that are accepted\<close>

definition row_json :: "'s suite_case \<Rightarrow> bool \<times> bool \<Rightarrow> json" where
  "row_json c x = drive_row (JStr (sc_id c)) x"

text \<open>a row as the harness keeps it\<close>

definition kept_row :: "string list \<Rightarrow> 's suite_case \<Rightarrow> bool \<times> bool \<Rightarrow> suite_row" where
  "kept_row caps c x = \<lparr>rw_case_id = sc_id c, rw_capability = sc_capability c, rw_gate = sc_gate c,
     rw_supported = (fst x \<and> sc_capability c \<in> set caps), rw_correct = (fst x \<and> sc_capability c \<in> set caps \<and> snd x)\<rparr>"

lemma row_read: "suite_parse_row caps (row_json c x) c = Inr (kept_row caps c x)"
  by (cases "fst x \<and> sc_capability c \<in> set caps")
    (auto simp: suite_parse_row_def row_json_def drive_row_def get_default_def json_get_def kept_row_def suite_row_of_def Let_def)

lemma rows_looked_up:
  assumes "distinct (map sc_id suite)" "length xs = length suite"
  shows "map_result (\<lambda>c. suite_parse_row caps (the (dict_get (dict_of (map2 (\<lambda>c x. (JStr (sc_id c), row_json c x)) suite xs) [])
      (JStr (sc_id c)))) c) suite = Inr (map2 (kept_row caps) suite xs)"
proof -
  let ?es = "map2 (\<lambda>c x. (JStr (sc_id c), row_json c x)) suite xs"
  have keys: "map fst ?es = map (\<lambda>c. JStr (sc_id c)) suite"
    by (rule nth_equalityI) (use assms(2) in simp_all)
  have d: "distinct (map fst ?es)" unfolding keys using assms(1) by (simp add: distinct_map inj_on_def)
  have get: "dict_get (dict_of ?es []) (JStr (sc_id c)) = Some (row_json c x)" if "(c, x) \<in> set (zip suite xs)" for c x
  proof -
    have "(JStr (sc_id c), row_json c x) \<in> set (rev ?es)" using that by force
    moreover have "dict_ok (rev ?es)" using d unfolding dict_ok_def rev_map[symmetric] distinct_rev .
    ultimately have "dict_get (rev ?es) (JStr (sc_id c)) = Some (row_json c x)" by (simp only: in_dict_iff)
    then show ?thesis by (simp only: dict_get_of map_of.simps map_add_find_right)
  qed
  show ?thesis unfolding map_result_Inr_iff list_all2_conv_all_nth
  proof (intro conjI allI impI)
    show "length suite = length (map2 (kept_row caps) suite xs)" using assms(2) by simp
    fix i
    assume i: "i < length suite"
    then have "(suite ! i, xs ! i) \<in> set (zip suite xs)" using assms(2) by (auto simp: set_zip)
    from get[OF this] i assms(2) show "suite_parse_row caps (the (dict_get (dict_of ?es []) (JStr (sc_id (suite ! i))))) (suite ! i)
        = Inr (map2 (kept_row caps) suite xs ! i)"
      by (simp add: row_read)
  qed
qed

lemma claimed_sorted:
  assumes "set caps \<subseteq> set (sk_capabilities k)"
  shows "claimed_capabilities k (map JStr (sort (remdups caps))) = sort (remdups caps)"
proof -
  have "claimed_capabilities k (map JStr cs) = cs" if "set cs \<subseteq> set (sk_capabilities k)" for cs
    using that by (induction cs) (simp_all add: claimed_capabilities_def)
  then show ?thesis using assms by simp
qed

text \<open>the printed output of an adapter is accepted, with the rows it holds\<close>

lemma output_read:
  assumes "suite_ok k suite" "set caps \<subseteq> set (sk_capabilities k)" "valid_text version" "length xs = length suite" "blank w"
  shows "suite_parse p k (json_dumps p False (common_output version caps (map2 row_json suite xs)) @ w) suite
    = Inr (py_take 64 version, sort (remdups caps), map2 (kept_row caps) suite xs)"
proof -
  let ?v = "common_output version caps (map2 row_json suite xs)"
  have dist: "distinct (map sc_id suite)" using assms(1) by (simp add: suite_ok_def)
  have "printable p (row_json c x)" if "(c, x) \<in> set (zip suite xs)" for c x
    using assms(1) set_zip_leftD[OF that]
    by (auto simp: row_json_def drive_row_def dict_ok_def ascii_words suite_ok_def list_all_iff case_texts_def)
  then have "printable p ?v"
    using assms(1-3) by (auto simp: common_output_def dict_ok_def ascii_words suite_ok_def list_all_iff)
  from loads_dumps[OF this assms(5), of False]
  have l: "json_loads p (json_dumps p False ?v @ w) = Inr ?v" by (simp add: canon_unsorted)
  have es: "map_result row_entry (map2 row_json suite xs) = Inr (map2 (\<lambda>c x. (JStr (sc_id c), row_json c x)) suite xs)"
    by (auto simp: map_result_Inr_iff list_all2_conv_all_nth row_entry_def json_item_def row_json_def drive_row_def)
  have "fst ` set (map2 (\<lambda>c x. (JStr (sc_id c), row_json c x)) suite xs) = (\<lambda>c. JStr (sc_id c)) ` fst ` set (zip suite xs)"
    by force
  also have "fst ` set (zip suite xs) = set suite" by (metis assms(4) list.set_map map_fst_zip)
  finally have keys: "set (dict_keys (dict_of (map2 (\<lambda>c x. (JStr (sc_id c), row_json c x)) suite xs) []))
      = (\<lambda>c. JStr (sc_id c)) ` set suite"
    by (simp add: dict_keys_def keys_dict_of)
  have kept: "map2 (kept_row (sort (remdups caps))) suite xs = map2 (kept_row caps) suite xs"
    by (simp add: kept_row_def[abs_def])
  show ?thesis
    using rows_looked_up[OF dist assms(4), of "sort (remdups caps)"] es keys
    by (simp add: suite_parse_def l) (simp add: common_output_def get_default_def json_get_def json_item_def json_iter_def
        claimed_sorted[OF assms(2)] kept)
qed

subsection \<open>Loops over a suite\<close>

lemma map_act_map:
  assumes "\<And>x. x \<in> set xs \<Longrightarrow> f (g x) = and_then (h x) (\<lambda>y. ret (j x y))" "map_act h xs s = (Inr ys, t)"
  shows "map_act f (map g xs) s = (Inr (map2 j xs ys), t)"
  using assms
proof (induction xs arbitrary: s ys)
  case (Cons x xs)
  from Cons.prems(2) obtain y u ys' where y: "h x s = (Inr y, u)" "map_act h xs u = (Inr ys', t)" "ys = y # ys'"
    by (auto elim!: and_then_cases)
  have "map_act f (map g xs) u = (Inr (map2 j xs ys'), t)" by (rule Cons.IH) (use Cons.prems(1) y(2) in auto)
  with y Cons.prems(1)[of x] show ?case by simp
qed simp

definition never_raises :: "('s, 'a) act \<Rightarrow> bool" where
  "never_raises m \<longleftrightarrow> (\<forall>s. \<exists>x t. m s = (Inr x, t))"

lemma map_act_total:
  assumes "\<And>x. x \<in> set xs \<Longrightarrow> never_raises (h x)"
  shows "\<exists>ys t. map_act h xs s = (Inr ys, t) \<and> length ys = length xs"
  using assms
proof (induction xs arbitrary: s)
  case (Cons x xs)
  have "never_raises (h x)" using Cons.prems by simp
  then obtain y u where "h x s = (Inr y, u)" unfolding never_raises_def by blast
  moreover obtain ys t where "map_act h xs u = (Inr ys, t)" "length ys = length xs" using Cons.IH[of u] Cons.prems by auto
  ultimately show ?case by simp
qed simp

lemma never_raises_ret: "never_raises (ret x)"
  by (simp add: never_raises_def)

lemma never_raises_then: "never_raises m \<Longrightarrow> (\<And>x. never_raises (k x)) \<Longrightarrow> never_raises (and_then m k)"
  by (simp add: never_raises_def) (metis and_then_simps(1))

lemma never_raises_catch: "(\<And>e. never_raises (h e)) \<Longrightarrow> never_raises (catch m h)"
  unfolding never_raises_def catch_def by (auto split: prod.splits sum.splits)

lemmas never_raising = never_raises_ret never_raises_then never_raises_catch

subsection \<open>An adapter and its report\<close>

text \<open>
  The supported flag and the verdict that a case must get: an unclaimed case is neither asked nor
  supported, the answer of a probe is the verdict, and a probe that raises is a failure of its case. The
  state goes on from where the probe left it.
\<close>

definition verdict :: "string list \<Rightarrow> (json \<Rightarrow> ('s, bool) act) \<Rightarrow> 'g suite_case \<Rightarrow> ('s, bool \<times> bool) act" where
  "verdict caps ask c s =
     (if sc_capability c \<in> set caps
      then (case ask (JStr (sc_id c)) s of
              (Inr b, t) \<Rightarrow> (Inr (True, b), t)
            | (Inl e, t) \<Rightarrow> (Inr (True, False), t))
      else (Inr (False, False), s))"

lemma verdict_eq: "verdict caps ask c = (if sc_capability c \<in> set caps
     then and_then (probe ask (JStr (sc_id c))) (\<lambda>ok. ret (True, ok)) else ret (False, False))"
  by (rule ext) (auto simp: verdict_def probe_def catch_def and_then_def split: prod.split sum.split)

lemma verdict_total: "never_raises (verdict caps ask c)"
  by (auto simp: verdict_eq probe_def intro: never_raising)

lemma and_then_assoc: "and_then (and_then m f) g = and_then m (\<lambda>x. and_then (f x) g)"
  by (rule ext) (simp add: and_then_def split: prod.splits sum.splits)

lemma lift_ok: "and_then (lift_result (Inr x)) k = k x"
  by (rule ext) simp

lemma common_row_verdict: "common_row caps ask (canon True (case_json c)) = and_then (verdict caps ask c) (\<lambda>x. ret (row_json c x))"
  by (simp add: common_row_def case_read lift_ok the_default_def hashable_def claims_def verdict_eq row_json_def drive_row_def
      and_then_assoc) (simp add: ret_def[abs_def])

lemma common_run_output:
  assumes "suite_ok k suite" "map_act (verdict caps ask) suite s = (Inr xs, t)"
  shows "common_run p version caps ask (suite_request p k suite) s
    = (Inr (json_dumps p False (common_output version caps (map2 row_json suite xs))), t)"
proof -
  obtain v where v: "json_loads p (suite_request p k suite) = Inr v"
    "bind_result (json_item v ''cases'') json_iter = Inr (map (\<lambda>c. canon True (case_json c)) suite)"
    using request_read[OF assms(1)] by blast
  have "map_act (common_row caps ask) (map (\<lambda>c. canon True (case_json c)) suite) s = (Inr (map2 row_json suite xs), t)"
    by (rule map_act_map[OF _ assms(2)]) (rule common_row_verdict)
  with v show ?thesis by (simp add: common_run_def)
qed

subsection \<open>The two suites\<close>

definition sendable :: "'s suite_case \<Rightarrow> bool" where
  "sendable c \<longleftrightarrow> list_all is_ascii (case_texts c)"

lemma suite_okI:
  assumes "distinct (map sc_id suite)" "list_all is_ascii (sk_protocol k # sk_capabilities k)" "list_all sendable suite"
  shows "suite_ok k suite"
  using assms by (auto simp: suite_ok_def sendable_def list_all_iff intro: valid_ascii)

lemma guard_suite_ok: "suite_ok GUARD_KIND guard_cases"
proof (rule suite_okI)
  show "distinct (map sc_id guard_cases)" by (simp add: guard_cases_def new_suite_case_def)
  show "list_all is_ascii (sk_protocol GUARD_KIND # sk_capabilities GUARD_KIND)"
    by (simp add: GUARD_KIND_def GUARD_CAPABILITIES_def is_ascii_def)
  show "list_all sendable guard_cases"
    by (simp add: guard_cases_def new_suite_case_def sendable_def case_texts_def is_ascii_def)
qed

lemma catalog_suite_ok: "suite_ok CATALOG_KIND catalog_cases"
proof (rule suite_okI)
  show "distinct (map sc_id catalog_cases)" by (simp add: catalog_cases_def new_suite_case_def)
  show "list_all is_ascii (sk_protocol CATALOG_KIND # sk_capabilities CATALOG_KIND)"
    by (simp add: CATALOG_KIND_def CATALOG_CAPABILITIES_def is_ascii_def)
  show "list_all sendable catalog_cases"
    by (simp add: catalog_cases_def new_suite_case_def sendable_def case_texts_def is_ascii_def)
qed

lemma external_of_output:
  assumes "py_strip (environ_get env variable) \<noteq> []" "dict_get env (sk_timeout_variable k) = None"
    "spawn (py_strip (environ_get env variable)) (suite_request p k suite) 900 = Inr out"
    "suite_parse p k out suite = Inr (version, caps, rows)"
  shows "suite_external p k spawn suite env (name, variable) = suite_finish k name version caps rows"
  using assms by (simp add: suite_external_def Let_def)

text \<open>a scored case as the entry of a system shows it\<close>

definition scored_case :: "suite_row \<Rightarrow> json" where
  "scored_case r = JObj [(''case_id'', JStr (rw_case_id r)), (''capability'', JStr (rw_capability r)),
     (''gate'', JStr (rw_gate r)), (''supported'', JBool (rw_supported r)), (''correct'', JBool (rw_correct r))]"

text \<open>an executed entry with these scored cases, in this order\<close>

definition shows_cases :: "suite_row list \<Rightarrow> (string, json) pydict result \<Rightarrow> bool" where
  "shows_cases rows r \<longleftrightarrow> (\<exists>e. r = Inr e \<and> dict_get e ''status'' = Some (JStr ''executed'')
     \<and> dict_get e ''cases'' = Some (JList (map scored_case rows)))"

lemma gate_loop_returns:
  assumes "\<forall>r \<in> set rows. rw_gate r \<in> insert [] (fst ` set gates)"
  shows "\<exists>out. suite_gate_loop rows gates = Inr out"
  using assms
proof (induction rows arbitrary: gates)
  case (Cons r rows)
  show ?case
  proof (cases "trips r")
    case True
    then have "rw_gate r \<in> fst ` set gates" using Cons.prems by (auto simp: trips_def)
    then obtain n where n: "dict_get gates (rw_gate r) = Some n" by (metis map_of_eq_None_iff option.exhaust)
    have "\<forall>r' \<in> set rows. rw_gate r' \<in> insert [] (fst ` set (dict_set (rw_gate r) (n + 1) gates))"
      using Cons.prems by (auto simp: image_iff)
    from Cons.IH[OF this] n True show ?thesis by simp
  qed (use Cons in simp)
qed simp

lemma finish_shows:
  assumes "\<forall>r \<in> set rows. rw_gate r \<in> insert [] (set (sk_gates k))" "sk_key k \<in> {''system'', ''catalog''}"
  shows "shows_cases rows (suite_finish k name version caps rows)"
proof -
  have "\<exists>gates. suite_gates (sk_gates k) rows = Inr gates"
    unfolding suite_gates_def by (rule gate_loop_returns) (use assms(1) in \<open>force simp: image_iff\<close>)
  with assms(2) show ?thesis by (auto simp: suite_finish_def shows_cases_def scored_case_def suite_row_json_def)
qed

lemma kept_gates: "\<forall>c \<in> set suite. sc_gate c \<in> G \<Longrightarrow> \<forall>r \<in> set (map2 (kept_row caps) suite xs). rw_gate r \<in> G"
  by (auto simp: kept_row_def dest: set_zip_leftD)

lemma guard_shows: "shows_cases (map2 (kept_row caps) guard_cases xs) (suite_finish GUARD_KIND name version cs (map2 (kept_row caps) guard_cases xs))"
proof (rule finish_shows[OF kept_gates])
  have "list_all (\<lambda>c. sc_gate c \<in> insert [] (set (sk_gates GUARD_KIND))) guard_cases"
    by (simp add: guard_cases_def new_suite_case_def GUARD_KIND_def GUARD_GATES_def)
  then show "\<forall>c \<in> set guard_cases. sc_gate c \<in> insert [] (set (sk_gates GUARD_KIND))" by (simp only: list_all_iff)
qed (simp add: GUARD_KIND_def)

lemma catalog_shows: "shows_cases (map2 (kept_row caps) catalog_cases xs) (catalog_finish name version cs (map2 (kept_row caps) catalog_cases xs))"
  unfolding catalog_finish_def
proof (rule finish_shows[OF kept_gates])
  have "list_all (\<lambda>c. sc_gate c \<in> insert [] (set (sk_gates CATALOG_KIND))) catalog_cases"
    by (simp add: catalog_cases_def new_suite_case_def CATALOG_KIND_def CATALOG_GATES_def)
  then show "\<forall>c \<in> set catalog_cases. sc_gate c \<in> insert [] (set (sk_gates CATALOG_KIND))" by (simp only: list_all_iff)
qed (simp add: CATALOG_KIND_def)

lemma adapter_arrives:
  assumes "set caps \<subseteq> set GUARD_CAPABILITIES" "valid_text version"
    "py_strip (environ_get env variable) \<noteq> []" "dict_get env ''CAPABILITY_ADVERSARIAL_TIMEOUT_SECONDS'' = None"
    "map_act (verdict caps ask) guard_cases s = (Inr xs, t)" "length xs = length guard_cases"
    "\<And>r. fst (run r) = fst (common_run p version caps ask r s)"
  shows "suite_external p GUARD_KIND (\<lambda>command request timeout. fst (run request)) guard_cases env (name, variable)
      = suite_finish GUARD_KIND name (py_take 64 version) (sort (remdups caps)) (map2 (kept_row caps) guard_cases xs)"
proof -
  have caps: "set caps \<subseteq> set (sk_capabilities GUARD_KIND)" using assms(1) by (simp add: GUARD_KIND_def)
  show ?thesis
    by (rule external_of_output[OF assms(3) _ _ output_read[OF guard_suite_ok caps assms(2,6), of "[]" p, simplified append_Nil2]])
      (simp_all add: GUARD_KIND_def assms(4,7) common_run_output[OF guard_suite_ok[unfolded GUARD_KIND_def] assms(5)] blank_def)
qed

text \<open>C34: The verdicts of an adapter reach the report unchanged: whatever library an adapter of the
capability benchmark probes, its loop over the requested cases never fails, and after both texts were
printed and parsed each case is scored in its order, as supported exactly if the adapter claims the
capability of the case and as correct exactly if its probe answered so; a probe that raises counts as
incorrect.\<close>

theorem adapter_verdicts_arrive:
  assumes "set caps \<subseteq> set GUARD_CAPABILITIES" "valid_text version"
    "py_strip (environ_get env variable) \<noteq> []" "dict_get env ''CAPABILITY_ADVERSARIAL_TIMEOUT_SECONDS'' = None"
  shows "\<exists>xs t. map_act (verdict caps ask) guard_cases s = (Inr xs, t) \<and> length xs = length guard_cases
    \<and> suite_external p GUARD_KIND (\<lambda>command request timeout. fst (common_run p version caps ask request s)) guard_cases env
        (name, variable)
      = suite_finish GUARD_KIND name (py_take 64 version) (sort (remdups caps)) (map2 (kept_row caps) guard_cases xs)
    \<and> shows_cases (map2 (kept_row caps) guard_cases xs)
        (suite_external p GUARD_KIND (\<lambda>command request timeout. fst (common_run p version caps ask request s)) guard_cases env
          (name, variable))"
proof -
  obtain xs t where x: "map_act (verdict caps ask) guard_cases s = (Inr xs, t)" "length xs = length guard_cases"
    using map_act_total[of guard_cases "verdict caps ask" s] verdict_total by blast
  from adapter_arrives[OF assms x, of "\<lambda>request. common_run p version caps ask request s" p name] x guard_shows[of caps xs]
  show ?thesis by metis
qed

text \<open>
  The supported flag and the verdict that a case must get from a catalog: an unclaimed case is not run, a
  claimed one runs its scenario on a fresh table, \<^verbatim>\<open>Unsupported\<close> makes it unsupported, and every other
  exception, of the reset or the creation of the table too, makes it supported and incorrect.
\<close>

definition drive_verdict :: "'s catalog_system \<Rightarrow> 'g suite_case \<Rightarrow> ('s, bool \<times> bool) act" where
  "drive_verdict sys c s =
     (if sc_capability c \<in> set (cy_capabilities sys)
      then (case and_then (cy_reset sys) (\<lambda>_. and_then (cy_create sys ''sales.events'') (\<lambda>_.
                  scenario_for sys (JStr (sc_id c)))) s of
              (Inr b, t) \<Rightarrow> (Inr (True, b), t)
            | (Inl e, t) \<Rightarrow> if error_type e = ''Unsupported'' then (Inr (False, False), t) else (Inr (True, False), t))
      else (Inr (False, False), s))"

lemma drive_verdict_eq: "drive_verdict sys c =
   (if sc_capability c \<in> set (cy_capabilities sys) then drive_case sys (JStr (sc_id c)) else ret (False, False))"
  by (rule ext) (auto simp: drive_verdict_def drive_case_def prepare_table_def SALES_def catch_def and_then_def
    split: prod.splits sum.splits)

lemma drive_verdict_total: "never_raises (drive_verdict sys c)"
  by (auto simp: drive_verdict_eq drive_case_def intro: never_raising)

lemma catalog_row_verdict: "catalog_row sys (canon True (case_json c)) = and_then (drive_verdict sys c) (\<lambda>x. ret (row_json c x))"
  by (simp add: catalog_row_def case_read lift_ok hashable_def claims_def drive_verdict_eq row_json_def)

lemma catalog_drive_output:
  assumes "suite_ok k suite" "preflight sys s = (Inr (), u)" "map_act (drive_verdict sys) suite u = (Inr xs, t)"
  shows "catalog_drive p sys (suite_request p k suite) s
    = (Inr (json_dumps p False (drive_output sys (map2 row_json suite xs)) @ [CHR 0x0A]), t)"
proof -
  obtain v where v: "json_loads p (suite_request p k suite) = Inr v"
    "bind_result (json_item v ''cases'') json_iter = Inr (map (\<lambda>c. canon True (case_json c)) suite)"
    using request_read[OF assms(1)] by blast
  have "map_act (catalog_row sys) (map (\<lambda>c. canon True (case_json c)) suite) u = (Inr (map2 row_json suite xs), t)"
    by (rule map_act_map[OF _ assms(3)]) (rule catalog_row_verdict)
  with v assms(2) show ?thesis by (simp add: catalog_drive_def)
qed

lemma catalog_arrives:
  assumes "set (cy_capabilities sys) \<subseteq> set CATALOG_CAPABILITIES" "valid_text (cy_name sys @ ''-'' @ cy_version sys)"
    "py_strip (environ_get env variable) \<noteq> []" "dict_get env ''CATALOG_PROVENANCE_TIMEOUT_SECONDS'' = None"
    "preflight sys s = (Inr (), u)" "map_act (drive_verdict sys) catalog_cases u = (Inr xs, t)" "length xs = length catalog_cases"
  shows "external_catalog p (\<lambda>command request timeout. fst (catalog_drive p sys request s)) catalog_cases env (name, variable)
      = catalog_finish name (py_take 64 (cy_name sys @ ''-'' @ cy_version sys)) (sort (remdups (cy_capabilities sys)))
          (map2 (kept_row (cy_capabilities sys)) catalog_cases xs)"
proof -
  let ?caps = "cy_capabilities sys"
  have caps: "set ?caps \<subseteq> set (sk_capabilities CATALOG_KIND)" using assms(1) by (simp add: CATALOG_KIND_def)
  have nl: "blank [CHR 0x0A]" by (simp add: blank_def json_space_def)
  show ?thesis
    unfolding external_catalog_def catalog_finish_def
    by (rule external_of_output[OF assms(3) _ _ output_read[OF catalog_suite_ok caps assms(2,7) nl, of p]])
      (simp_all add: CATALOG_KIND_def assms(4) catalog_drive_output[OF catalog_suite_ok[unfolded CATALOG_KIND_def] assms(5,6)]
        drive_output_def)
qed

text \<open>C35: A real catalog is scored on what it backs: once the preflight commit goes through, no failure of
the catalog escapes the driver, and every case arrives in the report in its order; a case whose
capability the catalog does not claim is unsupported and is not run at all, a case it declines by
raising is unsupported, any other exception makes the case supported and incorrect.\<close>

theorem catalog_verdicts_arrive:
  assumes "set (cy_capabilities sys) \<subseteq> set CATALOG_CAPABILITIES" "valid_text (cy_name sys @ ''-'' @ cy_version sys)"
    "py_strip (environ_get env variable) \<noteq> []" "dict_get env ''CATALOG_PROVENANCE_TIMEOUT_SECONDS'' = None"
    "preflight sys s = (Inr (), u)"
  shows "\<exists>xs t. map_act (drive_verdict sys) catalog_cases u = (Inr xs, t) \<and> length xs = length catalog_cases
    \<and> external_catalog p (\<lambda>command request timeout. fst (catalog_drive p sys request s)) catalog_cases env (name, variable)
      = catalog_finish name (py_take 64 (cy_name sys @ ''-'' @ cy_version sys)) (sort (remdups (cy_capabilities sys)))
          (map2 (kept_row (cy_capabilities sys)) catalog_cases xs)
    \<and> shows_cases (map2 (kept_row (cy_capabilities sys)) catalog_cases xs)
        (external_catalog p (\<lambda>command request timeout. fst (catalog_drive p sys request s)) catalog_cases env (name, variable))"
proof -
  obtain xs t where x: "map_act (drive_verdict sys) catalog_cases u = (Inr xs, t)" "length xs = length catalog_cases"
    using map_act_total[of catalog_cases "drive_verdict sys" u] drive_verdict_total by blast
  from catalog_arrives[OF assms x, of p name] x catalog_shows[of "cy_capabilities sys" xs] show ?thesis by metis
qed

subsection \<open>The exit code of the two programs\<close>

lemma gate_loop_trips:
  assumes "suite_gate_loop rows gates = Inr out" "list_all (\<lambda>e. 0 \<le> snd e) gates"
  shows "list_ex (\<lambda>e. snd e \<noteq> 0) out \<longleftrightarrow> list_ex (\<lambda>e. snd e \<noteq> 0) gates \<or> list_ex trips rows"
  using assms
proof (induction rows arbitrary: gates)
  case (Cons r rows)
  show ?case
  proof (cases "trips r")
    case True
    then obtain n where n: "dict_get gates (rw_gate r) = Some n" "suite_gate_loop rows (dict_set (rw_gate r) (n + 1) gates) = Inr out"
      using Cons.prems(1) by (auto split: option.splits)
    have "0 \<le> n" using Cons.prems(2) map_of_SomeD[OF n(1)] by (auto simp: list_all_iff)
    moreover have "set (dict_set (rw_gate r) (n + 1) gates) \<subseteq> insert (rw_gate r, n + 1) (set gates)"
      by (induction gates) auto
    moreover have "(rw_gate r, n + 1) \<in> set (dict_set (rw_gate r) (n + 1) gates)"
      by (rule map_of_SomeD) simp
    ultimately have "list_all (\<lambda>e. 0 \<le> snd e) (dict_set (rw_gate r) (n + 1) gates)"
      "list_ex (\<lambda>e. snd e \<noteq> 0) (dict_set (rw_gate r) (n + 1) gates)"
      using Cons.prems(2) by (auto simp: list_all_iff list_ex_iff intro!: bexI[of _ "(rw_gate r, n + 1)"])
    with Cons.IH[OF n(2)] True show ?thesis by simp
  next
    case False
    with Cons show ?thesis by simp
  qed
qed simp

definition book_kind :: "suite_kind \<Rightarrow> bool" where
  "book_kind k \<longleftrightarrow> sk_key k \<in> {''system'', ''catalog''} \<and> ''reference'' \<notin> fst ` set (sk_systems k)"

lemma book_kinds: "book_kind GUARD_KIND" "book_kind CATALOG_KIND"
  by (simp_all add: book_kind_def GUARD_KIND_def CATALOG_KIND_def GUARD_SYSTEMS_def EXTERNAL_CATALOGS_def)

lemma finish_fields:
  assumes "suite_finish k name version caps rows = Inr e"
  shows "dict_get e (sk_key k) = Some (JStr name)"
    "book_kind k \<Longrightarrow> is_executed e \<and> (gates_tripped e \<longleftrightarrow> list_ex trips rows)"
proof -
  obtain gates where g: "suite_gates (sk_gates k) rows = Inr gates"
    "e = [(sk_key k, JStr name), (''adapter_version'', JStr version), (''status'', JStr ''executed''),
          (''capabilities'', JStrs (sort caps)), (''hard_gates'', JObj (map (\<lambda>(g, n). (g, JInt n)) gates)),
          (''summary'', JObj (suite_summary rows)), (''cases'', JList (map suite_row_json rows))]"
    using assms by (auto simp: suite_finish_def bind_result_Inr_iff)
  then show "dict_get e (sk_key k) = Some (JStr name)" by simp
  have "list_ex (\<lambda>e. snd e \<noteq> 0) gates \<longleftrightarrow> list_ex trips rows"
    using gate_loop_trips[OF g(1)[unfolded suite_gates_def]] by (simp add: list_all_iff list_ex_iff)
  then show "is_executed e \<and> (gates_tripped e \<longleftrightarrow> list_ex trips rows)" if "book_kind k"
    using that g(2) by (auto simp: book_kind_def is_executed_def gates_tripped_def dict_values_def list_ex_iff case_prod_beta)
qed

lemma external_key:
  assumes "suite_external p k spawn suite env (name, variable) = Inr e"
  shows "dict_get e (sk_key k) = Some (JStr name)"
proof (cases "py_strip (environ_get env variable) = []")
  case True
  with assms show ?thesis by (auto simp: suite_external_def)
next
  case False
  then obtain n where n: "(case bind_result (spawn (py_strip (environ_get env variable)) (suite_request p k suite) n)
        (\<lambda>out. suite_parse p k out suite) of
      Inl e \<Rightarrow> Inr [(sk_key k, JStr name), (''status'', JStr ''error''), (''error'', JStr (suite_error e))]
    | Inr (version, caps, rows) \<Rightarrow> suite_finish k name version caps rows) = Inr e"
    using assms by (auto simp: suite_external_def Let_def bind_result_Inr_iff)
  then show ?thesis
    by (cases "bind_result (spawn (py_strip (environ_get env variable)) (suite_request p k suite) n) (\<lambda>out. suite_parse p k out suite)")
      (auto intro: finish_fields(1) split: prod.splits)
qed

lemma with_result_fields:
  assumes "book_kind k"
  shows "dict_get (with_result e) (sk_key k) = dict_get e (sk_key k)"
    "dict_get (with_result e) ''status'' = dict_get e ''status''" "gates_tripped (with_result e) = gates_tripped e"
  using assms by (auto simp: with_result_def gates_tripped_def book_kind_def)

lemma overall_of_run:
  assumes "book_kind k" "suite_systems p k spawn start selected suite env = Inr systems"
  shows "suite_overall k (map with_result systems) = ''pass''
    \<longleftrightarrow> ''reference'' \<in> set selected \<and> (\<forall>c \<in> set suite. sc_gate c \<noteq> [] \<longrightarrow> run_suite_case start c = Inr True)"
proof -
  let ?is_ref = "\<lambda>e. dict_get e (sk_key k) = Some (JStr ''reference'')"
  obtain first rest where fr: "systems = first @ rest"
    "(if ''reference'' \<in> set selected then map_result (\<lambda>_. suite_reference k start suite) [()] else Inr []) = Inr first"
    "map_result (suite_external p k spawn suite env) (filter (\<lambda>(n, v). n \<in> set selected) (sk_systems k)) = Inr rest"
    using assms(2) by (auto simp: suite_systems_def Let_def bind_result_Inr_iff split: if_splits)
  have rest: "\<not> ?is_ref (with_result e)" if mem: "e \<in> set rest" for e
  proof -
    obtain x where x: "x \<in> set (sk_systems k)" "suite_external p k spawn suite env x = Inr e"
      using map_result_mem[OF fr(3) mem] by auto
    then have "dict_get e (sk_key k) = Some (JStr (fst x))" using external_key by (metis prod.collapse)
    moreover have "fst x \<noteq> ''reference''" using x(1) assms(1) by (force simp: book_kind_def)
    ultimately show ?thesis by (simp add: with_result_fields[OF assms(1)])
  qed
  then have none: "find ?is_ref (map with_result rest) = None" by (auto simp: find_None_iff)
  show ?thesis
  proof (cases "''reference'' \<in> set selected")
    case False
    with fr none show ?thesis by (simp add: suite_overall_def)
  next
    case True
    then obtain e where e: "first = [e]" "suite_reference k start suite = Inr e" using fr(2) by (auto simp: bind_result_Inr_iff)
    then obtain rows where rows: "suite_finish k ''reference'' (sk_version k) (sk_capabilities k) rows = Inr e"
      and l: "list_all2 (\<lambda>c r. bind_result (run_suite_case start c) (\<lambda>ok. Inr (suite_row_of c True ok)) = Inr r) suite rows"
      unfolding suite_reference_def bind_result_Inr_iff map_result_Inr_iff by blast
    have l: "list_all2 (\<lambda>c r. \<exists>ok. run_suite_case start c = Inr ok \<and> r = suite_row_of c True ok) suite rows"
      using l by (rule list_all2_mono) (auto simp: bind_result_Inr_iff)
    have "list_ex trips rows \<longleftrightarrow> (\<exists>c \<in> set suite. sc_gate c \<noteq> [] \<and> run_suite_case start c \<noteq> Inr True)"
      using l by (induction rule: list_all2_induct) (auto simp: trips_def suite_row_of_def)
    with e(1) fr(1) True finish_fields(1)[OF rows] finish_fields(2)[OF rows assms(1)] show ?thesis
      by (auto simp: suite_overall_def with_result_fields[OF assms(1)] is_executed_def)
  qed
qed

lemma suite_main_exit:
  assumes "book_kind k" "suite_main su k start suite args = Inr out" "\<not> sa_pin args"
  shows "ro_exit out = 0 \<longleftrightarrow> ''reference'' \<in> set (suite_selection k args)
    \<and> (\<forall>c \<in> set suite. sc_gate c \<noteq> [] \<longrightarrow> run_suite_case start c = Inr True)"
proof -
  obtain entries report status where r: "suite_run su k start suite args = Inr (entries, report)"
    "json_item report ''status'' = Inr status" "ro_exit out = (if status \<noteq> JStr ''pass'' then 1 else 0)"
    using assms(2,3) by (auto simp: suite_main_def Let_def bind_result_Inr_iff)
  obtain d systems where s: "suite_systems (su_prims su) k (su_spawn su) start (suite_selection k args) suite (su_environ su) = Inr systems"
    "entries = map with_result systems"
    "suite_report k [(''harness'', su_platform su), (''corpus'', sk_version k)] d entries = Inr report"
    using r(1) by (auto simp: suite_run_def Let_def bind_result_Inr_iff)
  have "status = JStr (suite_overall k entries)"
    using r(2) s(3) by (auto simp: suite_report_def Let_def json_item_def split: if_splits)
  with r(3) overall_of_run[OF assms(1) s(1)] s(2) show ?thesis by auto
qed

text \<open>C33: What decides the exit code of the two programs of the book: a run that ends without an exception
exits with 0 exactly when the reference was selected and gave the expected outcome in every case that
carries a gate. A failure in a case without a gate, and every answer, failure or verdict of an external
system, leaves it as it is.\<close>

theorem suite_exit_exact:
  assumes "suite_main su k start suite args = Inr out" "\<not> sa_pin args" "k \<in> {GUARD_KIND, CATALOG_KIND}"
  shows "ro_exit out = 0 \<longleftrightarrow> ''reference'' \<in> set (suite_selection k args)
    \<and> (\<forall>c \<in> set suite. sc_gate c \<noteq> [] \<longrightarrow> run_suite_case start c = Inr True)"
  using assms(3) suite_main_exit[OF _ assms(1,2)] book_kinds by blast

lemma configured: "py_strip (environ_get [(v, ''run'')] v) \<noteq> []"
  by (simp add: environ_get_def py_strip_def single_space)

lemma adapter_verdicts_arrive_witness:
  "\<exists>xs t. map_act (verdict DECISION_CAPABILITIES (by_case [])) guard_cases () = (Inr xs, t) \<and> length xs = length guard_cases
    \<and> suite_external sample_prims GUARD_KIND
        (\<lambda>command request timeout. fst (common_run sample_prims ''opa-1.19'' DECISION_CAPABILITIES (by_case []) request ()))
        guard_cases [(''OPA_CMD'', ''run'')] (''opa'', ''OPA_CMD'')
      = suite_finish GUARD_KIND ''opa'' (py_take 64 ''opa-1.19'') (sort (remdups DECISION_CAPABILITIES))
          (map2 (kept_row DECISION_CAPABILITIES) guard_cases xs)
    \<and> shows_cases (map2 (kept_row DECISION_CAPABILITIES) guard_cases xs) (suite_external sample_prims GUARD_KIND
        (\<lambda>command request timeout. fst (common_run sample_prims ''opa-1.19'' DECISION_CAPABILITIES (by_case []) request ()))
        guard_cases [(''OPA_CMD'', ''run'')] (''opa'', ''OPA_CMD''))"
proof (rule adapter_verdicts_arrive)
  show "set DECISION_CAPABILITIES \<subseteq> set GUARD_CAPABILITIES" by code_simp
  show "valid_text ''opa-1.19''" by (simp add: valid_ascii is_ascii_def)
qed (simp_all add: configured)

text \<open>a catalog that accepts every commit\<close>

definition willing :: "unit catalog_system" where
  "willing = base_system\<lparr>cy_name := ''willing'', cy_capabilities := [''commit''], cy_reset := ret (), cy_create := (\<lambda>t. ret ()),
     cy_pointer := (\<lambda>t. ret ''p''), cy_commit := (\<lambda>t e u k. ret [(''ok'', JBool True)])\<rparr>"

lemma catalog_verdicts_arrive_witness:
  "\<exists>xs t. map_act (drive_verdict willing) catalog_cases () = (Inr xs, t) \<and> length xs = length catalog_cases
    \<and> external_catalog sample_prims (\<lambda>command request timeout. fst (catalog_drive sample_prims willing request ())) catalog_cases
        [(''CMD'', ''run'')] (''polaris'', ''CMD'')
      = catalog_finish ''polaris'' (py_take 64 (cy_name willing @ ''-'' @ cy_version willing)) (sort (remdups (cy_capabilities willing)))
          (map2 (kept_row (cy_capabilities willing)) catalog_cases xs)
    \<and> shows_cases (map2 (kept_row (cy_capabilities willing)) catalog_cases xs) (external_catalog sample_prims
        (\<lambda>command request timeout. fst (catalog_drive sample_prims willing request ())) catalog_cases [(''CMD'', ''run'')] (''polaris'', ''CMD''))"
proof (rule catalog_verdicts_arrive)
  show "set (cy_capabilities willing) \<subseteq> set CATALOG_CAPABILITIES"
    by (simp add: willing_def CATALOG_CAPABILITIES_def)
  show "valid_text (cy_name willing @ ''-'' @ cy_version willing)"
    by (simp add: willing_def base_system_def valid_ascii is_ascii_def)
  show "preflight willing () = (Inr (), ())" by code_simp
qed (simp_all add: configured)

subsection \<open>A run on paper\<close>

lemma suite_digest_ascii: "is_ascii (suite_corpus_digest k m)"
proof -
  have "is_ascii (sha256_hex t)" for t using sha256_hex_chars hex_chars_ascii by blast
  then show ?thesis by (auto simp: suite_corpus_digest_def domain_digest_def is_ascii_def)
qed

lemma suite_payload_printable:
  assumes "suite_ok k suite" "valid_text (sk_benchmark k)" "valid_text (sk_version k)"
  shows "printable p (suite_payload k suite)"
  using assms valid_ascii[OF suite_digest_ascii]
  by (auto simp: suite_payload_def suite_manifest_def suite_ok_def case_texts_def list_all_iff dict_ok_def
    valid_ascii[of "''digest''"] valid_ascii[of "''manifest''"] valid_ascii[of "''benchmark''"] valid_ascii[of "''corpus_version''"]
    is_ascii_def ascii_words)

text \<open>the pinned corpus of a suite verifies\<close>

lemma suite_verified:
  assumes "suite_ok k suite" "valid_text (sk_benchmark k)" "valid_text (sk_version k)"
    "read_text fs (manifest_path dir) = Inr (snd (snd (suite_pin p k suite dir)))"
  shows "suite_verify p fs k suite dir = Inr (fst (suite_pin p k suite dir))"
proof -
  let ?pl = "suite_payload k suite"
  have pl: "printable p ?pl" using assms(1-3) by (rule suite_payload_printable)
  have "json_loads p (json_pretty p 0 ?pl @ [CHR 0x0A]) = Inr (canon True ?pl)"
    by (rule loads_pretty[OF pl]) (simp add: blank_def json_space_def)
  moreover have "py_eq (canon True ?pl) ?pl" using canon_eq printable_ordered[OF pl] by blast
  ultimately show ?thesis using assms(4) by (simp add: suite_verify_def suite_pin_def del: json_pretty.simps)
qed

definition book_files :: files where
  "book_files = pinned_files\<lparr>read_text := (\<lambda>f. Inr (snd (snd (suite_pin sample_prims GUARD_KIND guard_cases ''fixtures''))))\<rparr>"

definition book_surroundings :: surroundings where
  "book_surroundings = quiet_surroundings\<lparr>su_files := book_files\<rparr>"

definition opa_only :: suite_args where
  "opa_only = \<lparr>sa_systems = ''opa'', sa_corpus = ''fixtures'', sa_json = ''out.json'', sa_pin = False\<rparr>"

definition opa_missing :: "(string, json) pydict" where
  "opa_missing = [(''system'', JStr ''opa''), (''status'', JStr ''unavailable''),
     (''missing_configuration'', JStrs [''CAPABILITY_ADVERSARIAL_OPA_CMD''])]"

lemma opa_selected: "suite_selection GUARD_KIND opa_only = [''opa'']" "\<not> sa_pin opa_only"
  by code_simp+

lemma opa_systems: "suite_systems p GUARD_KIND spawn start [''opa''] suite [] = Inr [opa_missing]"
  by (simp add: suite_systems_def GUARD_KIND_def GUARD_SYSTEMS_def suite_external_def environ_get_def py_strip_def opa_missing_def
    Let_def)

lemma opa_line: "case suite_line sample_prims GUARD_KIND opa_missing of Inl e \<Rightarrow> False | Inr l \<Rightarrow> True"
  by code_simp

lemma suite_digest_bounded: "suite_text_ok (suite_corpus_digest k m)"
proof -
  have "CHR 0x0A \<notin> set (sha256_hex s)" for s
    using sha256_hex_chars[of s] by (auto simp: hex_chars_def)
  then have "CHR 0x0A \<notin> set (suite_corpus_digest k m)" by (simp add: suite_corpus_digest_def domain_digest_def)
  moreover have "py_len s \<le> length s" for s unfolding py_len_def by (rule length_filter_le)
  moreover have "length (suite_corpus_digest k m) \<le> 256" by (simp add: suite_corpus_digest_def domain_digest_def)
  ultimately show ?thesis unfolding suite_text_ok_def by (meson le_trans)
qed

lemma opa_report:
  assumes "suite_text_ok d"
  shows "\<exists>report status benchmark. suite_report GUARD_KIND [(''harness'', ''Linux''), (''corpus'', CAPABILITY_CORPUS_VERSION)] d [opa_missing]
      = Inr report \<and> json_item report ''status'' = Inr status \<and> json_item report ''benchmark'' = Inr benchmark"
proof -
  have "suite_walk (JList [JObj opa_missing])" "list_all suite_text_ok [''benchmark'', ''corpus_digest'', ''status'', ''metadata'',
      ''systems'', ''harness'', ''corpus'', ''Linux'', CAPABILITY_CORPUS_VERSION, ''CAPABILITY-ADVERSARIAL-v1'', ''incomplete'']"
    by code_simp+
  with assms show ?thesis
    by (simp add: suite_report_def GUARD_KIND_def Let_def json_item_def) (simp add: suite_overall_def opa_missing_def)
qed

lemma opa_run:
  obtains report status benchmark where
    "suite_run book_surroundings GUARD_KIND guard_seeded guard_cases opa_only = Inr ([opa_missing], report)"
    "json_item report ''status'' = Inr status" "json_item report ''benchmark'' = Inr benchmark"
proof -
  define d where "d = fst (suite_pin sample_prims GUARD_KIND guard_cases ''fixtures'')"
  have valid: "valid_text (sk_benchmark GUARD_KIND)" "valid_text (sk_version GUARD_KIND)"
    by (simp_all add: GUARD_KIND_def CAPABILITY_CORPUS_VERSION_def valid_ascii is_ascii_def)
  have ver: "suite_verify sample_prims book_files GUARD_KIND guard_cases ''fixtures'' = Inr d"
    unfolding d_def by (rule suite_verified[OF guard_suite_ok valid]) (simp add: book_files_def)
  have "suite_text_ok d" by (simp add: d_def suite_pin_def suite_digest_bounded)
  from opa_report[OF this] obtain report status benchmark where r:
    "suite_report GUARD_KIND [(''harness'', ''Linux''), (''corpus'', CAPABILITY_CORPUS_VERSION)] d [opa_missing] = Inr report"
    "json_item report ''status'' = Inr status" "json_item report ''benchmark'' = Inr benchmark" by blast
  have e: "with_result opa_missing = opa_missing" by (simp add: with_result_def is_executed_def opa_missing_def)
  have "suite_run book_surroundings GUARD_KIND guard_seeded guard_cases opa_only = Inr ([opa_missing], report)"
    using ver r(1) opa_selected(1) by (simp add: suite_run_def Let_def book_surroundings_def quiet_surroundings_def
        opa_systems e) (simp add: opa_only_def GUARD_KIND_def)
  then show ?thesis using r(2,3) by (rule that)
qed

lemma suite_exit_exact_witness:
  "\<exists>out. suite_main book_surroundings GUARD_KIND guard_seeded guard_cases opa_only = Inr out \<and> ro_exit out \<noteq> 0"
proof -
  obtain report status benchmark where r:
    "suite_run book_surroundings GUARD_KIND guard_seeded guard_cases opa_only = Inr ([opa_missing], report)"
    "json_item report ''status'' = Inr status" "json_item report ''benchmark'' = Inr benchmark"
    by (rule opa_run)
  obtain l where l: "suite_line sample_prims GUARD_KIND opa_missing = Inr l" using opa_line by (auto split: sum.splits)
  obtain out where out: "suite_main book_surroundings GUARD_KIND guard_seeded guard_cases opa_only = Inr out"
    using r l opa_selected(2) by (simp add: suite_main_def Let_def book_surroundings_def quiet_surroundings_def)
  with suite_exit_exact[OF out opa_selected(2)] opa_selected(1) show ?thesis by simp
qed

end
