(* ===== verification/SuiteDocs.thy ===== *)
theory SuiteDocs
  imports SuiteRunProps
begin

text \<open>
  The documents of the book's two benchmarks: whatever systems a run executed, its report has the parts
  that the renderer looks up, with a row for every case of the suite.
\<close>

subsection \<open>Entries of a run\<close>

lemma rows_of_parse:
  assumes "suite_parse p k payload suite = Inr (version, caps, rows)"
  shows "map rw_case_id rows = map sc_id suite"
proof -
  from assms obtain by_id where "map_result (\<lambda>c. suite_parse_row caps (the (dict_get by_id (JStr (sc_id c)))) c) suite = Inr rows"
    unfolding suite_parse_def bind_result_Inr_iff Let_def by (auto simp: bind_result_Inr_iff split: if_splits)
  then have "list_all2 (\<lambda>c r. rw_case_id r = sc_id c) suite rows"
    unfolding map_result_Inr_iff by (rule list_all2_mono) (auto dest: suite_parse_row_id)
  then show ?thesis by (rule list_all2_maps)
qed

lemma rows_of_reference:
  assumes "suite_reference k start suite = Inr e"
  shows "\<exists>rows. suite_finish k ''reference'' (sk_version k) (sk_capabilities k) rows = Inr e \<and> map rw_case_id rows = map sc_id suite"
proof -
  obtain rows where rows: "suite_finish k ''reference'' (sk_version k) (sk_capabilities k) rows = Inr e"
    and l: "list_all2 (\<lambda>c r. bind_result (run_suite_case start c) (\<lambda>ok. Inr (suite_row_of c True ok)) = Inr r) suite rows"
    using assms unfolding suite_reference_def bind_result_Inr_iff map_result_Inr_iff by blast
  have "list_all2 (\<lambda>c r. rw_case_id r = sc_id c) suite rows"
    using l by (rule list_all2_mono) (auto simp: bind_result_Inr_iff suite_row_of_def)
  then show ?thesis using rows list_all2_maps by blast
qed

text \<open>an entry as the harness builds it: with a row for every case, or not executed\<close>

definition built_entry :: "suite_kind \<Rightarrow> 's suite_case list \<Rightarrow> (string, json) pydict \<Rightarrow> bool" where
  "built_entry k suite e \<longleftrightarrow> (\<exists>name version caps rows. suite_finish k name version caps rows = Inr e \<and> map rw_case_id rows = map sc_id suite)
     \<or> (\<exists>name variable. e = [(sk_key k, JStr name), (''status'', JStr ''unavailable''), (''missing_configuration'', JStrs [variable])])
     \<or> (\<exists>name t. e = [(sk_key k, JStr name), (''status'', JStr ''error''), (''error'', JStr t)])"

lemma external_built:
  assumes "suite_external p k spawn suite env (name, variable) = Inr e"
  shows "built_entry k suite e"
proof (cases "py_strip (environ_get env variable) = []")
  case True
  with assms show ?thesis by (auto simp: suite_external_def built_entry_def)
next
  case False
  then obtain n where n: "(case bind_result (spawn (py_strip (environ_get env variable)) (suite_request p k suite) n)
        (\<lambda>out. suite_parse p k out suite) of
      Inl e \<Rightarrow> Inr [(sk_key k, JStr name), (''status'', JStr ''error''), (''error'', JStr (suite_error e))]
    | Inr (version, caps, rows) \<Rightarrow> suite_finish k name version caps rows) = Inr e"
    using assms by (auto simp: suite_external_def Let_def bind_result_Inr_iff)
  show ?thesis
  proof (cases "bind_result (spawn (py_strip (environ_get env variable)) (suite_request p k suite) n) (\<lambda>out. suite_parse p k out suite)")
    case (Inl x)
    with n show ?thesis by (auto simp: built_entry_def)
  next
    case (Inr y)
    then obtain version caps rows where y: "y = (version, caps, rows)" "suite_finish k name version caps rows = Inr e"
      using n by (cases y) auto
    with Inr obtain out where "suite_parse p k out suite = Inr (version, caps, rows)" by (auto simp: bind_result_Inr_iff)
    from rows_of_parse[OF this] y(2) show ?thesis by (auto simp: built_entry_def)
  qed
qed

lemma systems_built:
  assumes "suite_systems p k spawn start selected suite env = Inr systems" "e \<in> set systems"
  shows "built_entry k suite e"
proof -
  obtain first rest where fr: "systems = first @ rest"
    "(if ''reference'' \<in> set selected then map_result (\<lambda>_. suite_reference k start suite) [()] else Inr []) = Inr first"
    "map_result (suite_external p k spawn suite env) (filter (\<lambda>(n, v). n \<in> set selected) (sk_systems k)) = Inr rest"
    using assms(1) by (auto simp: suite_systems_def Let_def bind_result_Inr_iff split: if_splits)
  consider "e \<in> set first" | "e \<in> set rest" using assms(2) fr(1) by auto
  then show ?thesis
  proof cases
    case 1
    then have "suite_reference k start suite = Inr e" using fr(2) by (auto simp: bind_result_Inr_iff split: if_splits)
    from rows_of_reference[OF this] show ?thesis by (auto simp: built_entry_def)
  next
    case 2
    then obtain x where "suite_external p k spawn suite env x = Inr e" using map_result_mem[OF fr(3)] by blast
    then show ?thesis using external_built by (cases x) blast
  qed
qed

subsection \<open>What the renderer looks up\<close>

definition ran_entry :: "suite_kind \<Rightarrow> 's suite_case list \<Rightarrow> (string, json) pydict \<Rightarrow> bool" where
  "ran_entry k suite e \<longleftrightarrow> (\<exists>name gates rows. dict_get e (sk_key k) = Some (JStr name)
     \<and> dict_get e ''status'' = Some (JStr ''executed'')
     \<and> dict_get e ''hard_gates'' = Some (JObj (map (\<lambda>(g, n). (g, JInt n)) gates))
     \<and> dict_get e ''summary'' = Some (JObj (suite_summary rows))
     \<and> dict_get e ''cases'' = Some (JList (map suite_row_json rows)) \<and> map rw_case_id rows = map sc_id suite)"

definition idle_entry :: "suite_kind \<Rightarrow> (string, json) pydict \<Rightarrow> bool" where
  "idle_entry k e \<longleftrightarrow> (\<exists>name t. dict_get e (sk_key k) = Some (JStr name) \<and> dict_get e ''status'' = Some (JStr t)
     \<and> t \<noteq> ''executed'' \<and> (\<exists>xs. dict_get e ''missing_configuration'' \<in> {None, Some (JStrs xs)}))"

definition shown_entry :: "suite_kind \<Rightarrow> 's suite_case list \<Rightarrow> json \<Rightarrow> bool" where
  "shown_entry k suite v \<longleftrightarrow> (\<exists>e. v = JObj e \<and> (ran_entry k suite e \<or> idle_entry k e))"

lemma idle_shown:
  assumes "sk_key k \<noteq> ''status''" "sk_key k \<noteq> ''missing_configuration''"
  shows "idle_entry k (with_result [(sk_key k, JStr name), (''status'', JStr ''unavailable''), (''missing_configuration'', JStrs xs)])"
    "idle_entry k (with_result [(sk_key k, JStr name), (''status'', JStr ''error''), (''error'', JStr t)])"
  using assms by (auto simp: with_result_def is_executed_def idle_entry_def)

lemma built_shown:
  assumes "built_entry k suite e" "book_kind k"
  shows "shown_entry k suite (JObj (with_result e))"
proof -
  have key: "sk_key k = ''system'' \<or> sk_key k = ''catalog''" using assms(2) by (auto simp: book_kind_def)
  have "ran_entry k suite (with_result e)"
    if "suite_finish k name version caps rows = Inr e" "map rw_case_id rows = map sc_id suite" for name version caps rows
    using that key by (auto simp: suite_finish_def bind_result_Inr_iff with_result_def ran_entry_def)
  moreover have "idle_entry k (with_result [(sk_key k, JStr name), (''status'', JStr ''unavailable''), (''missing_configuration'', JStrs xs)])"
    "idle_entry k (with_result [(sk_key k, JStr name), (''status'', JStr ''error''), (''error'', JStr t)])" for name xs t
    using key by (auto intro!: idle_shown simp del: with_result_def)
  ultimately show ?thesis using assms(1) unfolding built_entry_def shown_entry_def by blast
qed

subsection \<open>The table\<close>

lemma sum_counts_ints: "sum_counts n (map JInt is) = Inr (n + sum_list is)"
  by (induction "is" arbitrary: n) simp_all

lemma ran_gates: "ran_entry k suite e \<Longrightarrow> returns (gate_count (JObj e))"
proof -
  assume "ran_entry k suite e"
  then obtain gates where g: "dict_get e ''hard_gates'' = Some (JObj (map (\<lambda>(g, n). (g, JInt n)) gates))"
    unfolding ran_entry_def by blast
  have "dict_values (map (\<lambda>(g, n). (g, JInt n)) gates) = map JInt (map snd gates)"
    by (simp add: dict_values_def comp_def case_prod_beta)
  then show ?thesis using g by (simp add: gate_count_def json_item_def sum_counts_ints del: map_map)
qed

lemma summary_items:
  "returns (json_item (JObj (suite_summary rows)) ''supported'')" "returns (json_item (JObj (suite_summary rows)) ''correct'')"
  "returns (json_item (JObj (suite_summary rows)) ''unsupported'')"
  by (simp_all add: suite_summary_def Let_def json_item_def)

lemma shown_status:
  assumes "shown_entry k suite (JObj e)"
  shows "executed_entry (JObj e) = Inr (is_executed e)" "is_executed e = ran_entry k suite e" "\<not> is_executed e \<Longrightarrow> idle_entry k e"
  using assms by (auto simp: shown_entry_def ran_entry_def idle_entry_def executed_entry_def json_get_def is_executed_def)

lemma shown_name: "shown_entry k suite (JObj e) \<Longrightarrow> \<exists>name. json_item (JObj e) (sk_key k) = Inr (JStr name)"
  by (auto simp: shown_entry_def ran_entry_def idle_entry_def json_item_def)

lemma idle_missing: "idle_entry k e \<Longrightarrow> returns (missing_text p (JObj e))"
proof -
  assume "idle_entry k e"
  then obtain xs where "get_default (JObj e) ''missing_configuration'' (JList []) = Inr (JStrs xs)"
    unfolding idle_entry_def by (force simp: get_default_def json_get_def)
  then show ?thesis
    by (simp add: missing_text_def join_value_def json_iter_def join_texts_returns get_default_def json_get_def)
qed

lemma table_row_returns:
  assumes "shown_entry k suite (JObj e)"
  shows "returns (suite_table_row p k (JObj e))"
proof -
  obtain name where n: "json_item (JObj e) (sk_key k) = Inr (JStr name)" using shown_name[OF assms] by blast
  have st: "returns (json_item (JObj e) ''status'')"
    using assms by (auto simp: shown_entry_def ran_entry_def idle_entry_def json_item_def)
  have "returns (get_default (JObj e) x y)" for x y by (simp add: get_default_def json_get_def)
  note d = this
  show ?thesis
  proof (cases "is_executed e")
    case True
    then have r: "ran_entry k suite e" using shown_status(2)[OF assms] by simp
    then obtain rows where s: "json_item (JObj e) ''summary'' = Inr (JObj (suite_summary rows))"
      by (auto simp: ran_entry_def json_item_def)
    from True show ?thesis unfolding suite_table_row_def shown_status(1)[OF assms]
      using ran_gates[OF r] summary_items[of rows] d by (simp add: n s) (intro returning; simp)
  next
    case False
    from idle_missing[OF shown_status(3)[OF assms False]] st False show ?thesis
      unfolding suite_table_row_def shown_status(1)[OF assms] by (simp add: n) (intro returning; simp)
  qed
qed

lemma order_returns: "shown_entry k suite (JObj e) \<Longrightarrow> returns (order_key k order (JObj e))"
  by (drule shown_name) (auto simp: order_key_def)

lemma present_same:
  assumes "suite_present k order systems = Inr present"
  shows "set present = set systems"
proof -
  obtain ps where ps: "map_result (\<lambda>e. bind_result (order_key k order e) (\<lambda>i. Inr (i, e))) systems = Inr ps"
    "present = map snd (sort_key fst ps)" using assms by (auto simp: suite_present_def bind_result_Inr_iff)
  have "map snd ps = systems" using ps(1)
    by (induction systems arbitrary: ps) (auto simp: bind_result_Inr_iff)
  then show ?thesis using ps(2) by (metis list.set_map set_sort)
qed

subsection \<open>The matrix\<close>

definition has_rows :: "'s suite_case list \<Rightarrow> (json, json) pydict \<Rightarrow> bool" where
  "has_rows suite m \<longleftrightarrow> (\<forall>c \<in> set suite. \<exists>r. dict_get m (JStr (sc_id c)) = Some (suite_row_json r))"

lemma ran_case_map:
  assumes "ran_entry k suite e"
  shows "\<exists>m. case_map (JObj e) = Inr m \<and> has_rows suite m"
proof -
  obtain rows where rows: "dict_get e ''cases'' = Some (JList (map suite_row_json rows))" "map rw_case_id rows = map sc_id suite"
    using assms unfolding ran_entry_def by blast
  let ?es = "map (\<lambda>r. (JStr (rw_case_id r), suite_row_json r)) rows"
  have "map_result row_entry (map suite_row_json rows) = Inr ?es"
    by (simp add: map_result_Inr_iff list_all2_map1 list_all2_map2 row_entry_def json_item_def suite_row_json_def list_all2_same)
  then have "case_map (JObj e) = Inr (dict_of ?es [])"
    using rows(1) by (simp add: case_map_def entry_cases_def json_item_def json_iter_def)
  moreover have "\<exists>r. dict_get (dict_of ?es []) (JStr (sc_id c)) = Some (suite_row_json r)" if "c \<in> set suite" for c
  proof -
    have "sc_id c \<in> set (map rw_case_id rows)" using that rows(2) by simp
    then have "JStr (sc_id c) \<in> fst ` set (dict_of ?es [])" by (force simp: keys_dict_of)
    then obtain v where v: "dict_get (dict_of ?es []) (JStr (sc_id c)) = Some v" by (metis map_of_eq_None_iff option.exhaust)
    then have "dict_get (rev ?es) (JStr (sc_id c)) = Some v" by (simp add: dict_get_of map_add_def split: option.splits)
    then have "(JStr (sc_id c), v) \<in> set ?es" by (metis map_of_SomeD set_rev)
    with v show ?thesis by auto
  qed
  ultimately show ?thesis by (auto simp: has_rows_def)
qed

lemma suite_cell_returns: "returns (suite_cell (suite_row_json r))"
  by (simp add: suite_cell_def suite_row_json_def json_item_def)

lemma matrix_row_returns:
  assumes "c \<in> set suite" "\<And>n. n \<in> set names \<Longrightarrow> \<exists>m. dict_get by' (JStr n) = Some m \<and> has_rows suite m"
  shows "returns (suite_matrix_row by' names c)"
proof -
  have "returns (case dict_get (the (dict_get by' (JStr n))) (JStr (sc_id c)) of
      None \<Rightarrow> raise_error ''KeyError'' (repr_str (sc_id c)) | Some r \<Rightarrow> suite_cell r)" if "n \<in> set names" for n
    using assms(2)[OF that] assms(1) suite_cell_returns by (force simp: has_rows_def)
  then show ?thesis unfolding suite_matrix_row_def by (intro returning) simp_all
qed

lemma names_read:
  assumes "\<And>v. v \<in> set executed \<Longrightarrow> \<exists>n. json_item v (sk_key k) = Inr (JStr n)"
  shows "\<exists>names. map_result (\<lambda>e. json_item e (sk_key k)) executed = Inr (map JStr names)"
  using assms
proof (induction executed)
  case Nil
  show ?case by (intro exI[of _ "[]"]) simp
next
  case (Cons v vs)
  obtain n where "json_item v (sk_key k) = Inr (JStr n)" using Cons.prems by auto
  moreover obtain names where "map_result (\<lambda>e. json_item e (sk_key k)) vs = Inr (map JStr names)" using Cons by auto
  ultimately show ?case by (intro exI[of _ "n # names"]) simp
qed

lemma suite_matrix_returns:
  assumes "\<And>v. v \<in> set executed \<Longrightarrow> \<exists>e. v = JObj e \<and> ran_entry k suite e"
  shows "returns (suite_matrix k suite executed)"
proof (cases "executed = []")
  case False
  have name: "\<exists>n. json_item v (sk_key k) = Inr (JStr n)" if "v \<in> set executed" for v
    using assms[OF that] by (auto simp: ran_entry_def json_item_def)
  obtain names where names: "map_result (\<lambda>e. json_item e (sk_key k)) executed = Inr (map JStr names)"
    using names_read[OF name] by blast
  have row: "\<exists>n m. rows_by_name k v = Inr (JStr n, m) \<and> json_item v (sk_key k) = Inr (JStr n) \<and> has_rows suite m"
    if v: "v \<in> set executed" for v
  proof -
    obtain e where e: "v = JObj e" "ran_entry k suite e" using assms[OF v] by blast
    obtain m where "case_map v = Inr m" "has_rows suite m" using ran_case_map[OF e(2)] e(1) by blast
    with name[OF v] show ?thesis by (auto simp: rows_by_name_def)
  qed
  have "returns (map_result (rows_by_name k) executed)" using row by (intro returns_map) (force simp: returns_def)
  then obtain bys where bys: "map_result (rows_by_name k) executed = Inr bys" by (auto simp: returns_def)
  have "\<exists>m. dict_get (dict_of bys []) (JStr n) = Some m \<and> has_rows suite m" if n: "n \<in> set names" for n
  proof -
    have "JStr n \<in> set (map JStr names)" using n by simp
    then obtain v where v: "v \<in> set executed" "json_item v (sk_key k) = Inr (JStr n)"
      using map_result_mem[OF names] by blast
    obtain x where "x \<in> set bys" "rows_by_name k v = Inr x" using map_result_image[OF bys v(1)] by blast
    moreover obtain n' m' where "rows_by_name k v = Inr (JStr n', m')" "json_item v (sk_key k) = Inr (JStr n')"
      using row[OF v(1)] by blast
    ultimately have "(JStr n, m') \<in> set bys" using v(2) by simp
    then have "JStr n \<in> fst ` set (dict_of bys [])" unfolding keys_dict_of by force
    then obtain m where m: "dict_get (dict_of bys []) (JStr n) = Some m" by (metis map_of_eq_None_iff option.exhaust)
    then have "dict_get (rev bys) (JStr n) = Some m" by (simp add: dict_get_of map_add_def split: option.splits)
    then have "(JStr n, m) \<in> set bys" by (metis map_of_SomeD set_rev)
    then obtain u where "u \<in> set executed" "rows_by_name k u = Inr (JStr n, m)" using map_result_mem[OF bys] by blast
    with row[of u] m show ?thesis by auto
  qed
  then have "returns (suite_matrix_row (dict_of bys []) names c)" if "c \<in> set suite" for c
    by (rule matrix_row_returns[OF that])
  then have "returns (map_result (suite_matrix_row (dict_of bys []) names) suite)" by (intro returns_map)
  with False names bys show ?thesis
    by (auto simp: suite_matrix_def name_cells_def join_texts_returns returns_def)
qed (simp add: suite_matrix_def)

subsection \<open>The document\<close>

lemma filter_result_mem: "filter_result f xs = Inr ys \<Longrightarrow> y \<in> set ys \<Longrightarrow> y \<in> set xs \<and> f y = Inr True"
  by (induction xs arbitrary: ys) (auto simp: bind_result_Inr_iff split: if_splits)

lemma suite_render_returns:
  assumes "\<And>v. v \<in> set systems \<Longrightarrow> shown_entry k suite v" "json_item report (sk_list_key k) = Inr (JList systems)"
    "returns (json_item report ''benchmark'')" "returns (json_item report ''corpus_digest'')" "returns (json_item report ''status'')"
  shows "returns (suite_render p k w suite report)"
proof -
  have obj: "\<exists>e. v = JObj e" if "v \<in> set systems" for v using assms(1)[OF that] by (auto simp: shown_entry_def)
  have "returns (suite_present k (wd_order w) systems)"
    unfolding suite_present_def
  proof (intro returning)
    fix v
    assume "v \<in> set systems"
    then show "returns (order_key k (wd_order w) v)" using assms(1) obj order_returns by metis
  qed
  then obtain present where pr: "suite_present k (wd_order w) systems = Inr present" by (auto simp: returns_def)
  have shown: "\<exists>e. v = JObj e \<and> shown_entry k suite (JObj e)" if "v \<in> set present" for v
    using that assms(1) obj present_same[OF pr] by auto
  have "returns (executed_entry v)" if "v \<in> set present" for v using shown[OF that] by (auto simp: shown_status(1))
  then have "returns (filter_result executed_entry present)" by (rule returns_filter)
  then obtain executed where ex: "filter_result executed_entry present = Inr executed" by (auto simp: returns_def)
  have "\<exists>e. v = JObj e \<and> ran_entry k suite e" if v: "v \<in> set executed" for v
  proof -
    obtain e where e: "v = JObj e" "shown_entry k suite (JObj e)" using filter_result_mem[OF ex v] shown by blast
    with filter_result_mem[OF ex v] have "is_executed e" by (simp add: shown_status(1)[OF e(2)])
    with e shown_status(2)[OF e(2)] show ?thesis by blast
  qed
  then have m: "returns (suite_matrix k suite executed)" by (rule suite_matrix_returns)
  have "returns (suite_table_row p k v)" if "v \<in> set present" for v using shown[OF that] table_row_returns by blast
  then show ?thesis unfolding suite_render_def
    using assms(2-5) m by (simp add: pr ex json_iter_def) (intro returning; simp)
qed

lemma run_shown:
  assumes "suite_run su k start suite args = Inr (entries, report)" "book_kind k"
    "sk_list_key k \<in> {''systems'', ''catalogs''}"
  shows "returns (suite_render p k w suite report)"
proof -
  obtain d systems where s: "suite_systems (su_prims su) k (su_spawn su) start (suite_selection k args) suite (su_environ su) = Inr systems"
    "entries = map with_result systems"
    "suite_report k [(''harness'', su_platform su), (''corpus'', sk_version k)] d entries = Inr report"
    using assms(1) by (auto simp: suite_run_def Let_def bind_result_Inr_iff)
  have "shown_entry k suite v" if "v \<in> set (map JObj entries)" for v
    using that s(2) systems_built[OF s(1)] built_shown[OF _ assms(2)] by auto
  moreover have "json_item report (sk_list_key k) = Inr (JList (map JObj entries))" "returns (json_item report ''benchmark'')"
    "returns (json_item report ''corpus_digest'')" "returns (json_item report ''status'')"
    using s(3) assms(3) by (auto simp: suite_report_def Let_def json_item_def split: if_splits)
  ultimately show ?thesis by (rule suite_render_returns)
qed

text \<open>C36: Every run of the two programs of the book can be rendered: whatever the systems under comparison
answered, failed with or left out, a report that the run produced has all the parts that
\<^verbatim>\<open>render_results.py\<close> looks up, with a row for every case of the suite in every executed system, so
that the renderer raises nothing and returns its document.\<close>

theorem run_renders:
  assumes "suite_run su k start suite args = Inr (entries, report)" "k \<in> {GUARD_KIND, CATALOG_KIND}"
  shows "\<exists>doc. suite_render p k w suite report = Inr doc"
  using run_shown[OF assms(1), of p w] assms(2) book_kinds by (auto simp: returns_def GUARD_KIND_def CATALOG_KIND_def)

lemma run_renders_witness:
  "\<exists>entries report. suite_run book_surroundings GUARD_KIND guard_seeded guard_cases opa_only = Inr (entries, report)
    \<and> (\<exists>doc. suite_render sample_prims GUARD_KIND \<lparr>wd_intro = [], wd_section = ''System'', wd_order = []\<rparr> guard_cases report = Inr doc)"
proof -
  obtain report where r: "suite_run book_surroundings GUARD_KIND guard_seeded guard_cases opa_only = Inr ([opa_missing], report)"
    by (rule opa_run)
  show ?thesis using r run_renders[OF r] by blast
qed

end
