(* ===== verification/AdapterProps.thy ===== *)
theory AdapterProps
  imports SuiteRunProps
begin

text \<open>
  What the adapters of the book's two benchmarks establish about the systems behind them: from a stated
  behaviour of the library or service, through the adapter, its loop, the two texts and the harness, to
  the rows of the report.
\<close>

subsection \<open>Stock Iceberg REST catalogs\<close>

text \<open>
  optimistic concurrency as the catalogs document it: a handle holds the snapshot of its table that was
  current when it was loaded, and an append goes through exactly if that is still the current one
\<close>

definition optimistic :: "('s, 'h) rest_client \<Rightarrow> ('s \<Rightarrow> string \<Rightarrow> string option) \<Rightarrow> ('h \<Rightarrow> string) \<Rightarrow> bool" where
  "optimistic cl current table_of \<longleftrightarrow>
     (\<forall>n s. \<exists>h t. ic_load cl n s = (Inr h, t) \<and> table_of h = n \<and> ic_snapshot cl h = current s n \<and> current t n = current s n)
     \<and> (\<forall>h s. current s (table_of h) = ic_snapshot cl h \<longrightarrow> (\<exists>i t. ic_append cl h s = (Inr (), t) \<and> current t (table_of h) = Some i
           \<and> Some i \<noteq> current s (table_of h) \<and> i \<noteq> ''none''))
     \<and> (\<forall>h s. current s (table_of h) \<noteq> ic_snapshot cl h \<longrightarrow> (\<exists>e t. ic_append cl h s = (Inl e, t) \<and> is_conflict e))"

lemma optimisticD:
  assumes "optimistic cl current table_of"
  shows "\<exists>h t. ic_load cl n s = (Inr h, t) \<and> table_of h = n \<and> ic_snapshot cl h = current s n \<and> current t n = current s n"
    "current s (table_of h) = ic_snapshot cl h \<Longrightarrow> \<exists>i t. ic_append cl h s = (Inr (), t) \<and> current t (table_of h) = Some i
       \<and> Some i \<noteq> current s (table_of h) \<and> i \<noteq> ''none''"
    "current s (table_of h) \<noteq> ic_snapshot cl h \<Longrightarrow> \<exists>e t. ic_append cl h s = (Inl e, t) \<and> is_conflict e"
  using assms unfolding optimistic_def by blast+

lemma on_client_run: "on_client m s = (case m (rs_client s) of (r, c) \<Rightarrow> (r, s\<lparr>rs_client := c\<rparr>))"
  by (simp add: on_client_def on_part_def split: prod.splits)

text \<open>the pointer of a snapshot\<close>

definition pointer_of :: "string option \<Rightarrow> string" where
  "pointer_of x = (case x of None \<Rightarrow> ''none'' | Some i \<Rightarrow> i)"

text \<open>the current snapshot of the table of the adapter\<close>

definition head_of :: "('s \<Rightarrow> string \<Rightarrow> string option) \<Rightarrow> ('s, 'h) rest_state \<Rightarrow> string option" where
  "head_of current s = current (rs_client s) (rs_table s)"

lemma load_step:
  assumes "optimistic cl current table_of"
  obtains h t where "rest_load cl s = (Inr h, t)" "table_of h = rs_table s" "ic_snapshot cl h = head_of current s"
    "head_of current t = head_of current s" "rs_table t = rs_table s" "rs_witness t = rs_witness s"
proof -
  obtain h c where "ic_load cl (rs_table s) (rs_client s) = (Inr h, c)" "table_of h = rs_table s"
    "ic_snapshot cl h = current (rs_client s) (rs_table s)" "current c (rs_table s) = current (rs_client s) (rs_table s)"
    using optimisticD(1)[OF assms] by blast
  then show ?thesis by (intro that[of h "s\<lparr>rs_client := c\<rparr>"]) (simp_all add: rest_load_def on_client_run head_of_def)
qed

lemma pointer_step:
  assumes "optimistic cl current table_of"
  obtains t where "rest_pointer cl n s = (Inr (pointer_of (head_of current s)), t)" "head_of current t = head_of current s"
    "rs_table t = rs_table s" "rs_witness t = rs_witness s"
proof -
  obtain h t where "rest_load cl s = (Inr h, t)" "ic_snapshot cl h = head_of current s"
    "head_of current t = head_of current s" "rs_table t = rs_table s" "rs_witness t = rs_witness s"
    by (rule load_step[OF assms])
  then show ?thesis by (intro that[of t]) (simp_all add: rest_pointer_def pointer_of_def)
qed

text \<open>a commit against a pointer the adapter has not seen: it goes through whatever the pointer is\<close>

lemma unseen_step:
  assumes "optimistic cl current table_of" "dict_get (rs_witness s) expected = None"
  obtains i h t where "rest_commit cl n expected u k s = (Inr (plain_answer True), t)" "head_of current t = Some i"
    "Some i \<noteq> head_of current s" "i \<noteq> ''none''" "rs_table t = rs_table s" "dict_get (rs_witness t) expected = Some h"
    "table_of h = rs_table s" "ic_snapshot cl h = head_of current s"
proof -
  obtain h t where h: "rest_load cl s = (Inr h, t)" "table_of h = rs_table s" "ic_snapshot cl h = head_of current s"
    "head_of current t = head_of current s" "rs_table t = rs_table s" "rs_witness t = rs_witness s"
    by (rule load_step[OF assms(1)])
  then have "current (rs_client t) (table_of h) = ic_snapshot cl h" by (simp add: head_of_def)
  then obtain i c where c: "ic_append cl h (rs_client t) = (Inr (), c)" "current c (table_of h) = Some i"
    "Some i \<noteq> current (rs_client t) (table_of h)" "i \<noteq> ''none''"
    using optimisticD(2)[OF assms(1)] by blast
  let ?w = "t\<lparr>rs_witness := dict_set expected h (rs_witness t)\<rparr>"
  have "witness cl expected s = (Inr h, ?w)" using h(1) assms(2) by (simp add: witness_def)
  moreover have "on_client (ic_append cl h) ?w = (Inr (), ?w\<lparr>rs_client := c\<rparr>)" using c(1) by (simp add: on_client_run)
  ultimately have "rest_commit cl n expected u k s = (Inr (plain_answer True), ?w\<lparr>rs_client := c\<rparr>)"
    by (simp add: rest_commit_def catch_def)
  moreover have "Some i \<noteq> head_of current s" using c(3) h(2,4,5) by (simp add: head_of_def)
  moreover have "head_of current (?w\<lparr>rs_client := c\<rparr>) = Some i" using c(2) h(2,5) by (simp add: head_of_def)
  ultimately show ?thesis using c(4) h(2,3,5) by (intro that[of "?w\<lparr>rs_client := c\<rparr>" i h]) simp_all
qed

lemma stale_step:
  assumes "optimistic cl current table_of" "dict_get (rs_witness s) expected = Some h" "table_of h = rs_table s"
    "head_of current s \<noteq> ic_snapshot cl h"
  obtains t where "rest_commit cl n expected u k s = (Inr (plain_answer False), t)"
proof -
  have "current (rs_client s) (table_of h) \<noteq> ic_snapshot cl h" using assms(3,4) by (simp add: head_of_def)
  then obtain e c where "ic_append cl h (rs_client s) = (Inl e, c)" "is_conflict e"
    using optimisticD(3)[OF assms(1)] by blast
  with assms(2) show ?thesis by (auto intro!: that simp: rest_commit_def witness_def catch_def on_client_run)
qed

lemma pointer_differs: "Some i \<noteq> x \<Longrightarrow> i \<noteq> ''none'' \<Longrightarrow> i \<noteq> pointer_of x"
  by (auto simp: pointer_of_def split: option.splits)

lemma plain_ok: "out_ok (plain_answer b) = b"
  by (simp add: out_ok_def plain_answer_def the_default_def)

lemma rest_calls:
  "cy_pointer (rest_system cl env f) = rest_pointer cl" "cy_commit (rest_system cl env f) = rest_commit cl"
  "cy_capabilities (rest_system cl env f) = [''commit'', ''compare-and-swap'']"
  by (simp_all add: rest_system_def)

lemma prepared_unwitnessed:
  assumes "prepare_table (rest_system cl env f) s = (Inr (), t)"
  shows "rs_witness t = []"
proof -
  obtain u where u: "rest_reset cl env f s = (Inr (), u)" "rest_create cl f SALES u = (Inr (), t)"
    using assms by (auto simp: prepare_table_def rest_system_def elim!: and_then_cases)
  have "rs_witness u = []" using u(1) by (auto simp: rest_reset_def elim!: and_then_cases)
  then show ?thesis using u(2) by (auto simp: rest_create_def on_client_run split: prod.splits)
qed

lemma two_commits:
  assumes "optimistic cl current table_of" "rs_witness s = []"
  obtains t where "two_writers (rest_system cl env f) ok s = (Inr (ok (plain_answer True) (plain_answer False)), t)"
proof -
  let ?p = "pointer_of (head_of current s)"
  obtain a where a: "rest_pointer cl SALES s = (Inr ?p, a)" "head_of current a = head_of current s"
    "rs_table a = rs_table s" "rs_witness a = rs_witness s"
    by (rule pointer_step[OF assms(1)])
  have "dict_get (rs_witness a) ?p = None" using a(4) assms(2) by simp
  then obtain i h b where b: "rest_commit cl SALES ?p ''a'' [] a = (Inr (plain_answer True), b)" "head_of current b = Some i"
    "Some i \<noteq> head_of current a" "rs_table b = rs_table a" "dict_get (rs_witness b) ?p = Some h"
    "table_of h = rs_table a" "ic_snapshot cl h = head_of current a"
    by (rule unseen_step[OF assms(1)])
  have "head_of current b \<noteq> ic_snapshot cl h" "table_of h = rs_table b" using b by simp_all
  then obtain c where "rest_commit cl SALES ?p ''b'' [] b = (Inr (plain_answer False), c)"
    using stale_step[OF assms(1) b(5)] by blast
  with a(1) b(1) show ?thesis by (intro that[of c]) (simp add: two_writers_def rest_calls)
qed

lemma fresh_moves:
  assumes "optimistic cl current table_of" "rs_witness s = []"
  obtains t where "ds_commit_fresh (rest_system cl env f) s = (Inr True, t)"
proof -
  let ?p = "pointer_of (head_of current s)"
  obtain a where a: "rest_pointer cl SALES s = (Inr ?p, a)" "head_of current a = head_of current s" "rs_witness a = rs_witness s"
    by (rule pointer_step[OF assms(1)])
  obtain b where b: "rest_pointer cl SALES a = (Inr (pointer_of (head_of current a)), b)" "head_of current b = head_of current a"
      "rs_witness b = rs_witness a"
    by (rule pointer_step[OF assms(1)])
  have "dict_get (rs_witness b) ?p = None" using a(3) b(3) assms(2) by simp
  then obtain i c where c: "rest_commit cl SALES ?p ''u'' [] b = (Inr (plain_answer True), c)" "head_of current c = Some i"
    "Some i \<noteq> head_of current b" "i \<noteq> ''none''"
    by (rule unseen_step[OF assms(1)])
  obtain d where d: "rest_pointer cl SALES c = (Inr (pointer_of (head_of current c)), d)"
    by (rule pointer_step[OF assms(1)])
  have "i \<noteq> ?p" using c(3,4) a(2) b(2) by (intro pointer_differs) simp_all
  then show ?thesis
    using a(1) b(1) c(1) d a(2) c(2) plain_ok[of True]
    by (intro that[of d]) (simp add: ds_commit_fresh_def fresh_commit_def rest_calls if_ok_def pointer_of_def[of "Some i"])
qed

lemma scenarios_named:
  "scenario_for sys (JStr ''commit-fresh'') = ds_commit_fresh sys"
  "scenario_for sys (JStr ''cas-stale-rejected'') = ds_stale_rejected sys"
  "scenario_for sys (JStr ''cas-concurrent'') = ds_concurrent sys"
  by (simp_all add: scenario_for_def catalog_scenarios_def)

lemma rest_cases_pass:
  assumes "optimistic cl current table_of" "\<And>s. \<exists>t. prepare_table (rest_system cl env f) s = (Inr (), t)"
    "cid \<in> {''commit-fresh'', ''cas-stale-rejected'', ''cas-concurrent''}"
  shows "\<exists>t. drive_case (rest_system cl env f) (JStr cid) s = (Inr (True, True), t)"
proof -
  let ?sys = "rest_system cl env f"
  obtain u where u: "prepare_table ?sys s = (Inr (), u)" using assms(2) by blast
  have w: "rs_witness u = []" by (rule prepared_unwitnessed[OF u])
  obtain a where a: "ds_commit_fresh ?sys u = (Inr True, a)" by (rule fresh_moves[OF assms(1) w])
  obtain b where b: "two_writers ?sys (\<lambda>first stale. out_ok first \<and> \<not> out_ok stale) u = (Inr True, b)"
    using two_commits[OF assms(1) w, where env = env and f = f and ok = "\<lambda>a b. out_ok a \<and> \<not> out_ok b"] by (auto simp: plain_ok)
  obtain c where c: "two_writers ?sys (\<lambda>a b. out_ok a \<noteq> out_ok b) u = (Inr True, c)"
    using two_commits[OF assms(1) w, where env = env and f = f and ok = "\<lambda>a b. out_ok a \<noteq> out_ok b"] by (auto simp: plain_ok)
  have "\<exists>t. scenario_for ?sys (JStr cid) u = (Inr True, t)"
    using assms(3) a b c by (elim insertE emptyE) (simp_all add: scenarios_named ds_stale_rejected_def ds_concurrent_def)
  then obtain t where "scenario_for ?sys (JStr cid) u = (Inr True, t)" by blast
  with u show ?thesis by (simp add: drive_case_def catch_def)
qed

lemma map_act_determined:
  assumes "\<And>x s. x \<in> set xs \<Longrightarrow> \<exists>t. h x s = (Inr (y x), t)"
  shows "\<exists>t. map_act h xs s = (Inr (map y xs), t)"
  using assms
proof (induction xs arbitrary: s)
  case (Cons x xs)
  obtain u where "h x s = (Inr (y x), u)" using Cons.prems by fastforce
  moreover obtain t where "map_act h xs u = (Inr (map y xs), t)" using Cons.IH[of u] Cons.prems by auto
  ultimately show ?case by simp
qed simp

text \<open>the row of a system that does all it claims\<close>

definition honest_row :: "string list \<Rightarrow> 's suite_case \<Rightarrow> suite_row" where
  "honest_row caps c = suite_row_of c (sc_capability c \<in> set caps) (sc_capability c \<in> set caps)"

lemma kept_honest:
  "map2 (kept_row caps) suite (map (\<lambda>c. (sc_capability c \<in> set caps, sc_capability c \<in> set caps)) suite) = map (honest_row caps) suite"
  by (induction suite) (simp_all add: kept_row_def honest_row_def suite_row_of_def)

lemma rest_claims:
  assumes "c \<in> set catalog_cases" "sc_capability c \<in> set [''commit'', ''compare-and-swap'']"
  shows "sc_id c \<in> {''commit-fresh'', ''cas-stale-rejected'', ''cas-concurrent''}"
proof -
  have "list_all (\<lambda>c. sc_capability c \<in> set [''commit'', ''compare-and-swap'']
      \<longrightarrow> sc_id c \<in> {''commit-fresh'', ''cas-stale-rejected'', ''cas-concurrent''}) catalog_cases"
    by (simp add: catalog_cases_def new_suite_case_def)
  then show ?thesis using assms unfolding list_all_iff by blast
qed

text \<open>C37: A stock Iceberg REST catalog gets full marks for what it documents and nothing else: whatever client
library has optimistic concurrency (an append goes through exactly if the snapshot of its handle is still
current) and lets the adapter prepare its table, the report of the run has the three cases of the commit
and compare-and-swap capabilities supported and correct, and the other fourteen unsupported.\<close>

theorem stock_catalog_scored:
  assumes "optimistic cl current table_of" "\<And>s. \<exists>t. prepare_table (rest_system cl env f) s = (Inr (), t)"
    "valid_text (rf_name f @ ''-'' @ rf_version f)" "py_strip (environ_get settings variable) \<noteq> []"
    "dict_get settings ''CATALOG_PROVENANCE_TIMEOUT_SECONDS'' = None"
  shows "external_catalog p (\<lambda>command request timeout. fst (catalog_drive p (rest_system cl env f) request s)) catalog_cases settings
        (name, variable)
    = catalog_finish name (py_take 64 (rf_name f @ ''-'' @ rf_version f)) [''commit'', ''compare-and-swap'']
        (map (honest_row [''commit'', ''compare-and-swap'']) catalog_cases)"
proof -
  let ?sys = "rest_system cl env f" and ?b = "\<lambda>c. sc_capability c \<in> set [''commit'', ''compare-and-swap'']"
  have named: "cy_name ?sys = rf_name f" "cy_version ?sys = rf_version f" by (simp_all add: rest_system_def)
  obtain u where u: "prepare_table ?sys s = (Inr (), u)" using assms(2) by blast
  obtain v where "ds_commit_fresh ?sys u = (Inr True, v)" by (rule fresh_moves[OF assms(1) prepared_unwitnessed[OF u]])
  with u have pre: "preflight ?sys s = (Inr (), v)" by (simp add: preflight_def catch_def ret_def)
  have "\<exists>t. drive_verdict ?sys c r = (Inr (?b c, ?b c), t)" if "c \<in> set catalog_cases" for c r
  proof (cases "?b c")
    case True
    with rest_cases_pass[OF assms(1,2) rest_claims[OF that True]] show ?thesis by (simp only: drive_verdict_eq rest_calls) simp
  next
    case False
    then show ?thesis by (simp only: drive_verdict_eq rest_calls) simp
  qed
  then obtain t where t: "map_act (drive_verdict ?sys) catalog_cases v = (Inr (map (\<lambda>c. (?b c, ?b c)) catalog_cases), t)"
    using map_act_determined[of catalog_cases "drive_verdict ?sys" "\<lambda>c. (?b c, ?b c)" v] by blast
  have caps: "set (cy_capabilities ?sys) \<subseteq> set CATALOG_CAPABILITIES" by (simp only: rest_calls) code_simp
  have sorted: "sort (remdups [''commit'', ''compare-and-swap'']) = [''commit'', ''compare-and-swap'']" by code_simp
  show ?thesis
    using catalog_arrives[OF caps assms(3)[folded named] assms(4,5) pre t, of p name]
    unfolding named rest_calls sorted by (simp only: kept_honest length_map)
qed

text \<open>C38: The adapter takes a commit whose pointer it has not seen for a commit against the present state:
after the caller read the pointer of its table, any number of commits of other writers may have
moved the table on, and a commit that asserts the pointer that was read is still accepted and moves the
table again, unless the same pointer was asserted in a commit before. So the lost update that the
contract of \<^verbatim>\<open>commit\<close> excludes is not detected by the adapter itself, for any catalog with optimistic
concurrency behind it.\<close>

theorem unseen_pointer_accepted:
  assumes "optimistic cl current table_of" "rest_pointer cl table s = (Inr expected, t)"
    "dict_get (rs_witness s) expected = None"
  shows "\<exists>r. rest_commit cl table expected update key (t\<lparr>rs_client := others\<rparr>) = (Inr (plain_answer True), r)
    \<and> head_of current r \<noteq> head_of current (t\<lparr>rs_client := others\<rparr>)"
proof -
  have "rs_witness t = rs_witness s"
    using pointer_step[OF assms(1), of table s] assms(2) by (metis Pair_inject)
  then have "dict_get (rs_witness (t\<lparr>rs_client := others\<rparr>)) expected = None" using assms(3) by simp
  from unseen_step[OF assms(1) this] show ?thesis by metis
qed

subsection \<open>A catalog with optimistic concurrency\<close>

text \<open>the tables with a snapshot; the snapshots of a table are the words of \<^verbatim>\<open>x\<close>\<close>

definition swap_append :: "string \<times> string option \<Rightarrow> ((string, string) pydict, unit) act" where
  "swap_append h s = (if dict_get s (fst h) = snd h
     then (Inr (), dict_set (fst h) (CHR ''x'' # (case snd h of None \<Rightarrow> [] | Some i \<Rightarrow> i)) s)
     else (Inl (PyError ''CommitFailedException'' []), s))"

definition swap_client :: "((string, string) pydict, string \<times> string option) rest_client" where
  "swap_client = \<lparr>ic_connect = (\<lambda>props. ret ()), ic_create_namespace = (\<lambda>n. ret ()), ic_create_table = (\<lambda>n l. ret ()),
     ic_load = (\<lambda>n s. (Inr (n, dict_get s n), s)), ic_snapshot = snd, ic_append = swap_append, ic_hex = ret ''00''\<rparr>"

lemma swap_optimistic: "optimistic swap_client dict_get fst"
  unfolding optimistic_def by (auto simp: swap_client_def swap_append_def is_conflict_def split: option.splits)

definition swap_config :: rest_config where
  "swap_config = \<lparr>rf_name = ''swap'', rf_version = ''1'', rf_uri = [], rf_warehouse = [], rf_props = [], rf_location = []\<rparr>"

lemma swap_prepared: "\<exists>t. prepare_table (rest_system swap_client [] swap_config) s = (Inr (), t)"
  by (simp add: prepare_table_def rest_system_def rest_reset_def rest_create_def on_client_run swap_client_def catch_def ret_def)

definition swap_start :: "((string, string) pydict, string \<times> string option) rest_state" where
  "swap_start = \<lparr>rs_client = [], rs_table = ''t'', rs_witness = []\<rparr>"

lemma stock_catalog_scored_witness:
  "external_catalog sample_prims (\<lambda>command request timeout. fst (catalog_drive sample_prims
        (rest_system swap_client [] swap_config) request swap_start)) catalog_cases [(''CMD'', ''run'')] (''nessie'', ''CMD'')
    = catalog_finish ''nessie'' (py_take 64 (rf_name swap_config @ ''-'' @ rf_version swap_config)) [''commit'', ''compare-and-swap'']
        (map (honest_row [''commit'', ''compare-and-swap'']) catalog_cases)"
proof (rule stock_catalog_scored[OF swap_optimistic swap_prepared])
  show "valid_text (rf_name swap_config @ ''-'' @ rf_version swap_config)"
    by (simp add: swap_config_def valid_ascii is_ascii_def)
qed (simp_all add: configured)

lemma unseen_pointer_accepted_witness:
  "rest_pointer swap_client ''t'' swap_start = (Inr ''none'', swap_start) \<and> dict_get (rs_witness swap_start) ''none'' = None
   \<and> (\<exists>r. rest_commit swap_client ''t'' ''none'' ''u'' [] (swap_start\<lparr>rs_client := [(''t'', ''xxx'')]\<rparr>) = (Inr (plain_answer True), r)
     \<and> head_of dict_get r \<noteq> head_of dict_get (swap_start\<lparr>rs_client := [(''t'', ''xxx'')]\<rparr>))"
proof -
  have p: "rest_pointer swap_client ''t'' swap_start = (Inr ''none'', swap_start)"
    by (simp add: rest_pointer_def rest_load_def on_client_run swap_client_def swap_start_def)
  have w: "dict_get (rs_witness swap_start) ''none'' = None" by (simp add: swap_start_def)
  from p w unseen_pointer_accepted[OF swap_optimistic p w] show ?thesis by blast
qed

subsection \<open>Decision engines\<close>

text \<open>an adapter whose probes answer every claimed case\<close>

lemma adapter_honest:
  assumes "set caps \<subseteq> set GUARD_CAPABILITIES" "valid_text version"
    "py_strip (environ_get env variable) \<noteq> []" "dict_get env ''CAPABILITY_ADVERSARIAL_TIMEOUT_SECONDS'' = None"
    "\<And>c s. c \<in> set guard_cases \<Longrightarrow> sc_capability c \<in> set caps \<Longrightarrow> \<exists>t. ask (JStr (sc_id c)) s = (Inr True, t)"
    "\<And>r. fst (run r) = fst (common_run p version caps ask r s)"
  shows "suite_external p GUARD_KIND (\<lambda>command request timeout. fst (run request)) guard_cases env (name, variable)
    = suite_finish GUARD_KIND name (py_take 64 version) (sort (remdups caps)) (map (honest_row caps) guard_cases)"
proof -
  let ?b = "\<lambda>c. sc_capability c \<in> set caps"
  have "\<exists>t. verdict caps ask c r = (Inr (?b c, ?b c), t)" if "c \<in> set guard_cases" for c r
  proof (cases "?b c")
    case True
    with assms(5)[OF that, of r] show ?thesis by (auto simp: verdict_def)
  qed (simp add: verdict_def)
  then obtain t where "map_act (verdict caps ask) guard_cases s = (Inr (map (\<lambda>c. (?b c, ?b c)) guard_cases), t)"
    using map_act_determined[of guard_cases "verdict caps ask" "\<lambda>c. (?b c, ?b c)" s] by blast
  from adapter_arrives[OF assms(1-4) this _ assms(6), of name] show ?thesis by (simp only: kept_honest length_map)
qed

lemma decision_claims:
  assumes "c \<in> set guard_cases" "sc_capability c \<in> set DECISION_CAPABILITIES"
  shows "sc_id c \<in> {''resource-instance-bound'', ''cross-resource-rejected'', ''ambient-tool-call-denied'', ''confused-deputy-rejected''}"
proof -
  have "list_all (\<lambda>c. sc_capability c \<in> set DECISION_CAPABILITIES \<longrightarrow> sc_id c \<in> {''resource-instance-bound'',
      ''cross-resource-rejected'', ''ambient-tool-call-denied'', ''confused-deputy-rejected''}) guard_cases"
    by (simp add: guard_cases_def new_suite_case_def DECISION_CAPABILITIES_def)
  then show ?thesis using assms unfolding list_all_iff by blast
qed

lemma printed_answer: "py_strip ((if b then ''true'' else ''false'') @ [CHR 0x0A]) = (if b then ''true'' else ''false'')"
  by (cases b) (simp_all add: py_strip_def single_space)

lemma opa_allows:
  assumes "evaluate (opa_input p who action resource) s
    = (Inr ((if rego_allow who action resource then ''true'' else ''false'') @ [CHR 0x0A]), t)"
  shows "opa_allow p evaluate who action resource s = (Inr (rego_allow who action resource), t)"
  by (simp add: opa_allow_def assms printed_answer del: append_Cons append_Nil if_distrib)

text \<open>C39: The engine that evaluates the policy of the repository gets full marks for what a decision covers:
if it prints, on a line of its own, whether \<^verbatim>\<open>policy.rego\<close> allows the input it is given, then the report has
every case of the three capabilities of decision engines supported and correct, and all others
unsupported.\<close>

theorem opa_scored:
  assumes "\<And>who action resource s. list_all valid_text [who, action, resource] \<Longrightarrow> \<exists>t. evaluate (opa_input p who action resource) s
      = (Inr ((if rego_allow who action resource then ''true'' else ''false'') @ [CHR 0x0A]), t)"
    "py_strip (environ_get env variable) \<noteq> []" "dict_get env ''CAPABILITY_ADVERSARIAL_TIMEOUT_SECONDS'' = None"
  shows "suite_external p GUARD_KIND (\<lambda>command request timeout. fst (opa_adapter p evaluate request s)) guard_cases env (name, variable)
    = suite_finish GUARD_KIND name ''opa-1.19'' (sort DECISION_CAPABILITIES) (map (honest_row DECISION_CAPABILITIES) guard_cases)"
proof -
  have allow: "\<exists>t. opa_allow p evaluate who action resource s = (Inr (rego_allow who action resource), t)"
    if "list_all is_ascii [who, action, resource]" for who action resource s
  proof -
    have "list_all valid_text [who, action, resource]" using that by (simp add: valid_ascii)
    then
    obtain t where "evaluate (opa_input p who action resource) s
        = (Inr ((if rego_allow who action resource then ''true'' else ''false'') @ [CHR 0x0A]), t)" using assms(1) by blast
    then show ?thesis by (intro exI opa_allows)
  qed
  have "\<exists>t. opa_case p evaluate (JStr (sc_id c)) r = (Inr True, t)"
    if c: "c \<in> set guard_cases" "sc_capability c \<in> set DECISION_CAPABILITIES" for c r
  proof -
    have bound: "\<exists>t. opa_allow p evaluate ''agent:operator'' ''read'' ''customer/2'' u = (Inr True, t)" for u
      using allow[of "''agent:operator''" "''read''" "''customer/2''" u] by (simp add: rego_allow_def is_ascii_def)
    have search: "\<exists>t. opa_allow p evaluate ''agent:operator'' ''search'' ''tool:x'' u = (Inr True, t)" for u
      using allow[of "''agent:operator''" "''search''" "''tool:x''" u] by (simp add: rego_allow_def is_ascii_def)
    have not: "\<exists>t. negated (opa_allow p evaluate who action resource) u = (Inr True, t)"
      if "\<not> rego_allow who action resource \<and> list_all is_ascii [who, action, resource]"
      for who action resource u using allow[of who action resource u] that by (auto simp: negated_def)
    have others: "\<not> rego_allow ''agent:operator'' ''read'' ''customer/1'' \<and> list_all is_ascii [''agent:operator'', ''read'', ''customer/1'']"
      "\<not> rego_allow ''agent:analyst'' ''execute'' ''tool:x'' \<and> list_all is_ascii [''agent:analyst'', ''execute'', ''tool:x'']"
      "\<not> rego_allow ''agent:operator'' ''delete'' ''tool:x'' \<and> list_all is_ascii [''agent:operator'', ''delete'', ''tool:x'']"
      by (simp_all add: rego_allow_def is_ascii_def)
    have both: "\<exists>t. both (opa_allow p evaluate ''agent:operator'' ''search'' ''tool:x'')
        (negated (opa_allow p evaluate ''agent:operator'' ''delete'' ''tool:x'')) r = (Inr True, t)"
      using search[of r] not[OF others(3)] by (auto simp: both_def)
    show ?thesis
      using decision_claims[OF c] bound[of r] not[OF others(1), of r] not[OF others(2), of r] both
      by (elim insertE emptyE) (simp_all add: opa_case_def by_case_def Let_def)
  qed
  moreover have "set DECISION_CAPABILITIES \<subseteq> set GUARD_CAPABILITIES" "sort (remdups DECISION_CAPABILITIES) = sort DECISION_CAPABILITIES"
      "py_take 64 ''opa-1.19'' = ''opa-1.19''" by code_simp+
  moreover have "valid_text ''opa-1.19''" by (simp add: valid_ascii is_ascii_def)
  ultimately show ?thesis
    using adapter_honest[OF _ _ assms(2,3), of DECISION_CAPABILITIES "''opa-1.19''" "opa_case p evaluate"
      "\<lambda>request. opa_adapter p evaluate request s" p s name] by (simp add: opa_adapter_def)
qed

text \<open>an engine that evaluates the policy, told by the two inputs it allows\<close>

definition policy_engine :: "string \<Rightarrow> (unit, string) act" where
  "policy_engine input = ret ((if input \<in> {opa_input sample_prims ''agent:operator'' ''read'' ''customer/2'',
     opa_input sample_prims ''agent:operator'' ''search'' ''tool:x''} then ''true'' else ''false'') @ [CHR 0x0A])"

lemma opa_input_read:
  assumes "list_all valid_text [who, action, resource]"
  shows "json_loads p (opa_input p who action resource)
    = Inr (JObj [(''principal'', JStr who), (''action'', JStr action), (''resource'', JStr resource)])"
proof -
  let ?d = "[(''principal'', JStr who), (''action'', JStr action), (''resource'', JStr resource)]"
  have "printable p (JObj ?d)" using assms by (simp add: dict_ok_def valid_ascii is_ascii_def)
  from loads_dumps[OF this, of "[]" False] show ?thesis by (simp add: opa_input_def canon_unsorted blank_def)
qed

lemma opa_input_same:
  assumes "list_all valid_text [who, action, resource]" "list_all is_ascii [who', action', resource']"
  shows "opa_input p who action resource = opa_input p who' action' resource' \<longleftrightarrow> who = who' \<and> action = action' \<and> resource = resource'"
proof
  have "list_all valid_text [who', action', resource']" using assms(2) by (simp add: valid_ascii)
  moreover assume "opa_input p who action resource = opa_input p who' action' resource'"
  ultimately have "(Inr (JObj [(''principal'', JStr who), (''action'', JStr action), (''resource'', JStr resource)]) :: json result)
      = Inr (JObj [(''principal'', JStr who'), (''action'', JStr action'), (''resource'', JStr resource')])"
    using opa_input_read[OF assms(1), of p] opa_input_read[of who' action' resource' p] by metis
  then show "who = who' \<and> action = action' \<and> resource = resource'" by simp
qed simp

lemma ascii_inputs: "list_all is_ascii [''agent:operator'', ''read'', ''customer/2'']"
  "list_all is_ascii [''agent:operator'', ''search'', ''tool:x'']"
  by (simp_all add: is_ascii_def)

lemma policy_evaluated:
  assumes "list_all valid_text [who, action, resource]"
  shows "policy_engine (opa_input sample_prims who action resource) s
    = (Inr ((if rego_allow who action resource then ''true'' else ''false'') @ [CHR 0x0A]), s)"
  using opa_input_same[OF assms ascii_inputs(1), of sample_prims] opa_input_same[OF assms ascii_inputs(2), of sample_prims]
  by (simp only: policy_engine_def rego_allow_def insert_iff empty_iff ascii_inputs simp_thms ret_def conj_ac)

lemma opa_scored_witness:
  "suite_external sample_prims GUARD_KIND (\<lambda>command request timeout. fst (opa_adapter sample_prims policy_engine request ())) guard_cases
        [(''OPA_CMD'', ''run'')] (''opa'', ''OPA_CMD'')
    = suite_finish GUARD_KIND ''opa'' ''opa-1.19'' (sort DECISION_CAPABILITIES) (map (honest_row DECISION_CAPABILITIES) guard_cases)"
proof (rule opa_scored)
  show "\<exists>t. policy_engine (opa_input sample_prims who action resource) s
      = (Inr ((if rego_allow who action resource then ''true'' else ''false'') @ [CHR 0x0A]), t)"
    if "list_all valid_text [who, action, resource]" for who action resource s using policy_evaluated[OF that] by blast
qed (simp_all add: configured)

subsection \<open>Macaroons\<close>

text \<open>
  what the probes use of the library: a macaroon lists its caveats, adding one appends it, serialization
  keeps them, renaming the last one replaces it, and a macaroon is only accepted if the verifier accepts each
\<close>

definition caveats_kept :: "'m macaroon_lib \<Rightarrow> ('m \<Rightarrow> string list) \<Rightarrow> bool" where
  "caveats_kept lib caveats \<longleftrightarrow> (\<forall>l i k. caveats (ml_new lib l i k) = []) \<and> (\<forall>c m. caveats (ml_add lib c m) = caveats m @ [c])
     \<and> (\<forall>m. \<exists>m'. ml_deserialize lib (ml_serialize lib m) = Inr m' \<and> caveats m' = caveats m)
     \<and> (\<forall>c m. caveats m \<noteq> [] \<longrightarrow> (\<exists>m'. ml_rename_last lib c m = Inr m' \<and> caveats m' = butlast (caveats m) @ [c]))
     \<and> (\<forall>m accept k. ml_verify lib m accept k = Inr True \<longrightarrow> (\<forall>c \<in> set (caveats m). accept c = Inr True))"

lemma op_unsatisfied: "satisfied p r now (''op = '' @ x) = Inr False"
  by (simp add: satisfied_def resource_caveat_def starts_with_def)

lemma op_rejected:
  assumes "caveats_kept lib caveats" "''op = '' @ x \<in> set (caveats m)"
  shows "\<not> macaroon_verify p lib m r now"
proof
  assume "macaroon_verify p lib m r now"
  then have "ml_verify lib m (satisfied p r now) MACAROON_KEY = Inr True" by (auto simp: macaroon_verify_def split: sum.splits)
  with assms have "satisfied p r now (''op = '' @ x) = Inr True" unfolding caveats_kept_def by blast
  then show False by (simp only: op_unsatisfied) simp
qed

lemma widen_probe:
  assumes "ml_deserialize lib (ml_serialize lib (ml_add lib ''op = read'' (macaroon_mint lib ''customer/2''))) = Inr a"
    "ml_rename_last lib ''op = admin'' a = Inr b" "clock s = (Inr u, t)"
  shows "macaroon_case p lib clock (JStr ''widen-permission-rejected'') s = (Inr (\<not> macaroon_verify p lib b ''customer/2'' u), t)"
  by (simp add: macaroon_case_def by_case_def Let_def assms lift_ok)

text \<open>C40: The case that is to show that a macaroon cannot be widened shows nothing about its signature: with
every library that keeps the list of caveats and requires the verifier to accept each of them, whatever
it does or omits to do with keys and signatures, the tampered macaroon counts as rejected, because the
verifier of the adapter accepts no caveat on \<^verbatim>\<open>op\<close> at all. The macaroon that was not tampered with is
rejected as well.\<close>

theorem macaroon_widening_unprobed:
  assumes "caveats_kept lib caveats" "\<And>s. \<exists>now t. clock s = (Inr now, t)"
  shows "(\<exists>t. macaroon_case p lib clock (JStr ''widen-permission-rejected'') s = (Inr True, t))
    \<and> \<not> macaroon_verify p lib (ml_add lib ''op = read'' (macaroon_mint lib ''customer/2'')) ''customer/2'' now"
proof -
  let ?m = "ml_add lib ''op = read'' (macaroon_mint lib ''customer/2'')"
  have c: "caveats ?m = caveats (macaroon_mint lib ''customer/2'') @ [''op = '' @ ''read'']"
    using assms(1) by (simp add: caveats_kept_def)
  obtain a where a: "ml_deserialize lib (ml_serialize lib ?m) = Inr a" "caveats a = caveats ?m"
    using assms(1) unfolding caveats_kept_def by blast
  have "caveats a \<noteq> []" using a(2) c by simp
  then obtain b where b: "ml_rename_last lib ''op = admin'' a = Inr b" "caveats b = butlast (caveats a) @ [''op = admin'']"
    using assms(1) unfolding caveats_kept_def by blast
  obtain u t where u: "clock s = (Inr u, t)" using assms(2) by blast
  have "\<not> macaroon_verify p lib b ''customer/2'' u" using op_rejected[OF assms(1), of "''admin''" b] b(2) by simp
  moreover have "\<not> macaroon_verify p lib ?m ''customer/2'' now" using op_rejected[OF assms(1), of "''read''" ?m] c by simp
  moreover have "macaroon_case p lib clock (JStr ''widen-permission-rejected'') s = (Inr (\<not> macaroon_verify p lib b ''customer/2'' u), t)"
    by (rule widen_probe) (rule a(1) b(1) u)+
  ultimately show ?thesis by simp
qed

text \<open>a library that signs nothing; a serialized caveat has an \<^verbatim>\<open>x\<close> before each character and an \<^verbatim>\<open>e\<close> at its end\<close>

definition packed :: "string \<Rightarrow> string" where
  "packed c = concat (map (\<lambda>x. [CHR ''x'', x]) c) @ ''e''"

fun unpacked :: "string \<Rightarrow> string \<Rightarrow> string list" where
  "unpacked acc (c # x # r) = (if c = CHR ''e'' then acc # unpacked [] (x # r) else unpacked (acc @ [x]) r)"
| "unpacked acc [c] = [acc]"
| "unpacked acc [] = []"

lemma unpacked_packed: "unpacked acc (packed c @ s) = (acc @ c) # unpacked [] s"
proof (induction c arbitrary: acc)
  case Nil
  show ?case by (cases s) (simp_all add: packed_def)
qed (simp add: packed_def)

definition unsigned_lib :: "string list macaroon_lib" where
  "unsigned_lib = \<lparr>ml_new = (\<lambda>l i k. []), ml_add = (\<lambda>c m. m @ [c]), ml_serialize = (\<lambda>m. concat (map packed m)),
     ml_deserialize = (\<lambda>s. Inr (unpacked [] s)), ml_rename_last = (\<lambda>c m. Inr (butlast m @ [c])),
     ml_verify = (\<lambda>m accept k. Inr (list_all (\<lambda>c. accept c = Inr True) m))\<rparr>"

lemma unsigned_keeps: "caveats_kept unsigned_lib id"
proof -
  have "unpacked [] (concat (map packed m)) = m" for m by (induction m) (simp_all add: unpacked_packed)
  then show ?thesis by (simp add: caveats_kept_def unsigned_lib_def list_all_iff)
qed

lemma macaroon_widening_unprobed_witness:
  "(\<exists>t. macaroon_case sample_prims unsigned_lib (ret 0) (JStr ''widen-permission-rejected'') () = (Inr True, t))
    \<and> \<not> macaroon_verify sample_prims unsigned_lib (ml_add unsigned_lib ''op = read'' (macaroon_mint unsigned_lib ''customer/2''))
        ''customer/2'' 0"
  by (rule macaroon_widening_unprobed[OF unsigned_keeps]) simp

end
