(* ===== verification/Spec2Isabelle.thy ===== *)
theory Spec2Isabelle
  imports ProtocolProps ReportProps CorporaProps Suites RenderTables RunProps BookPrograms SuiteDocs AdapterProps
begin

text \<open>
  Verification development of the MARCIANA-ADVERSARIAL benchmarks: a Python program that asks
  memory systems (and, in the book's companion code, authorization guards and data catalogs) the
  questions on which such systems fail, and reports what they answered. The program's own logic is
  modelled: the three reference systems, the suites, the drivers of external systems, the agent
  harness, the corpora and the reports.

  \<^bold>\<open>How the program works.\<close> A reference backend keeps memories with a scope, a validity interval and
  a state, and decides \<^verbatim>\<open>remember\<close>, \<^verbatim>\<open>recall\<close>, \<^verbatim>\<open>improve\<close> and \<^verbatim>\<open>forget\<close> by policy. Version 2 puts it
  behind a registry of identities. A suite is a list of eighteen scenarios with expected outcomes;
  the reference runs them in process, an external system runs them in a process of its own, which
  prints one row per case. Two drivers produce such rows: the memory-store driver calls a system's
  storage operations directly, the agent-memory driver lets a language model call four tools in a
  bounded loop. The report judges the rows, counts safety failures into hard gates and is checked
  against a bound on every text in it. The two benchmarks of the book repeat the pattern for a
  capability guard and for a catalog with a provenance ledger.

  \<^bold>\<open>Theories, bottom up.\<close>
  \<^item> \<open>Prelude\<close>: rule collections, dictionaries in insertion order (locale \<open>dictionary\<close>, interpreted on
    the association lists used everywhere), dates as a linear order. \<open>PyStr\<close>: a \<^verbatim>\<open>str\<close> is its UTF-8
    bytes; length, slices and strip count code points; \<^verbatim>\<open>lower\<close> and the token regular expression of
    \<^verbatim>\<open>backend.words\<close>. \<open>Json\<close>: values, parser and printer of the \<^verbatim>\<open>json\<close> module, its accessors with the
    exceptions they raise. \<open>Dates\<close>: \<^verbatim>\<open>date.fromisoformat\<close>. \<open>Sha256\<close>: SHA-256 and HMAC on 32-bit
    words. \<open>Effects\<close>: calls with a state and an exception (an exception keeps the changes made so
    far) and the rules that carry invariants and non-interference through them.
  \<^item> \<open>Backend\<close>: \<^verbatim>\<open>adversarial_cognition/backend.py\<close>, with the locale \<open>nonce_store\<close>. \<open>Backend_Inv\<close> has
    the invariant, \<open>Backend_Spec\<close> the abstract specification and the simulation of every
    operation, \<open>Backend_Props\<close> the properties.
  \<^item> \<open>Identity\<close>: \<^verbatim>\<open>identity.py\<close>, with the locale \<open>credential_authority\<close>. \<open>BackendV2\<close>:
    \<^verbatim>\<open>backend_v2.py\<close> and its refinement of the core.
  \<^item> \<open>Cases\<close>, \<open>Cases_Eval\<close>, \<open>CasesV2\<close>: \<^verbatim>\<open>cases.py\<close> and \<^verbatim>\<open>cases_v2.py\<close>, every scenario evaluated by the
    kernel; \<open>Digests\<close> computes the first register of the three hashes that must differ.
  \<^item> \<open>Metrics\<close>, \<open>Tracks\<close>, \<open>Adapters\<close>, \<open>Report\<close>: \<^verbatim>\<open>metrics.py\<close>, \<^verbatim>\<open>tracks.py\<close>, \<^verbatim>\<open>adapters.py\<close>, \<^verbatim>\<open>report.py\<close>
    and \<^verbatim>\<open>metadata.py\<close>; \<open>ReportProps\<close> runs the reference end to end.
  \<^item> \<open>Tools\<close>, \<open>Prompts\<close>, \<open>AgentLoop\<close>, \<open>Driver\<close>: \<^verbatim>\<open>agent_harness\<close>, with the locale \<open>isolated_session\<close>
    for a backend whose tool calls are blind to a part of its state. \<open>AgentBackends\<close>:
    \<^verbatim>\<open>adapters/agent_backends\<close>; \<open>AgentProps\<close> interprets the locale on the reference. \<open>DriverProps\<close>:
    what the driver guarantees for any backend and any model.
  \<^item> \<open>Protocol\<close>, \<open>ProtocolV2\<close>, \<open>ProtocolProps\<close>: \<^verbatim>\<open>adapters/protocol.py\<close> and \<^verbatim>\<open>protocol_v2.py\<close>.
  \<^item> \<open>Corpora\<close>, \<open>CorporaProps\<close>: \<^verbatim>\<open>corpus.py\<close>, \<^verbatim>\<open>public_loaders.py\<close> and \<^verbatim>\<open>corpora.py\<close>.
  \<^item> \<open>Suite\<close>: the harness that the two benchmarks of the book have in common, up to names, which
    are the fields of \<open>suite_kind\<close>. \<open>Guard\<close>, \<open>GuardProps\<close>, \<open>GuardCases\<close>:
    \<^verbatim>\<open>docs/book/code/capability/capability_adversarial\<close>, with the locale \<open>revocable\<close>. \<open>Catalog\<close>,
    \<open>CatalogProps\<close>, \<open>CatalogCases\<close>: \<^verbatim>\<open>docs/book/code/catalog-provenance/catalog_provenance\<close>, with the
    locale \<open>stepwise\<close>. \<open>Suites\<close>: both as kinds of the harness.
  \<^item> \<open>Render\<close>, \<open>RenderProps\<close>, \<open>RenderTables\<close>: \<^verbatim>\<open>render_results.py\<close>, with the check that parses the tables of
    the document again. \<open>JsonRound\<close>: what the JSON printers write is read back, sorted or indented.
    \<open>RunBench\<close>, \<open>RunProps\<close>: \<^verbatim>\<open>run_benchmark.py\<close> and \<^verbatim>\<open>assemble_comparative.py\<close>, from the pinned corpus to
    the exit code.
  \<^item> \<open>SuiteRun\<close>, \<open>BookPrograms\<close>: \<^verbatim>\<open>run_benchmark.py\<close> and \<^verbatim>\<open>render_results.py\<close> of the two benchmarks of the
    book and the loop \<^verbatim>\<open>capability/adapters/common.py\<close>. \<open>CapabilityAdapters\<close>: the adapters of the capability
    benchmark in Python (JWT, macaroons, OPA, SpiceDB, OpenFGA). \<open>CatalogDriver\<close>, \<open>CatalogAdapters\<close>: the driver
    \<^verbatim>\<open>catalog-provenance/adapters/protocol.py\<close> and the adapters \<^verbatim>\<open>iceberg_rest.py\<close>, \<^verbatim>\<open>rest_adapter.py\<close> and
    \<^verbatim>\<open>lakecat/adapter.py\<close>. \<open>SuiteRunProps\<close>: an adapter's verdicts reach the report, through two printed and
    parsed texts, and what decides the exit code. \<open>SuiteDocs\<close>: the document of a run can be rendered.
    \<open>AdapterProps\<close>: what the rows say of a library or service whose behaviour is stated.

  \<^bold>\<open>State and operations.\<close> An object is a record of its attributes and a method a function that
  returns its result with the object after the call; a dictionary keeps its insertion order where
  a loop sees it. An exception is \<open>Inl\<close> of its class and message. A call of a system that is not
  in the repository (a model, a vendor's API, a subprocess) is an action on an abstract state that
  may answer or raise anything.

  \<^bold>\<open>What the lemmas show.\<close> Of the reference: recall is exact and leaks nothing about what the actor
  may not see; nonces are spent once; a forgotten memory stays forgotten; the concrete operations
  refine the specification, and the authenticated ones refine the concrete ones. Of the suites:
  each reference passes its own suite. Of the drivers: rows are bounded, complete and judged like
  the reference's, whatever the system under test does; a system without working authentication
  is credited with no authorization case. Of the reports: the gates count the failures and the
  status says pass exactly when none counts. Of the guard: authority only narrows, and what stopped
  authorizing never authorizes again. Of the catalog: the evidence is exactly that of the history, chained and genuine, a
  proof keeps replaying, no update is lost. Of the book's programs: rows arrive unchanged and in order,
  a failure of a probe costs its own case only, and a run can always be rendered. Some theorems state what the code does
  against its own documentation; the manifest lists them as findings.

  \<^bold>\<open>Bounds and fuel.\<close> Every function is total. The JSON parser recurses with a fuel of twice the
  length of its text plus two; theory \<open>Json\<close> proves that more fuel changes nothing. The
  agent loop runs \<open>MAX_TURNS\<close> (six) turns and the retries of a case \<open>ATTEMPTS\<close> (three) attempts, which are
  the bounds of the code. The number of rounds of a hash is the number of its blocks.

  \<^bold>\<open>Parameters.\<close> \<open>py_prims\<close> holds what the program uses of the interpreter and that is not in its
  sources: the texts of floats and of messages of exceptions. \<open>elapsed\<close> gives the measured times,
  \<open>spawn\<close> runs a subprocess, a transport is the model, \<open>files\<close> reads files and tables. The theorems
  hold for all of them, or name what they assume.

  \<^bold>\<open>Not modelled.\<close> Floats are rational numbers, so rounding errors, infinities and NaN are not;
  recursion limits of the interpreter, lone surrogates and decimal digits outside ASCII are not;
  \<^verbatim>\<open>str.lower\<close> changes letters outside ASCII only where the result is ASCII, and \<^verbatim>\<open>repr\<close> escapes no
  non-printable characters outside ASCII;
  neither are pauses, nor requests of the guard with fields that are not texts. Vendor
  adapters of memory systems call the vendor's service with every line and are instances of the
  protocols modelled here. The HTTP transport, command lines, scripts that draw images, the load
  scripts of \<^verbatim>\<open>catalog-bench\<close>, the adapters in other languages and the tests are input and output or not
  Python. The directory \<^verbatim>\<open>docs/book/code/cognition\<close> is a copy of the program at the root.
\<close>

end
